(* ===== verification/Prelude.thy ===== *)
theory Prelude
  imports Main "HOL-Library.State_Monad" "HOL-Library.Word" "HOL-Library.Sublist"
    "HOL-Library.Char_ord" "HOL-Library.List_Lexorder"
begin

text \<open>
  What every component of the model shares: strings as byte lists with the operations of Go's
  \<open>strings\<close> package the program uses, instants and durations of Go's \<open>time\<close> package, 64 bit
  wrap-around, and the error-passing state monad the handlers are written in, together with the
  locale \<open>frame\<close>, whose rules lift a reflexive and transitive relation between the states
  before and after an operation through every combinator of the monad.

  A Go string is a byte sequence, so it is an Isabelle \<open>string\<close> (a \<open>char\<close> is eight bits) and
  \<open>length\<close> counts bytes, as \<open>len\<close> does.
\<close>

named_theorems run_simps \<open>how the primitive effects run on a state\<close>
named_theorems io_intros \<open>frame facts of the model's operations\<close>

section \<open>Strings\<close>

text \<open>
  The UTF-8 encodings of the runes \<open>unicode.IsSpace\<close> accepts. Trimming rune by rune from either
  end is removing one of these byte strings from that end: none of them is a proper prefix or
  suffix of another, and an ill-formed byte never completes one.
\<close>

definition space_runes :: "string list" where
  "space_runes =
     [[CHR 0x09], [CHR 0x0A], [CHR 0x0B], [CHR 0x0C], [CHR 0x0D], [CHR 0x20],
      [CHR 0xC2, CHR 0x85], [CHR 0xC2, CHR 0xA0], [CHR 0xE1, CHR 0x9A, CHR 0x80],
      [CHR 0xE2, CHR 0x80, CHR 0x80], [CHR 0xE2, CHR 0x80, CHR 0x81],
      [CHR 0xE2, CHR 0x80, CHR 0x82], [CHR 0xE2, CHR 0x80, CHR 0x83],
      [CHR 0xE2, CHR 0x80, CHR 0x84], [CHR 0xE2, CHR 0x80, CHR 0x85],
      [CHR 0xE2, CHR 0x80, CHR 0x86], [CHR 0xE2, CHR 0x80, CHR 0x87],
      [CHR 0xE2, CHR 0x80, CHR 0x88], [CHR 0xE2, CHR 0x80, CHR 0x89],
      [CHR 0xE2, CHR 0x80, CHR 0x8A], [CHR 0xE2, CHR 0x80, CHR 0xA8],
      [CHR 0xE2, CHR 0x80, CHR 0xA9], [CHR 0xE2, CHR 0x80, CHR 0xAF],
      [CHR 0xE2, CHR 0x81, CHR 0x9F], [CHR 0xE3, CHR 0x80, CHR 0x80]]"

definition leading :: "string list \<Rightarrow> string \<Rightarrow> string option" where
  "leading ps s = find (\<lambda>p. p \<noteq> [] \<and> prefix p s) ps"

lemma leading_Some: "leading ps s = Some p \<Longrightarrow> p \<noteq> [] \<and> prefix p s"
  by (auto simp: leading_def find_Some_iff)

function strip_front :: "string list \<Rightarrow> string \<Rightarrow> string" where
  "strip_front ps s =
     (case leading ps s of None \<Rightarrow> s | Some p \<Rightarrow> strip_front ps (drop (length p) s))"
  by pat_completeness auto
termination
  by (relation "measure (\<lambda>(ps, s). length s)")
     (auto dest!: leading_Some simp: prefix_def)

declare strip_front.simps [simp del]

text \<open>\<open>strings.TrimSpace\<close>: from the front, then, on the reversed bytes, from the back.\<close>

definition trim_space :: "string \<Rightarrow> string" where
  "trim_space s =
     rev (strip_front (map rev space_runes) (rev (strip_front space_runes s)))"

text \<open>\<open>strings.TrimLeft(s, "/")\<close> and \<open>strings.TrimRight(s, "/")\<close>.\<close>

definition trim_left_slash :: "string \<Rightarrow> string" where
  "trim_left_slash s = dropWhile (\<lambda>c. c = CHR ''/'') s"

definition trim_right_char :: "char \<Rightarrow> string \<Rightarrow> string" where
  "trim_right_char c s = rev (dropWhile (\<lambda>x. x = c) (rev s))"

lemma strip_front_idem: "strip_front ps (strip_front ps s) = strip_front ps s"
proof (induction ps s rule: strip_front.induct)
  case (1 ps s)
  show ?case
  proof (cases "leading ps s")
    case None
    then have "strip_front ps s = s" by (simp add: strip_front.simps [of ps s])
    then show ?thesis by simp
  next
    case (Some p)
    then have "strip_front ps s = strip_front ps (drop (length p) s)"
      by (simp add: strip_front.simps [of ps s])
    with "1.IH" [OF Some] show ?thesis by simp
  qed
qed

lemma strip_front_suffix: "suffix (strip_front ps s) s"
proof (induction ps s rule: strip_front.induct)
  case (1 ps s)
  show ?case
  proof (cases "leading ps s")
    case None
    then show ?thesis by (simp add: strip_front.simps [of ps s])
  next
    case (Some p)
    with "1.IH" [OF Some] show ?thesis
      by (auto simp: strip_front.simps [of ps s] intro: suffix_order.trans suffix_drop)
  qed
qed

lemma length_trim_space: "length (trim_space s) \<le> length s"
proof -
  let ?f = "strip_front space_runes s"
  have "length (strip_front (map rev space_runes) (rev ?f)) \<le> length (rev ?f)"
    by (rule suffix_length_le [OF strip_front_suffix])
  also have "\<dots> \<le> length s" by (simp add: suffix_length_le [OF strip_front_suffix])
  finally show ?thesis by (simp add: trim_space_def)
qed

lemma trim_space_Nil [simp]: "trim_space [] = []"
  using length_trim_space [of "[]"] by simp

text \<open>\<open>strings.Cut\<close> at a one byte separator.\<close>

definition cut :: "char \<Rightarrow> string \<Rightarrow> (string \<times> string) option" where
  "cut c s = (case dropWhile (\<lambda>x. x \<noteq> c) s of
                [] \<Rightarrow> None
              | _ # rest \<Rightarrow> Some (takeWhile (\<lambda>x. x \<noteq> c) s, rest))"

lemma cut_append: "c \<notin> set a \<Longrightarrow> cut c (a @ c # b) = Some (a, b)"
proof -
  assume "c \<notin> set a"
  then have "\<forall>x \<in> set a. x \<noteq> c" by auto
  then have "dropWhile (\<lambda>x. x \<noteq> c) (a @ c # b) = c # b"
    and "takeWhile (\<lambda>x. x \<noteq> c) (a @ c # b) = a"
    by (simp_all add: dropWhile_append2 takeWhile_append2)
  then show ?thesis by (simp add: cut_def)
qed

lemma cut_None: "cut c s = None \<longleftrightarrow> c \<notin> set s"
proof -
  have "cut c s = None \<longleftrightarrow> dropWhile (\<lambda>x. x \<noteq> c) s = []"
    unfolding cut_def
    by (cases "dropWhile (\<lambda>x. x \<noteq> c) s") (simp_all del: dropWhile_eq_Nil_conv)
  then show ?thesis by (auto simp: dropWhile_eq_Nil_conv)
qed

lemma cut_Some: "cut c s = Some (a, b) \<longleftrightarrow> s = a @ c # b \<and> c \<notin> set a"
proof
  assume *: "cut c s = Some (a, b)"
  then have "cut c s \<noteq> None" by simp
  then have "c \<in> set s" by (simp add: cut_None)
  then obtain u v where s: "s = u @ c # v" and u: "c \<notin> set u"
    by (auto dest: split_list_first)
  with * show "s = a @ c # b \<and> c \<notin> set a" by (simp add: cut_append)
qed (auto simp: cut_append)

text \<open>\<open>strings.Split\<close> (and \<open>SplitSeq\<close>) at a one byte separator: always at least one part.\<close>

fun split_on :: "char \<Rightarrow> string \<Rightarrow> string list" where
  "split_on c [] = [[]]"
| "split_on c (x # xs) =
     (if x = c then [] # split_on c xs
      else (case split_on c xs of [] \<Rightarrow> [[x]] | p # ps \<Rightarrow> (x # p) # ps))"

lemma split_on_ne [simp]: "split_on c s \<noteq> []"
  by (induction s) (auto split: list.splits)

lemma split_on_no_sep: "c \<notin> set s \<Longrightarrow> split_on c s = [s]"
  by (induction s) auto

lemma split_on_append: "c \<notin> set s \<Longrightarrow> split_on c (s @ c # t) = s # split_on c t"
  by (induction s) auto

lemma split_on_parts: "p \<in> set (split_on c s) \<Longrightarrow> c \<notin> set p"
  by (induction s arbitrary: p) (auto split: list.splits if_splits)

text \<open>\<open>strings.Join\<close>.\<close>

fun join :: "string \<Rightarrow> string list \<Rightarrow> string" where
  "join sep [] = []"
| "join sep [s] = s"
| "join sep (s # t # ts) = s @ sep @ join sep (t # ts)"

lemma split_on_join:
  "ss \<noteq> [] \<Longrightarrow> \<forall>s \<in> set ss. c \<notin> set s \<Longrightarrow> split_on c (join [c] ss) = ss"
  by (induction "[c]" ss rule: join.induct) (auto simp: split_on_no_sep split_on_append)

text \<open>
  \<open>strings.ToLower\<close> and \<open>strings.ToUpper\<close>, whose results the program only compares with ASCII
  words. Beside the ASCII letters the runes that map into ASCII are U+0130 and U+212A (lower case
  i and k) and U+0131 and U+017F (upper case I and S). Every other rune maps outside ASCII, so it
  is left as it is: the comparison fails either way.
\<close>

definition ascii_lower :: "char \<Rightarrow> char" where
  "ascii_lower c = (if CHR ''A'' \<le> c \<and> c \<le> CHR ''Z'' then char_of (of_char c + 32 :: nat) else c)"

definition ascii_upper :: "char \<Rightarrow> char" where
  "ascii_upper c = (if CHR ''a'' \<le> c \<and> c \<le> CHR ''z'' then char_of (of_char c - 32 :: nat) else c)"

fun to_lower :: "string \<Rightarrow> string" where
  "to_lower [] = []"
| "to_lower (a # s) =
     (if a = CHR 0xC4 \<and> s \<noteq> [] \<and> hd s = CHR 0xB0 then CHR ''i'' # to_lower (tl s)
      else if a = CHR 0xE2 \<and> 2 \<le> length s \<and> hd s = CHR 0x84 \<and> s ! 1 = CHR 0xAA
        then CHR ''k'' # to_lower (drop 2 s)
      else ascii_lower a # to_lower s)"

fun to_upper :: "string \<Rightarrow> string" where
  "to_upper [] = []"
| "to_upper (a # s) =
     (if a = CHR 0xC4 \<and> s \<noteq> [] \<and> hd s = CHR 0xB1 then CHR ''I'' # to_upper (tl s)
      else if a = CHR 0xC5 \<and> s \<noteq> [] \<and> hd s = CHR 0xBF then CHR ''S'' # to_upper (tl s)
      else ascii_upper a # to_upper s)"

section \<open>Time\<close>

text \<open>
  An instant is a number of nanoseconds since the Unix epoch and a duration is a number of
  nanoseconds. \<open>Before\<close> is the order of instants. The zero \<open>time.Time\<close> is the first of January
  of the year 1.
\<close>

datatype instant = Instant (nanos: int)

instantiation instant :: linorder
begin
definition less_eq_instant :: "instant \<Rightarrow> instant \<Rightarrow> bool" where
  "less_eq_instant a b \<longleftrightarrow> nanos a \<le> nanos b"
definition less_instant :: "instant \<Rightarrow> instant \<Rightarrow> bool" where
  "less_instant a b \<longleftrightarrow> nanos a < nanos b"
instance
  by standard (auto simp: less_eq_instant_def less_instant_def instant.expand)
end

type_synonym duration = int

definition second :: duration where "second = 1000000000"
definition minute :: duration where "minute = 60 * second"
definition hour :: duration where "hour = 60 * minute"

lemma second_pos [simp]: "0 < second" "second \<noteq> 0" "0 \<le> second"
  by (simp_all add: second_def)

definition zero_time :: instant where
  "zero_time = Instant (-62135596800 * second)"

definition is_zero_time :: "instant \<Rightarrow> bool" where
  "is_zero_time t \<longleftrightarrow> t = zero_time"

definition time_add :: "instant \<Rightarrow> duration \<Rightarrow> instant" where
  "time_add t d = Instant (nanos t + d)"

definition min64 :: int where "min64 = - (2 ^ 63)"
definition max64 :: int where "max64 = 2 ^ 63 - 1"

text \<open>\<open>Time.Sub\<close> saturates at the ends of the 64 bit duration.\<close>

definition time_sub :: "instant \<Rightarrow> instant \<Rightarrow> duration" where
  "time_sub t u = max min64 (min max64 (nanos t - nanos u))"

text \<open>\<open>Time.Unix\<close> drops the fraction of a second (towards the past), and \<open>time.Unix(s, 0)\<close>.\<close>

definition unix :: "instant \<Rightarrow> int" where
  "unix t = nanos t div second"

definition from_unix :: "int \<Rightarrow> instant" where
  "from_unix s = Instant (s * second)"

lemma instant_less_iff [simp]: "Instant a < Instant b \<longleftrightarrow> a < b"
  and instant_le_iff [simp]: "Instant a \<le> Instant b \<longleftrightarrow> a \<le> b"
  by (simp_all add: less_instant_def less_eq_instant_def)

lemma unix_from_unix [simp]: "unix (from_unix s) = s"
  by (simp add: unix_def from_unix_def)

lemma from_unix_le: "from_unix (unix t) \<le> t"
  by (cases t) (simp add: from_unix_def unix_def less_eq_instant_def second_def)

lemma unix_mono: "t \<le> u \<Longrightarrow> unix t \<le> unix u"
  by (simp add: unix_def less_eq_instant_def zdiv_mono1)

lemma from_unix_mono: "from_unix a \<le> from_unix b \<longleftrightarrow> a \<le> b"
  by (simp add: from_unix_def)

lemma less_from_unix: "t < from_unix s \<longleftrightarrow> unix t < s"
  by (cases t) (auto simp: from_unix_def unix_def less_instant_def second_def)

text \<open>Multiplication and conversion of 64 bit signed integers wrap around.\<close>

definition wrap64 :: "int \<Rightarrow> int" where
  "wrap64 n = sint (word_of_int n :: 64 word)"

lemma wrap64_id: "min64 \<le> n \<Longrightarrow> n \<le> max64 \<Longrightarrow> wrap64 n = n"
  by (simp add: wrap64_def min64_def max64_def signed_take_bit_int_eq_self sint_sbintrunc')

lemma wrap64_range: "min64 \<le> wrap64 n \<and> wrap64 n \<le> max64"
  using sint_range_size [of "word_of_int n :: 64 word"]
  by (simp add: wrap64_def min64_def max64_def word_size)

text \<open>Mapping a fallible function over a list stops at the first error.\<close>

fun map_res :: "('a \<Rightarrow> 'e + 'b) \<Rightarrow> 'a list \<Rightarrow> 'e + 'b list" where
  "map_res f [] = Inr []"
| "map_res f (x # xs) =
     (case f x of
        Inl err \<Rightarrow> Inl err
      | Inr y \<Rightarrow> (case map_res f xs of Inl err \<Rightarrow> Inl err | Inr ys \<Rightarrow> Inr (y # ys)))"

lemma map_res_Inr: "map_res f xs = Inr ys \<longleftrightarrow> list_all2 (\<lambda>x y. f x = Inr y) xs ys"
proof (induction xs arbitrary: ys)
  case (Cons x xs)
  then show ?case
    by (cases ys; cases "f x"; cases "map_res f xs") (auto simp flip: Cons.IH)
qed auto

lemma list_all2_preimage: "list_all2 P xs ys \<Longrightarrow> y \<in> set ys \<Longrightarrow> \<exists>x \<in> set xs. P x y"
  by (induction xs ys rule: list_all2_induct) auto

lemma map_res_preimage: "map_res f xs = Inr ys \<Longrightarrow> y \<in> set ys \<Longrightarrow> \<exists>x \<in> set xs. f x = Inr y"
  unfolding map_res_Inr by (rule list_all2_preimage)

lemma map_res_map: "(\<And>x. x \<in> set xs \<Longrightarrow> f x = Inr (g x)) \<Longrightarrow> map_res f xs = Inr (map g xs)"
  by (induction xs) auto

lemma map_res_Inl: "map_res f xs = Inl err \<Longrightarrow> \<exists>x \<in> set xs. f x = Inl err"
  by (induction xs) (auto split: sum.splits)

section \<open>The error-passing state monad\<close>

text \<open>
  An operation of the program is a state transformer over the \<open>world\<close> it runs in. A Go result
  \<open>(T, error)\<close> is a sum: \<open>Inl\<close> the error, \<open>Inr\<close> the value. \<open>bindE\<close> is the idiom
  \<^verbatim>\<open>x, err := f(); if err != nil { return err }\<close>.
\<close>

definition ok :: "'a \<Rightarrow> ('s, 'e + 'a) state" where
  "ok x = State_Monad.return (Inr x)"

definition fail :: "'e \<Rightarrow> ('s, 'e + 'a) state" where
  "fail e = State_Monad.return (Inl e)"

definition bindE ::
  "('s, 'e + 'a) state \<Rightarrow> ('a \<Rightarrow> ('s, 'e + 'b) state) \<Rightarrow> ('s, 'e + 'b) state" where
  "bindE m f = State_Monad.bind m (\<lambda>r. case r of Inl err \<Rightarrow> fail err | Inr x \<Rightarrow> f x)"

text \<open>\<^verbatim>\<open>if err != nil { return fmt.Errorf("...: %w", err) }\<close>: the error passes through \<open>g\<close>.\<close>

definition mapE :: "('e \<Rightarrow> 'f) \<Rightarrow> ('s, 'e + 'a) state \<Rightarrow> ('s, 'f + 'a) state" where
  "mapE g m = State_Monad.bind m (\<lambda>r. case r of Inl err \<Rightarrow> fail (g err) | Inr x \<Rightarrow> ok x)"

definition from_res :: "'e + 'a \<Rightarrow> ('s, 'e + 'a) state" where
  "from_res r = State_Monad.return r"

fun map_stateE :: "('a \<Rightarrow> ('s, 'e + 'b) state) \<Rightarrow> 'a list \<Rightarrow> ('s, 'e + 'b list) state" where
  "map_stateE f [] = ok []"
| "map_stateE f (x # xs) = bindE (f x) (\<lambda>y. bindE (map_stateE f xs) (\<lambda>ys. ok (y # ys)))"

lemma run_ok [run_simps, simp]: "run_state (ok x) s = (Inr x, s)"
  by (simp add: ok_def)

lemma run_fail [run_simps, simp]: "run_state (fail e) s = (Inl e, s)"
  by (simp add: fail_def)

lemma run_from_res [run_simps, simp]: "run_state (from_res r) s = (r, s)"
  by (simp add: from_res_def)

lemma run_bindE [run_simps]:
  "run_state (bindE m f) s =
     (case run_state m s of (Inl e, s') \<Rightarrow> (Inl e, s') | (Inr x, s') \<Rightarrow> run_state (f x) s')"
  by (simp add: bindE_def split: prod.splits sum.splits)

lemma run_mapE [run_simps]:
  "run_state (mapE g m) s =
     (case run_state m s of (Inl e, s') \<Rightarrow> (Inl (g e), s') | (Inr x, s') \<Rightarrow> (Inr x, s'))"
  by (simp add: mapE_def split: prod.splits sum.splits)

text \<open>The laws of the monad, which bring a handler into the form a contract asks for.\<close>

lemma bindE_ok [simp]: "bindE (ok x) f = f x"
  by (rule state_ext) (simp add: run_bindE)

lemma bindE_fail [simp]: "bindE (fail err) f = fail err"
  by (rule state_ext) (simp add: run_bindE)

lemma bindE_assoc: "bindE (bindE m f) g = bindE m (\<lambda>x. bindE (f x) g)"
  by (rule state_ext) (simp add: run_bindE split: prod.splits sum.splits)

lemma bindE_if: "bindE (if c then a else b) f = (if c then bindE a f else bindE b f)"
  by simp

text \<open>A successful sequence splits at the intermediate value and state.\<close>

lemma bindE_InrE:
  assumes "run_state (bindE m f) s = (Inr y, s'')"
  obtains x s' where "run_state m s = (Inr x, s')" "run_state (f x) s' = (Inr y, s'')"
  using assms by (auto simp: run_bindE split: prod.splits sum.splits)

lemma mapE_InrD: "run_state (mapE g m) s = (Inr y, s') \<Longrightarrow> run_state m s = (Inr y, s')"
  by (auto simp: run_mapE split: prod.splits sum.splits)

text \<open>
  Frame reasoning. \<open>R\<close> relates the state before an operation to the state after it, such as "the
  database is the same" or "the requests sent in between all satisfy P". Any such relation that
  is reflexive and transitive passes through the whole monad.
\<close>

locale frame =
  fixes R :: "'s \<Rightarrow> 's \<Rightarrow> bool"
  assumes refl: "R s s"
    and trans: "R s t \<Longrightarrow> R t u \<Longrightarrow> R s u"
begin

lemma io_return: "state_io_rel R (State_Monad.return x)"
  by (auto simp: state_io_rel_def refl)

lemma io_ok: "state_io_rel R (ok x)"
  by (auto simp: state_io_rel_def refl)

lemma io_fail: "state_io_rel R (fail x)"
  by (auto simp: state_io_rel_def refl)

lemma io_from_res: "state_io_rel R (from_res x)"
  by (auto simp: state_io_rel_def refl)

lemma io_bind:
  "state_io_rel R m \<Longrightarrow> (\<And>x. state_io_rel R (f x)) \<Longrightarrow> state_io_rel R (State_Monad.bind m f)"
  by (auto simp: state_io_rel_def split: prod.splits) (metis snd_conv trans)

lemma io_bindE:
  "state_io_rel R m \<Longrightarrow> (\<And>x. state_io_rel R (f x)) \<Longrightarrow> state_io_rel R (bindE m f)"
  unfolding bindE_def by (rule io_bind) (auto split: sum.splits intro: io_fail)

lemma io_mapE: "state_io_rel R m \<Longrightarrow> state_io_rel R (mapE g m)"
  unfolding mapE_def by (rule io_bind) (auto split: sum.splits intro: io_fail io_ok)

lemma io_if: "state_io_rel R a \<Longrightarrow> state_io_rel R b \<Longrightarrow> state_io_rel R (if c then a else b)"
  by simp

lemma io_case_sum:
  "(\<And>x. state_io_rel R (f x)) \<Longrightarrow> (\<And>x. state_io_rel R (g x)) \<Longrightarrow> state_io_rel R (case_sum f g x)"
  by (cases x) auto

lemma io_case_option:
  "state_io_rel R f \<Longrightarrow> (\<And>x. state_io_rel R (g x)) \<Longrightarrow> state_io_rel R (case_option f g x)"
  by (cases x) auto

lemma io_case_prod: "(\<And>a b. state_io_rel R (f a b)) \<Longrightarrow> state_io_rel R (case_prod f x)"
  by (cases x) auto

lemma io_let: "(\<And>y. state_io_rel R (f y)) \<Longrightarrow> state_io_rel R (let y = x in f y)"
  by simp

lemma io_map_stateE: "(\<And>x. state_io_rel R (f x)) \<Longrightarrow> state_io_rel R (map_stateE f xs)"
  by (induction xs) (auto intro!: io_ok io_bindE)

lemmas rules = io_return io_ok io_fail io_from_res io_bind io_bindE io_mapE io_if io_case_sum
  io_case_option io_case_prod io_let io_map_stateE

lemma frameD: "state_io_rel R m \<Longrightarrow> run_state m s = (x, s') \<Longrightarrow> R s s'"
  by (auto simp: state_io_rel_def) (metis snd_conv)

end

end
