(* ===== verification/Codec.thy ===== *)
theory Codec
  imports Prelude
begin

text \<open>
  The text codecs of Go's standard library the program relies on, on byte strings:
  \<open>base64.RawURLEncoding\<close>, \<open>hex.EncodeToString\<close>, \<open>url.QueryEscape\<close> and the \<open>url.Values\<close> type with
  its \<open>Get\<close>, \<open>Set\<close>, \<open>Encode\<close> and the parser of \<open>URL.Query\<close>. Each decoder is shown to invert its
  encoder, which is what the tokens, states and redirects built from them rest on.
\<close>

section \<open>base64url without padding\<close>

definition b64_char :: "nat \<Rightarrow> char" where
  "b64_char n =
     (if n < 26 then char_of (65 + n)
      else if n < 52 then char_of (71 + n)
      else if n < 62 then char_of (n - 4)
      else if n = 62 then CHR ''-'' else CHR ''_'')"

definition b64_val :: "char \<Rightarrow> nat option" where
  "b64_val c =
     (let n = of_char c :: nat in
      if 65 \<le> n \<and> n \<le> 90 then Some (n - 65)
      else if 97 \<le> n \<and> n \<le> 122 then Some (n - 71)
      else if 48 \<le> n \<and> n \<le> 57 then Some (n + 4)
      else if c = CHR ''-'' then Some 62
      else if c = CHR ''_'' then Some 63 else None)"

fun b64_encode :: "string \<Rightarrow> string" where
  "b64_encode [] = []"
| "b64_encode [a] =
     (let x = of_char a :: nat in [b64_char (x div 4), b64_char (x mod 4 * 16)])"
| "b64_encode [a, b] =
     (let x = of_char a :: nat; y = of_char b :: nat in
      [b64_char (x div 4), b64_char (x mod 4 * 16 + y div 16), b64_char (y mod 16 * 4)])"
| "b64_encode (a # b # c # s) =
     (let x = of_char a :: nat; y = of_char b :: nat; z = of_char c :: nat in
      [b64_char (x div 4), b64_char (x mod 4 * 16 + y div 16),
       b64_char (y mod 16 * 4 + z div 64), b64_char (z mod 64)] @ b64_encode s)"

text \<open>
  \<open>DecodeString\<close> skips line breaks, refuses any other byte outside the alphabet and a last group
  of a single character, and ignores the unused low bits of the last group.
\<close>

fun b64_groups :: "nat list \<Rightarrow> string option" where
  "b64_groups [] = Some []"
| "b64_groups [w] = None"
| "b64_groups [w, x] = Some [char_of (w * 4 + x div 16)]"
| "b64_groups [w, x, y] =
     Some [char_of (w * 4 + x div 16), char_of (x mod 16 * 16 + y div 4)]"
| "b64_groups (w # x # y # z # r) =
     map_option ((@) [char_of (w * 4 + x div 16), char_of (x mod 16 * 16 + y div 4),
                      char_of (y mod 4 * 64 + z)]) (b64_groups r)"

definition is_newline :: "char \<Rightarrow> bool" where
  "is_newline c \<longleftrightarrow> c = CHR 0x0A \<or> c = CHR 0x0D"

definition b64_decode :: "string \<Rightarrow> string option" where
  "b64_decode s =
     Option.bind (those (map b64_val (filter (\<lambda>c. \<not> is_newline c) s))) b64_groups"

lemma char_eq_iff: "c = d \<longleftrightarrow> (of_char c :: nat) = of_char d"
  by (simp add: of_char_eq_iff)

lemma b64_char_val:
  "n < 64 \<Longrightarrow> b64_val (b64_char n) = Some n"
  by (auto simp: b64_char_def b64_val_def Let_def char_eq_iff of_char_of)

lemma b64_char_clean:
  "n < 64 \<Longrightarrow> \<not> is_newline (b64_char n) \<and> b64_char n \<noteq> CHR ''.''"
  by (auto simp: b64_char_def is_newline_def char_eq_iff of_char_of)

lemmas b64_char_props = b64_char_val b64_char_clean

lemma byte_parts [simp]:
  "(of_char c :: nat) div 4 < 64" "(of_char c :: nat) div 16 < 16" "(of_char c :: nat) div 64 < 4"
  "(of_char c :: nat) div 16 div 16 = 0" "(of_char c :: nat) div 16 mod 16 = of_char c div 16"
  "(of_char c :: nat) div 64 div 4 = 0" "(of_char c :: nat) div 64 mod 4 = of_char c div 64"
proof -
  have small: "n div k < m" if "n < m * k" for n k m :: nat
    using that by (rule less_mult_imp_div_less)
  show "(of_char c :: nat) div 4 < 64" by (rule small) simp
  show s: "(of_char c :: nat) div 16 < 16" by (rule small) simp
  show t: "(of_char c :: nat) div 64 < 4" by (rule small) simp
  from s show "(of_char c :: nat) div 16 div 16 = 0"
    "(of_char c :: nat) div 16 mod 16 = of_char c div 16" by simp_all
  from t show "(of_char c :: nat) div 64 div 4 = 0"
    "(of_char c :: nat) div 64 mod 4 = of_char c div 64" by simp_all
qed

lemma sextet_bounds:
  "(of_char a :: nat) mod 4 * 16 < 64"
  "(of_char a :: nat) mod 4 * 16 + of_char b div 16 < 64"
  "(of_char b :: nat) mod 16 * 4 < 64"
  "(of_char b :: nat) mod 16 * 4 + of_char c div 64 < 64"
  "(of_char c :: nat) mod 64 < 64"
proof -
  have "(of_char a :: nat) mod 4 < 4" "(of_char b :: nat) mod 16 < 16" by simp_all
  then show "(of_char a :: nat) mod 4 * 16 < 64"
    "(of_char a :: nat) mod 4 * 16 + of_char b div 16 < 64"
    "(of_char b :: nat) mod 16 * 4 < 64"
    "(of_char b :: nat) mod 16 * 4 + of_char c div 64 < 64"
    using byte_parts(2) [of b] byte_parts(3) [of c] by linarith+
qed simp

lemmas sextets = sextet_bounds div_add1_eq mod_add_eq

lemma b64_encode_wf: "c \<in> set (b64_encode s) \<Longrightarrow> \<not> is_newline c \<and> c \<noteq> CHR ''.''"
  by (induction s rule: b64_encode.induct)
     (auto simp: Let_def b64_char_props sextets)

lemma b64_char_ascii: "n < 64 \<Longrightarrow> (of_char (b64_char n) :: nat) < 128"
  by (auto simp: b64_char_def of_char_of)

lemma b64_encode_ascii: "c \<in> set (b64_encode s) \<Longrightarrow> (of_char c :: nat) < 128"
  by (induction s rule: b64_encode.induct) (auto simp: Let_def b64_char_ascii sextets)

lemma b64_values:
  "\<exists>vs. those (map b64_val (b64_encode s)) = Some vs \<and> b64_groups vs = Some s"
proof (induction s rule: b64_encode.induct)
  case (4 a b c s)
  then obtain vs where "those (map b64_val (b64_encode s)) = Some vs" "b64_groups vs = Some s"
    by blast
  then show ?case by (simp add: Let_def b64_char_props sextets)
qed (simp_all add: Let_def b64_char_props sextets)

theorem b64_roundtrip: "b64_decode (b64_encode s) = Some s"
proof -
  have "filter (\<lambda>c. \<not> is_newline c) (b64_encode s) = b64_encode s"
    by (rule filter_True) (use b64_encode_wf in blast)
  with b64_values [of s] show ?thesis by (auto simp: b64_decode_def)
qed

lemma b64_encode_inj: "b64_encode s = b64_encode t \<Longrightarrow> s = t"
  by (metis b64_roundtrip option.inject)

lemma b64_encode_Nil [simp]: "b64_encode s = [] \<longleftrightarrow> s = []"
proof
  assume "b64_encode s = []"
  then have "b64_encode s = b64_encode []" by simp
  then show "s = []" by (rule b64_encode_inj)
qed simp

lemma b64_encode_no_dot: "CHR ''.'' \<notin> set (b64_encode s)"
  using b64_encode_wf by blast

section \<open>Hexadecimal\<close>

definition hex_digit :: "nat \<Rightarrow> char" where
  "hex_digit n = (if n < 10 then char_of (48 + n) else char_of (87 + n))"

definition hex_encode :: "string \<Rightarrow> string" where
  "hex_encode s =
     concat (map (\<lambda>c. [hex_digit (of_char c div 16), hex_digit (of_char c mod 16)]) s)"

lemma length_hex_encode [simp]: "length (hex_encode s) = 2 * length s"
  by (induction s) (simp_all add: hex_encode_def)

section \<open>Query escaping\<close>

definition unreserved :: "char \<Rightarrow> bool" where
  "unreserved c \<longleftrightarrow>
     (CHR ''A'' \<le> c \<and> c \<le> CHR ''Z'') \<or> (CHR ''a'' \<le> c \<and> c \<le> CHR ''z'') \<or>
     (CHR ''0'' \<le> c \<and> c \<le> CHR ''9'') \<or> c \<in> {CHR ''-'', CHR ''_'', CHR ''.'', CHR ''~''}"

definition upper_hex :: "nat \<Rightarrow> char" where
  "upper_hex n = (if n < 10 then char_of (48 + n) else char_of (55 + n))"

definition unhex :: "char \<Rightarrow> nat option" where
  "unhex c =
     (let n = of_char c :: nat in
      if 48 \<le> n \<and> n \<le> 57 then Some (n - 48)
      else if 65 \<le> n \<and> n \<le> 70 then Some (n - 55)
      else if 97 \<le> n \<and> n \<le> 102 then Some (n - 87) else None)"

definition escape_char :: "char \<Rightarrow> string" where
  "escape_char c =
     (if unreserved c then [c]
      else if c = CHR 0x20 then ''+''
      else [CHR ''%'', upper_hex (of_char c div 16), upper_hex (of_char c mod 16)])"

definition query_escape :: "string \<Rightarrow> string" where
  "query_escape s = concat (map escape_char s)"

fun query_unescape :: "string \<Rightarrow> string option" where
  "query_unescape [] = Some []"
| "query_unescape (c # s) =
     (if c = CHR ''%'' then
        (case s of
           a # b # r \<Rightarrow>
             (case (unhex a, unhex b) of
                (Some x, Some y) \<Rightarrow> map_option ((#) (char_of (x * 16 + y))) (query_unescape r)
              | _ \<Rightarrow> None)
         | _ \<Rightarrow> None)
      else if c = CHR ''+'' then map_option ((#) (CHR 0x20)) (query_unescape s)
      else map_option ((#) c) (query_unescape s))"

lemma unhex_upper_hex [simp]: "n < 16 \<Longrightarrow> unhex (upper_hex n) = Some n"
  by (auto simp: unhex_def upper_hex_def Let_def of_char_of)

lemma upper_hex_safe: "n < 16 \<Longrightarrow> upper_hex n \<notin> {CHR ''&'', CHR ''='', CHR '';''}"
  by (auto simp: upper_hex_def char_eq_iff of_char_of)

lemma nibbles: "(of_char (c :: char) :: nat) div 16 < 16" "(of_char c :: nat) mod 16 < 16"
  by simp_all

lemma escape_char_safe: "x \<in> set (escape_char c) \<Longrightarrow> x \<notin> {CHR ''&'', CHR ''='', CHR '';''}"
  using upper_hex_safe [OF nibbles(1) [of c]] upper_hex_safe [OF nibbles(2) [of c]]
  by (auto simp: escape_char_def unreserved_def less_eq_char_def split: if_splits)

lemma query_escape_safe: "x \<in> set (query_escape s) \<Longrightarrow> x \<notin> {CHR ''&'', CHR ''='', CHR '';''}"
  by (auto simp: query_escape_def dest: escape_char_safe)

lemma unescape_escape_char:
  "query_unescape (escape_char c @ t) = map_option ((#) c) (query_unescape t)"
proof (cases "unreserved c")
  case True
  then have "c \<noteq> CHR ''%''" "c \<noteq> CHR ''+''" by (auto simp: unreserved_def)
  with True show ?thesis by (simp add: escape_char_def)
next
  case False
  with nibbles [of c] show ?thesis by (simp add: escape_char_def)
qed

theorem query_unescape_escape: "query_unescape (query_escape s) = Some s"
  by (induction s) (simp_all add: query_escape_def unescape_escape_char)

section \<open>url.Values\<close>

text \<open>A multimap from keys to lists of values: an association list with distinct keys.\<close>

type_synonym "values" = "(string \<times> string list) list"

definition values_all :: "values \<Rightarrow> string \<Rightarrow> string list" where
  "values_all vs k = (case map_of vs k of None \<Rightarrow> [] | Some l \<Rightarrow> l)"

definition values_get :: "values \<Rightarrow> string \<Rightarrow> string" where
  "values_get vs k = (case values_all vs k of [] \<Rightarrow> [] | v # _ \<Rightarrow> v)"

fun values_put :: "values \<Rightarrow> string \<Rightarrow> string list \<Rightarrow> values" where
  "values_put [] k l = [(k, l)]"
| "values_put ((k', l') # vs) k l = (if k' = k then (k, l) # vs else (k', l') # values_put vs k l)"

definition values_set :: "values \<Rightarrow> string \<Rightarrow> string \<Rightarrow> values" where
  "values_set vs k v = values_put vs k [v]"

definition values_add :: "values \<Rightarrow> string \<Rightarrow> string \<Rightarrow> values" where
  "values_add vs k v = values_put vs k (values_all vs k @ [v])"

definition values_del :: "values \<Rightarrow> string \<Rightarrow> values" where
  "values_del vs k = filter (\<lambda>p. fst p \<noteq> k) vs"

definition values_pairs :: "values \<Rightarrow> (string \<times> string) list" where
  "values_pairs vs = concat (map (\<lambda>(k, l). map (Pair k) l) (sort_key fst vs))"

definition encode_pair :: "string \<times> string \<Rightarrow> string" where
  "encode_pair p = query_escape (fst p) @ ''='' @ query_escape (snd p)"

definition values_encode :: "values \<Rightarrow> string" where
  "values_encode vs = join ''&'' (map encode_pair (values_pairs vs))"

definition parse_pair :: "string \<Rightarrow> (string \<times> string) option" where
  "parse_pair part =
     (if CHR '';'' \<in> set part \<or> part = [] then None
      else let (k, v) = (case cut (CHR ''='') part of None \<Rightarrow> (part, []) | Some kv \<Rightarrow> kv) in
        (case (query_unescape k, query_unescape v) of
           (Some k', Some v') \<Rightarrow> Some (k', v') | _ \<Rightarrow> None))"

definition add_pair :: "values \<Rightarrow> string \<times> string \<Rightarrow> values" where
  "add_pair vs p = values_add vs (fst p) (snd p)"

text \<open>\<open>URL.Query\<close>: pairs that do not parse are dropped.\<close>

definition parse_query :: "string \<Rightarrow> values" where
  "parse_query s = foldl add_pair [] (List.map_filter parse_pair (split_on (CHR ''&'') s))"

lemma values_all_put [simp]:
  "values_all (values_put vs k l) k' = (if k' = k then l else values_all vs k')"
  by (induction vs k l rule: values_put.induct) (auto simp: values_all_def)

lemma values_get_set [simp]:
  "values_get (values_set vs k v) k' = (if k' = k then v else values_get vs k')"
  by (simp add: values_get_def values_set_def)

lemma set_keys_put: "fst ` set (values_put vs k l) = insert k (fst ` set vs)"
  by (induction vs k l rule: values_put.induct) auto

lemma distinct_put: "distinct (map fst vs) \<Longrightarrow> distinct (map fst (values_put vs k l))"
  by (induction vs k l rule: values_put.induct) (auto simp: set_keys_put)

lemma values_all_fold:
  "values_all (foldl add_pair vs ps) k =
     values_all vs k @ map snd (filter (\<lambda>p. fst p = k) ps)"
  by (induction ps arbitrary: vs) (auto simp: add_pair_def values_add_def)

lemma parse_encode_pair: "parse_pair (encode_pair p) = Some p"
proof -
  let ?k = "query_escape (fst p)" and ?v = "query_escape (snd p)"
  have "cut (CHR ''='') (?k @ CHR ''='' # ?v) = Some (?k, ?v)"
    by (rule cut_append) (auto dest: query_escape_safe)
  moreover have "CHR '';'' \<notin> set (?k @ ''='' @ ?v)"
    by (auto dest: query_escape_safe)
  ultimately show ?thesis
    by (simp add: parse_pair_def encode_pair_def query_unescape_escape)
qed

lemma encode_pair_no_amp: "CHR ''&'' \<notin> set (encode_pair p)"
  by (auto simp: encode_pair_def dest: query_escape_safe)

lemma parse_join_pairs: "parse_query (join ''&'' (map encode_pair ps)) = foldl add_pair [] ps"
proof (cases "ps = []")
  case True
  then show ?thesis by (simp add: parse_query_def List.map_filter_def parse_pair_def)
next
  case False
  then have "split_on (CHR ''&'') (join ''&'' (map encode_pair ps)) = map encode_pair ps"
    by (intro split_on_join) (auto simp: encode_pair_no_amp)
  moreover have "List.map_filter parse_pair (map encode_pair ps) = ps"
    by (induction ps) (simp_all add: List.map_filter_def parse_encode_pair)
  ultimately show ?thesis by (simp add: parse_query_def)
qed

lemma values_all_filter:
  "distinct (map fst vs) \<Longrightarrow> values_all vs k = concat (map snd (filter (\<lambda>p. fst p = k) vs))"
proof (induction vs)
  case (Cons p vs)
  have "values_all (p # vs) k = (if fst p = k then snd p else values_all vs k)"
    by (cases p) (simp add: values_all_def)
  moreover have "fst q \<noteq> fst p" if "q \<in> set vs" for q
    using Cons.prems that by (metis distinct.simps(2) image_eqI list.set_map list.simps(9))
  then have "fst p = k \<Longrightarrow> filter (\<lambda>q. fst q = k) vs = []"
    by (auto simp: filter_empty_conv)
  ultimately show ?case using Cons by auto
qed (simp add: values_all_def)

lemma pairs_of_key:
  "map snd (filter (\<lambda>p. fst p = k) (concat (map (\<lambda>(k, l). map (Pair k) l) vs))) =
   concat (map snd (filter (\<lambda>p. fst p = k) vs))"
  by (induction vs) (auto simp: filter_map o_def)

theorem values_roundtrip:
  assumes "distinct (map fst vs)"
  shows "values_all (parse_query (values_encode vs)) k = values_all vs k"
  using assms
  by (simp add: values_encode_def values_pairs_def parse_join_pairs values_all_fold
      pairs_of_key values_all_filter sort_key_stable)

end
