(* ===== verification/Json.thy ===== *)
theory Json
  imports Codec
begin

text \<open>
  JSON documents as \<open>encoding/json\<close> sees them once they are parsed, and the part of \<open>Unmarshal\<close>
  the program uses: reading the fields of a struct out of an object. The parser and the printer
  of the text form are in theory \<open>JsonText\<close>.

  Field names match up to case. A key that appears several times is decoded each time, so the
  last value stays; a \<open>null\<close> leaves a field as it was; a value of the wrong type, or an integer
  that does not fit 64 bits, is an error, and the callers drop the whole result then.
\<close>

datatype json =
    JNull
  | JBool bool
  | JNum int
  | JFloat string \<comment> \<open>a number with a fraction or an exponent, as its text\<close>
  | JStr string
  | JArr "json list"
  | JObj "(string \<times> json) list"

text \<open>Folding of a key: ASCII letters, and the two runes that fold into ASCII.\<close>

fun fold_name :: "string \<Rightarrow> string" where
  "fold_name [] = []"
| "fold_name (a # s) =
     (if a = CHR 0xC5 \<and> s \<noteq> [] \<and> hd s = CHR 0xBF then CHR ''s'' # fold_name (tl s)
      else if a = CHR 0xE2 \<and> 2 \<le> length s \<and> hd s = CHR 0x84 \<and> s ! 1 = CHR 0xAA
        then CHR ''k'' # fold_name (drop 2 s)
      else ascii_lower a # fold_name s)"

type_synonym fields = "(string \<times> json) list"

text \<open>The fields of a struct: none for \<open>null\<close>, an error for anything but an object.\<close>

fun json_fields :: "json \<Rightarrow> fields option" where
  "json_fields JNull = Some []"
| "json_fields (JObj fs) = Some fs"
| "json_fields _ = None"

definition matching :: "string \<Rightarrow> fields \<Rightarrow> json list" where
  "matching name fs = map snd (filter (\<lambda>(k, v). fold_name k = name \<and> v \<noteq> JNull) fs)"

definition json_field :: "(json \<Rightarrow> 'a option) \<Rightarrow> 'a \<Rightarrow> string \<Rightarrow> fields \<Rightarrow> 'a option" where
  "json_field dec dflt name fs =
     map_option (\<lambda>xs. if xs = [] then dflt else last xs) (those (map dec (matching name fs)))"

text \<open>A nested struct: the objects under a repeated key are decoded one over the other.\<close>

definition json_struct :: "string \<Rightarrow> fields \<Rightarrow> fields option" where
  "json_struct name fs = map_option concat (those (map json_fields (matching name fs)))"

text \<open>A \<open>json.RawMessage\<close> field keeps its text, \<open>null\<close> included; \<open>None\<close> is the empty message.\<close>

definition json_raw :: "string \<Rightarrow> fields \<Rightarrow> json option" where
  "json_raw name fs =
     (case filter (\<lambda>(k, v). fold_name k = name) fs of [] \<Rightarrow> None | vs \<Rightarrow> Some (snd (last vs)))"

fun dec_string :: "json \<Rightarrow> string option" where
  "dec_string (JStr s) = Some s"
| "dec_string JNull = Some []"
| "dec_string _ = None"

fun dec_bool :: "json \<Rightarrow> bool option" where
  "dec_bool (JBool b) = Some b"
| "dec_bool JNull = Some False"
| "dec_bool _ = None"

fun dec_int64 :: "json \<Rightarrow> int option" where
  "dec_int64 (JNum n) = (if min64 \<le> n \<and> n \<le> max64 then Some n else None)"
| "dec_int64 JNull = Some 0"
| "dec_int64 _ = None"

fun dec_number :: "json \<Rightarrow> json option" where
  "dec_number (JNum n) = Some (JNum n)"
| "dec_number (JFloat s) = Some (JFloat s)"
| "dec_number JNull = Some (JNum 0)"
| "dec_number _ = None"

fun dec_list :: "(json \<Rightarrow> 'a option) \<Rightarrow> json \<Rightarrow> 'a list option" where
  "dec_list dec (JArr xs) = those (map dec xs)"
| "dec_list dec JNull = Some []"
| "dec_list dec _ = None"

abbreviation str_field :: "string \<Rightarrow> fields \<Rightarrow> string option" where
  "str_field \<equiv> json_field dec_string []"

abbreviation int_field :: "string \<Rightarrow> fields \<Rightarrow> int option" where
  "int_field \<equiv> json_field dec_int64 0"

abbreviation list_field :: "(json \<Rightarrow> 'a option) \<Rightarrow> string \<Rightarrow> fields \<Rightarrow> 'a list option" where
  "list_field dec \<equiv> json_field (dec_list dec) []"

lemma matching_Nil [simp]: "matching name [] = []"
  by (simp add: matching_def)

lemma matching_Cons [simp]:
  "matching name ((k, v) # fs) =
     (if fold_name k = name \<and> v \<noteq> JNull then v # matching name fs else matching name fs)"
  by (simp add: matching_def)

lemma those_Some_iff: "those xs = Some ys \<longleftrightarrow> xs = map Some ys"
  by (induction xs arbitrary: ys) (auto split: option.splits)

lemma those_map_length: "those (map f xs) = Some ys \<Longrightarrow> length ys = length xs"
  by (auto simp: those_Some_iff dest: map_eq_imp_length_eq)

lemma dec_int64_range: "dec_int64 j = Some n \<Longrightarrow> min64 \<le> n \<and> n \<le> max64"
  by (cases j) (auto simp: min64_def max64_def split: if_splits)

lemma dec_list_strings: "dec_list dec_string (JArr (map JStr ss)) = Some ss"
  by (induction ss) auto

lemma json_field_hit:
  "dec v = Some x \<Longrightarrow> v \<noteq> JNull \<Longrightarrow> fold_name k = name \<Longrightarrow> matching name fs = [] \<Longrightarrow>
   json_field dec d name ((k, v) # fs) = Some x"
  by (simp add: json_field_def)

end
