(* ===== verification/Domain.thy ===== *)
theory Domain
  imports Json
begin

text \<open>
  The entities of \<open>internal/domain\<close>: tenants, pages, OAuth clients, codes, tokens and states, what
  the Graph API answers, and the errors of the program. A wrapped error
  \<^verbatim>\<open>fmt.Errorf("...: %w", err)\<close> is \<open>Wrap\<close>; the texts of messages are kept without
  their accents and nothing depends on them.
\<close>

section \<open>Errors\<close>

record graph_error =
  ge_status :: int
  ge_code :: int
  ge_subcode :: int
  ge_type :: string
  ge_message :: string
  ge_trace :: string
  ge_retry_after :: duration

datatype go_error =
    ErrNotFound
  | ErrUnknownPage
  | ErrNoInstagram
  | ErrReauthorize
  | ErrForbiddenUser
  | ErrInvalidToken
  | ErrCiphertext
  | ErrContext \<comment> \<open>\<open>ctx.Err()\<close>\<close>
  | ErrSql \<comment> \<open>the database reports a failure or a violated constraint\<close>
  | ErrRand \<comment> \<open>\<open>crypto/rand\<close> fails\<close>
  | UrlError string string \<comment> \<open>a \<^verbatim>\<open>*url.Error\<close>: the operation and the address that failed\<close>
  | ErrTransport \<comment> \<open>the body of an answer cannot be read\<close>
  | ErrJson \<comment> \<open>\<open>encoding/json\<close> refuses a document\<close>
  | GraphError graph_error
  | Msg string
  | Wrap string go_error

type_synonym 'a res = "go_error + 'a"

text \<open>\<open>errors.Is\<close> and \<open>errors.As\<close> walk down the chain of wrapped errors.\<close>

fun errors_is :: "go_error \<Rightarrow> go_error \<Rightarrow> bool" where
  "errors_is (Wrap s err) target = (Wrap s err = target \<or> errors_is err target)"
| "errors_is err target = (err = target)"

fun AsGraphError :: "go_error \<Rightarrow> graph_error option" where
  "AsGraphError (GraphError ge) = Some ge"
| "AsGraphError (Wrap s err) = AsGraphError err"
| "AsGraphError _ = None"

definition IsAuth :: "graph_error \<Rightarrow> bool" where
  "IsAuth e \<longleftrightarrow> (if ge_code e \<in> {190, 102, 10, 200} then True else ge_status e = 401)"

definition IsRateLimit :: "graph_error \<Rightarrow> bool" where
  "IsRateLimit e \<longleftrightarrow> (if ge_code e \<in> {4, 17, 32, 613} then True else ge_status e = 429)"

datatype user_message = UMReauthorize | UMQuota | UMMeta int string

definition UserMessage :: "graph_error \<Rightarrow> user_message" where
  "UserMessage e =
     (if IsAuth e then UMReauthorize
      else if IsRateLimit e then UMQuota
      else UMMeta (ge_code e) (ge_message e))"

section \<open>Tenants and pages\<close>

record tenant =
  t_id :: string
  t_meta_user_id :: string
  t_display_name :: string
  t_user_token :: string
  t_created_at :: instant
  t_updated_at :: instant
  t_token_expires_at :: instant

definition TokenExpiresWithin :: "tenant \<Rightarrow> instant \<Rightarrow> duration \<Rightarrow> bool" where
  "TokenExpiresWithin t now window \<longleftrightarrow>
     (if is_zero_time (t_token_expires_at t) then True
      else t_token_expires_at t < time_add now window)"

record page =
  p_tenant_id :: string
  p_page_id :: string
  p_name :: string
  p_ig_user_id :: string
  p_ig_username :: string
  p_page_token :: string
  p_synced_at :: instant

definition HasInstagram :: "page \<Rightarrow> bool" where
  "HasInstagram p \<longleftrightarrow> p_ig_user_id p \<noteq> []"

record meta_user =
  mu_id :: string
  mu_name :: string

section \<open>OAuth\<close>

record oauth_client =
  c_id :: string
  c_name :: string
  c_redirect_uris :: "string list"
  c_created_at :: instant

definition AllowsRedirectURI :: "oauth_client \<Rightarrow> string \<Rightarrow> bool" where
  "AllowsRedirectURI c uri \<longleftrightarrow> list_ex (\<lambda>u. u = uri) (c_redirect_uris c)"

record auth_code =
  ac_code :: string
  ac_client_id :: string
  ac_tenant_id :: string
  ac_redirect_uri :: string
  ac_code_challenge :: string
  ac_resource :: string
  ac_expires_at :: instant

record refresh_token =
  rt_hash :: string
  rt_client_id :: string
  rt_tenant_id :: string
  rt_expires_at :: instant
  rt_revoked :: bool

record oauth_request =
  or_client_id :: string
  or_redirect_uri :: string
  or_code_challenge :: string
  or_client_state :: string
  or_resource :: string

definition empty_request :: oauth_request where
  "empty_request = \<lparr>or_client_id = [], or_redirect_uri = [], or_code_challenge = [],
     or_client_state = [], or_resource = []\<rparr>"

record login_state =
  ls_state :: string
  ls_request :: oauth_request
  ls_expires_at :: instant

section \<open>What the Graph API serves\<close>

record long_lived_token =
  ll_token :: string
  ll_expires_in :: duration

record token_status =
  ts_valid :: bool
  ts_expires_at :: instant
  ts_data_access_expires_at :: instant
  ts_scopes :: "string list"
  ts_reason :: string

record insight_value =
  iv_end_time :: string
  iv_value :: "json option"

record insight =
  in_metric :: string
  in_period :: string
  in_title :: string
  in_values :: "insight_value list"

record insight_set =
  is_insights :: "insight list"
  is_rejected :: "string list"

record insight_meta =
  im_name :: string
  im_period :: string
  im_description :: string
  im_surface :: string

record post =
  po_id :: string
  po_created_time :: string
  po_message :: string
  po_permalink :: string
  po_clicks :: int
  po_reactions :: int
  po_video_views :: int

record recommendation =
  rc_created_time :: string
  rc_type :: string
  rc_rating :: int
  rc_review_text :: string
  rc_reviewer :: string

record page_ratings =
  pr_page_id :: string
  pr_overall :: json
  pr_count :: int
  pr_recommendations :: "recommendation list"
  pr_unavailable :: bool

record comment =
  cm_id :: string
  cm_from :: string
  cm_username :: string
  cm_message :: string
  cm_created_time :: string

record breakdown =
  bd_key :: string
  bd_value :: int

record media =
  m_id :: string
  m_type :: string
  m_product_type :: string
  m_timestamp :: string
  m_caption :: string
  m_permalink :: string
  m_like_count :: int
  m_comments_count :: int
  m_reach :: int
  m_views :: int
  m_saved :: int
  m_shares :: int
  m_total_interactions :: int

record scheduled_post =
  sp_id :: string
  sp_message :: string
  sp_created_time :: string
  sp_scheduled_at :: string

record publish_post_request =
  pp_message :: string
  pp_link :: string
  pp_photo_url :: string
  pp_scheduled_at :: instant

definition IsPhoto :: "publish_post_request \<Rightarrow> bool" where
  "IsPhoto r \<longleftrightarrow> pp_photo_url r \<noteq> []"

definition IsScheduled :: "publish_post_request \<Rightarrow> bool" where
  "IsScheduled r \<longleftrightarrow> \<not> is_zero_time (pp_scheduled_at r)"

definition IGMediaTypeImage :: string where "IGMediaTypeImage = ''IMAGE''"
definition IGMediaTypeReels :: string where "IGMediaTypeReels = ''REELS''"
definition IGMediaTypeCarousel :: string where "IGMediaTypeCarousel = ''CAROUSEL''"
definition IGMediaTypeStories :: string where "IGMediaTypeStories = ''STORIES''"

lemmas media_type_defs = IGMediaTypeImage_def IGMediaTypeReels_def IGMediaTypeCarousel_def
  IGMediaTypeStories_def

definition ModerationHide :: string where "ModerationHide = ''hide''"
definition ModerationUnhide :: string where "ModerationUnhide = ''unhide''"
definition ModerationDelete :: string where "ModerationDelete = ''delete''"

lemmas moderation_defs = ModerationHide_def ModerationUnhide_def ModerationDelete_def

record ig_publish_request =
  ig_media_type :: string
  ig_image_url :: string
  ig_video_url :: string
  ig_caption :: string
  ig_children :: "string list"

section \<open>Lemmas\<close>

lemma errors_is_refl [simp]: "errors_is err err"
  by (cases err) auto

lemma AllowsRedirectURI_iff: "AllowsRedirectURI c uri \<longleftrightarrow> uri \<in> set (c_redirect_uris c)"
  by (auto simp: AllowsRedirectURI_def list_ex_iff)

lemma IsAuth_iff: "IsAuth e \<longleftrightarrow> ge_code e \<in> {190, 102, 10, 200} \<or> ge_status e = 401"
  by (auto simp: IsAuth_def)

lemma IsRateLimit_iff: "IsRateLimit e \<longleftrightarrow> ge_code e \<in> {4, 17, 32, 613} \<or> ge_status e = 429"
  by (auto simp: IsRateLimit_def)

text \<open>A code is never both an authorization and a rate limit code, so the two readings can only
  meet in an answer whose status says one and whose code says the other.\<close>

lemma auth_or_rate: "IsAuth e \<Longrightarrow> IsRateLimit e \<Longrightarrow> ge_status e \<in> {401, 429}"
  by (auto simp: IsAuth_iff IsRateLimit_iff)

end
