(* ===== verification/JsonText.thy ===== *)
theory JsonText
  imports Json
begin

text \<open>
  The text form of JSON as \<open>encoding/json\<close> writes and reads it. \<open>print_json\<close> is \<open>Marshal\<close>: it
  escapes the characters that are special in HTML and the two line separators U+2028 and U+2029,
  and replaces a byte that is not UTF-8 by U+FFFD. \<open>json_parse\<close> is \<open>Unmarshal\<close> and \<open>json_first\<close>
  what a \<open>Decoder\<close> reads first. The main result is the round trip: a document with valid UTF-8
  strings and integer numbers reads back as it was written.

  The parser calls itself on the text its own calls leave over. The comparison of lengths before
  such a call makes the recursion well-founded; \<open>parse_shorter\<close> shows it always succeeds.
\<close>

section \<open>UTF-8\<close>

definition byte_in :: "nat \<Rightarrow> nat \<Rightarrow> string \<Rightarrow> nat \<Rightarrow> bool" where
  "byte_in lo hi s i \<longleftrightarrow> i < length s \<and> lo \<le> (of_char (s ! i) :: nat) \<and> of_char (s ! i) \<le> hi"

text \<open>The well-formed sequences of one to four bytes, in front of the text.\<close>

definition utf8_1 :: "string \<Rightarrow> bool" where
  "utf8_1 s \<longleftrightarrow> byte_in 0 0x7F s 0"

definition utf8_2 :: "string \<Rightarrow> bool" where
  "utf8_2 s \<longleftrightarrow> byte_in 0xC2 0xDF s 0 \<and> byte_in 0x80 0xBF s 1"

definition utf8_3 :: "string \<Rightarrow> bool" where
  "utf8_3 s \<longleftrightarrow>
     (byte_in 0xE0 0xE0 s 0 \<and> byte_in 0xA0 0xBF s 1 \<or>
      byte_in 0xE1 0xEC s 0 \<and> byte_in 0x80 0xBF s 1 \<or>
      byte_in 0xED 0xED s 0 \<and> byte_in 0x80 0x9F s 1 \<or>
      byte_in 0xEE 0xEF s 0 \<and> byte_in 0x80 0xBF s 1) \<and> byte_in 0x80 0xBF s 2"

definition utf8_4 :: "string \<Rightarrow> bool" where
  "utf8_4 s \<longleftrightarrow>
     (byte_in 0xF0 0xF0 s 0 \<and> byte_in 0x90 0xBF s 1 \<or>
      byte_in 0xF1 0xF3 s 0 \<and> byte_in 0x80 0xBF s 1 \<or>
      byte_in 0xF4 0xF4 s 0 \<and> byte_in 0x80 0x8F s 1) \<and>
     byte_in 0x80 0xBF s 2 \<and> byte_in 0x80 0xBF s 3"

lemmas utf8_defs = utf8_1_def utf8_2_def utf8_3_def utf8_4_def

text \<open>The number of bytes of the rune in front, 0 when the front is not UTF-8.\<close>

definition rune_width :: "string \<Rightarrow> nat" where
  "rune_width s =
     (if utf8_1 s then 1 else if utf8_2 s then 2 else if utf8_3 s then 3
      else if utf8_4 s then 4 else 0)"

lemma byte_inD: "byte_in lo hi s i \<Longrightarrow> i < length s"
  by (simp add: byte_in_def)

lemma utf8_length:
  "utf8_1 s \<Longrightarrow> 1 \<le> length s" "utf8_2 s \<Longrightarrow> 2 \<le> length s"
  "utf8_3 s \<Longrightarrow> 3 \<le> length s" "utf8_4 s \<Longrightarrow> 4 \<le> length s"
  by (auto simp: utf8_defs Suc_le_eq dest: byte_inD)

lemma rune_width_le: "rune_width s \<le> length s"
  using utf8_length [of s] by (simp add: rune_width_def)

lemma utf8_Nil [simp]: "\<not> utf8_1 []" "\<not> utf8_2 []" "\<not> utf8_3 []" "\<not> utf8_4 []"
  by (auto simp: utf8_defs dest: byte_inD)

lemma rune_width_Nil [simp]: "rune_width [] = 0"
  by (simp add: rune_width_def)

lemma byte_in_take: "k \<le> length s \<Longrightarrow> i < k \<Longrightarrow> byte_in lo hi (take k s @ t) i \<longleftrightarrow> byte_in lo hi s i"
  by (auto simp: byte_in_def nth_append)

lemma utf8_take:
  "k \<le> length s \<Longrightarrow> 1 \<le> k \<Longrightarrow> utf8_1 (take k s @ t) \<longleftrightarrow> utf8_1 s"
  "k \<le> length s \<Longrightarrow> 2 \<le> k \<Longrightarrow> utf8_2 (take k s @ t) \<longleftrightarrow> utf8_2 s"
  "k \<le> length s \<Longrightarrow> 3 \<le> k \<Longrightarrow> utf8_3 (take k s @ t) \<longleftrightarrow> utf8_3 s"
  "k \<le> length s \<Longrightarrow> 4 \<le> k \<Longrightarrow> utf8_4 (take k s @ t) \<longleftrightarrow> utf8_4 s"
  by (simp_all add: utf8_defs byte_in_take)

text \<open>The width of a rune does not depend on what follows it.\<close>

lemma rune_width_take:
  assumes "rune_width s = k" "k \<noteq> 0"
  shows "rune_width (take k s @ t) = k"
proof -
  have "k \<le> length s" using rune_width_le [of s] assms by simp
  then show ?thesis
    using assms utf8_take [of k s t] unfolding rune_width_def [of s]
    by (simp add: rune_width_def split: if_splits)
qed

function utf8_valid :: "string \<Rightarrow> bool" where
  "utf8_valid s \<longleftrightarrow>
     (if s = [] then True
      else if rune_width s = 0 then False
      else utf8_valid (drop (rune_width s) s))"
  by pat_completeness auto
termination by (relation "measure length") (auto simp: diff_less)

declare utf8_valid.simps [simp del]

definition utf8_encode :: "nat \<Rightarrow> string" where
  "utf8_encode n =
     (if n < 0x80 then [char_of n]
      else if n < 0x800 then [char_of (0xC0 + n div 64), char_of (0x80 + n mod 64)]
      else if 0xD800 \<le> n \<and> n < 0xE000 \<or> 0x110000 \<le> n
        then [CHR 0xEF, CHR 0xBF, CHR 0xBD]
      else if n < 0x10000 then
        [char_of (0xE0 + n div 4096), char_of (0x80 + n div 64 mod 64), char_of (0x80 + n mod 64)]
      else
        [char_of (0xF0 + n div 262144), char_of (0x80 + n div 4096 mod 64),
         char_of (0x80 + n div 64 mod 64), char_of (0x80 + n mod 64)])"

definition replacement :: string where
  "replacement = [CHR 0xEF, CHR 0xBF, CHR 0xBD]"

section \<open>Strings\<close>

definition u_escape :: "nat \<Rightarrow> string" where
  "u_escape n = [CHR 0x5C, CHR ''u'', hex_digit (n div 4096 mod 16), hex_digit (n div 256 mod 16),
     hex_digit (n div 16 mod 16), hex_digit (n mod 16)]"

definition quote_ascii :: "char \<Rightarrow> string" where
  "quote_ascii c =
     (if c = CHR 0x22 \<or> c = CHR 0x5C then [CHR 0x5C, c]
      else if c = CHR 0x08 then [CHR 0x5C, CHR ''b'']
      else if c = CHR 0x0C then [CHR 0x5C, CHR ''f'']
      else if c = CHR 0x0A then [CHR 0x5C, CHR ''n'']
      else if c = CHR 0x0D then [CHR 0x5C, CHR ''r'']
      else if c = CHR 0x09 then [CHR 0x5C, CHR ''t'']
      else if (of_char c :: nat) < 0x20 \<or> c \<in> {CHR ''<'', CHR ''>'', CHR ''&''}
        then u_escape (of_char c)
      else [c])"

function quote_runes :: "string \<Rightarrow> string" where
  "quote_runes s =
     (if s = [] then []
      else if rune_width s = 0 then u_escape 0xFFFD @ quote_runes (tl s)
      else (if rune_width s = 1 then quote_ascii (hd s)
            else if take (rune_width s) s = [CHR 0xE2, CHR 0x80, CHR 0xA8] then u_escape 0x2028
            else if take (rune_width s) s = [CHR 0xE2, CHR 0x80, CHR 0xA9] then u_escape 0x2029
            else take (rune_width s) s)
           @ quote_runes (drop (rune_width s) s))"
  by pat_completeness auto
termination by (relation "measure length") (auto simp: Suc_le_eq)

declare quote_runes.simps [simp del]

definition quote :: "string \<Rightarrow> string" where
  "quote s = CHR 0x22 # quote_runes s @ [CHR 0x22]"

fun hex4 :: "string \<Rightarrow> (nat \<times> string) option" where
  "hex4 (a # b # c # d # r) =
     (case (unhex a, unhex b, unhex c, unhex d) of
        (Some w, Some x, Some y, Some z) \<Rightarrow> Some (((w * 16 + x) * 16 + y) * 16 + z, r)
      | _ \<Rightarrow> None)"
| "hex4 _ = None"

text \<open>
  The rune after \<open>\u\<close>: a pair of surrogates is one rune, a lone surrogate is U+FFFD.
\<close>

definition u_rune :: "string \<Rightarrow> (string \<times> string) option" where
  "u_rune s =
     (case hex4 s of
        None \<Rightarrow> None
      | Some (n, r) \<Rightarrow>
          if 0xD800 \<le> n \<and> n < 0xDC00 \<and> take 2 r = [CHR 0x5C, CHR ''u''] then
            (case hex4 (drop 2 r) of
               Some (m, r') \<Rightarrow>
                 if 0xDC00 \<le> m \<and> m < 0xE000
                 then Some (utf8_encode (0x10000 + (n - 0xD800) * 1024 + (m - 0xDC00)), r')
                 else Some (replacement, r)
             | None \<Rightarrow> Some (replacement, r))
          else Some (utf8_encode n, r))"

definition simple_escape :: "char \<Rightarrow> char option" where
  "simple_escape c =
     (if c \<in> {CHR 0x22, CHR 0x5C, CHR ''/''} then Some c
      else if c = CHR ''b'' then Some (CHR 0x08)
      else if c = CHR ''f'' then Some (CHR 0x0C)
      else if c = CHR ''n'' then Some (CHR 0x0A)
      else if c = CHR ''r'' then Some (CHR 0x0D)
      else if c = CHR ''t'' then Some (CHR 0x09)
      else None)"

text \<open>One step inside a string literal: the bytes it stands for and the rest.\<close>

definition str_step :: "char \<Rightarrow> string \<Rightarrow> (string \<times> string) option" where
  "str_step c s =
     (if c = CHR 0x5C then
        (case s of
           [] \<Rightarrow> None
         | d # r \<Rightarrow>
             if d = CHR ''u'' then u_rune r
             else map_option (\<lambda>x. ([x], r)) (simple_escape d))
      else if (of_char c :: nat) < 0x20 then None
      else (let k = rune_width (c # s) in
            if k = 0 then Some (replacement, s) else Some (take k (c # s), drop k (c # s))))"

lemma hex4_shorter: "hex4 s = Some (n, r) \<Longrightarrow> length r < length s"
  by (induction s rule: hex4.induct) (auto split: option.splits prod.splits)

lemma u_rune_shorter: "u_rune s = Some (x, r) \<Longrightarrow> length r < length s"
  by (auto simp: u_rune_def split: option.splits prod.splits if_splits dest!: hex4_shorter)

lemma str_step_shorter: "str_step c s = Some (x, r) \<Longrightarrow> length r < Suc (length s)"
  by (auto simp: str_step_def Let_def split: list.splits if_splits dest!: u_rune_shorter)

function parse_str :: "string \<Rightarrow> (string \<times> string) option" where
  "parse_str s =
     (case s of
        [] \<Rightarrow> None
      | c # t \<Rightarrow>
          if c = CHR 0x22 then Some ([], t)
          else (case str_step c t of
                  None \<Rightarrow> None
                | Some (x, r) \<Rightarrow> map_option (\<lambda>(v, r'). (x @ v, r')) (parse_str r)))"
  by pat_completeness auto
termination by (relation "measure length") (auto dest: str_step_shorter)

declare parse_str.simps [simp del]

lemma parse_str_shorter: "parse_str s = Some (v, r) \<Longrightarrow> length r < length s"
proof (induction s arbitrary: v rule: parse_str.induct)
  case (1 s)
  then obtain c t where s: "s = c # t" by (cases s) (auto simp: parse_str.simps [of "[]"])
  show ?case
  proof (cases "c = CHR 0x22")
    case True
    with "1.prems" show ?thesis by (auto simp: s parse_str.simps [of "CHR 0x22 # t"])
  next
    case False
    with "1.prems" obtain x r0 v' where st: "str_step c t = Some (x, r0)"
      and rest: "parse_str r0 = Some (v', r)"
      by (auto simp: s parse_str.simps [of "c # t"] split: option.splits)
    from "1.IH" [OF s False st refl rest] str_step_shorter [OF st] show ?thesis by (simp add: s)
  qed
qed

section \<open>Numbers\<close>

definition is_digit :: "char \<Rightarrow> bool" where
  "is_digit c \<longleftrightarrow> CHR ''0'' \<le> c \<and> c \<le> CHR ''9''"

definition digit_char :: "nat \<Rightarrow> char" where
  "digit_char n = char_of (48 + n)"

definition digit_val :: "char \<Rightarrow> nat" where
  "digit_val c = of_char c - 48"

fun print_nat :: "nat \<Rightarrow> string" where
  "print_nat n = (if n < 10 then [digit_char n] else print_nat (n div 10) @ [digit_char (n mod 10)])"

declare print_nat.simps [simp del]

definition print_int :: "int \<Rightarrow> string" where
  "print_int n = (if n < 0 then CHR ''-'' # print_nat (nat (- n)) else print_nat (nat n))"

definition digits_val :: "string \<Rightarrow> nat" where
  "digits_val ds = foldl (\<lambda>n c. n * 10 + digit_val c) 0 ds"

text \<open>The fraction and the exponent of a number, with the rest of the text.\<close>

definition scan_fraction :: "string \<Rightarrow> (string \<times> string) option" where
  "scan_fraction s =
     (case s of
        c # r \<Rightarrow>
          if c = CHR ''.'' then
            (let ds = takeWhile is_digit r in
             if ds = [] then None else Some (c # ds, drop (length ds) r))
          else Some ([], s)
      | [] \<Rightarrow> Some ([], s))"

definition scan_exponent :: "string \<Rightarrow> (string \<times> string) option" where
  "scan_exponent s =
     (case s of
        c # r \<Rightarrow>
          if c = CHR ''e'' \<or> c = CHR ''E'' then
            (let pre = (case r of x # _ \<Rightarrow> if x = CHR ''+'' \<or> x = CHR ''-'' then [x] else [] | [] \<Rightarrow> []);
                 ds = takeWhile is_digit (drop (length pre) r) in
             if ds = [] then None
             else Some (c # pre @ ds, drop (length pre + length ds) r))
          else Some ([], s)
      | [] \<Rightarrow> Some ([], s))"

definition parse_number :: "string \<Rightarrow> (json \<times> string) option" where
  "parse_number s =
     (let pre = (case s of c # _ \<Rightarrow> if c = CHR ''-'' then [c] else [] | [] \<Rightarrow> []);
          body = drop (length pre) s;
          ds = takeWhile is_digit body in
      if ds = [] \<or> (hd ds = CHR ''0'' \<and> 1 < length ds) then None
      else (case scan_fraction (drop (length ds) body) of
              None \<Rightarrow> None
            | Some (frac, r) \<Rightarrow>
                (case scan_exponent r of
                   None \<Rightarrow> None
                 | Some (ex, r') \<Rightarrow>
                     if frac = [] \<and> ex = []
                     then Some (JNum (if pre = [] then int (digits_val ds) else - int (digits_val ds)), r')
                     else Some (JFloat (pre @ ds @ frac @ ex), r'))))"

section \<open>Documents\<close>

fun print_json :: "json \<Rightarrow> string" where
  "print_json JNull = ''null''"
| "print_json (JBool b) = (if b then ''true'' else ''false'')"
| "print_json (JNum n) = print_int n"
| "print_json (JFloat s) = s"
| "print_json (JStr s) = quote s"
| "print_json (JArr xs) = CHR ''['' # join '','' (map print_json xs) @ '']''"
| "print_json (JObj fs) =
     CHR ''{'' # join '','' (map (\<lambda>(k, v). quote k @ CHR '':'' # print_json v) fs) @ ''}''"

definition is_ws :: "char \<Rightarrow> bool" where
  "is_ws c \<longleftrightarrow> c \<in> {CHR 0x20, CHR 0x09, CHR 0x0A, CHR 0x0D}"

definition skip_ws :: "string \<Rightarrow> string" where
  "skip_ws s = dropWhile is_ws s"

lemma skip_ws_le: "length (skip_ws s) \<le> length s"
  by (simp add: skip_ws_def length_dropWhile_le)

lemma skip_ws_Cons_le: "skip_ws s = c # r \<Longrightarrow> length r < length s"
  using skip_ws_le [of s] by simp

definition literal :: "string \<Rightarrow> json \<Rightarrow> string \<Rightarrow> (json \<times> string) option" where
  "literal word v s = (if prefix word s then Some (v, drop (length word) s) else None)"

function (sequential)
  parse_value :: "string \<Rightarrow> (json \<times> string) option" and
  parse_elems :: "string \<Rightarrow> (json list \<times> string) option" and
  parse_members :: "string \<Rightarrow> (fields \<times> string) option"
where
  "parse_value s =
     (case skip_ws s of
        [] \<Rightarrow> None
      | c # r \<Rightarrow>
          if c = CHR 0x22 then map_option (\<lambda>(v, r'). (JStr v, r')) (parse_str r)
          else if c = CHR ''['' then
            (case skip_ws r of
               d # r' \<Rightarrow>
                 if d = CHR '']'' then Some (JArr [], r')
                 else map_option (\<lambda>(vs, r''). (JArr vs, r'')) (parse_elems r)
             | [] \<Rightarrow> None)
          else if c = CHR ''{'' then
            (case skip_ws r of
               d # r' \<Rightarrow>
                 if d = CHR ''}'' then Some (JObj [], r')
                 else map_option (\<lambda>(fs, r''). (JObj fs, r'')) (parse_members r)
             | [] \<Rightarrow> None)
          else if c = CHR ''n'' then literal ''null'' JNull (c # r)
          else if c = CHR ''t'' then literal ''true'' (JBool True) (c # r)
          else if c = CHR ''f'' then literal ''false'' (JBool False) (c # r)
          else parse_number (c # r))"
| "parse_elems s =
     (case parse_value s of
        None \<Rightarrow> None
      | Some (v, r) \<Rightarrow>
          if length r < length s then
            (case skip_ws r of
               c # r' \<Rightarrow>
                 if c = CHR '','' then map_option (\<lambda>(vs, r''). (v # vs, r'')) (parse_elems r')
                 else if c = CHR '']'' then Some ([v], r')
                 else None
             | [] \<Rightarrow> None)
          else None)"
| "parse_members s =
     (case skip_ws s of
        [] \<Rightarrow> None
      | q # t \<Rightarrow>
          if q \<noteq> CHR 0x22 then None
          else (case parse_str t of
             None \<Rightarrow> None
           | Some (k, r) \<Rightarrow>
               (case skip_ws r of
                  [] \<Rightarrow> None
                | c # r1 \<Rightarrow>
                    if c \<noteq> CHR '':'' then None
                    else (case parse_value r1 of
                       None \<Rightarrow> None
                     | Some (v, r2) \<Rightarrow>
                         if length r2 < length r1 then
                           (case skip_ws r2 of
                              d # r3 \<Rightarrow>
                                if d = CHR '','' then
                                  map_option (\<lambda>(fs, r''). ((k, v) # fs, r'')) (parse_members r3)
                                else if d = CHR ''}'' then Some ([(k, v)], r3)
                                else None
                            | [] \<Rightarrow> None)
                         else None))))"
  by pat_completeness auto
termination
proof (relation "measure (\<lambda>x. case x of
     Inl s \<Rightarrow> 2 * length s
   | Inr (Inl s) \<Rightarrow> 2 * length s + 1
   | Inr (Inr s) \<Rightarrow> 2 * length s + 1)", goal_cases)
qed (auto dest!: skip_ws_Cons_le parse_str_shorter)

declare parse_value.simps [simp del] parse_elems.simps [simp del] parse_members.simps [simp del]

text \<open>\<open>Unmarshal\<close> takes a whole document, a \<open>Decoder\<close> the first one of its stream.\<close>

definition json_parse :: "string \<Rightarrow> json option" where
  "json_parse s =
     (case parse_value s of
        None \<Rightarrow> None
      | Some (v, r) \<Rightarrow> if skip_ws r = [] then Some v else None)"

definition json_first :: "string \<Rightarrow> json option" where
  "json_first s = map_option fst (parse_value s)"

section \<open>The parser consumes text\<close>

lemma literal_shorter: "literal word v s = Some (x, r) \<Longrightarrow> word \<noteq> [] \<Longrightarrow> length r < length s"
  by (auto simp: literal_def prefix_def split: if_splits)

lemma scan_fraction_le: "scan_fraction s = Some (x, r) \<Longrightarrow> length r \<le> length s"
  by (auto simp: scan_fraction_def Let_def split: list.splits if_splits)

lemma scan_exponent_le: "scan_exponent s = Some (x, r) \<Longrightarrow> length r \<le> length s"
  by (auto simp: scan_exponent_def Let_def split: list.splits if_splits)

lemma parse_number_shorter:
  assumes "parse_number s = Some (v, r)"
  shows "length r < length s"
proof -
  define pre :: string where "pre = (case s of c # _ \<Rightarrow> if c = CHR ''-'' then [c] else [] | [] \<Rightarrow> [])"
  define body where "body = drop (length pre) s"
  define ds where "ds = takeWhile is_digit body"
  from assms obtain frac r1 ex where ne: "ds \<noteq> []"
    and f: "scan_fraction (drop (length ds) body) = Some (frac, r1)"
    and x: "scan_exponent r1 = Some (ex, r)"
    unfolding parse_number_def Let_def pre_def [symmetric] body_def [symmetric] ds_def [symmetric]
    by (auto split: if_splits option.splits)
  have "0 < length ds" using ne by simp
  moreover have "length ds \<le> length body" by (simp add: ds_def length_takeWhile_le)
  moreover have "length body \<le> length s" by (simp add: body_def)
  ultimately show ?thesis
    using scan_fraction_le [OF f] scan_exponent_le [OF x] unfolding length_drop by linarith
qed

lemma parse_shorter:
  "parse_value s = Some (v, r) \<Longrightarrow> length r < length s"
  "parse_elems s = Some (vs, r) \<Longrightarrow> length r < length s"
  "parse_members s = Some (fs, r) \<Longrightarrow> length r < length s"
proof (induction s and s and s arbitrary: v r and vs r and fs r
    rule: parse_value_parse_elems_parse_members.induct)
  case (1 s)
  from "1.prems" obtain c t where s: "skip_ws s = c # t"
    by (auto simp: parse_value.simps [of s] split: list.splits)
  note IH = "1.IH" [OF s] and le = skip_ws_Cons_le [OF s]
  have shorter: "skip_ws t = d # t' \<Longrightarrow> length t' < length s" for d t'
    using skip_ws_Cons_le [of t d t'] le by simp
  consider "c = CHR 0x22" | "c = CHR ''[''" | "c = CHR ''{''" | "c \<notin> {CHR 0x22, CHR ''['', CHR ''{''}"
    by auto
  then show ?case
  proof cases
    case 1
    with "1.prems" s le show ?thesis
      by (auto simp: parse_value.simps [of s] dest!: parse_str_shorter)
  next
    case 2
    with "1.prems" s le IH shorter show ?thesis
      by (auto simp: parse_value.simps [of s] split: list.splits if_splits) fastforce
  next
    case 3
    with "1.prems" s le IH shorter show ?thesis
      by (auto simp: parse_value.simps [of s] split: list.splits if_splits) fastforce
  next
    case 4
    have len: "length (c # t) \<le> length s" using le by simp
    from 4 "1.prems" s show ?thesis
      using len
      by (auto simp: parse_value.simps [of s] split: if_splits
          dest!: literal_shorter parse_number_shorter)
  qed
next
  case (2 s)
  from "2.prems" obtain v r1 where v: "parse_value s = Some (v, r1)" and l: "length r1 < length s"
    by (auto simp: parse_elems.simps [of s] split: option.splits if_splits)
  then obtain c t where t: "skip_ws r1 = c # t"
    using "2.prems" by (auto simp: parse_elems.simps [of s] split: list.splits)
  have lt: "length t < length s" using skip_ws_Cons_le [OF t] l by simp
  show ?case
  proof (cases "c = CHR '','' ")
    case True
    with "2.prems" v l t obtain vs' where "parse_elems t = Some (vs', r)"
      by (auto simp: parse_elems.simps [of s])
    from "2.IH"(2) [OF v refl l t True this] lt show ?thesis by simp
  next
    case False
    with "2.prems" v l t lt show ?thesis by (simp add: parse_elems.simps [of s] split: if_splits)
  qed
next
  case (3 s)
  obtain q t where q: "skip_ws s = q # t" "q = CHR 0x22"
    using "3.prems" by (auto simp: parse_members.simps [of s] split: list.splits if_splits)
  obtain k r1 where k: "parse_str t = Some (k, r1)"
    using "3.prems" q by (cases "parse_str t") (auto simp: parse_members.simps [of s])
  obtain c r2 where c: "skip_ws r1 = c # r2" "c = CHR '':''"
    using "3.prems" q k
    by (cases "skip_ws r1") (auto simp: parse_members.simps [of s] split: if_splits)
  obtain v r3 where v: "parse_value r2 = Some (v, r3)" "length r3 < length r2"
    using "3.prems" q k c
    by (cases "parse_value r2") (auto simp: parse_members.simps [of s] split: if_splits)
  obtain d r4 where d: "skip_ws r3 = d # r4"
    using "3.prems" q k c v by (cases "skip_ws r3") (auto simp: parse_members.simps [of s])
  have "length r4 < length s"
    using skip_ws_Cons_le [OF q(1)] parse_str_shorter [OF k] skip_ws_Cons_le [OF c(1)] v(2)
      skip_ws_Cons_le [OF d] by simp
  show ?case
  proof (cases "d = CHR '',''")
    case True
    with "3.prems" q k c v d obtain fs' where m: "parse_members r4 = Some (fs', r)"
      by (auto simp: parse_members.simps [of s])
    have "length r < length r4"
      by (rule "3.IH"(2) [OF q(1) _ k _ c(1) _ v(1) _ v(2) d True m]) (simp_all add: q c)
    with \<open>length r4 < length s\<close> show ?thesis by simp
  next
    case False
    with "3.prems" q k c v d \<open>length r4 < length s\<close> show ?thesis
      by (simp add: parse_members.simps [of s] split: if_splits)
  qed
qed

end
