(* ===== verification/JsonRound.thy ===== *)
theory JsonRound
  imports JsonText
begin

text \<open>
  The round trip of JSON documents whose numbers are integers: what is printed reads back as the
  document with the invalid bytes of its strings replaced, \<open>sane j\<close>, which is \<open>j\<close> itself when its
  strings are valid UTF-8.
\<close>

section \<open>Strings\<close>

lemma unhex_hex_digit [simp]: "n < 16 \<Longrightarrow> unhex (hex_digit n) = Some n"
  by (auto simp: unhex_def hex_digit_def Let_def of_char_of)

lemma hex_value:
  "a = n3 \<Longrightarrow> n2 = n3 * 16 + x \<Longrightarrow> n1 = n2 * 16 + y \<Longrightarrow> n = n1 * 16 + z \<Longrightarrow>
   ((a * 16 + x) * 16 + y) * 16 + z = (n :: nat)"
  by simp

lemma hex_digits_value:
  assumes "n < 65536"
  shows "((n div 4096 mod 16 * 16 + n div 256 mod 16) * 16 + n div 16 mod 16) * 16 + n mod 16 =
    (n :: nat)"
proof (rule hex_value)
  show "n div 4096 mod 16 = n div 4096" using assms by (simp add: less_mult_imp_div_less)
  show "n div 256 = n div 4096 * 16 + n div 256 mod 16"
    using div_mult_mod_eq [of "n div 256" 16] div_mult2_eq [of n 256 16] by simp
  show "n div 16 = n div 256 * 16 + n div 16 mod 16"
    using div_mult_mod_eq [of "n div 16" 16] div_mult2_eq [of n 16 16] by simp
  show "n = n div 16 * 16 + n mod 16" by (rule div_mult_mod_eq [symmetric])
qed

lemma hex4_u_escape:
  assumes "n < 65536"
  shows "hex4 (drop 2 (u_escape n) @ u) = Some (n, u)"
proof -
  have d: "drop 2 (u_escape n) @ u = hex_digit (n div 4096 mod 16) # hex_digit (n div 256 mod 16) #
      hex_digit (n div 16 mod 16) # hex_digit (n mod 16) # u"
    by (simp add: u_escape_def)
  have "k mod 16 < 16" for k :: nat by simp
  note u = unhex_hex_digit [OF this]
  show ?thesis by (simp only: d hex4.simps u option.case prod.case hex_digits_value [OF assms])
qed

lemma str_step_u:
  assumes "n < 0xD800 \<or> 0xE000 \<le> n" "n < 65536"
  shows "str_step (CHR 0x5C) (tl (u_escape n) @ u) = Some (utf8_encode n, u)"
proof -
  have "tl (u_escape n) @ u = CHR ''u'' # (drop 2 (u_escape n) @ u)"
    by (simp add: u_escape_def)
  moreover have "u_rune (drop 2 (u_escape n) @ u) = Some (utf8_encode n, u)"
    using assms hex4_u_escape [of n u] by (auto simp: u_rune_def)
  ultimately show ?thesis by (simp add: str_step_def)
qed

lemma u_escape_hd: "u_escape n = CHR 0x5C # tl (u_escape n)"
  by (simp add: u_escape_def)

lemma parse_str_step:
  "c \<noteq> CHR 0x22 \<Longrightarrow> str_step c t = Some (x, u) \<Longrightarrow>
   parse_str (c # t) = map_option (\<lambda>(v, r). (x @ v, r)) (parse_str u)"
  by (simp add: parse_str.simps [of "c # t"])

lemma parse_u_escape:
  "n < 0xD800 \<or> 0xE000 \<le> n \<Longrightarrow> n < 65536 \<Longrightarrow>
   parse_str (u_escape n @ u) = map_option (\<lambda>(v, r). (utf8_encode n @ v, r)) (parse_str u)"
  by (subst u_escape_hd) (simp add: parse_str_step str_step_u)

lemma utf8_1_Cons: "utf8_1 (c # s) \<longleftrightarrow> (of_char c :: nat) < 128"
  by (auto simp: utf8_1_def byte_in_def)

lemma parse_quote_ascii:
  assumes "(of_char c :: nat) < 128"
  shows "parse_str (quote_ascii c @ u) = map_option (\<lambda>(v, r). ([c] @ v, r)) (parse_str u)"
proof -
  have w: "rune_width (c # u) = 1" using assms by (simp add: rune_width_def utf8_1_Cons)
  show ?thesis
  proof (cases "c \<in> {CHR 0x22, CHR 0x5C, CHR 0x08, CHR 0x0C, CHR 0x0A, CHR 0x0D, CHR 0x09}")
    case True
    then have "\<exists>d. quote_ascii c = [CHR 0x5C, d] \<and> d \<noteq> CHR ''u'' \<and> simple_escape d = Some c"
      by (auto simp: quote_ascii_def simple_escape_def)
    then obtain d where d: "quote_ascii c = [CHR 0x5C, d]" "d \<noteq> CHR ''u''" "simple_escape d = Some c"
      by blast
    then have "str_step (CHR 0x5C) (d # u) = Some ([c], u)" by (simp add: str_step_def)
    with d show ?thesis by (simp add: parse_str_step)
  next
    case False
    show ?thesis
    proof (cases "(of_char c :: nat) < 0x20 \<or> c \<in> {CHR ''<'', CHR ''>'', CHR ''&''}")
      case True
      with False have "quote_ascii c = u_escape (of_char c)" by (simp add: quote_ascii_def)
      then show ?thesis
        using assms parse_u_escape [of "of_char c" u] by (simp add: utf8_encode_def)
    next
      case small: False
      with False have "quote_ascii c = [c]" by (simp add: quote_ascii_def)
      moreover have "str_step c u = Some ([c], u)"
        using False small w by (simp add: str_step_def Let_def)
      ultimately show ?thesis using False by (simp add: parse_str_step)
    qed
  qed
qed

lemma utf8_encode_separators:
  "utf8_encode 0x2028 = [CHR 0xE2, CHR 0x80, CHR 0xA8]"
  "utf8_encode 0x2029 = [CHR 0xE2, CHR 0x80, CHR 0xA9]"
  by (simp_all add: utf8_encode_def char_eq_iff of_char_of)

lemma parse_multibyte:
  assumes "rune_width s = k" "2 \<le> k"
  shows "parse_str (take k s @ u) = map_option (\<lambda>(v, r). (take k s @ v, r)) (parse_str u)"
proof -
  have len: "k \<le> length s" using rune_width_le [of s] assms(1) by simp
  then obtain c t where s: "s = c # t" using assms(2) by (cases s) auto
  have "\<not> utf8_1 s" using assms by (auto simp: rune_width_def)
  then have big: "\<not> (of_char c :: nat) < 128" by (simp add: s utf8_1_Cons)
  then have c: "c \<noteq> CHR 0x22" "c \<noteq> CHR 0x5C" "\<not> (of_char c :: nat) < 0x20" by auto
  obtain j where k: "k = Suc j" "1 \<le> j" using assms(2) by (cases k) auto
  have tk: "take k s = c # take (k - 1) t" by (simp add: s k)
  have w: "rune_width (c # take (k - 1) t @ u) = k"
    using rune_width_take [OF assms(1), of u] assms(2) by (simp add: tk)
  have "take k (c # take (k - 1) t @ u) = take k s" "drop k (c # take (k - 1) t @ u) = u"
    using len by (simp_all add: s k)
  then have "str_step c (take (k - 1) t @ u) = Some (take k s, u)"
    using c w assms(2) by (simp add: str_step_def Let_def)
  with c show ?thesis by (simp add: tk parse_str_step)
qed

text \<open>Every byte that begins no rune is printed, and so read back, as U+FFFD.\<close>

function to_utf8 :: "string \<Rightarrow> string" where
  "to_utf8 s =
     (if s = [] then []
      else if rune_width s = 0 then replacement @ to_utf8 (tl s)
      else take (rune_width s) s @ to_utf8 (drop (rune_width s) s))"
  by pat_completeness auto
termination by (relation "measure length") (auto simp: Suc_le_eq)

declare to_utf8.simps [simp del]

lemma to_utf8_Nil [simp]: "to_utf8 [] = []"
  by (simp add: to_utf8.simps)

lemma to_utf8_empty [simp]: "to_utf8 s = [] \<longleftrightarrow> s = []"
  by (simp add: to_utf8.simps [of s] replacement_def)

lemma to_utf8_id: "utf8_valid s \<Longrightarrow> to_utf8 s = s"
proof (induction s rule: utf8_valid.induct)
  case (1 s)
  then show ?case
    by (auto simp: utf8_valid.simps [of s] to_utf8.simps [of s] split: if_splits)
qed

lemma utf8_valid_chunk:
  assumes "rune_width s = k" "k \<noteq> 0" "utf8_valid t"
  shows "utf8_valid (take k s @ t)"
proof -
  have "length (take k s) = k" using rune_width_le [of s] assms by simp
  with rune_width_take [OF assms(1,2), of t] assms(2,3) show ?thesis
    by (simp add: utf8_valid.simps [of "take k s @ t"])
qed

lemma utf8_valid_to_utf8: "utf8_valid (to_utf8 s)"
proof (induction s rule: to_utf8.induct)
  case (1 s)
  have "rune_width replacement = 3" "take 3 replacement = replacement" by code_simp+
  with 1 utf8_valid_chunk [of replacement 3] utf8_valid_chunk [of s "rune_width s"] show ?case
    by (auto simp: to_utf8.simps [of s] utf8_valid.simps [of "[]"])
qed

lemma utf8_encode_replacement: "utf8_encode 0xFFFD = replacement"
  by (simp add: utf8_encode_def replacement_def char_eq_iff of_char_of)

lemma parse_quote_runes: "parse_str (quote_runes s @ CHR 0x22 # rest) = Some (to_utf8 s, rest)"
proof (induction s rule: to_utf8.induct)
  case (1 s)
  show ?case
  proof (cases "s = []")
    case True
    then show ?thesis by (simp add: quote_runes.simps [of "[]"] parse_str.simps [of "CHR 0x22 # rest"])
  next
    case False
    let ?k = "rune_width s"
    show ?thesis
    proof (cases "?k = 0")
      case True
      with "1.IH"(1) False show ?thesis
        by (simp add: quote_runes.simps [of s] to_utf8.simps [of s] parse_u_escape utf8_encode_replacement)
    next
      case k: False
      note IH = "1.IH"(2) [OF False k]
      let ?u = "quote_runes (drop ?k s) @ CHR 0x22 # rest"
      have chunk: "parse_str (chunk @ ?u) = Some (to_utf8 s, rest)"
        if "parse_str (chunk @ ?u) = map_option (\<lambda>(v, r). (take ?k s @ v, r)) (parse_str ?u)" for chunk
        using that IH False k by (simp add: to_utf8.simps [of s])
      consider "?k = 1" | "2 \<le> ?k" "take ?k s = utf8_encode 0x2028"
        | "2 \<le> ?k" "take ?k s = utf8_encode 0x2029"
        | "2 \<le> ?k" "take ?k s \<notin> {utf8_encode 0x2028, utf8_encode 0x2029}"
        using k by force
      then show ?thesis
      proof cases
        case 1
        then obtain c t where c: "s = c # t" by (cases s) auto
        with 1 have "(of_char c :: nat) < 128"
          by (auto simp: rune_width_def utf8_1_Cons split: if_splits)
        then have "parse_str (quote_ascii c @ ?u) = Some (to_utf8 s, rest)"
          using parse_quote_ascii 1 c by (intro chunk) simp
        with 1 c show ?thesis by (simp add: quote_runes.simps [of "c # t"])
      next
        case 2
        have "parse_str (u_escape 0x2028 @ ?u) = Some (to_utf8 s, rest)"
          using 2 by (intro chunk) (simp add: parse_u_escape)
        with 2 False show ?thesis by (simp add: quote_runes.simps [of s] utf8_encode_separators)
      next
        case 3
        have "parse_str (u_escape 0x2029 @ ?u) = Some (to_utf8 s, rest)"
          using 3 by (intro chunk) (simp add: parse_u_escape)
        with 3 False show ?thesis by (simp add: quote_runes.simps [of s] utf8_encode_separators)
      next
        case 4
        have "parse_str (take ?k s @ ?u) = Some (to_utf8 s, rest)"
          using 4 by (intro chunk parse_multibyte) simp_all
        with 4 False show ?thesis by (simp add: quote_runes.simps [of s] utf8_encode_separators)
      qed
    qed
  qed
qed

section \<open>Numbers\<close>

definition num_end :: "string \<Rightarrow> bool" where
  "num_end s \<longleftrightarrow>
     (case s of [] \<Rightarrow> True | c # _ \<Rightarrow> \<not> is_digit c \<and> c \<notin> {CHR ''.'', CHR ''e'', CHR ''E''})"

lemma digit_char [simp]: "n < 10 \<Longrightarrow> is_digit (digit_char n)" "n < 10 \<Longrightarrow> digit_val (digit_char n) = n"
  by (simp_all add: digit_char_def is_digit_def digit_val_def less_eq_char_def of_char_of)

lemma digit_char_eq: "m < 10 \<Longrightarrow> n < 10 \<Longrightarrow> digit_char m = digit_char n \<longleftrightarrow> m = n"
  by (metis digit_char(2))

lemma print_nat_digits: "c \<in> set (print_nat n) \<Longrightarrow> is_digit c"
proof (induction n rule: print_nat.induct)
  case (1 n)
  then show ?case by (cases "n < 10") (auto simp: print_nat.simps [of n])
qed

lemma print_nat_ne [simp]: "print_nat n \<noteq> []"
  by (subst print_nat.simps) simp

lemma digits_val_snoc: "digits_val (ds @ [c]) = digits_val ds * 10 + digit_val c"
  by (simp add: digits_val_def)

lemma digits_val_print: "digits_val (print_nat n) = n"
proof (induction n rule: print_nat.induct)
  case (1 n)
  then show ?case
    by (cases "n < 10") (simp_all add: print_nat.simps [of n] digits_val_snoc,
        simp_all add: digits_val_def)
qed

lemma print_nat_hd: "hd (print_nat n) = CHR ''0'' \<longleftrightarrow> n = 0"
proof (induction n rule: print_nat.induct)
  case (1 n)
  have "CHR ''0'' = digit_char 0" by (simp add: digit_char_def char_eq_iff of_char_of)
  with 1 show ?case
    by (cases "n < 10") (auto simp: print_nat.simps [of n] digit_char_eq)
qed

lemma print_nat_zero: "print_nat 0 = ''0''"
  by (simp add: print_nat.simps [of 0] digit_char_def char_eq_iff of_char_of)

lemma takeWhile_print: "num_end r \<Longrightarrow> takeWhile is_digit (print_nat n @ r) = print_nat n"
proof -
  assume "num_end r"
  then have "takeWhile is_digit r = []" by (auto simp: num_end_def split: list.splits)
  then show ?thesis by (simp add: takeWhile_append2 print_nat_digits)
qed

lemma scan_end: "num_end r \<Longrightarrow> scan_fraction r = Some ([], r) \<and> scan_exponent r = Some ([], r)"
  by (auto simp: num_end_def scan_fraction_def scan_exponent_def split: list.splits)

lemma print_nat_no_minus: "hd (print_nat n) \<noteq> CHR ''-''"
  using print_nat_digits [of "hd (print_nat n)" n] by (auto simp: is_digit_def)

lemma parse_digits:
  assumes "num_end r" "pre = [] \<or> pre = ''-''"
  shows "parse_number (pre @ print_nat m @ r) =
    Some (JNum (if pre = [] then int m else - int m), r)"
proof -
  obtain c t where c: "print_nat m = c # t" by (cases "print_nat m") auto
  then have "c \<noteq> CHR ''-''" using print_nat_no_minus [of m] by simp
  then have pre: "(case pre @ print_nat m @ r of c # _ \<Rightarrow> if c = CHR ''-'' then [c] else [] | [] \<Rightarrow> [])
      = pre"
    using assms(2) c by auto
  have lead: "\<not> (hd (print_nat m) = CHR ''0'' \<and> 1 < length (print_nat m))"
    using print_nat_zero by (auto simp: print_nat_hd)
  show ?thesis
    unfolding parse_number_def Let_def pre
    using lead takeWhile_print [OF assms(1), of m] scan_end [OF assms(1)]
    by (simp add: digits_val_print)
qed

lemma parse_print_int: "num_end r \<Longrightarrow> parse_number (print_int n @ r) = Some (JNum n, r)"
  using parse_digits [of r "''-''" "nat (- n)"] parse_digits [of r "[]" "nat n"]
  by (simp add: print_int_def)

section \<open>Documents\<close>

fun plain :: "json \<Rightarrow> bool" where
  "plain (JStr s) \<longleftrightarrow> utf8_valid s"
| "plain (JFloat s) \<longleftrightarrow> False"
| "plain (JArr xs) \<longleftrightarrow> (\<forall>x \<in> set xs. plain x)"
| "plain (JObj fs) \<longleftrightarrow> (\<forall>f \<in> set fs. utf8_valid (fst f) \<and> plain (snd f))"
| "plain _ \<longleftrightarrow> True"

text \<open>Documents that print, and what is read back.\<close>

fun printable :: "json \<Rightarrow> bool" where
  "printable (JFloat s) \<longleftrightarrow> False"
| "printable (JArr xs) \<longleftrightarrow> (\<forall>x \<in> set xs. printable x)"
| "printable (JObj fs) \<longleftrightarrow> (\<forall>f \<in> set fs. printable (snd f))"
| "printable _ \<longleftrightarrow> True"

fun sane :: "json \<Rightarrow> json" where
  "sane (JStr s) = JStr (to_utf8 s)"
| "sane (JArr xs) = JArr (map sane xs)"
| "sane (JObj fs) = JObj (map (\<lambda>f. (to_utf8 (fst f), sane (snd f))) fs)"
| "sane j = j"

lemma plain_sane: "plain j \<Longrightarrow> printable j \<and> sane j = j"
proof (induction j)
  case (JArr xs)
  then show ?case by (auto intro: map_idI)
next
  case (JObj fs)
  have "printable (snd f) \<and> sane (snd f) = snd f" if "f \<in> set fs" for f
    using JObj.prems JObj.IH [of f "snd f"] that by (cases f) (auto simp: snds.simps)
  with JObj.prems show ?case by (auto intro!: map_idI simp: to_utf8_id)
qed (simp_all add: to_utf8_id)

lemma skip_ws_Cons [simp]: "\<not> is_ws c \<Longrightarrow> skip_ws (c # s) = c # s"
  by (simp add: skip_ws_def)

lemma is_ws_digit: "is_digit c \<Longrightarrow> \<not> is_ws c \<and> c \<notin> {CHR 0x22, CHR ''['', CHR '']'', CHR ''{'', CHR ''}'', CHR ''n'', CHR ''t'', CHR ''f''}"
  by (auto simp: is_digit_def is_ws_def)

lemma is_ws_minus:
  "\<not> is_ws (CHR ''-'') \<and> CHR ''-'' \<notin> {CHR 0x22, CHR ''['', CHR '']'', CHR ''{'', CHR ''}'', CHR ''n'', CHR ''t'', CHR ''f''}"
  by (simp add: is_ws_def)

lemma print_int_head:
  obtains c t where "print_int n = c # t" "is_digit c \<or> c = CHR ''-''"
proof (cases "n < 0")
  case True
  with that show thesis by (simp add: print_int_def)
next
  case False
  obtain c t where "print_nat (nat n) = c # t" by (cases "print_nat (nat n)") auto
  with False that print_nat_digits [of c "nat n"] show thesis by (simp add: print_int_def)
qed

lemma print_json_head:
  assumes "printable j"
  obtains c t where "print_json j = c # t" "\<not> is_ws c" "c \<notin> {CHR '']'', CHR ''}''}"
proof (cases j)
  case (JNum n)
  obtain c t where c: "print_int n = c # t" "is_digit c \<or> c = CHR ''-''" by (rule print_int_head)
  show thesis
  proof (rule that)
    show "print_json j = c # t" using JNum c by simp
    show "\<not> is_ws c" "c \<notin> {CHR '']'', CHR ''}''}"
      using c(2) is_ws_digit [of c] is_ws_minus by blast+
  qed
next
  case (JBool b)
  then show thesis by (cases b) (auto simp: is_ws_def intro: that)
next
  case (JFloat s)
  with assms show thesis by simp
qed (auto simp: is_ws_def quote_def intro: that)

lemma parse_value_int: "num_end r \<Longrightarrow> parse_value (print_int n @ r) = Some (JNum n, r)"
proof -
  assume r: "num_end r"
  obtain c t where c: "print_int n = c # t" "is_digit c \<or> c = CHR ''-''" by (rule print_int_head)
  have nws: "\<not> is_ws c"
    and ne: "c \<notin> {CHR 0x22, CHR ''['', CHR ''{'', CHR ''n'', CHR ''t'', CHR ''f''}"
    using c(2) is_ws_digit [of c] is_ws_minus by blast+
  have "parse_value (c # t @ r) = parse_number (c # t @ r)"
    using nws ne by (simp add: parse_value.simps [of "c # t @ r"])
  with parse_print_int [OF r, of n] c show ?thesis by simp
qed

lemma parse_quote: "\<exists>t. quote s @ r = CHR 0x22 # t \<and> parse_str t = Some (to_utf8 s, r)"
  by (simp add: quote_def parse_quote_runes)

lemma num_end_punct: "num_end (CHR '','' # s)" "num_end (CHR '']'' # s)" "num_end (CHR ''}'' # s)"
  by (simp_all add: num_end_def is_digit_def)

lemma not_ws_punct [simp]:
  "\<not> is_ws (CHR '','')" "\<not> is_ws (CHR '']'')" "\<not> is_ws (CHR ''}'')" "\<not> is_ws (CHR '':'')"
  "\<not> is_ws (CHR 0x22)" "\<not> is_ws (CHR ''['')" "\<not> is_ws (CHR ''{'')" "\<not> is_ws (CHR ''n'')"
  "\<not> is_ws (CHR ''t'')" "\<not> is_ws (CHR ''f'')"
  by (simp_all add: is_ws_def)

lemma parse_elems_print:
  assumes "xs \<noteq> []"
    and "\<And>x r. x \<in> set xs \<Longrightarrow> num_end r \<Longrightarrow> parse_value (print_json x @ r) = Some (g x, r)"
  shows "parse_elems (join '','' (map print_json xs) @ CHR '']'' # r) = Some (map g xs, r)"
  using assms
proof (induction "'',''" "map print_json xs" arbitrary: xs rule: join.induct)
  case (2 s)
  then obtain x where xs: "xs = [x]" by auto
  let ?s = "print_json x @ CHR '']'' # r"
  have v: "parse_value ?s = Some (g x, CHR '']'' # r)" using 2 xs by (simp add: num_end_punct)
  from parse_shorter(1) [OF v] show ?case
    by (simp add: xs parse_elems.simps [of ?s] v)
next
  case (3 s u ss)
  then obtain x ys where xs: "xs = x # ys" "ys \<noteq> []" "map print_json ys = u # ss" by auto
  let ?rest = "join '','' (map print_json ys) @ CHR '']'' # r"
  let ?s = "print_json x @ CHR '','' # ?rest"
  have v: "parse_value ?s = Some (g x, CHR '','' # ?rest)" using 3 xs by (simp add: num_end_punct)
  have "parse_elems ?rest = Some (map g ys, r)"
    using 3(1) [of ys] xs "3.prems" by auto
  with parse_shorter(1) [OF v] have "parse_elems ?s = Some (g x # map g ys, r)"
    by (simp add: parse_elems.simps [of ?s] v)
  then show ?case using xs by simp
qed simp

definition print_field :: "string \<times> json \<Rightarrow> string" where
  "print_field f = quote (fst f) @ CHR '':'' # print_json (snd f)"

lemma parse_field:
  assumes "parse_value (print_json v @ c # r) = Some (v', c # r)" "\<not> is_ws c"
  shows "parse_members (print_field (k, v) @ c # r) =
    (if c = CHR '','' then map_option (\<lambda>(fs, r'). ((to_utf8 k, v') # fs, r')) (parse_members r)
     else if c = CHR ''}'' then Some ([(to_utf8 k, v')], r) else None)"
proof -
  let ?tail = "CHR '':'' # print_json v @ c # r"
  obtain t where t: "quote k @ ?tail = CHR 0x22 # t" "parse_str t = Some (to_utf8 k, ?tail)"
    using parse_quote by blast
  have s: "print_field (k, v) @ c # r = CHR 0x22 # t" using t by (simp add: print_field_def)
  show ?thesis
    unfolding s
    using parse_shorter(1) [OF assms(1)] assms
    by (simp add: parse_members.simps [of "CHR 0x22 # t"] t(2))
qed

lemma parse_members_print:
  assumes "fs \<noteq> []"
    and "\<And>f r. f \<in> set fs \<Longrightarrow> num_end r \<Longrightarrow>
           parse_value (print_json (snd f) @ r) = Some (g (snd f), r)"
  shows "parse_members (join '','' (map print_field fs) @ CHR ''}'' # r) = Some (map (\<lambda>f. (to_utf8 (fst f), g (snd f))) fs, r)"
  using assms
proof (induction "'',''" "map print_field fs" arbitrary: fs rule: join.induct)
  case (2 s)
  then obtain k v where fs: "fs = [(k, v)]" by auto
  with 2 parse_field [of v "CHR ''}''" r "g v" k] show ?case by (simp add: num_end_punct)
next
  case (3 s u ss)
  then obtain k v gs where fs: "fs = (k, v) # gs" "gs \<noteq> []" "map print_field gs = u # ss" by auto
  let ?rest = "join '','' (map print_field gs) @ CHR ''}'' # r"
  let ?gs = "map (\<lambda>f. (to_utf8 (fst f), g (snd f))) gs"
  have "parse_members ?rest = Some (?gs, r)"
    using 3(1) [of gs] fs "3.prems" by auto
  moreover have "parse_value (print_json v @ CHR '','' # ?rest) = Some (g v, CHR '','' # ?rest)"
    using "3.prems"(2) [of "(k, v)"] fs by (simp add: num_end_punct)
  ultimately have "parse_members (print_field (k, v) @ CHR '','' # ?rest) =
      Some ((to_utf8 k, g v) # ?gs, r)"
    by (simp add: parse_field)
  then show ?case using fs by simp
qed simp

lemma print_json_obj:
  "print_json (JObj fs) = CHR ''{'' # join '','' (map print_field fs) @ ''}''"
  by (simp add: print_field_def case_prod_beta' cong: map_cong)

lemma join_head: "xs \<noteq> [] \<Longrightarrow> hd xs = c # t \<Longrightarrow> \<exists>u. join sep xs @ r = c # u"
  by (induction sep xs rule: join.induct) auto

lemma parse_print_value: 
  "printable j \<Longrightarrow> num_end r \<Longrightarrow> parse_value (print_json j @ r) = Some (sane j, r)"
proof (induction j arbitrary: r)
  case (JStr s)
  then obtain t where t: "quote s @ r = CHR 0x22 # t" "parse_str t = Some (to_utf8 s, r)"
    using parse_quote by blast
  then show ?case by (simp add: parse_value.simps [of "CHR 0x22 # t"])
next
  case (JArr xs)
  show ?case
  proof (cases "xs = []")
    case True
    then show ?thesis by (simp add: parse_value.simps [of "CHR ''['' # CHR '']'' # r"])
  next
    case False
    then obtain c t where "print_json (hd xs) = c # t" and c: "\<not> is_ws c" "c \<notin> {CHR '']'', CHR ''}''}"
      using JArr.prems print_json_head [of "hd xs"] by auto
    then obtain u where u: "join '','' (map print_json xs) @ CHR '']'' # r = c # u"
      using False join_head [of "map print_json xs" c t "'',''" "CHR '']'' # r"] by (auto simp: hd_map)
    have "parse_elems (join '','' (map print_json xs) @ CHR '']'' # r) = Some (map sane xs, r)"
      using False JArr by (intro parse_elems_print) auto
    with u c show ?thesis by (simp add: parse_value.simps [of "CHR ''['' # c # u"])
  qed
next
  case (JObj fs)
  show ?case
  proof (cases "fs = []")
    case True
    then show ?thesis by (simp add: parse_value.simps [of "CHR ''{'' # CHR ''}'' # r"])
  next
    case False
    then have "hd (map print_field fs) = CHR 0x22 # tl (print_field (hd fs))"
      by (simp add: hd_map print_field_def quote_def)
    then obtain u where u: "join '','' (map print_field fs) @ CHR ''}'' # r = CHR 0x22 # u"
      using False join_head [of "map print_field fs" _ _ "'',''" "CHR ''}'' # r"] by auto
    have "parse_members (join '','' (map print_field fs) @ CHR ''}'' # r) =
        Some (map (\<lambda>f. (to_utf8 (fst f), sane (snd f))) fs, r)"
    proof (rule parse_members_print [OF False])
      show "parse_value (print_json (snd f) @ r') = Some (sane (snd f), r')"
        if "f \<in> set fs" "num_end r'" for f r'
        using that JObj.prems JObj.IH [of f "snd f" r'] by (cases f) (auto simp: snds.simps)
    qed
    with u show ?thesis
      unfolding print_json_obj by (simp add: parse_value.simps [of "CHR ''{'' # CHR 0x22 # u"])
  qed
qed (auto simp: parse_value_int parse_value.simps [of "CHR ''n'' # _"]
      parse_value.simps [of "CHR ''t'' # _"] parse_value.simps [of "CHR ''f'' # _"] literal_def)

lemma json_reread: "printable j \<Longrightarrow> json_parse (print_json j) = Some (sane j)"
  using parse_print_value [of j "[]"] by (simp add: json_parse_def num_end_def skip_ws_def)

lemma json_roundtrip: "plain j \<Longrightarrow> json_parse (print_json j) = Some j"
  by (simp add: json_reread plain_sane)

lemma json_first_print: "plain j \<Longrightarrow> num_end r \<Longrightarrow> json_first (print_json j @ r) = Some j"
  by (simp add: json_first_def parse_print_value plain_sane)

lemma print_json_ne: "plain j \<Longrightarrow> print_json j \<noteq> []"
  by (drule plain_sane) (auto elim: print_json_head)

section \<open>ASCII strings are valid UTF-8\<close>

lemma utf8_valid_ascii: "\<forall>c \<in> set s. (of_char c :: nat) < 128 \<Longrightarrow> utf8_valid s"
proof (induction s)
  case Nil
  show ?case by (simp add: utf8_valid.simps [of "[]"])
next
  case (Cons c s)
  then have "rune_width (c # s) = 1" by (simp add: rune_width_def utf8_1_Cons)
  with Cons show ?case by (simp add: utf8_valid.simps [of "c # s"])
qed

lemma utf8_valid_Nil [simp]: "utf8_valid []"
  by (simp add: utf8_valid.simps)

end
