(* ===== verification/World.thy ===== *)
theory World
  imports Domain JsonRound
begin

text \<open>
  The machine the program runs on. What lies outside the program is a parameter, the record
  \<open>machine\<close>: the readings of the clock, the random bytes, which statements the SQLite engine fails,
  what Meta answers to a request (it may depend on every request before it), when the request's
  context is cancelled, the cryptographic primitives, and the parser of \<open>net/url\<close>. Nothing is
  assumed of them here; a theorem that relies on one of them says so.

  The \<open>world\<close> is what changes: the database, how many readings of each kind were taken, and the
  requests sent to Meta so far, oldest first, with the delays waited between retries.
\<close>

section \<open>Database tables\<close>

text \<open>
  One record per row, with the column types of the migrations: blobs and texts are byte strings,
  times are Unix seconds, a nullable text is an option. A table is the list of its rows.
\<close>

record tenant_row =
  tr_id :: string
  tr_meta_user_id :: string
  tr_display_name :: string
  tr_user_token_enc :: string
  tr_created_at :: int
  tr_updated_at :: int
  tr_user_token_expires_at :: int

record page_row =
  pg_tenant_id :: string
  pg_page_id :: string
  pg_name :: string
  pg_ig_user_id :: "string option"
  pg_ig_username :: "string option"
  pg_page_token_enc :: string
  pg_synced_at :: int

record client_row =
  cr_client_id :: string
  cr_client_name :: string
  cr_redirect_uris :: string
  cr_created_at :: int

record code_row =
  co_code :: string
  co_client_id :: string
  co_tenant_id :: string
  co_redirect_uri :: string
  co_code_challenge :: string
  co_resource :: "string option"
  co_expires_at :: int

record refresh_row =
  rr_token_hash :: string
  rr_client_id :: string
  rr_tenant_id :: string
  rr_expires_at :: int
  rr_revoked :: bool

record login_row =
  lr_state :: string
  lr_oauth_request :: string
  lr_expires_at :: int

record database =
  tenants :: "tenant_row list"
  pages :: "page_row list"
  oauth_clients :: "client_row list"
  oauth_codes :: "code_row list"
  oauth_refresh_tokens :: "refresh_row list"
  login_states :: "login_row list"

definition empty_db :: database where
  "empty_db = \<lparr>tenants = [], pages = [], oauth_clients = [], oauth_codes = [],
     oauth_refresh_tokens = [], login_states = []\<rparr>"

section \<open>Requests to Meta\<close>

datatype http_method = GET | POST

record http_request =
  hr_method :: http_method
  hr_url :: string
  hr_params :: "values"

text \<open>
  What sending a request yields: a transport failure, a body that cannot be read, or an answer
  with its status, its body and the \<open>Retry-After\<close> header (empty when absent).
\<close>

datatype http_answer =
    NoAnswer
  | BrokenBody
  | Answer (an_status: int) (an_body: string) (an_retry_after: string)

record url =
  u_scheme :: string
  u_host :: string
  u_hostname :: string
  u_fragment :: string
  u_raw_query :: string
  u_rest :: string \<comment> \<open>what the program passes through: path, user information\<close>

record machine =
  mc_clock :: "nat \<Rightarrow> instant"
  mc_rand :: "nat \<Rightarrow> nat \<Rightarrow> string option" \<comment> \<open>the n-th read, of so many bytes\<close>
  mc_sql_fails :: "nat \<Rightarrow> bool" \<comment> \<open>whether the n-th statement fails\<close>
  mc_ctx_done :: "nat \<Rightarrow> bool" \<comment> \<open>whether the n-th look at the context finds it cancelled\<close>
  mc_meta :: "http_request list \<Rightarrow> http_request \<Rightarrow> http_answer"
  mc_hmac :: "string \<Rightarrow> string \<Rightarrow> string" \<comment> \<open>HMAC-SHA256 of key and message\<close>
  mc_sha256 :: "string \<Rightarrow> string"
  mc_seal :: "string \<Rightarrow> string \<Rightarrow> string" \<comment> \<open>AES-256-GCM: nonce and plaintext\<close>
  mc_open :: "string \<Rightarrow> string \<Rightarrow> string option"
  mc_url_parse :: "string \<Rightarrow> url option"
  mc_url_string :: "url \<Rightarrow> string"

record world =
  db :: database
  n_clock :: nat
  n_rand :: nat
  n_sql :: nat
  n_ctx :: nat
  requests :: "http_request list"
  sleeps :: "duration list"

type_synonym 'a io = "(world, 'a res) state"

section \<open>Effects\<close>

definition clock_now :: "machine \<Rightarrow> (world, instant) state" where
  "clock_now e = State (\<lambda>w. (mc_clock e (n_clock w), w\<lparr>n_clock := Suc (n_clock w)\<rparr>))"

definition rand_read :: "machine \<Rightarrow> nat \<Rightarrow> string io" where
  "rand_read e k = State (\<lambda>w.
     (case mc_rand e (n_rand w) k of None \<Rightarrow> Inl ErrRand | Some bs \<Rightarrow> Inr bs,
      w\<lparr>n_rand := Suc (n_rand w)\<rparr>))"

definition ctx_err :: "machine \<Rightarrow> unit io" where
  "ctx_err e = State (\<lambda>w.
     (if mc_ctx_done e (n_ctx w) then Inl ErrContext else Inr (), w\<lparr>n_ctx := Suc (n_ctx w)\<rparr>))"

text \<open>
  \<^verbatim>\<open>select { case <-ctx.Done(): return ctx.Err(); case <-time.After(delay): }\<close>
\<close>

definition sleep_or_done :: "machine \<Rightarrow> duration \<Rightarrow> unit io" where
  "sleep_or_done e delay = State (\<lambda>w.
     (if mc_ctx_done e (n_ctx w) then Inl ErrContext else Inr (),
      w\<lparr>n_ctx := Suc (n_ctx w), sleeps := sleeps w @ [delay]\<rparr>))"

text \<open>
  One SQL statement, atomic as the single connection of the store makes it. The engine may fail
  it whatever it is; otherwise it runs on the tables, where \<open>None\<close> is a violated constraint.
\<close>

definition sql :: "machine \<Rightarrow> (database \<Rightarrow> ('a \<times> database) option) \<Rightarrow> 'a io" where
  "sql e stmt = State (\<lambda>w.
     let w' = w\<lparr>n_sql := Suc (n_sql w)\<rparr> in
     if mc_sql_fails e (n_sql w) then (Inl ErrSql, w')
     else (case stmt (db w) of
             None \<Rightarrow> (Inl ErrSql, w')
           | Some (x, d) \<Rightarrow> (Inr x, w'\<lparr>db := d\<rparr>)))"

text \<open>
  \<^verbatim>\<open>BeginTx ... defer tx.Rollback() ... Commit\<close>: whatever fails in between, the
  tables are as they were.
\<close>

definition in_tx :: "machine \<Rightarrow> string \<Rightarrow> 'a io \<Rightarrow> 'a io" where
  "in_tx e what body = State (\<lambda>w.
     let w1 = w\<lparr>n_sql := Suc (n_sql w)\<rparr> in
     if mc_sql_fails e (n_sql w) then (Inl (Wrap (''begin '' @ what) ErrSql), w1)
     else (case run_state body w1 of
             (Inl err, w2) \<Rightarrow> (Inl err, w2\<lparr>db := db w\<rparr>)
           | (Inr x, w2) \<Rightarrow>
               (let w3 = w2\<lparr>n_sql := Suc (n_sql w2)\<rparr> in
                if mc_sql_fails e (n_sql w2)
                then (Inl (Wrap (''commit '' @ what) ErrSql), w3\<lparr>db := db w\<rparr>)
                else (Inr x, w3))))"

definition http_do :: "machine \<Rightarrow> http_request \<Rightarrow> (world, http_answer) state" where
  "http_do e r = State (\<lambda>w. (mc_meta e (requests w) r, w\<lparr>requests := requests w @ [r]\<rparr>))"

lemma run_clock_now [run_simps]:
  "run_state (clock_now e) w = (mc_clock e (n_clock w), w\<lparr>n_clock := Suc (n_clock w)\<rparr>)"
  by (simp add: clock_now_def)

lemma run_rand_read [run_simps]:
  "run_state (rand_read e k) w =
     (case mc_rand e (n_rand w) k of None \<Rightarrow> Inl ErrRand | Some bs \<Rightarrow> Inr bs,
      w\<lparr>n_rand := Suc (n_rand w)\<rparr>)"
  by (simp add: rand_read_def)

lemma run_ctx_err [run_simps]:
  "run_state (ctx_err e) w =
     (if mc_ctx_done e (n_ctx w) then Inl ErrContext else Inr (), w\<lparr>n_ctx := Suc (n_ctx w)\<rparr>)"
  by (simp add: ctx_err_def)

lemma run_sleep_or_done [run_simps]:
  "run_state (sleep_or_done e d) w =
     (if mc_ctx_done e (n_ctx w) then Inl ErrContext else Inr (),
      w\<lparr>n_ctx := Suc (n_ctx w), sleeps := sleeps w @ [d]\<rparr>)"
  by (simp add: sleep_or_done_def)

lemma run_sql [run_simps]:
  "run_state (sql e stmt) w =
     (if mc_sql_fails e (n_sql w) then (Inl ErrSql, w\<lparr>n_sql := Suc (n_sql w)\<rparr>)
      else (case stmt (db w) of
             None \<Rightarrow> (Inl ErrSql, w\<lparr>n_sql := Suc (n_sql w)\<rparr>)
           | Some (x, d) \<Rightarrow> (Inr x, w\<lparr>n_sql := Suc (n_sql w), db := d\<rparr>)))"
  by (simp add: sql_def Let_def split: option.splits)

lemma run_http_do [run_simps]:
  "run_state (http_do e r) w = (mc_meta e (requests w) r, w\<lparr>requests := requests w @ [r]\<rparr>)"
  by (simp add: http_do_def)

section \<open>Frames\<close>

text \<open>The three relations the components' frame lemmas are about.\<close>

definition same_db :: "world \<Rightarrow> world \<Rightarrow> bool" where
  "same_db w w' \<longleftrightarrow> db w' = db w"

definition emits :: "(http_request \<Rightarrow> bool) \<Rightarrow> world \<Rightarrow> world \<Rightarrow> bool" where
  "emits P w w' \<longleftrightarrow> (\<exists>new. requests w' = requests w @ new \<and> list_all P new)"

text \<open>A predicate of the database that the operation keeps.\<close>

definition keeps :: "(database \<Rightarrow> bool) \<Rightarrow> world \<Rightarrow> world \<Rightarrow> bool" where
  "keeps I w w' \<longleftrightarrow> (I (db w) \<longrightarrow> I (db w'))"

interpretation fdb: frame same_db
  by unfold_locales (auto simp: same_db_def)

interpretation fem: frame "emits P" for P
proof
  show "emits P s s" for s :: world
    by (auto simp: emits_def)
  show "emits P s u" if st: "emits P s t" and tu: "emits P t u" for s t u :: world
  proof -
    obtain a where a: "requests t = requests s @ a" "list_all P a"
      using st by (auto simp: emits_def)
    obtain b where b: "requests u = requests t @ b" "list_all P b"
      using tu by (auto simp: emits_def)
    from a b have "requests u = requests s @ (a @ b)" "list_all P (a @ b)" by simp_all
    then show ?thesis unfolding emits_def by blast
  qed
qed

interpretation fke: frame "keeps I" for I
  by unfold_locales (auto simp: keeps_def)

text \<open>The primitive effects under each frame.\<close>

lemma clock_now_frames [io_intros]:
  "state_io_rel same_db (clock_now e)" "state_io_rel (emits P) (clock_now e)"
  "state_io_rel (keeps I) (clock_now e)"
  by (auto simp: state_io_rel_def run_simps same_db_def emits_def keeps_def)

lemma rand_read_frames [io_intros]:
  "state_io_rel same_db (rand_read e k)" "state_io_rel (emits P) (rand_read e k)"
  "state_io_rel (keeps I) (rand_read e k)"
  by (auto simp: state_io_rel_def run_simps same_db_def emits_def keeps_def)

lemma ctx_err_frames [io_intros]:
  "state_io_rel same_db (ctx_err e)" "state_io_rel (emits P) (ctx_err e)"
  "state_io_rel (keeps I) (ctx_err e)"
  by (auto simp: state_io_rel_def run_simps same_db_def emits_def keeps_def)

lemma sleep_or_done_frames [io_intros]:
  "state_io_rel same_db (sleep_or_done e d)" "state_io_rel (emits P) (sleep_or_done e d)"
  "state_io_rel (keeps I) (sleep_or_done e d)"
  by (auto simp: state_io_rel_def run_simps same_db_def emits_def keeps_def)

lemma http_do_frames [io_intros]:
  "state_io_rel same_db (http_do e r)" "P r \<Longrightarrow> state_io_rel (emits P) (http_do e r)"
  "state_io_rel (keeps I) (http_do e r)"
  by (auto simp: state_io_rel_def run_simps same_db_def emits_def keeps_def)

lemma sql_emits [io_intros]: "state_io_rel (emits P) (sql e stmt)"
  by (auto simp: state_io_rel_def run_simps emits_def split: option.splits)

lemma sql_keeps: "(\<And>d x d'. I d \<Longrightarrow> stmt d = Some (x, d') \<Longrightarrow> I d') \<Longrightarrow>
  state_io_rel (keeps I) (sql e stmt)"
  by (auto simp: state_io_rel_def run_simps keeps_def split: option.splits)

lemma sql_same_db: "(\<And>d x d'. stmt d = Some (x, d') \<Longrightarrow> d' = d) \<Longrightarrow>
  state_io_rel same_db (sql e stmt)"
  by (auto simp: state_io_rel_def run_simps same_db_def split: option.splits)

lemma in_tx_emits:
  assumes "state_io_rel (emits P) body"
  shows "state_io_rel (emits P) (in_tx e what body)"
proof
  fix r w w'
  assume run: "run_state (in_tx e what body) w = (r, w')"
  let ?w1 = "w\<lparr>n_sql := Suc (n_sql w)\<rparr>"
  obtain q w2 where body: "run_state body ?w1 = (q, w2)"
    by (cases "run_state body ?w1") auto
  have "emits P ?w1 w2" by (rule fem.frameD [OF assms body])
  then have "emits P w w2" by (simp add: emits_def)
  moreover have "requests w' = requests w2 \<or> requests w' = requests w"
    using run body by (auto simp: in_tx_def Let_def split: sum.splits if_splits)
  ultimately show "emits P w w'" by (auto simp: emits_def)
qed

text \<open>A transaction that fails leaves the database as it was.\<close>

lemma in_tx_Inl: "run_state (in_tx e what body) w = (Inl err, w') \<Longrightarrow> db w' = db w"
  by (auto simp: in_tx_def Let_def split: prod.splits sum.splits if_splits)

lemma in_tx_Inr:
  "run_state (in_tx e what body) w = (Inr x, w') \<Longrightarrow>
   \<exists>w2. run_state body (w\<lparr>n_sql := Suc (n_sql w)\<rparr>) = (Inr x, w2) \<and> db w' = db w2"
  by (auto simp: in_tx_def Let_def split: prod.splits sum.splits if_splits)

lemma in_tx_keeps:
  assumes "state_io_rel (keeps I) body"
  shows "state_io_rel (keeps I) (in_tx e what body)"
proof
  fix r w w'
  assume run: "run_state (in_tx e what body) w = (r, w')"
  show "keeps I w w'"
  proof (cases r)
    case (Inl err)
    with run show ?thesis by (auto simp: keeps_def dest: in_tx_Inl)
  next
    case (Inr x)
    with run obtain w2 where "run_state body (w\<lparr>n_sql := Suc (n_sql w)\<rparr>) = (Inr x, w2)"
      and "db w' = db w2" by (auto dest: in_tx_Inr)
    with fke.frameD [OF assms] show ?thesis by (fastforce simp: keeps_def)
  qed
qed

end
