(* ===== verification/Crypto.thy ===== *)
theory Crypto
  imports World
begin

text \<open>
  \<open>internal/adapters/crypto/cipher.go\<close> (tokens sealed under AES-256-GCM with a fresh nonce in
  front), the random secrets and tenant ids of \<open>authserver/server.go\<close> and \<open>app/id.go\<close>, and
  \<open>hashToken\<close> of \<open>authserver/jwt.go\<close>. AES-GCM and the random source are parameters of the
  machine; \<open>cipher_ok\<close> and \<open>rand_ok\<close> are what the code relies on of them. The locale
  \<open>token_cipher\<close> is the port \<open>domain.TokenCipher\<close> as the store uses it.
\<close>

definition nonce_size :: nat where "nonce_size = 12"
definition overhead :: nat where "overhead = 16"

definition Encrypt :: "machine \<Rightarrow> string \<Rightarrow> string io" where
  "Encrypt e plaintext =
     bindE (mapE (Wrap ''nonce'') (rand_read e nonce_size)) (\<lambda>nonce.
     ok (nonce @ mc_seal e nonce plaintext))"

definition Decrypt :: "machine \<Rightarrow> string \<Rightarrow> string res" where
  "Decrypt e sealed =
     (if length sealed < nonce_size + overhead then Inl ErrCiphertext
      else (case mc_open e (take nonce_size sealed) (drop nonce_size sealed) of
              None \<Rightarrow> Inl ErrCiphertext
            | Some plaintext \<Rightarrow> Inr plaintext))"

text \<open>\<open>randomSecret\<close> and \<open>newSecret\<close>: 32 random bytes in base64url.\<close>

definition randomSecret :: "machine \<Rightarrow> string io" where
  "randomSecret e = bindE (rand_read e 32) (\<lambda>buf. ok (b64_encode buf))"

definition newSecret :: "machine \<Rightarrow> string io" where
  "newSecret e = bindE (rand_read e 32) (\<lambda>b. ok (b64_encode b))"

definition hashToken :: "machine \<Rightarrow> string \<Rightarrow> string" where
  "hashToken e token = b64_encode (mc_sha256 e token)"

text \<open>
  \<open>newTenantID\<close> sets the version and variant bits and lays the 16 bytes out in hexadecimal. The
  error of the random source is ignored, and leaves the array zero.
\<close>

definition and_or :: "char \<Rightarrow> nat \<Rightarrow> nat \<Rightarrow> char" where
  "and_or c m v = char_of ((of_char c mod m) + v :: nat)"

definition uuid_text :: "string \<Rightarrow> string" where
  "uuid_text b =
     hex_encode (take 4 b) @ ''-'' @ hex_encode (take 2 (drop 4 b)) @ ''-'' @
     hex_encode (take 2 (drop 6 b)) @ ''-'' @ hex_encode (take 2 (drop 8 b)) @ ''-'' @
     hex_encode (take 6 (drop 10 b))"

definition uuid_bits :: "string \<Rightarrow> string" where
  "uuid_bits b = (b[6 := and_or (b ! 6) 16 64])[8 := and_or (b ! 8) 64 128]"

definition newTenantID :: "machine \<Rightarrow> (world, string) state" where
  "newTenantID e = do {
     r \<leftarrow> rand_read e 16;
     let b = (case r of Inl err \<Rightarrow> replicate 16 (CHR 0x00) | Inr bs \<Rightarrow> bs);
     State_Monad.return (uuid_text (uuid_bits b))
   }"

section \<open>What the code relies on\<close>

text \<open>\<open>rand.Read(buf)\<close> fills the whole buffer.\<close>

definition rand_ok :: "machine \<Rightarrow> bool" where
  "rand_ok e \<longleftrightarrow> (\<forall>n k bs. mc_rand e n k = Some bs \<longrightarrow> length bs = k)"

text \<open>\<open>Seal\<close> appends a tag of 16 bytes, and \<open>Open\<close> under the same nonce undoes it.\<close>

definition aead_ok :: "machine \<Rightarrow> bool" where
  "aead_ok e \<longleftrightarrow>
     (\<forall>nonce p. length (mc_seal e nonce p) = length p + overhead \<and>
                mc_open e nonce (mc_seal e nonce p) = Some p)"

definition cipher_ok :: "machine \<Rightarrow> bool" where
  "cipher_ok e \<longleftrightarrow> rand_ok e \<and> aead_ok e"

section \<open>The port of the store\<close>

locale token_cipher =
  fixes sound :: bool
    and enc :: "string \<Rightarrow> string io"
    and dec :: "string \<Rightarrow> string res"
  assumes enc_dec: "sound \<Longrightarrow> run_state (enc p) w = (Inr c, w') \<Longrightarrow> dec c = Inr p"
    and enc_db: "state_io_rel same_db (enc p)"
    and enc_emits: "state_io_rel (emits Q) (enc p)"
    and dec_err: "dec c = Inl err \<Longrightarrow> err = ErrCiphertext"
begin

lemma enc_run_db: "run_state (enc p) w = (r, w') \<Longrightarrow> db w' = db w"
  using fdb.frameD [OF enc_db] by (simp add: same_db_def)

lemma enc_keeps: "state_io_rel (keeps I) (enc p)"
proof
  fix r w w'
  assume "run_state (enc p) w = (r, w')"
  then show "keeps I w w'" by (simp add: keeps_def enc_run_db)
qed

text \<open>A list sealed one by one opens to itself.\<close>

lemma enc_all:
  assumes sound "run_state (map_stateE enc ps) w = (Inr cs, w')"
  shows "map_res dec cs = Inr ps"
  using assms(2)
proof (induction ps arbitrary: w cs w')
  case (Cons p ps)
  from Cons.prems obtain c w1 cs' where c: "run_state (enc p) w = (Inr c, w1)"
    and rest: "run_state (map_stateE enc ps) w1 = (Inr cs', w')" and cs: "cs = c # cs'"
    by (auto elim!: bindE_InrE)
  from Cons.IH [OF rest] enc_dec [OF assms(1) c] show ?case by (simp add: cs)
qed simp

end

interpretation ciph: token_cipher "cipher_ok e" "Encrypt e" "Decrypt e" for e
proof
  show "Decrypt e c = Inr p"
    if ok: "cipher_ok e" and run: "run_state (Encrypt e p) w = (Inr c, w')" for p w c w'
  proof -
    from run obtain nonce where r: "mc_rand e (n_rand w) nonce_size = Some nonce"
      and c: "c = nonce @ mc_seal e nonce p"
      by (auto simp: Encrypt_def run_simps split: option.splits)
    from ok r have n: "length nonce = nonce_size" by (simp add: cipher_ok_def rand_ok_def)
    from ok have "length (mc_seal e nonce p) = length p + overhead"
      and "mc_open e nonce (mc_seal e nonce p) = Some p"
      by (simp_all add: cipher_ok_def aead_ok_def)
    with n show ?thesis by (simp add: Decrypt_def c)
  qed
  show "state_io_rel same_db (Encrypt e p)" for p
    unfolding Encrypt_def by (intro fdb.rules io_intros)
  show "state_io_rel (emits Q) (Encrypt e p)" for p Q
    unfolding Encrypt_def by (intro fem.rules io_intros)
  show "Decrypt e c = Inl err \<Longrightarrow> err = ErrCiphertext" for c err
    by (auto simp: Decrypt_def split: if_splits option.splits)
qed

lemma Encrypt_frames [io_intros]:
  "state_io_rel same_db (Encrypt e p)" "state_io_rel (emits P) (Encrypt e p)"
  "state_io_rel (keeps I) (Encrypt e p)"
  by (rule ciph.enc_db ciph.enc_emits ciph.enc_keeps)+

lemma secret_frames [io_intros]:
  "state_io_rel same_db (randomSecret e)" "state_io_rel (emits P) (randomSecret e)"
  "state_io_rel (keeps I) (randomSecret e)"
  "state_io_rel same_db (newSecret e)" "state_io_rel (emits P) (newSecret e)"
  "state_io_rel (keeps I) (newSecret e)"
  unfolding randomSecret_def newSecret_def
  by (intro fdb.rules io_intros | intro fem.rules io_intros | intro fke.rules io_intros)+

lemma newTenantID_frames [io_intros]:
  "state_io_rel same_db (newTenantID e)" "state_io_rel (emits P) (newTenantID e)"
  "state_io_rel (keeps I) (newTenantID e)"
  unfolding newTenantID_def
  by (intro fdb.rules io_intros | intro fem.rules io_intros | intro fke.rules io_intros)+

lemma Encrypt_db: "run_state (Encrypt e p) w = (r, w') \<Longrightarrow> db w' = db w"
  by (rule ciph.enc_run_db)

lemma run_randomSecret [run_simps]:
  "run_state (randomSecret e) w =
     (case mc_rand e (n_rand w) 32 of None \<Rightarrow> Inl ErrRand | Some bs \<Rightarrow> Inr (b64_encode bs),
      w\<lparr>n_rand := Suc (n_rand w)\<rparr>)"
  by (simp add: randomSecret_def run_simps split: option.splits)

lemma newSecret_eq: "newSecret e = randomSecret e"
  by (simp add: newSecret_def randomSecret_def)

text \<open>
  Any sealed value that was cut short or tampered with is refused: \<open>Decrypt\<close> only returns what
  \<open>Open\<close> authenticates.
\<close>

lemma Decrypt_Inr:
  "Decrypt e sealed = Inr p \<longleftrightarrow>
     nonce_size + overhead \<le> length sealed \<and>
     mc_open e (take nonce_size sealed) (drop nonce_size sealed) = Some p"
  by (auto simp: Decrypt_def split: option.splits)

end
