(* ===== verification/Store.thy ===== *)
theory Store
  imports Crypto
begin

text \<open>
  \<open>internal/adapters/sqlite/store.go\<close>: every statement of the store as a function on the tables
  (\<open>None\<close> when it violates a constraint of the schema in \<open>migrations/\<close>), and every method of
  \<open>Store\<close> composed of them. The invariant \<open>db_ok\<close> states the primary keys, the unique Meta user
  id and the foreign key of the schema, with lemmas that every method keeps it. What each method
  does to each kind of row is in theory \<open>StoreFacts\<close>.
\<close>

section \<open>Column conversions\<close>

definition unixOrZero :: "instant \<Rightarrow> int" where
  "unixOrZero t = (if is_zero_time t then 0 else unix t)"

definition timeOrZero :: "int \<Rightarrow> instant" where
  "timeOrZero sec = (if sec \<le> 0 then zero_time else from_unix sec)"

definition nullable :: "string \<Rightarrow> string option" where
  "nullable s = (if s = [] then None else Some s)"

text \<open>\<open>sql.NullString.String\<close> is empty for a NULL.\<close>

definition null_string :: "string option \<Rightarrow> string" where
  "null_string x = (case x of None \<Rightarrow> [] | Some s \<Rightarrow> s)"

section \<open>Statements\<close>

type_synonym 'a stmt = "database \<Rightarrow> ('a \<times> database) option"

definition select_first :: "(database \<Rightarrow> 'r list) \<Rightarrow> ('r \<Rightarrow> bool) \<Rightarrow> 'r option stmt" where
  "select_first tbl P d = Some (find P (tbl d), d)"

definition select_all :: "(database \<Rightarrow> 'r list) \<Rightarrow> ('r \<Rightarrow> bool) \<Rightarrow> ('r list \<Rightarrow> 'r list) \<Rightarrow> 'r list stmt"
  where "select_all tbl P order_by d = Some (order_by (filter P (tbl d)), d)"

text \<open>
  The upsert checks the conflict target \<open>meta_user_id\<close> before the other constraints, so a primary
  key that is taken only matters when the Meta user is new.
\<close>

definition merge_tenant :: "tenant_row \<Rightarrow> tenant_row \<Rightarrow> tenant_row" where
  "merge_tenant new old =
     (if tr_meta_user_id old = tr_meta_user_id new
      then old\<lparr>tr_display_name := tr_display_name new, tr_user_token_enc := tr_user_token_enc new,
               tr_updated_at := tr_updated_at new,
               tr_user_token_expires_at := tr_user_token_expires_at new\<rparr>
      else old)"

definition upsert_tenant :: "tenant_row \<Rightarrow> unit stmt" where
  "upsert_tenant r d =
     (if list_ex (\<lambda>o'. tr_meta_user_id o' = tr_meta_user_id r) (tenants d)
      then Some ((), d\<lparr>tenants := map (merge_tenant r) (tenants d)\<rparr>)
      else if list_ex (\<lambda>o'. tr_id o' = tr_id r) (tenants d) then None
      else Some ((), d\<lparr>tenants := tenants d @ [r]\<rparr>))"

definition delete_tokens_of :: "string \<Rightarrow> unit stmt" where
  "delete_tokens_of tid d = Some ((),
     d\<lparr>oauth_refresh_tokens := filter (\<lambda>r. rr_tenant_id r \<noteq> tid) (oauth_refresh_tokens d)\<rparr>)"

definition delete_codes_of :: "string \<Rightarrow> unit stmt" where
  "delete_codes_of tid d = Some ((),
     d\<lparr>oauth_codes := filter (\<lambda>r. co_tenant_id r \<noteq> tid) (oauth_codes d)\<rparr>)"

definition delete_pages_of :: "string \<Rightarrow> unit stmt" where
  "delete_pages_of tid d = Some ((), d\<lparr>pages := filter (\<lambda>r. pg_tenant_id r \<noteq> tid) (pages d)\<rparr>)"

text \<open>The foreign key deletes the pages of a tenant along with it.\<close>

definition delete_tenant :: "string \<Rightarrow> unit stmt" where
  "delete_tenant tid d = Some ((),
     d\<lparr>tenants := filter (\<lambda>r. tr_id r \<noteq> tid) (tenants d),
       pages := filter (\<lambda>r. pg_tenant_id r \<noteq> tid) (pages d)\<rparr>)"

definition insert_page :: "page_row \<Rightarrow> unit stmt" where
  "insert_page r d =
     (if list_ex (\<lambda>o'. pg_tenant_id o' = pg_tenant_id r \<and> pg_page_id o' = pg_page_id r) (pages d)
         \<or> \<not> list_ex (\<lambda>t. tr_id t = pg_tenant_id r) (tenants d)
      then None
      else Some ((), d\<lparr>pages := pages d @ [r]\<rparr>))"

definition insert_client :: "client_row \<Rightarrow> unit stmt" where
  "insert_client r d =
     (if list_ex (\<lambda>o'. cr_client_id o' = cr_client_id r) (oauth_clients d) then None
      else Some ((), d\<lparr>oauth_clients := oauth_clients d @ [r]\<rparr>))"

definition insert_code :: "code_row \<Rightarrow> unit stmt" where
  "insert_code r d =
     (if list_ex (\<lambda>o'. co_code o' = co_code r) (oauth_codes d) then None
      else Some ((), d\<lparr>oauth_codes := oauth_codes d @ [r]\<rparr>))"

definition delete_code :: "string \<Rightarrow> code_row option stmt" where
  "delete_code code d =
     Some (find (\<lambda>r. co_code r = code) (oauth_codes d),
           d\<lparr>oauth_codes := filter (\<lambda>r. co_code r \<noteq> code) (oauth_codes d)\<rparr>)"

definition insert_token :: "refresh_row \<Rightarrow> unit stmt" where
  "insert_token r d =
     (if list_ex (\<lambda>o'. rr_token_hash o' = rr_token_hash r) (oauth_refresh_tokens d) then None
      else Some ((), d\<lparr>oauth_refresh_tokens := oauth_refresh_tokens d @ [r]\<rparr>))"

definition token_usable :: "string \<Rightarrow> int \<Rightarrow> refresh_row \<Rightarrow> bool" where
  "token_usable h now r \<longleftrightarrow> rr_token_hash r = h \<and> \<not> rr_revoked r \<and> now < rr_expires_at r"

definition rotate_token :: "string \<Rightarrow> int \<Rightarrow> refresh_row option stmt" where
  "rotate_token h now d =
     Some (find (token_usable h now) (oauth_refresh_tokens d),
           d\<lparr>oauth_refresh_tokens :=
               map (\<lambda>r. if token_usable h now r then r\<lparr>rr_revoked := True\<rparr> else r)
                 (oauth_refresh_tokens d)\<rparr>)"

definition revoke_tokens_of :: "string \<Rightarrow> unit stmt" where
  "revoke_tokens_of tid d = Some ((),
     d\<lparr>oauth_refresh_tokens :=
         map (\<lambda>r. if rr_tenant_id r = tid then r\<lparr>rr_revoked := True\<rparr> else r)
           (oauth_refresh_tokens d)\<rparr>)"

definition insert_state :: "login_row \<Rightarrow> unit stmt" where
  "insert_state r d =
     (if list_ex (\<lambda>o'. lr_state o' = lr_state r) (login_states d) then None
      else Some ((), d\<lparr>login_states := login_states d @ [r]\<rparr>))"

definition delete_state :: "string \<Rightarrow> login_row option stmt" where
  "delete_state st d =
     Some (find (\<lambda>r. lr_state r = st) (login_states d),
           d\<lparr>login_states := filter (\<lambda>r. lr_state r \<noteq> st) (login_states d)\<rparr>)"

definition purge_codes :: "int \<Rightarrow> unit stmt" where
  "purge_codes now d = Some ((),
     d\<lparr>oauth_codes := filter (\<lambda>r. \<not> co_expires_at r \<le> now) (oauth_codes d)\<rparr>)"

definition purge_states :: "int \<Rightarrow> unit stmt" where
  "purge_states now d = Some ((),
     d\<lparr>login_states := filter (\<lambda>r. \<not> lr_expires_at r \<le> now) (login_states d)\<rparr>)"

definition purge_tokens :: "int \<Rightarrow> unit stmt" where
  "purge_tokens now d = Some ((),
     d\<lparr>oauth_refresh_tokens :=
         filter (\<lambda>r. \<not> rr_expires_at r \<le> now) (oauth_refresh_tokens d)\<rparr>)"

lemmas stmt_defs = select_first_def select_all_def upsert_tenant_def delete_tokens_of_def
  delete_codes_of_def delete_pages_of_def delete_tenant_def insert_page_def insert_client_def
  insert_code_def delete_code_def insert_token_def rotate_token_def revoke_tokens_of_def
  insert_state_def delete_state_def purge_codes_def purge_states_def purge_tokens_def

section \<open>Methods\<close>

text \<open>Tenants.\<close>

definition tenant_record :: "tenant \<Rightarrow> string \<Rightarrow> tenant_row" where
  "tenant_record t enc =
     \<lparr>tr_id = t_id t, tr_meta_user_id = t_meta_user_id t, tr_display_name = t_display_name t,
      tr_user_token_enc = enc, tr_created_at = unix (t_created_at t),
      tr_updated_at = unix (t_updated_at t),
      tr_user_token_expires_at = unixOrZero (t_token_expires_at t)\<rparr>"

definition UpsertTenant :: "machine \<Rightarrow> tenant \<Rightarrow> unit io" where
  "UpsertTenant e t =
     bindE (mapE (Wrap ''encrypt user token'') (Encrypt e (t_user_token t))) (\<lambda>enc.
     mapE (Wrap ''upsert tenant'') (sql e (upsert_tenant (tenant_record t enc))))"

definition scanTenant :: "machine \<Rightarrow> tenant_row \<Rightarrow> tenant res" where
  "scanTenant e r =
     (case Decrypt e (tr_user_token_enc r) of
        Inl err \<Rightarrow> Inl (Wrap ''decrypt user token'' err)
      | Inr token \<Rightarrow> Inr
          \<lparr>t_id = tr_id r, t_meta_user_id = tr_meta_user_id r, t_display_name = tr_display_name r,
           t_user_token = token, t_created_at = from_unix (tr_created_at r),
           t_updated_at = from_unix (tr_updated_at r),
           t_token_expires_at = timeOrZero (tr_user_token_expires_at r)\<rparr>)"

definition tenantBy :: "machine \<Rightarrow> (tenant_row \<Rightarrow> bool) \<Rightarrow> tenant io" where
  "tenantBy e P =
     bindE (mapE (Wrap ''select tenant'') (sql e (select_first tenants P))) (\<lambda>row.
     case row of
       None \<Rightarrow> fail ErrNotFound
     | Some r \<Rightarrow> from_res (scanTenant e r))"

definition TenantByID :: "machine \<Rightarrow> string \<Rightarrow> tenant io" where
  "TenantByID e tid = tenantBy e (\<lambda>r. tr_id r = tid)"

definition TenantByMetaUserID :: "machine \<Rightarrow> string \<Rightarrow> tenant io" where
  "TenantByMetaUserID e metaUserID = tenantBy e (\<lambda>r. tr_meta_user_id r = metaUserID)"

definition due_for_refresh :: "int \<Rightarrow> int \<Rightarrow> tenant_row \<Rightarrow> bool" where
  "due_for_refresh expiring unchecked r \<longleftrightarrow>
     (0 < tr_user_token_expires_at r \<and> tr_user_token_expires_at r < expiring) \<or>
     (tr_user_token_expires_at r = 0 \<and> tr_updated_at r < unchecked)"

definition TenantsDueForTokenRefresh :: "machine \<Rightarrow> instant \<Rightarrow> instant \<Rightarrow> tenant list io" where
  "TenantsDueForTokenRefresh e expiringBefore uncheckedBefore =
     bindE (mapE (Wrap ''select tenants to refresh'')
       (sql e (select_all tenants
          (due_for_refresh (unix expiringBefore) (unix uncheckedBefore))
          (sort_key tr_user_token_expires_at)))) (\<lambda>rows.
     from_res (map_res (scanTenant e) rows))"

definition DeleteTenant :: "machine \<Rightarrow> string \<Rightarrow> unit io" where
  "DeleteTenant e tid = in_tx e ''delete tenant''
     (bindE (mapE (Wrap ''delete refresh tokens'') (sql e (delete_tokens_of tid))) (\<lambda>_.
      bindE (mapE (Wrap ''delete auth codes'') (sql e (delete_codes_of tid))) (\<lambda>_.
      bindE (mapE (Wrap ''delete pages'') (sql e (delete_pages_of tid))) (\<lambda>_.
      mapE (Wrap ''delete tenant'') (sql e (delete_tenant tid))))))"

text \<open>Pages.\<close>

definition page_record :: "string \<Rightarrow> page \<Rightarrow> string \<Rightarrow> page_row" where
  "page_record tid p enc =
     \<lparr>pg_tenant_id = tid, pg_page_id = p_page_id p, pg_name = p_name p,
      pg_ig_user_id = nullable (p_ig_user_id p), pg_ig_username = nullable (p_ig_username p),
      pg_page_token_enc = enc, pg_synced_at = unix (p_synced_at p)\<rparr>"

definition insertPage :: "machine \<Rightarrow> string \<Rightarrow> page \<Rightarrow> unit io" where
  "insertPage e tid p =
     bindE (mapE (Wrap ''encrypt page token'') (Encrypt e (p_page_token p))) (\<lambda>enc.
     mapE (Wrap ''insert page'') (sql e (insert_page (page_record tid p enc))))"

definition ReplacePages :: "machine \<Rightarrow> string \<Rightarrow> page list \<Rightarrow> unit io" where
  "ReplacePages e tid ps = in_tx e ''replace pages''
     (bindE (mapE (Wrap ''clear pages'') (sql e (delete_pages_of tid))) (\<lambda>_.
      bindE (map_stateE (insertPage e tid) ps) (\<lambda>_.
      ok ())))"

definition scanPage :: "machine \<Rightarrow> string \<Rightarrow> page_row \<Rightarrow> page res" where
  "scanPage e tid r =
     (case Decrypt e (pg_page_token_enc r) of
        Inl err \<Rightarrow> Inl (Wrap ''decrypt page token'' err)
      | Inr token \<Rightarrow> Inr
          \<lparr>p_tenant_id = tid, p_page_id = pg_page_id r, p_name = pg_name r,
           p_ig_user_id = null_string (pg_ig_user_id r),
           p_ig_username = null_string (pg_ig_username r),
           p_page_token = token, p_synced_at = from_unix (pg_synced_at r)\<rparr>)"

definition ListPages :: "machine \<Rightarrow> string \<Rightarrow> page list io" where
  "ListPages e tid =
     bindE (mapE (Wrap ''select pages'')
       (sql e (select_all pages (\<lambda>r. pg_tenant_id r = tid) (sort_key pg_name)))) (\<lambda>rows.
     from_res (map_res (scanPage e tid) rows))"

definition PageByID :: "machine \<Rightarrow> string \<Rightarrow> string \<Rightarrow> page io" where
  "PageByID e tid pid =
     bindE (mapE (Wrap ''scan page'')
       (sql e (select_first pages (\<lambda>r. pg_tenant_id r = tid \<and> pg_page_id r = pid)))) (\<lambda>row.
     case row of
       None \<Rightarrow> fail ErrNotFound
     | Some r \<Rightarrow> from_res (scanPage e tid r))"

text \<open>OAuth clients.\<close>

definition RegisterClient :: "machine \<Rightarrow> oauth_client \<Rightarrow> unit io" where
  "RegisterClient e c =
     mapE (Wrap ''insert oauth client'') (sql e (insert_client
       \<lparr>cr_client_id = c_id c, cr_client_name = c_name c,
        cr_redirect_uris = print_json (JArr (map JStr (c_redirect_uris c))),
        cr_created_at = unix (c_created_at c)\<rparr>))"

definition decode_strings :: "string \<Rightarrow> string list option" where
  "decode_strings text = Option.bind (json_parse text) (dec_list dec_string)"

definition ClientByID :: "machine \<Rightarrow> string \<Rightarrow> oauth_client io" where
  "ClientByID e cid =
     bindE (mapE (Wrap ''select oauth client'')
       (sql e (select_first oauth_clients (\<lambda>r. cr_client_id r = cid)))) (\<lambda>row.
     case row of
       None \<Rightarrow> fail ErrNotFound
     | Some r \<Rightarrow>
         (case decode_strings (cr_redirect_uris r) of
            None \<Rightarrow> fail (Wrap ''decode redirect_uris'' ErrJson)
          | Some uris \<Rightarrow> ok
              \<lparr>c_id = cr_client_id r, c_name = cr_client_name r, c_redirect_uris = uris,
               c_created_at = from_unix (cr_created_at r)\<rparr>))"

text \<open>Authorization codes.\<close>

definition CreateAuthCode :: "machine \<Rightarrow> auth_code \<Rightarrow> unit io" where
  "CreateAuthCode e c =
     mapE (Wrap ''insert auth code'') (sql e (insert_code
       \<lparr>co_code = ac_code c, co_client_id = ac_client_id c, co_tenant_id = ac_tenant_id c,
        co_redirect_uri = ac_redirect_uri c, co_code_challenge = ac_code_challenge c,
        co_resource = nullable (ac_resource c), co_expires_at = unix (ac_expires_at c)\<rparr>))"

definition scanCode :: "code_row \<Rightarrow> auth_code" where
  "scanCode r =
     \<lparr>ac_code = co_code r, ac_client_id = co_client_id r, ac_tenant_id = co_tenant_id r,
      ac_redirect_uri = co_redirect_uri r, ac_code_challenge = co_code_challenge r,
      ac_resource = null_string (co_resource r), ac_expires_at = from_unix (co_expires_at r)\<rparr>"

definition ConsumeAuthCode :: "machine \<Rightarrow> string \<Rightarrow> auth_code io" where
  "ConsumeAuthCode e code =
     bindE (mapE (Wrap ''consume auth code'') (sql e (delete_code code))) (\<lambda>row.
     case row of
       None \<Rightarrow> fail ErrNotFound
     | Some r \<Rightarrow> ok (scanCode r))"

text \<open>Refresh tokens.\<close>

definition CreateRefreshToken :: "machine \<Rightarrow> refresh_token \<Rightarrow> unit io" where
  "CreateRefreshToken e rt =
     mapE (Wrap ''insert refresh token'') (sql e (insert_token
       \<lparr>rr_token_hash = rt_hash rt, rr_client_id = rt_client_id rt, rr_tenant_id = rt_tenant_id rt,
        rr_expires_at = unix (rt_expires_at rt), rr_revoked = False\<rparr>))"

definition scanToken :: "refresh_row \<Rightarrow> refresh_token" where
  "scanToken r =
     \<lparr>rt_hash = rr_token_hash r, rt_client_id = rr_client_id r, rt_tenant_id = rr_tenant_id r,
      rt_expires_at = from_unix (rr_expires_at r), rt_revoked = True\<rparr>"

definition RotateRefreshToken :: "machine \<Rightarrow> string \<Rightarrow> instant \<Rightarrow> refresh_token io" where
  "RotateRefreshToken e tokenHash now =
     bindE (mapE (Wrap ''rotate refresh token'') (sql e (rotate_token tokenHash (unix now)))) (\<lambda>row.
     case row of
       None \<Rightarrow> fail ErrNotFound
     | Some r \<Rightarrow> ok (scanToken r))"

definition RevokeTenantRefreshTokens :: "machine \<Rightarrow> string \<Rightarrow> unit io" where
  "RevokeTenantRefreshTokens e tid =
     mapE (Wrap ''revoke refresh tokens'') (sql e (revoke_tokens_of tid))"

text \<open>Login states, whose request is stored as a JSON object.\<close>

definition request_json :: "oauth_request \<Rightarrow> json" where
  "request_json q = JObj
     [(''client_id'', JStr (or_client_id q)), (''redirect_uri'', JStr (or_redirect_uri q)),
      (''code_challenge'', JStr (or_code_challenge q)),
      (''client_state'', JStr (or_client_state q)), (''resource'', JStr (or_resource q))]"

definition dec_request :: "json \<Rightarrow> oauth_request option" where
  "dec_request j =
     Option.bind (json_fields j) (\<lambda>fs.
     Option.bind (str_field ''client_id'' fs) (\<lambda>a.
     Option.bind (str_field ''redirect_uri'' fs) (\<lambda>b.
     Option.bind (str_field ''code_challenge'' fs) (\<lambda>c.
     Option.bind (str_field ''client_state'' fs) (\<lambda>d.
     Option.bind (str_field ''resource'' fs) (\<lambda>f.
       Some \<lparr>or_client_id = a, or_redirect_uri = b, or_code_challenge = c,
             or_client_state = d, or_resource = f\<rparr>))))))"

definition CreateLoginState :: "machine \<Rightarrow> login_state \<Rightarrow> unit io" where
  "CreateLoginState e st =
     mapE (Wrap ''insert login state'') (sql e (insert_state
       \<lparr>lr_state = ls_state st, lr_oauth_request = print_json (request_json (ls_request st)),
        lr_expires_at = unix (ls_expires_at st)\<rparr>))"

definition ConsumeLoginState :: "machine \<Rightarrow> string \<Rightarrow> login_state io" where
  "ConsumeLoginState e st =
     bindE (mapE (Wrap ''consume login state'') (sql e (delete_state st))) (\<lambda>row.
     case row of
       None \<Rightarrow> fail ErrNotFound
     | Some r \<Rightarrow>
         (case Option.bind (json_parse (lr_oauth_request r)) dec_request of
            None \<Rightarrow> fail (Wrap ''decode oauth request'' ErrJson)
          | Some q \<Rightarrow> ok \<lparr>ls_state = lr_state r, ls_request = q,
                          ls_expires_at = from_unix (lr_expires_at r)\<rparr>))"

text \<open>Housekeeping: three statements, each on its own.\<close>

definition PurgeExpired :: "machine \<Rightarrow> instant \<Rightarrow> unit io" where
  "PurgeExpired e now =
     bindE (map_stateE (\<lambda>q. mapE (Wrap ''purge expired'') (sql e (q (unix now))))
       [purge_codes, purge_states, purge_tokens]) (\<lambda>_.
     ok ())"

definition Ping :: "machine \<Rightarrow> unit io" where
  "Ping e = mapE (Wrap ''ping sqlite'') (sql e (\<lambda>d. Some ((), d)))"

lemmas method_defs = UpsertTenant_def tenantBy_def TenantByID_def TenantByMetaUserID_def
  TenantsDueForTokenRefresh_def DeleteTenant_def insertPage_def ReplacePages_def ListPages_def
  PageByID_def RegisterClient_def ClientByID_def CreateAuthCode_def ConsumeAuthCode_def
  CreateRefreshToken_def RotateRefreshToken_def RevokeTenantRefreshTokens_def
  CreateLoginState_def ConsumeLoginState_def PurgeExpired_def Ping_def

section \<open>Frames: the store sends no request, and its reads change no table\<close>

lemma store_emits [io_intros]:
  "state_io_rel (emits P) (UpsertTenant e t)"
  "state_io_rel (emits P) (TenantByID e i)"
  "state_io_rel (emits P) (TenantByMetaUserID e i)"
  "state_io_rel (emits P) (TenantsDueForTokenRefresh e a b)"
  "state_io_rel (emits P) (DeleteTenant e i)"
  "state_io_rel (emits P) (ReplacePages e i ps)"
  "state_io_rel (emits P) (ListPages e i)"
  "state_io_rel (emits P) (PageByID e i j)"
  "state_io_rel (emits P) (RegisterClient e c)"
  "state_io_rel (emits P) (ClientByID e i)"
  "state_io_rel (emits P) (CreateAuthCode e ac)"
  "state_io_rel (emits P) (ConsumeAuthCode e i)"
  "state_io_rel (emits P) (CreateRefreshToken e rt)"
  "state_io_rel (emits P) (RotateRefreshToken e i a)"
  "state_io_rel (emits P) (RevokeTenantRefreshTokens e i)"
  "state_io_rel (emits P) (CreateLoginState e st)"
  "state_io_rel (emits P) (ConsumeLoginState e i)"
  "state_io_rel (emits P) (PurgeExpired e a)"
  "state_io_rel (emits P) (Ping e)"
  unfolding method_defs by (intro fem.rules io_intros in_tx_emits)+

lemma store_reads [io_intros]:
  "state_io_rel same_db (TenantByID e i)"
  "state_io_rel same_db (TenantByMetaUserID e i)"
  "state_io_rel same_db (TenantsDueForTokenRefresh e a b)"
  "state_io_rel same_db (ListPages e i)"
  "state_io_rel same_db (PageByID e i j)"
  "state_io_rel same_db (ClientByID e i)"
  "state_io_rel same_db (Ping e)"
  unfolding method_defs
  by (intro fdb.rules io_intros sql_same_db; simp add: stmt_defs)+

end
