(* ===== verification/StoreFacts.thy ===== *)
theory StoreFacts
  imports Store JsonRound
begin

text \<open>
  What the methods of the store do: the schema invariant, the effect of each method on the rows,
  round trips through the columns, atomicity of the two transactions, isolation of one tenant's
  pages from every other row, and, over any history of store operations, single use of
  authorization codes, login states and refresh tokens.
\<close>

section \<open>The schema invariant\<close>

definition db_ok :: "database \<Rightarrow> bool" where
  "db_ok d \<longleftrightarrow>
     distinct (map tr_id (tenants d)) \<and>
     distinct (map tr_meta_user_id (tenants d)) \<and>
     distinct (map (\<lambda>r. (pg_tenant_id r, pg_page_id r)) (pages d)) \<and>
     (\<forall>r \<in> set (pages d). pg_tenant_id r \<in> tr_id ` set (tenants d)) \<and>
     distinct (map cr_client_id (oauth_clients d)) \<and>
     distinct (map co_code (oauth_codes d)) \<and>
     distinct (map rr_token_hash (oauth_refresh_tokens d)) \<and>
     distinct (map lr_state (login_states d))"

lemma empty_db_ok: "db_ok empty_db"
  by (simp add: db_ok_def empty_db_def)

lemma merge_tenant_keys [simp]:
  "tr_id (merge_tenant r x) = tr_id x" "tr_meta_user_id (merge_tenant r x) = tr_meta_user_id x"
  by (simp_all add: merge_tenant_def)

lemma map_keys_merge [simp]:
  "map tr_id (map (merge_tenant r) ts) = map tr_id ts"
  "map tr_meta_user_id (map (merge_tenant r) ts) = map tr_meta_user_id ts"
  "tr_id ` merge_tenant r ` S = tr_id ` S"
  by (simp_all add: comp_def image_image)

lemma map_hash_update [simp]:
  "map rr_token_hash (map (\<lambda>r. if P r then r\<lparr>rr_revoked := True\<rparr> else r) ts) =
   map rr_token_hash ts"
  by (induction ts) auto

lemma upsert_tenant_ok:
  "upsert_tenant r d = Some (x, d') \<Longrightarrow> db_ok d \<Longrightarrow> db_ok d'"
proof -
  assume run: "upsert_tenant r d = Some (x, d')" and ok: "db_ok d"
  show "db_ok d'"
  proof (cases "list_ex (\<lambda>o'. tr_meta_user_id o' = tr_meta_user_id r) (tenants d)")
    case True
    with run have "d' = d\<lparr>tenants := map (merge_tenant r) (tenants d)\<rparr>"
      by (simp add: upsert_tenant_def)
    with ok show ?thesis by (simp add: db_ok_def comp_def image_image)
  next
    case False
    with run have "d' = d\<lparr>tenants := tenants d @ [r]\<rparr>"
      and "\<not> list_ex (\<lambda>o'. tr_id o' = tr_id r) (tenants d)"
      by (simp_all add: upsert_tenant_def split: if_splits)
    with ok False show ?thesis by (auto simp: db_ok_def list_ex_iff)
  qed
qed

lemma deletes_ok:
  "delete_tokens_of i d = Some (x, d') \<Longrightarrow> db_ok d \<Longrightarrow> db_ok d'"
  "delete_codes_of i d = Some (x, d') \<Longrightarrow> db_ok d \<Longrightarrow> db_ok d'"
  "delete_pages_of i d = Some (x, d') \<Longrightarrow> db_ok d \<Longrightarrow> db_ok d'"
  "delete_tenant i d = Some (x, d') \<Longrightarrow> db_ok d \<Longrightarrow> db_ok d'"
  "delete_code i d = Some (y, d') \<Longrightarrow> db_ok d \<Longrightarrow> db_ok d'"
  "delete_state i d = Some (v, d') \<Longrightarrow> db_ok d \<Longrightarrow> db_ok d'"
  by (auto simp: db_ok_def stmt_defs list_ex_iff distinct_map_filter image_iff simp del: map_map
      split: if_splits; metis)+

lemma inserts_ok:
  "insert_page pr d = Some (x, d') \<Longrightarrow> db_ok d \<Longrightarrow> db_ok d'"
  "insert_client c d = Some (x, d') \<Longrightarrow> db_ok d \<Longrightarrow> db_ok d'"
  "insert_code co d = Some (x, d') \<Longrightarrow> db_ok d \<Longrightarrow> db_ok d'"
  "insert_token rr d = Some (x, d') \<Longrightarrow> db_ok d \<Longrightarrow> db_ok d'"
  "insert_state lr d = Some (x, d') \<Longrightarrow> db_ok d \<Longrightarrow> db_ok d'"
  by (auto simp: db_ok_def stmt_defs list_ex_iff distinct_map_filter image_iff simp del: map_map
      split: if_splits; metis)+

lemma token_updates_ok:
  "rotate_token i n d = Some (z, d') \<Longrightarrow> db_ok d \<Longrightarrow> db_ok d'"
  "revoke_tokens_of i d = Some (x, d') \<Longrightarrow> db_ok d \<Longrightarrow> db_ok d'"
  by (auto simp: db_ok_def stmt_defs list_ex_iff distinct_map_filter image_iff simp del: map_map
      split: if_splits)

lemma purges_ok:
  "purge_codes n d = Some (x, d') \<Longrightarrow> db_ok d \<Longrightarrow> db_ok d'"
  "purge_states n d = Some (x, d') \<Longrightarrow> db_ok d \<Longrightarrow> db_ok d'"
  "purge_tokens n d = Some (x, d') \<Longrightarrow> db_ok d \<Longrightarrow> db_ok d'"
  by (auto simp: db_ok_def stmt_defs list_ex_iff distinct_map_filter image_iff simp del: map_map
      split: if_splits)

lemmas stmt_keeps_db_ok = upsert_tenant_ok deletes_ok inserts_ok token_updates_ok purges_ok

lemma select_keeps:
  "select_first tbl P d = Some (x, d') \<Longrightarrow> d' = d"
  "select_all tbl P f d = Some (y, d') \<Longrightarrow> d' = d"
  by (simp_all add: select_first_def select_all_def)

text \<open>Every method keeps a predicate that its statements keep.\<close>

lemmas keeps_rules = fke.rules io_intros in_tx_keeps sql_keeps

lemma store_db_ok [io_intros]:
  "state_io_rel (keeps db_ok) (UpsertTenant e t)"
  "state_io_rel (keeps db_ok) (DeleteTenant e i)"
  "state_io_rel (keeps db_ok) (ReplacePages e i ps)"
  "state_io_rel (keeps db_ok) (RegisterClient e c)"
  "state_io_rel (keeps db_ok) (CreateAuthCode e ac)"
  "state_io_rel (keeps db_ok) (ConsumeAuthCode e i)"
  "state_io_rel (keeps db_ok) (CreateRefreshToken e rt)"
  "state_io_rel (keeps db_ok) (RotateRefreshToken e i a)"
  "state_io_rel (keeps db_ok) (RevokeTenantRefreshTokens e i)"
  "state_io_rel (keeps db_ok) (CreateLoginState e st)"
  "state_io_rel (keeps db_ok) (ConsumeLoginState e i)"
  unfolding method_defs
  by (intro keeps_rules; (erule stmt_keeps_db_ok)?; assumption)+

lemma PurgeExpired_db_ok [io_intros]: "state_io_rel (keeps db_ok) (PurgeExpired e a)"
proof -
  have "state_io_rel (keeps db_ok) (sql e (q n))"
    if "q \<in> {purge_codes, purge_states, purge_tokens}" for q n
    using that by (intro sql_keeps) (auto dest: stmt_keeps_db_ok)
  then show ?thesis
    unfolding PurgeExpired_def by (auto intro!: fke.io_bindE fke.io_ok fke.io_mapE)
qed

text \<open>An operation that leaves the tables alone keeps every predicate of them.\<close>

lemma same_db_keeps: "state_io_rel same_db m \<Longrightarrow> state_io_rel (keeps I) m"
  by (auto simp: state_io_rel_def same_db_def keeps_def)

lemmas store_reads_keep [io_intros] = store_reads [THEN same_db_keeps]

section \<open>Running a statement\<close>

lemma stmt_Inr:
  "run_state (mapE g (sql e q)) w = (Inr x, w') \<longleftrightarrow>
     \<not> mc_sql_fails e (n_sql w) \<and>
     (\<exists>d. q (db w) = Some (x, d) \<and> w' = w\<lparr>n_sql := Suc (n_sql w), db := d\<rparr>)"
  by (auto simp: run_simps split: option.splits)

lemma stmt_Inl:
  "run_state (mapE g (sql e q)) w = (Inl err, w') \<Longrightarrow> err = g ErrSql \<and> db w' = db w"
  by (auto simp: run_simps split: option.splits if_splits)

lemma run_stmt:
  "run_state (mapE g (sql e q)) w =
     (if mc_sql_fails e (n_sql w) then (Inl (g ErrSql), w\<lparr>n_sql := Suc (n_sql w)\<rparr>)
      else (case q (db w) of
             None \<Rightarrow> (Inl (g ErrSql), w\<lparr>n_sql := Suc (n_sql w)\<rparr>)
           | Some (x, d) \<Rightarrow> (Inr x, w\<lparr>n_sql := Suc (n_sql w), db := d\<rparr>)))"
  by (auto simp: run_simps split: option.splits)

section \<open>Tenants\<close>

lemma timeOrZero_unixOrZero:
  "timeOrZero (unixOrZero t) = (if 0 < unix t then from_unix (unix t) else zero_time)"
  by (auto simp: timeOrZero_def unixOrZero_def is_zero_time_def zero_time_def unix_def second_def)

lemma unixOrZero_timeOrZero: "0 \<le> s \<Longrightarrow> unixOrZero (timeOrZero s) = s"
  by (auto simp: timeOrZero_def unixOrZero_def is_zero_time_def zero_time_def from_unix_def
      unix_def second_def)

lemma null_string_nullable [simp]: "null_string (nullable s) = s"
  by (simp add: null_string_def nullable_def)

lemma tenantBy_Inr:
  "run_state (tenantBy e P) w = (Inr t, w') \<longleftrightarrow>
     \<not> mc_sql_fails e (n_sql w) \<and> w' = w\<lparr>n_sql := Suc (n_sql w)\<rparr> \<and>
     (\<exists>r. find P (tenants (db w)) = Some r \<and> scanTenant e r = Inr t)"
  by (auto simp: tenantBy_def run_bindE run_stmt select_first_def split: option.splits)

lemma tenantBy_NotFound:
  "run_state (tenantBy e P) w = (Inl ErrNotFound, w') \<Longrightarrow> \<not> list_ex P (tenants (db w))"
  by (auto simp: tenantBy_def run_bindE run_stmt select_first_def scanTenant_def list_ex_iff
           find_None_iff split: option.splits if_splits sum.splits)

lemma scanTenant_Inr:
  "scanTenant e r = Inr t \<longleftrightarrow>
     Decrypt e (tr_user_token_enc r) = Inr (t_user_token t) \<and>
     t_id t = tr_id r \<and> t_meta_user_id t = tr_meta_user_id r \<and>
     t_display_name t = tr_display_name r \<and> t_created_at t = from_unix (tr_created_at r) \<and>
     t_updated_at t = from_unix (tr_updated_at r) \<and>
     t_token_expires_at t = timeOrZero (tr_user_token_expires_at r)"
  by (cases t) (auto simp: scanTenant_def split: sum.splits)

text \<open>With a unique key, the first row found is the only one.\<close>

lemma find_unique:
  "distinct (map f xs) \<Longrightarrow> x \<in> set xs \<Longrightarrow> find (\<lambda>y. f y = f x) xs = Some x"
  by (induction xs) auto

lemma find_SomeD: "find P xs = Some x \<Longrightarrow> x \<in> set xs \<and> P x"
  by (auto simp: find_Some_iff)

text \<open>The row an upsert leaves under the Meta user id.\<close>

definition upserted :: "tenant_row \<Rightarrow> database \<Rightarrow> tenant_row" where
  "upserted r d =
     (case find (\<lambda>o'. tr_meta_user_id o' = tr_meta_user_id r) (tenants d) of
        None \<Rightarrow> r
      | Some o' \<Rightarrow> merge_tenant r o')"

lemma find_map_merge:
  "find (\<lambda>y. tr_meta_user_id y = m) (map (merge_tenant r) ts) =
   map_option (merge_tenant r) (find (\<lambda>y. tr_meta_user_id y = m) ts)"
  by (induction ts) auto

lemma upsert_tenant_find:
  assumes "upsert_tenant r d = Some (x, d')"
  shows "find (\<lambda>y. tr_meta_user_id y = tr_meta_user_id r) (tenants d') = Some (upserted r d)"
proof (cases "find (\<lambda>y. tr_meta_user_id y = tr_meta_user_id r) (tenants d)")
  case None
  then have none: "\<not> list_ex (\<lambda>y. tr_meta_user_id y = tr_meta_user_id r) (tenants d)"
    by (auto simp: find_None_iff list_ex_iff)
  with assms have "tenants d' = tenants d @ [r]"
    by (auto simp: upsert_tenant_def split: if_splits)
  moreover have "find P (xs @ [r]) = Some r" if "find P xs = None" "P r" for P xs
    using that by (induction xs) (auto split: if_splits)
  ultimately show ?thesis using None by (simp add: upserted_def)
next
  case (Some o')
  then have "list_ex (\<lambda>y. tr_meta_user_id y = tr_meta_user_id r) (tenants d)"
    by (auto simp: list_ex_iff dest: find_SomeD)
  with assms have "tenants d' = map (merge_tenant r) (tenants d)"
    by (auto simp: upsert_tenant_def)
  with Some show ?thesis by (simp add: find_map_merge upserted_def)
qed

lemma UpsertTenant_Inr:
  assumes "run_state (UpsertTenant e t) w = (Inr (), w')"
  obtains enc w1 where "run_state (Encrypt e (t_user_token t)) w = (Inr enc, w1)"
    and "upsert_tenant (tenant_record t enc) (db w) = Some ((), db w')"
proof -
  from assms obtain enc w1
    where enc: "run_state (mapE (Wrap ''encrypt user token'') (Encrypt e (t_user_token t))) w =
                  (Inr enc, w1)"
      and up: "run_state (mapE (Wrap ''upsert tenant'')
                  (sql e (upsert_tenant (tenant_record t enc)))) w1 = (Inr (), w')"
    unfolding UpsertTenant_def by (rule bindE_InrE)
  from mapE_InrD [OF enc] have enc': "run_state (Encrypt e (t_user_token t)) w = (Inr enc, w1)" .
  moreover from up have "upsert_tenant (tenant_record t enc) (db w1) = Some ((), db w')"
    by (auto simp: stmt_Inr)
  moreover have "db w1 = db w" by (rule Encrypt_db [OF enc'])
  ultimately show thesis using that by simp
qed

lemma UpsertTenant_Inl: "run_state (UpsertTenant e t) w = (Inl err, w') \<Longrightarrow> db w' = db w"
  by (auto simp: UpsertTenant_def run_bindE run_mapE run_sql
      split: prod.splits sum.splits option.splits if_splits dest!: Encrypt_db)

section \<open>Pages\<close>

lemma scanPage_Inr:
  "scanPage e tid r = Inr p \<longleftrightarrow>
     Decrypt e (pg_page_token_enc r) = Inr (p_page_token p) \<and> p_tenant_id p = tid \<and>
     p_page_id p = pg_page_id r \<and> p_name p = pg_name r \<and>
     p_ig_user_id p = null_string (pg_ig_user_id r) \<and>
     p_ig_username p = null_string (pg_ig_username r) \<and>
     p_synced_at p = from_unix (pg_synced_at r)"
  by (cases p) (auto simp: scanPage_def split: sum.splits)

text \<open>The rows of one tenant, and what it means for a token to be stored for one of its pages.\<close>

definition pages_of :: "string \<Rightarrow> database \<Rightarrow> page_row list" where
  "pages_of tid d = filter (\<lambda>r. pg_tenant_id r = tid) (pages d)"

definition stored_page :: "machine \<Rightarrow> database \<Rightarrow> string \<Rightarrow> page \<Rightarrow> bool" where
  "stored_page e d tid p \<longleftrightarrow> list_ex (\<lambda>r. scanPage e tid r = Inr p) (pages_of tid d)"

lemma PageByID_Inr:
  "run_state (PageByID e tid pid) w = (Inr p, w') \<longleftrightarrow>
     \<not> mc_sql_fails e (n_sql w) \<and> w' = w\<lparr>n_sql := Suc (n_sql w)\<rparr> \<and>
     (\<exists>r. find (\<lambda>r. pg_tenant_id r = tid \<and> pg_page_id r = pid) (pages (db w)) = Some r \<and>
          scanPage e tid r = Inr p)"
  by (auto simp: PageByID_def run_bindE run_stmt select_first_def split: option.splits)

lemma PageByID_stored:
  "run_state (PageByID e tid pid) w = (Inr p, w') \<Longrightarrow>
   stored_page e (db w) tid p \<and> p_page_id p = pid \<and> db w' = db w"
  by (auto simp: PageByID_Inr stored_page_def pages_of_def list_ex_iff scanPage_Inr
      dest!: find_SomeD)

lemma ListPages_Inr:
  "run_state (ListPages e tid) w = (Inr ps, w') \<longleftrightarrow>
     \<not> mc_sql_fails e (n_sql w) \<and> w' = w\<lparr>n_sql := Suc (n_sql w)\<rparr> \<and>
     map_res (scanPage e tid) (sort_key pg_name (pages_of tid (db w))) = Inr ps"
  by (auto simp: ListPages_def run_bindE run_stmt select_all_def pages_of_def)

lemma ListPages_stored:
  assumes "run_state (ListPages e tid) w = (Inr ps, w')" "p \<in> set ps"
  shows "stored_page e (db w) tid p"
proof -
  from assms(1) have "map_res (scanPage e tid) (sort_key pg_name (pages_of tid (db w))) = Inr ps"
    by (simp add: ListPages_Inr)
  from map_res_preimage [OF this assms(2)]
  show ?thesis by (auto simp: stored_page_def list_ex_iff)
qed

text \<open>Reads of one tenant's pages see that tenant's rows and nothing else.\<close>

lemma find_pages_of:
  "find (\<lambda>r. pg_tenant_id r = tid \<and> pg_page_id r = pid) rs =
   find (\<lambda>r. pg_page_id r = pid) (filter (\<lambda>r. pg_tenant_id r = tid) rs)"
  by (induction rs) auto

lemma PageByID_isolated:
  assumes "pages_of tid (db w1) = pages_of tid (db w2)" "n_sql w1 = n_sql w2"
  shows "fst (run_state (PageByID e tid pid) w1) = fst (run_state (PageByID e tid pid) w2)"
  using assms
  by (auto simp: PageByID_def run_bindE run_stmt select_first_def find_pages_of pages_of_def
      split: option.splits)

lemma ListPages_isolated:
  assumes "pages_of tid (db w1) = pages_of tid (db w2)" "n_sql w1 = n_sql w2"
  shows "fst (run_state (ListPages e tid) w1) = fst (run_state (ListPages e tid) w2)"
  using assms
  by (auto simp: ListPages_def run_bindE run_stmt select_all_def pages_of_def)

section \<open>The transactions\<close>

lemma run_bindE_Inr:
  "run_state (bindE m f) w = (Inr y, w'') \<longleftrightarrow>
     (\<exists>x w'. run_state m w = (Inr x, w') \<and> run_state (f x) w' = (Inr y, w''))"
  by (auto simp: run_bindE split: prod.splits sum.splits)

lemma run_mapE_Inr [simp]:
  "run_state (mapE g m) w = (Inr y, w') \<longleftrightarrow> run_state m w = (Inr y, w')"
  by (auto simp: run_mapE split: prod.splits sum.splits)

lemma run_sql_Inr:
  "run_state (sql e q) w = (Inr x, w') \<longleftrightarrow>
     \<not> mc_sql_fails e (n_sql w) \<and>
     (\<exists>d. q (db w) = Some (x, d) \<and> w' = w\<lparr>n_sql := Suc (n_sql w), db := d\<rparr>)"
  by (auto simp: run_sql split: option.splits)

lemma DeleteTenant_Inr:
  assumes "run_state (DeleteTenant e tid) w = (Inr x, w')"
  shows "db w' = (db w)
    \<lparr>tenants := filter (\<lambda>r. tr_id r \<noteq> tid) (tenants (db w)),
     pages := filter (\<lambda>r. pg_tenant_id r \<noteq> tid) (pages (db w)),
     oauth_codes := filter (\<lambda>r. co_tenant_id r \<noteq> tid) (oauth_codes (db w)),
     oauth_refresh_tokens := filter (\<lambda>r. rr_tenant_id r \<noteq> tid) (oauth_refresh_tokens (db w))\<rparr>"
  using in_tx_Inr [OF assms [unfolded DeleteTenant_def]]
  by (auto simp: run_bindE_Inr run_sql_Inr delete_tokens_of_def delete_codes_of_def
      delete_pages_of_def delete_tenant_def)

lemma insertPage_Inr:
  assumes "run_state (insertPage e tid p) w = (Inr x, w')"
  obtains enc w1 where "run_state (Encrypt e (p_page_token p)) w = (Inr enc, w1)"
    and "insert_page (page_record tid p enc) (db w) = Some ((), db w')"
  using assms unfolding insertPage_def
  by (auto simp: run_bindE_Inr run_sql_Inr) (metis Encrypt_db)

lemma insert_pages:
  assumes "run_state (map_stateE (insertPage e tid) ps) w = (Inr us, w')"
  shows "\<exists>encs. length encs = length ps \<and>
     db w' = (db w)\<lparr>pages := pages (db w) @ map (\<lambda>(p, enc). page_record tid p enc) (zip ps encs)\<rparr> \<and>
     (cipher_ok e \<longrightarrow> list_all2 (\<lambda>p enc. Decrypt e enc = Inr (p_page_token p)) ps encs)"
  using assms
proof (induction ps arbitrary: w us)
  case (Cons p ps)
  then obtain u w1 us' where one: "run_state (insertPage e tid p) w = (Inr u, w1)"
    and rest: "run_state (map_stateE (insertPage e tid) ps) w1 = (Inr us', w')"
    by (auto simp: run_bindE_Inr)
  from one obtain enc w0 where enc: "run_state (Encrypt e (p_page_token p)) w = (Inr enc, w0)"
    and ins: "insert_page (page_record tid p enc) (db w) = Some ((), db w1)"
    by (rule insertPage_Inr)
  from Cons.IH [OF rest] obtain encs where len: "length encs = length ps"
    and d: "db w' = (db w1)\<lparr>pages := pages (db w1) @
              map (\<lambda>(p, enc). page_record tid p enc) (zip ps encs)\<rparr>"
    and dec: "cipher_ok e \<longrightarrow> list_all2 (\<lambda>p enc. Decrypt e enc = Inr (p_page_token p)) ps encs"
    by blast
  from ins have "db w1 = (db w)\<lparr>pages := pages (db w) @ [page_record tid p enc]\<rparr>"
    by (auto simp: insert_page_def split: if_splits)
  with d have "db w' = (db w)\<lparr>pages := pages (db w) @
      map (\<lambda>(p, enc). page_record tid p enc) (zip (p # ps) (enc # encs))\<rparr>" by simp
  moreover have "cipher_ok e \<longrightarrow>
      list_all2 (\<lambda>p enc. Decrypt e enc = Inr (p_page_token p)) (p # ps) (enc # encs)"
    using dec ciph.enc_dec [OF _ enc] by simp
  ultimately show ?case using len by (intro exI [of _ "enc # encs"]) simp
qed simp

lemma ReplacePages_Inr:
  assumes "run_state (ReplacePages e tid ps) w = (Inr x, w')"
  shows "\<exists>encs. length encs = length ps \<and>
     db w' = (db w)\<lparr>pages := filter (\<lambda>r. pg_tenant_id r \<noteq> tid) (pages (db w)) @
                map (\<lambda>(p, enc). page_record tid p enc) (zip ps encs)\<rparr> \<and>
     (cipher_ok e \<longrightarrow> list_all2 (\<lambda>p enc. Decrypt e enc = Inr (p_page_token p)) ps encs)"
proof -
  from in_tx_Inr [OF assms [unfolded ReplacePages_def]]
  obtain us w2 where ins: "run_state (map_stateE (insertPage e tid) ps)
      (w\<lparr>n_sql := Suc (Suc (n_sql w)),
         db := (db w)\<lparr>pages := filter (\<lambda>r. pg_tenant_id r \<noteq> tid) (pages (db w))\<rparr>\<rparr>) = (Inr us, w2)"
    and d2: "db w' = db w2"
    by (auto simp: run_bindE_Inr run_sql_Inr delete_pages_of_def)
  from insert_pages [OF ins] show ?thesis by (simp add: d2)
qed

text \<open>What the columns keep of a page: it belongs to the tenant, and its time loses the fraction.\<close>

definition as_stored :: "string \<Rightarrow> page \<Rightarrow> page" where
  "as_stored tid p = p\<lparr>p_tenant_id := tid, p_synced_at := from_unix (unix (p_synced_at p))\<rparr>"

lemma scanPage_record:
  "Decrypt e enc = Inr (p_page_token p) \<Longrightarrow> scanPage e tid (page_record tid p enc) = Inr (as_stored tid p)"
  by (simp add: scanPage_Inr page_record_def as_stored_def)

lemma insort_key_map: "insort_key f (g x) (map g xs) = map g (insort_key (\<lambda>y. f (g y)) x xs)"
  by (induction xs) auto

lemma sort_key_map: "sort_key f (map g xs) = map g (sort_key (\<lambda>y. f (g y)) xs)"
  by (induction xs) (auto simp: insort_key_map)

lemma scan_sorted_rows:
  assumes "length encs = length ps"
    and "list_all2 (\<lambda>p enc. Decrypt e enc = Inr (p_page_token p)) ps encs"
  shows "map_res (scanPage e tid)
           (sort_key pg_name (map (\<lambda>(p, enc). page_record tid p enc) (zip ps encs))) =
         Inr (sort_key p_name (map (as_stored tid) ps))"
proof -
  let ?zs = "zip ps encs" and ?row = "\<lambda>(p, enc). page_record tid p enc"
  have row: "pg_name (?row z) = p_name (fst z)" for z
    by (simp add: page_record_def split: prod.splits)
  have "scanPage e tid (?row z) = Inr (as_stored tid (fst z))" if "z \<in> set ?zs" for z
    using assms that
    by (auto simp: list_all2_iff intro!: scanPage_record split: prod.splits)
  then have "map_res (scanPage e tid) (map ?row (sort_key (\<lambda>z. p_name (fst z)) ?zs)) =
      Inr (map (\<lambda>z. as_stored tid (fst z)) (sort_key (\<lambda>z. p_name (fst z)) ?zs))"
    by (simp add: map_res_Inr list_all2_map1 list_all2_map2 list_all2_same)
  also have "map (\<lambda>z. as_stored tid (fst z)) (sort_key (\<lambda>z. p_name (fst z)) ?zs) =
      sort_key p_name (map (\<lambda>z. as_stored tid (fst z)) ?zs)"
    by (simp add: sort_key_map as_stored_def)
  also have "map (\<lambda>z. as_stored tid (fst z)) ?zs = map (as_stored tid) ps"
    using assms(1) by (simp flip: map_map [of "as_stored tid" fst, unfolded comp_def])
  finally show ?thesis by (simp add: sort_key_map row)
qed

section \<open>Clients, codes, tokens and states\<close>

lemma PurgeExpired_Inr:
  assumes "run_state (PurgeExpired e now) w = (Inr x, w')"
  shows "db w' = (db w)
    \<lparr>oauth_codes := filter (\<lambda>r. unix now < co_expires_at r) (oauth_codes (db w)),
     login_states := filter (\<lambda>r. unix now < lr_expires_at r) (login_states (db w)),
     oauth_refresh_tokens :=
       filter (\<lambda>r. unix now < rr_expires_at r) (oauth_refresh_tokens (db w))\<rparr>"
  using assms
  by (auto simp: PurgeExpired_def run_bindE_Inr run_sql_Inr purge_codes_def purge_states_def
      purge_tokens_def not_le)

lemma ClientByID_Inr:
  "run_state (ClientByID e cid) w = (Inr c, w') \<longleftrightarrow>
     \<not> mc_sql_fails e (n_sql w) \<and> w' = w\<lparr>n_sql := Suc (n_sql w)\<rparr> \<and>
     (\<exists>r. find (\<lambda>r. cr_client_id r = cid) (oauth_clients (db w)) = Some r \<and>
          decode_strings (cr_redirect_uris r) = Some (c_redirect_uris c) \<and>
          c_id c = cr_client_id r \<and> c_name c = cr_client_name r \<and>
          c_created_at c = from_unix (cr_created_at r))"
  by (cases c) (auto simp: ClientByID_def run_bindE run_stmt select_first_def split: option.splits)

lemma ConsumeAuthCode_Inr:
  "run_state (ConsumeAuthCode e code) w = (Inr c, w') \<longleftrightarrow>
     \<not> mc_sql_fails e (n_sql w) \<and>
     (\<exists>r. find (\<lambda>r. co_code r = code) (oauth_codes (db w)) = Some r \<and> c = scanCode r) \<and>
     w' = w\<lparr>n_sql := Suc (n_sql w),
            db := (db w)\<lparr>oauth_codes := filter (\<lambda>r. co_code r \<noteq> code) (oauth_codes (db w))\<rparr>\<rparr>"
  by (auto simp: ConsumeAuthCode_def run_bindE run_stmt delete_code_def split: option.splits)

lemma RotateRefreshToken_Inr:
  "run_state (RotateRefreshToken e h now) w = (Inr t, w') \<longleftrightarrow>
     \<not> mc_sql_fails e (n_sql w) \<and>
     (\<exists>r. find (token_usable h (unix now)) (oauth_refresh_tokens (db w)) = Some r \<and>
          t = scanToken r) \<and>
     w' = w\<lparr>n_sql := Suc (n_sql w), db := (db w)\<lparr>oauth_refresh_tokens :=
        map (\<lambda>r. if token_usable h (unix now) r then r\<lparr>rr_revoked := True\<rparr> else r)
          (oauth_refresh_tokens (db w))\<rparr>\<rparr>"
  by (auto simp: RotateRefreshToken_def run_bindE run_stmt rotate_token_def split: option.splits)

lemma ConsumeLoginState_Inr:
  assumes "run_state (ConsumeLoginState e st) w = (Inr l, w')"
  shows "\<not> mc_sql_fails e (n_sql w)"
    and "\<exists>r. find (\<lambda>r. lr_state r = st) (login_states (db w)) = Some r \<and> ls_state l = st \<and>
         Option.bind (json_parse (lr_oauth_request r)) dec_request = Some (ls_request l) \<and>
         ls_expires_at l = from_unix (lr_expires_at r)"
    and "w' = w\<lparr>n_sql := Suc (n_sql w),
            db := (db w)\<lparr>login_states := filter (\<lambda>r. lr_state r \<noteq> st) (login_states (db w))\<rparr>\<rparr>"
  using assms
  by (auto simp: ConsumeLoginState_def run_bindE run_stmt delete_state_def
      split: option.splits if_splits dest: find_SomeD)

text \<open>A request comes back from its JSON object as it was.\<close>

lemma dec_request_json: "dec_request (request_json q) = Some q"
  by (cases q) (simp add: dec_request_def request_json_def json_field_def ascii_lower_def)

section \<open>Through the JSON text\<close>

lemmas json_reading = json_roundtrip utf8_valid_ascii json_field_def json_struct_def ascii_lower_def
  min64_def max64_def

lemma reread_request:
  "Option.bind (json_parse (print_json (request_json q))) dec_request = Some
     \<lparr>or_client_id = to_utf8 (or_client_id q), or_redirect_uri = to_utf8 (or_redirect_uri q),
      or_code_challenge = to_utf8 (or_code_challenge q),
      or_client_state = to_utf8 (or_client_state q), or_resource = to_utf8 (or_resource q)\<rparr>"
    (is "_ = Some ?q")
proof -
  have keys: "to_utf8 k = k" if "k \<in> {''client_id'', ''redirect_uri'', ''code_challenge'', ''client_state'', ''resource''}" for k
    using that by (auto intro!: to_utf8_id utf8_valid_ascii)
  have "sane (request_json q) = request_json ?q"
    by (simp add: request_json_def keys)
  moreover have "printable (request_json q)" by (simp add: request_json_def)
  ultimately show ?thesis by (simp add: json_reread dec_request_json del: print_json.simps)
qed

lemma reread_uris:
  "decode_strings (print_json (JArr (map JStr uris))) = Some (map to_utf8 uris)"
proof -
  have "those (map (dec_string \<circ> (JStr \<circ> to_utf8)) uris) = Some (map to_utf8 uris)"
    by (induction uris) simp_all
  moreover have "printable (JArr (map JStr uris))" by auto
  ultimately show ?thesis
    by (simp add: decode_strings_def json_reread comp_def del: print_json.simps)
qed

end
