(* ===== verification/Http.thy ===== *)
theory Http
  imports StoreFacts
begin

text \<open>
  The requests the handlers read and the responses they write: a status, the headers the code
  sets, and a body. The pages of \<open>web/\<close> are a body with the data handed to the template.
\<close>

record http_req =
  rq_method :: string
  rq_path :: string
  rq_raw_query :: string
  rq_is_form :: bool \<comment> \<open>the content type is \<^verbatim>\<open>application/x-www-form-urlencoded\<close>\<close>
  rq_body :: string
  rq_cut :: bool \<comment> \<open>reading on after \<open>rq_body\<close> fails, the body is longer than the limit\<close>

datatype page_data =
    PrivacyPage
  | DeauthorizePage string
  | ReconnectedPage string int
  | ErrorPage string string string \<comment> \<open>title, message, hint\<close>

datatype resp_body =
    NoBody
  | JsonBody json
  | TextBody string
  | PageBody page_data

record http_resp =
  rs_status :: int
  rs_headers :: "(string \<times> string) list"
  rs_body :: resp_body

type_synonym handler = "(world, http_resp) state"

definition Query :: "http_req \<Rightarrow> values" where
  "Query r = parse_query (rq_raw_query r)"

text \<open>
  \<open>ParseForm\<close> reads the body of a POST, PUT or PATCH form, and fails when the body cannot be read to
  its end or when a pair of the body or of the query does not parse. \<open>rq_path\<close> is the path as sent,
  escapes included.
\<close>

definition query_ok :: "string \<Rightarrow> bool" where
  "query_ok s \<longleftrightarrow> list_all (\<lambda>part. part = [] \<or> parse_pair part \<noteq> None) (split_on (CHR ''&'') s)"

definition ParseForm :: "http_req \<Rightarrow> values option" where
  "ParseForm r =
     (let body = (if rq_method r \<in> {''POST'', ''PUT'', ''PATCH''} \<and> rq_is_form r
                  then rq_body r else []);
          failed = (rq_method r \<in> {''POST'', ''PUT'', ''PATCH''} \<and> rq_is_form r \<and> rq_cut r) in
      if failed then None
      else if query_ok body \<and> query_ok (rq_raw_query r) then Some (parse_query body) else None)"

definition redirect :: "string \<Rightarrow> http_resp" where
  "redirect target = \<lparr>rs_status = 302, rs_headers = [(''Location'', target)], rs_body = NoBody\<rparr>"

definition location :: "http_resp \<Rightarrow> string option" where
  "location resp = map_of (rs_headers resp) ''Location''"

definition no_content :: http_resp where
  "no_content = \<lparr>rs_status = 204, rs_headers = [], rs_body = NoBody\<rparr>"

definition with_headers :: "(string \<times> string) list \<Rightarrow> http_resp \<Rightarrow> http_resp" where
  "with_headers hs resp = resp\<lparr>rs_headers := hs @ rs_headers resp\<rparr>"

lemma location_redirect [simp]: "location (redirect t) = Some t"
  by (simp add: location_def redirect_def)

lemma location_no_content [simp]: "location no_content = None"
  by (simp add: location_def no_content_def)

text \<open>A handler's steps: run an operation and look at its result.\<close>

lemma run_bind_pair [run_simps]:
  "run_state (State_Monad.bind m f) w = (let (r, w') = run_state m w in run_state (f r) w')"
  by simp

end
