(* ===== verification/AuthServer.thy ===== *)
theory AuthServer
  imports Http
begin

text \<open>
  \<open>internal/adapters/authserver\<close>: the OAuth 2.1 authorization server. Dynamic registration
  (\<open>register.go\<close>), the authorization endpoint (\<open>authorize.go\<close>), the token endpoint with both
  grants (\<open>token.go\<close>), the access tokens (\<open>jwt.go\<close>), the bridge back from the Meta login
  (\<open>server.go\<close>) and the metadata documents (\<open>metadata.go\<close>). What they guarantee is in theory
  \<open>AuthFacts\<close>.
\<close>

section \<open>server.go\<close>

definition AuthCodeTTL :: duration where "AuthCodeTTL = 5 * minute"
definition LoginStateTTL :: duration where "LoginStateTTL = 10 * minute"

record options =
  o_issuer :: string
  o_resource :: string
  o_signing_key :: string
  o_login_path :: string
  o_access_ttl :: duration
  o_refresh_ttl :: duration

definition default_login_path :: "options \<Rightarrow> options" where
  "default_login_path opts =
     (if o_login_path opts = [] then opts\<lparr>o_login_path := ''/meta/login''\<rparr> else opts)"

definition writeJSON :: "int \<Rightarrow> json \<Rightarrow> http_resp" where
  "writeJSON status body =
     \<lparr>rs_status = status,
      rs_headers = [(''Content-Type'', ''application/json''), (''Cache-Control'', ''no-store'')],
      rs_body = JsonBody body\<rparr>"

definition writeOAuthError :: "int \<Rightarrow> string \<Rightarrow> string \<Rightarrow> http_resp" where
  "writeOAuthError status code description =
     writeJSON status (JObj ((''error'', JStr code) #
       (if description = [] then [] else [(''error_description'', JStr description)])))"

definition cors_headers :: "(string \<times> string) list" where
  "cors_headers =
     [(''Access-Control-Allow-Origin'', ''*''),
      (''Access-Control-Allow-Methods'', ''GET, POST, OPTIONS''),
      (''Access-Control-Allow-Headers'', ''Content-Type, Authorization, Mcp-Protocol-Version'')]"

definition errInvalidRequest :: string where "errInvalidRequest = ''invalid_request''"
definition errInvalidClient :: string where "errInvalidClient = ''invalid_client''"
definition errInvalidGrant :: string where "errInvalidGrant = ''invalid_grant''"
definition errUnauthorizedClient :: string where "errUnauthorizedClient = ''unauthorized_client''"
definition errUnsupportedGrantType :: string where
  "errUnsupportedGrantType = ''unsupported_grant_type''"
definition errInvalidClientMeta :: string where
  "errInvalidClientMeta = ''invalid_client_metadata''"
definition errServerError :: string where "errServerError = ''server_error''"

definition internal_error :: http_resp where
  "internal_error = writeOAuthError 500 errServerError ''erreur interne''"

section \<open>register.go\<close>

definition maxRedirectURIs :: nat where "maxRedirectURIs = 10"

definition isLoopback :: "string \<Rightarrow> bool" where
  "isLoopback host \<longleftrightarrow> host = ''localhost'' \<or> host = ''127.0.0.1'' \<or> host = ''::1''"

text \<open>The description of the refusal, or none when the URI is acceptable.\<close>

definition validateRedirectURI :: "machine \<Rightarrow> string \<Rightarrow> string option" where
  "validateRedirectURI e raw =
     (case mc_url_parse e raw of
        None \<Rightarrow> Some ''redirect_uri illisible''
      | Some u \<Rightarrow>
          if u_fragment u \<noteq> [] \<or> CHR ''#'' \<in> set raw
          then Some ''redirect_uri ne doit pas contenir de fragment''
          else if u_scheme u = ''https'' then
            (if u_host u = [] then Some ''redirect_uri sans hote'' else None)
          else if u_scheme u = ''http'' then
            (if isLoopback (u_hostname u) then None
             else Some ''redirect_uri en http n'est autorisee que sur localhost'')
          else Some ''redirect_uri doit etre en https, ou en http sur localhost'')"

fun first_invalid :: "machine \<Rightarrow> string list \<Rightarrow> string option" where
  "first_invalid e [] = None"
| "first_invalid e (uri # uris) =
     (case validateRedirectURI e uri of
        Some err \<Rightarrow> Some err
      | None \<Rightarrow> first_invalid e uris)"

definition dec_registration :: "json \<Rightarrow> (string \<times> string list) option" where
  "dec_registration j =
     Option.bind (json_fields j) (\<lambda>fs.
     Option.bind (str_field ''client_name'' fs) (\<lambda>name.
     Option.bind (list_field dec_string ''redirect_uris'' fs) (\<lambda>uris.
       Some (name, uris))))"

definition registration_response :: "oauth_client \<Rightarrow> json" where
  "registration_response c = JObj
     ([(''client_id'', JStr (c_id c)),
       (''client_id_issued_at'', JNum (unix (c_created_at c)))] @
      (if c_name c = [] then [] else [(''client_name'', JStr (c_name c))]) @
      [(''redirect_uris'', JArr (map JStr (c_redirect_uris c))),
       (''grant_types'', JArr [JStr ''authorization_code'', JStr ''refresh_token'']),
       (''response_types'', JArr [JStr ''code'']),
       (''token_endpoint_auth_method'', JStr ''none'')])"

definition RegisterHandler :: "machine \<Rightarrow> http_req \<Rightarrow> handler" where
  "RegisterHandler e r = State_Monad.bind
     (if rq_method r = ''OPTIONS'' then State_Monad.return no_content
      else (case Option.bind (json_first (rq_body r)) dec_registration of
        None \<Rightarrow> State_Monad.return
          (writeOAuthError 400 errInvalidClientMeta ''corps JSON illisible'')
      | Some (name, uris) \<Rightarrow>
          if length uris = 0 then State_Monad.return
            (writeOAuthError 400 errInvalidClientMeta ''redirect_uris est obligatoire'')
          else if maxRedirectURIs < length uris then State_Monad.return
            (writeOAuthError 400 errInvalidClientMeta ''trop de redirect_uris'')
          else (case first_invalid e uris of
            Some err \<Rightarrow> State_Monad.return (writeOAuthError 400 errInvalidClientMeta err)
          | None \<Rightarrow> do {
              secret \<leftarrow> randomSecret e;
              (case secret of
                Inl _ \<Rightarrow> State_Monad.return internal_error
              | Inr clientID \<Rightarrow> do {
                  now \<leftarrow> clock_now e;
                  let client = \<lparr>c_id = clientID, c_name = trim_space name,
                                c_redirect_uris = uris, c_created_at = now\<rparr>;
                  saved \<leftarrow> RegisterClient e client;
                  (case saved of
                    Inl _ \<Rightarrow> State_Monad.return internal_error
                  | Inr _ \<Rightarrow> State_Monad.return
                      (writeJSON 201 (registration_response client)))
                })
            })))
     (\<lambda>resp. State_Monad.return (with_headers cors_headers resp))"

section \<open>authorize.go\<close>

definition set_params :: "values \<Rightarrow> (string \<times> string) list \<Rightarrow> values" where
  "set_params q params =
     foldl (\<lambda>q (k, v). if v \<noteq> [] then values_set q k v else q) q params"

definition redirectWithParams :: "machine \<Rightarrow> string \<Rightarrow> (string \<times> string) list \<Rightarrow> string" where
  "redirectWithParams e redirectURI params =
     (case mc_url_parse e redirectURI of
        None \<Rightarrow> redirectURI
      | Some u \<Rightarrow>
          mc_url_string e
            (u\<lparr>u_raw_query := values_encode (set_params (parse_query (u_raw_query u)) params)\<rparr>))"

definition redirectError :: "machine \<Rightarrow> string \<Rightarrow> string \<Rightarrow> string \<Rightarrow> string \<Rightarrow> http_resp" where
  "redirectError e redirectURI st code description =
     redirect (redirectWithParams e redirectURI
       ([(''error'', code), (''error_description'', description)] @
        (if st \<noteq> [] then [(''state'', st)] else [])))"

definition AuthorizeHandler :: "machine \<Rightarrow> options \<Rightarrow> http_req \<Rightarrow> handler" where
  "AuthorizeHandler e opts r =
     (let q = Query r;
          clientID = values_get q ''client_id'';
          redirectURI = values_get q ''redirect_uri'' in
      if clientID = [] then State_Monad.return
        (writeOAuthError 400 errInvalidRequest ''client_id manquant'')
      else do {
        found \<leftarrow> ClientByID e clientID;
        (case found of
          Inl err \<Rightarrow>
            State_Monad.return
              (if errors_is err ErrNotFound
               then writeOAuthError 401 errInvalidClient ''client_id inconnu''
               else internal_error)
        | Inr client \<Rightarrow>
            if redirectURI = [] \<or> \<not> AllowsRedirectURI client redirectURI
            then State_Monad.return (writeOAuthError 400 errInvalidRequest
              ''redirect_uri absente ou non enregistree pour ce client'')
            else
              (let clientState = values_get q ''state'';
                   challenge = values_get q ''code_challenge'';
                   resource = values_get q ''resource'';
                   reject = redirectError e redirectURI clientState in
               if values_get q ''response_type'' \<noteq> ''code'' then State_Monad.return
                 (reject errInvalidRequest ''seul response_type=code est supporte'')
               else if challenge = [] then State_Monad.return
                 (reject errInvalidRequest ''code_challenge est obligatoire (PKCE)'')
               else if values_get q ''code_challenge_method'' \<noteq> ''S256'' then State_Monad.return
                 (reject errInvalidRequest ''seul code_challenge_method=S256 est supporte'')
               else if resource \<noteq> [] \<and> resource \<noteq> o_resource opts then State_Monad.return
                 (reject errInvalidRequest ''resource ne correspond pas a ce serveur MCP'')
               else do {
                 secret \<leftarrow> randomSecret e;
                 (case secret of
                   Inl _ \<Rightarrow> State_Monad.return (reject errServerError ''erreur interne'')
                 | Inr st \<Rightarrow> do {
                     now \<leftarrow> clock_now e;
                     saved \<leftarrow> CreateLoginState e
                       \<lparr>ls_state = st,
                        ls_request = \<lparr>or_client_id = clientID, or_redirect_uri = redirectURI,
                          or_code_challenge = challenge, or_client_state = clientState,
                          or_resource = resource\<rparr>,
                        ls_expires_at = time_add now LoginStateTTL\<rparr>;
                     State_Monad.return
                       (case saved of
                          Inl _ \<Rightarrow> reject errServerError ''erreur interne''
                        | Inr _ \<Rightarrow>
                            redirect (o_login_path opts @ ''?state='' @ query_escape st))
                   })
               }))
      })"

text \<open>\<open>IssueAuthCode\<close>, called back by the Meta login.\<close>

definition IssueAuthCode :: "machine \<Rightarrow> oauth_request \<Rightarrow> string \<Rightarrow> string io" where
  "IssueAuthCode e req tid =
     bindE (randomSecret e) (\<lambda>code. do {
       now \<leftarrow> clock_now e;
       bindE (CreateAuthCode e
         \<lparr>ac_code = code, ac_client_id = or_client_id req, ac_tenant_id = tid,
          ac_redirect_uri = or_redirect_uri req, ac_code_challenge = or_code_challenge req,
          ac_resource = or_resource req, ac_expires_at = time_add now AuthCodeTTL\<rparr>) (\<lambda>_.
       ok (redirectWithParams e (or_redirect_uri req)
         [(''code'', code), (''state'', or_client_state req)]))
     })"

section \<open>jwt.go\<close>

record claims =
  cl_issuer :: string
  cl_subject :: string
  cl_audience :: string
  cl_client_id :: string
  cl_issued_at :: int
  cl_expires_at :: int
  cl_jti :: string

definition algHS256 :: string where "algHS256 = ''HS256''"
definition typJWT :: string where "typJWT = ''JWT''"

definition sign :: "machine \<Rightarrow> options \<Rightarrow> string \<Rightarrow> string" where
  "sign e opts signingInput = mc_hmac e (o_signing_key opts) signingInput"

definition encodeSegment :: "json \<Rightarrow> string" where
  "encodeSegment v = b64_encode (print_json v)"

definition decodeSegment :: "string \<Rightarrow> json option" where
  "decodeSegment segment = Option.bind (b64_decode segment) (json_parse)"

definition header_json :: json where
  "header_json = JObj [(''alg'', JStr algHS256), (''typ'', JStr typJWT)]"

definition dec_header :: "json \<Rightarrow> (string \<times> string) option" where
  "dec_header j =
     Option.bind (json_fields j) (\<lambda>fs.
     Option.bind (str_field ''alg'' fs) (\<lambda>alg.
     Option.bind (str_field ''typ'' fs) (\<lambda>typ. Some (alg, typ))))"

definition claims_json :: "claims \<Rightarrow> json" where
  "claims_json c = JObj
     [(''iss'', JStr (cl_issuer c)), (''sub'', JStr (cl_subject c)),
      (''aud'', JStr (cl_audience c)), (''client_id'', JStr (cl_client_id c)),
      (''iat'', JNum (cl_issued_at c)), (''exp'', JNum (cl_expires_at c)),
      (''jti'', JStr (cl_jti c))]"

definition dec_claims :: "json \<Rightarrow> claims option" where
  "dec_claims j =
     Option.bind (json_fields j) (\<lambda>fs.
     Option.bind (str_field ''iss'' fs) (\<lambda>iss.
     Option.bind (str_field ''sub'' fs) (\<lambda>sub.
     Option.bind (str_field ''aud'' fs) (\<lambda>aud.
     Option.bind (str_field ''client_id'' fs) (\<lambda>cid.
     Option.bind (int_field ''iat'' fs) (\<lambda>iat.
     Option.bind (int_field ''exp'' fs) (\<lambda>expires.
     Option.bind (str_field ''jti'' fs) (\<lambda>jti.
       Some \<lparr>cl_issuer = iss, cl_subject = sub, cl_audience = aud, cl_client_id = cid,
             cl_issued_at = iat, cl_expires_at = expires, cl_jti = jti\<rparr>))))))))"

definition TenantID :: "claims \<Rightarrow> string" where
  "TenantID c = cl_subject c"

definition Expiry :: "claims \<Rightarrow> instant" where
  "Expiry c = from_unix (cl_expires_at c)"

definition MintAccessToken ::
  "machine \<Rightarrow> options \<Rightarrow> string \<Rightarrow> string \<Rightarrow> (string \<times> instant) io" where
  "MintAccessToken e opts tid clientID =
     bindE (mapE (Wrap ''jti'') (randomSecret e)) (\<lambda>jti. do {
       now \<leftarrow> clock_now e;
       let expiry = time_add now (o_access_ttl opts);
       let payload = encodeSegment (claims_json
             \<lparr>cl_issuer = o_issuer opts, cl_subject = tid, cl_audience = o_resource opts,
              cl_client_id = clientID, cl_issued_at = unix now, cl_expires_at = unix expiry,
              cl_jti = jti\<rparr>);
       let signingInput = encodeSegment header_json @ ''.'' @ payload;
       ok (signingInput @ ''.'' @ b64_encode (sign e opts signingInput), expiry)
     })"

definition splitToken :: "string \<Rightarrow> (string \<times> string \<times> string) option" where
  "splitToken token =
     (case cut (CHR ''.'') token of
        None \<Rightarrow> None
      | Some (header, rest) \<Rightarrow>
          (case cut (CHR ''.'') rest of
             None \<Rightarrow> None
           | Some (payload, signature) \<Rightarrow>
               if header = [] \<or> payload = [] \<or> signature = [] \<or> CHR ''.'' \<in> set signature
               then None else Some (header, payload, signature)))"

text \<open>The clock is only read once everything else has been accepted.\<close>

definition VerifyAccessToken :: "machine \<Rightarrow> options \<Rightarrow> string \<Rightarrow> claims io" where
  "VerifyAccessToken e opts token =
     (case splitToken token of
        None \<Rightarrow> fail ErrInvalidToken
      | Some (headerSeg, payloadSeg, signatureSeg) \<Rightarrow>
     (case Option.bind (decodeSegment headerSeg) dec_header of
        None \<Rightarrow> fail ErrInvalidToken
      | Some (alg, typ) \<Rightarrow>
          if alg \<noteq> algHS256 \<or> (typ \<noteq> [] \<and> typ \<noteq> typJWT) then fail ErrInvalidToken
          else
     (case b64_decode signatureSeg of
        None \<Rightarrow> fail ErrInvalidToken
      | Some signature \<Rightarrow>
          if signature \<noteq> sign e opts (headerSeg @ ''.'' @ payloadSeg) then fail ErrInvalidToken
          else
     (case Option.bind (decodeSegment payloadSeg) dec_claims of
        None \<Rightarrow> fail ErrInvalidToken
      | Some c \<Rightarrow>
          if cl_issuer c \<noteq> o_issuer opts \<or> cl_audience c \<noteq> o_resource opts
          then fail ErrInvalidToken
          else if cl_subject c = [] then fail ErrInvalidToken
          else if cl_expires_at c = 0 then fail ErrInvalidToken
          else do {
            now \<leftarrow> clock_now e;
            (if \<not> now < Expiry c then fail ErrInvalidToken else ok c)
          }))))"

section \<open>token.go\<close>

definition minVerifierLen :: nat where "minVerifierLen = 43"
definition maxVerifierLen :: nat where "maxVerifierLen = 128"

definition verifyPKCE :: "machine \<Rightarrow> string \<Rightarrow> string \<Rightarrow> bool" where
  "verifyPKCE e verifier challenge \<longleftrightarrow> b64_encode (mc_sha256 e verifier) = challenge"

text \<open>
  \<open>int64(d.Seconds())\<close> truncates towards zero. The detour through a 64 bit float is exact for
  the lifetimes in use (up to 97 days).
\<close>

definition whole_seconds :: "duration \<Rightarrow> int" where
  "whole_seconds d = (if 0 \<le> d then d div second else - ((- d) div second))"

definition token_response :: "string \<Rightarrow> int \<Rightarrow> string \<Rightarrow> json" where
  "token_response access expires_in refresh = JObj
     [(''access_token'', JStr access), (''token_type'', JStr ''Bearer''),
      (''expires_in'', JNum expires_in), (''refresh_token'', JStr refresh)]"

definition issueTokens :: "machine \<Rightarrow> options \<Rightarrow> string \<Rightarrow> string \<Rightarrow> handler" where
  "issueTokens e opts tid clientID = do {
     minted \<leftarrow> MintAccessToken e opts tid clientID;
     (case minted of
       Inl _ \<Rightarrow> State_Monad.return internal_error
     | Inr (accessToken, expiry) \<Rightarrow> do {
         secret \<leftarrow> randomSecret e;
         (case secret of
           Inl _ \<Rightarrow> State_Monad.return internal_error
         | Inr refreshToken \<Rightarrow> do {
             now \<leftarrow> clock_now e;
             saved \<leftarrow> CreateRefreshToken e
               \<lparr>rt_hash = hashToken e refreshToken, rt_client_id = clientID,
                rt_tenant_id = tid, rt_expires_at = time_add now (o_refresh_ttl opts),
                rt_revoked = False\<rparr>;
             (case saved of
               Inl _ \<Rightarrow> State_Monad.return internal_error
             | Inr _ \<Rightarrow> do {
                 later \<leftarrow> clock_now e;
                 State_Monad.return (writeJSON 200
                   (token_response accessToken (whole_seconds (time_sub expiry later))
                      refreshToken))
               })
           })
       })
   }"

definition grantAuthorizationCode :: "machine \<Rightarrow> options \<Rightarrow> values \<Rightarrow> handler" where
  "grantAuthorizationCode e opts form =
     (let code = values_get form ''code'';
          verifier = values_get form ''code_verifier'';
          redirectURI = values_get form ''redirect_uri'';
          clientID = values_get form ''client_id'' in
      if code = [] \<or> verifier = [] \<or> clientID = [] then State_Monad.return
        (writeOAuthError 400 errInvalidRequest
           ''code, code_verifier et client_id sont obligatoires'')
      else if length verifier < minVerifierLen \<or> maxVerifierLen < length verifier
      then State_Monad.return (writeOAuthError 400 errInvalidRequest
        ''code_verifier doit faire entre 43 et 128 caracteres'')
      else do {
        consumed \<leftarrow> ConsumeAuthCode e code;
        (case consumed of
          Inl err \<Rightarrow> State_Monad.return
            (if errors_is err ErrNotFound
             then writeOAuthError 400 errInvalidGrant ''code inconnu, deja utilise ou expire''
             else internal_error)
        | Inr authCode \<Rightarrow> do {
            now \<leftarrow> clock_now e;
            (if \<not> now < ac_expires_at authCode then State_Monad.return
               (writeOAuthError 400 errInvalidGrant ''code expire'')
             else if ac_client_id authCode \<noteq> clientID then State_Monad.return
               (writeOAuthError 400 errInvalidGrant ''code emis pour un autre client'')
             else if redirectURI \<noteq> ac_redirect_uri authCode then State_Monad.return
               (writeOAuthError 400 errInvalidGrant
                  ''redirect_uri differente de celle de la demande d'autorisation'')
             else if \<not> verifyPKCE e verifier (ac_code_challenge authCode)
             then State_Monad.return
               (writeOAuthError 400 errInvalidGrant ''code_verifier invalide'')
             else if values_get form ''resource'' \<noteq> [] \<and>
                     values_get form ''resource'' \<noteq> o_resource opts
             then State_Monad.return
               (writeOAuthError 400 errInvalidRequest
                  ''resource ne correspond pas a ce serveur MCP'')
             else issueTokens e opts (ac_tenant_id authCode) (ac_client_id authCode))
          })
      })"

definition grantRefreshToken :: "machine \<Rightarrow> options \<Rightarrow> values \<Rightarrow> handler" where
  "grantRefreshToken e opts form =
     (let presented = values_get form ''refresh_token'';
          clientID = values_get form ''client_id'' in
      if presented = [] \<or> clientID = [] then State_Monad.return
        (writeOAuthError 400 errInvalidRequest ''refresh_token et client_id sont obligatoires'')
      else do {
        now \<leftarrow> clock_now e;
        rotated \<leftarrow> RotateRefreshToken e (hashToken e presented) now;
        (case rotated of
          Inl err \<Rightarrow> State_Monad.return
            (if errors_is err ErrNotFound
             then writeOAuthError 400 errInvalidGrant
               ''refresh_token inconnu, deja utilise, revoque ou expire''
             else internal_error)
        | Inr stored \<Rightarrow>
            (if rt_client_id stored \<noteq> clientID then State_Monad.return
               (writeOAuthError 400 errUnauthorizedClient
                  ''refresh_token emis pour un autre client'')
             else issueTokens e opts (rt_tenant_id stored) (rt_client_id stored)))
      })"

definition TokenHandler :: "machine \<Rightarrow> options \<Rightarrow> http_req \<Rightarrow> handler" where
  "TokenHandler e opts r = State_Monad.bind
     (if rq_method r = ''OPTIONS'' then State_Monad.return no_content
      else (case ParseForm r of
        None \<Rightarrow> State_Monad.return
          (writeOAuthError 400 errInvalidRequest ''corps de requete illisible'')
      | Some form \<Rightarrow>
          (let grant = values_get form ''grant_type'' in
           if grant = ''authorization_code'' then grantAuthorizationCode e opts form
           else if grant = ''refresh_token'' then grantRefreshToken e opts form
           else State_Monad.return (writeOAuthError 400 errUnsupportedGrantType
             ''grant_type doit valoir authorization_code ou refresh_token''))))
     (\<lambda>resp. State_Monad.return (with_headers cors_headers resp))"

section \<open>metadata.go\<close>

definition ProtectedResourceMetadataHandler :: "options \<Rightarrow> http_req \<Rightarrow> http_resp" where
  "ProtectedResourceMetadataHandler opts r = with_headers cors_headers
     (if rq_method r = ''OPTIONS'' then no_content
      else writeJSON 200 (JObj
        [(''resource'', JStr (o_resource opts)),
         (''authorization_servers'', JArr [JStr (o_issuer opts)]),
         (''bearer_methods_supported'', JArr [JStr ''header''])]))"

definition AuthServerMetadataHandler :: "options \<Rightarrow> http_req \<Rightarrow> http_resp" where
  "AuthServerMetadataHandler opts r = with_headers cors_headers
     (if rq_method r = ''OPTIONS'' then no_content
      else writeJSON 200 (JObj
        [(''issuer'', JStr (o_issuer opts)),
         (''authorization_endpoint'', JStr (o_issuer opts @ ''/oauth/authorize'')),
         (''token_endpoint'', JStr (o_issuer opts @ ''/oauth/token'')),
         (''registration_endpoint'', JStr (o_issuer opts @ ''/oauth/register'')),
         (''response_types_supported'', JArr [JStr ''code'']),
         (''grant_types_supported'', JArr [JStr ''authorization_code'', JStr ''refresh_token'']),
         (''code_challenge_methods_supported'', JArr [JStr ''S256'']),
         (''token_endpoint_auth_methods_supported'', JArr [JStr ''none''])]))"

end
