(* ===== verification/StoreTrace.thy ===== *)
theory StoreTrace
  imports StoreFacts
begin

text \<open>
  Histories of the store. Whatever handlers and tools the server runs, and in whatever order their
  store calls interleave, the single connection makes the tables go through a sequence of method
  calls. \<open>history\<close> is any such sequence, each call started in any world that holds the tables the
  previous call left. Codes, login states and refresh tokens are credentials that some call makes
  usable, some call redeems, and that no other call revives: the locale \<open>single_use\<close> states that
  contract and counts redemptions.
\<close>

datatype store_op =
    OUpsertTenant tenant
  | ODeleteTenant string
  | OReplacePages string "page list"
  | ORegisterClient oauth_client
  | OCreateAuthCode auth_code
  | OConsumeAuthCode string
  | OCreateRefreshToken refresh_token
  | ORotateRefreshToken string instant
  | ORevokeTenantRefreshTokens string
  | OCreateLoginState login_state
  | OConsumeLoginState string
  | OPurgeExpired instant
  | OTenantByID string
  | OTenantByMetaUserID string
  | OTenantsDue instant instant
  | OListPages string
  | OPageByID string string
  | OClientByID string
  | OPing

definition void :: "'a io \<Rightarrow> unit io" where
  "void m = bindE m (\<lambda>_. ok ())"

fun op_io :: "machine \<Rightarrow> store_op \<Rightarrow> unit io" where
  "op_io e (OUpsertTenant t) = UpsertTenant e t"
| "op_io e (ODeleteTenant i) = DeleteTenant e i"
| "op_io e (OReplacePages i ps) = ReplacePages e i ps"
| "op_io e (ORegisterClient c) = RegisterClient e c"
| "op_io e (OCreateAuthCode c) = CreateAuthCode e c"
| "op_io e (OConsumeAuthCode c) = void (ConsumeAuthCode e c)"
| "op_io e (OCreateRefreshToken t) = CreateRefreshToken e t"
| "op_io e (ORotateRefreshToken h now) = void (RotateRefreshToken e h now)"
| "op_io e (ORevokeTenantRefreshTokens i) = RevokeTenantRefreshTokens e i"
| "op_io e (OCreateLoginState s) = CreateLoginState e s"
| "op_io e (OConsumeLoginState s) = void (ConsumeLoginState e s)"
| "op_io e (OPurgeExpired now) = PurgeExpired e now"
| "op_io e (OTenantByID i) = void (TenantByID e i)"
| "op_io e (OTenantByMetaUserID i) = void (TenantByMetaUserID e i)"
| "op_io e (OTenantsDue a b) = void (TenantsDueForTokenRefresh e a b)"
| "op_io e (OListPages i) = void (ListPages e i)"
| "op_io e (OPageByID i j) = void (PageByID e i j)"
| "op_io e (OClientByID i) = void (ClientByID e i)"
| "op_io e OPing = Ping e"

text \<open>An event is a call with whether it succeeded.\<close>

type_synonym event = "store_op \<times> bool"

inductive store_step :: "machine \<Rightarrow> event \<Rightarrow> database \<Rightarrow> database \<Rightarrow> bool" for e where
  store_stepI: "run_state (op_io e x) w = (r, w') \<Longrightarrow> store_step e (x, \<not> isl r) (db w) (db w')"

inductive_cases store_stepE: "store_step e ev d d'"

inductive path :: "('ev \<Rightarrow> 's \<Rightarrow> 's \<Rightarrow> bool) \<Rightarrow> 's \<Rightarrow> 'ev list \<Rightarrow> 's \<Rightarrow> bool" for step where
  path_Nil: "path step s [] s"
| path_Cons: "step ev s t \<Longrightarrow> path step t evs u \<Longrightarrow> path step s (ev # evs) u"

inductive_simps path_Nil_iff [simp]: "path step s [] u"
inductive_simps path_Cons_iff: "path step s (ev # evs) u"

abbreviation history :: "machine \<Rightarrow> database \<Rightarrow> event list \<Rightarrow> database \<Rightarrow> bool" where
  "history e \<equiv> path (store_step e)"

lemma path_invariant:
  assumes "path step s evs u" "I s" "\<And>ev s t. step ev s t \<Longrightarrow> I s \<Longrightarrow> I t"
  shows "I u"
  using assms(1,2) by induction (auto intro: assms(3))

section \<open>The schema invariant over histories\<close>

lemma op_io_db_ok: "state_io_rel (keeps db_ok) (op_io e x)"
  by (cases x) (simp_all add: void_def fke.rules io_intros)

lemma store_step_db_ok: "store_step e ev d d' \<Longrightarrow> db_ok d \<Longrightarrow> db_ok d'"
  by (auto elim!: store_stepE dest!: fke.frameD [OF op_io_db_ok] simp: keeps_def)

section \<open>Single use\<close>

text \<open>
  A credential is \<open>live\<close> while the tables allow it to be redeemed. Redeeming needs it live and
  kills it; only minting makes it live.
\<close>

locale single_use =
  fixes step :: "'ev \<Rightarrow> 's \<Rightarrow> 's \<Rightarrow> bool"
    and live :: "'s \<Rightarrow> bool"
    and mints :: "'ev \<Rightarrow> bool"
    and redeems :: "'ev \<Rightarrow> bool"
  assumes redeem_live: "step ev s t \<Longrightarrow> redeems ev \<Longrightarrow> live s"
    and redeem_kills: "step ev s t \<Longrightarrow> redeems ev \<Longrightarrow> \<not> live t"
    and live_minted: "step ev s t \<Longrightarrow> live t \<Longrightarrow> live s \<or> mints ev"
begin

lemma redeem_count:
  "path step s evs u \<Longrightarrow>
   length (filter redeems evs) + of_bool (live u) \<le> of_bool (live s) + length (filter mints evs)"
proof (induction rule: path.induct)
  case (path_Cons ev s t evs u)
  have "of_bool (redeems ev) + of_bool (live t) \<le> of_bool (live s) + (of_bool (mints ev) :: nat)"
    using redeem_live [OF path_Cons.hyps(1)] redeem_kills [OF path_Cons.hyps(1)]
      live_minted [OF path_Cons.hyps(1)] by auto
  moreover have "length (filter P (ev # evs)) = of_bool (P ev) + length (filter P evs)" for P
    by simp
  ultimately show ?case using path_Cons.IH by presburger
qed simp

text \<open>Once it is dead, it stays dead until it is minted again.\<close>

lemma stays_dead:
  "path step s evs u \<Longrightarrow> \<not> live s \<Longrightarrow> list_all (\<lambda>ev. \<not> mints ev) evs \<Longrightarrow>
   \<not> live u \<and> list_all (\<lambda>ev. \<not> redeems ev) evs"
  by (induction rule: path.induct) (auto dest: live_minted redeem_live)

end

text \<open>
  The three kinds of credentials. A refresh token is live while its row is not revoked; rotating
  and revoking write the revocation, and a token hash cannot be inserted twice.
\<close>

definition code_live :: "string \<Rightarrow> database \<Rightarrow> bool" where
  "code_live c d \<longleftrightarrow> list_ex (\<lambda>r. co_code r = c) (oauth_codes d)"

fun mints_code :: "string \<Rightarrow> event \<Rightarrow> bool" where
  "mints_code c (OCreateAuthCode ac, success) = (success \<and> ac_code ac = c)"
| "mints_code c _ = False"

fun redeems_code :: "string \<Rightarrow> event \<Rightarrow> bool" where
  "redeems_code c (OConsumeAuthCode c', success) = (success \<and> c' = c)"
| "redeems_code c _ = False"

definition state_live :: "string \<Rightarrow> database \<Rightarrow> bool" where
  "state_live s d \<longleftrightarrow> list_ex (\<lambda>r. lr_state r = s) (login_states d)"

fun mints_state :: "string \<Rightarrow> event \<Rightarrow> bool" where
  "mints_state s (OCreateLoginState ls, success) = (success \<and> ls_state ls = s)"
| "mints_state s _ = False"

fun redeems_state :: "string \<Rightarrow> event \<Rightarrow> bool" where
  "redeems_state s (OConsumeLoginState s', success) = (success \<and> s' = s)"
| "redeems_state s _ = False"

definition token_live :: "string \<Rightarrow> database \<Rightarrow> bool" where
  "token_live h d \<longleftrightarrow> list_ex (\<lambda>r. rr_token_hash r = h \<and> \<not> rr_revoked r) (oauth_refresh_tokens d)"

fun mints_token :: "string \<Rightarrow> event \<Rightarrow> bool" where
  "mints_token h (OCreateRefreshToken rt, success) = (success \<and> rt_hash rt = h)"
| "mints_token h _ = False"

fun redeems_token :: "string \<Rightarrow> event \<Rightarrow> bool" where
  "redeems_token h (ORotateRefreshToken h' now, success) = (success \<and> h' = h)"
| "redeems_token h _ = False"

section \<open>The three credentials meet the contract\<close>

lemma redeems_iff:
  "redeems_code c ev \<longleftrightarrow> ev = (OConsumeAuthCode c, True)"
  "redeems_state s ev \<longleftrightarrow> ev = (OConsumeLoginState s, True)"
  "redeems_token h ev \<longleftrightarrow> (\<exists>now. ev = (ORotateRefreshToken h now, True))"
  by (auto elim: redeems_code.elims redeems_state.elims redeems_token.elims)

lemma mints_iff:
  "mints_code c ev \<longleftrightarrow> (\<exists>ac. ev = (OCreateAuthCode ac, True) \<and> ac_code ac = c)"
  "mints_state s ev \<longleftrightarrow> (\<exists>ls. ev = (OCreateLoginState ls, True) \<and> ls_state ls = s)"
  "mints_token h ev \<longleftrightarrow> (\<exists>rt. ev = (OCreateRefreshToken rt, True) \<and> rt_hash rt = h)"
  by (auto elim: mints_code.elims mints_state.elims mints_token.elims)

lemma store_step_ran:
  assumes "store_step e (x, success) d d'"
  obtains w r w' where "run_state (op_io e x) w = (r, w')" "d = db w" "d' = db w'"
    "success \<longleftrightarrow> (\<exists>u. r = Inr u)"
proof -
  from assms obtain w r w' where run: "run_state (op_io e x) w = (r, w')" "d = db w" "d' = db w'"
    and s: "success = (\<not> isl r)"
    by (cases rule: store_step.cases) auto
  from s have "success \<longleftrightarrow> (\<exists>u. r = Inr u)" by (cases r) auto
  with run show thesis by (rule that)
qed

text \<open>No call but a minting one makes a dead credential live.\<close>

lemma dead_code_kept:
  "\<forall>ac. x = OCreateAuthCode ac \<longrightarrow> ac_code ac \<noteq> c \<Longrightarrow>
   state_io_rel (keeps (\<lambda>d. \<not> code_live c d)) (op_io e x)"
  by (cases x; simp only: op_io.simps; unfold void_def method_defs map_stateE.simps; intro keeps_rules)
     (auto simp: stmt_defs code_live_def list_ex_iff split: if_splits)

lemma dead_state_kept:
  "\<forall>ls. x = OCreateLoginState ls \<longrightarrow> ls_state ls \<noteq> c \<Longrightarrow>
   state_io_rel (keeps (\<lambda>d. \<not> state_live c d)) (op_io e x)"
  by (cases x; simp only: op_io.simps; unfold void_def method_defs map_stateE.simps; intro keeps_rules)
     (auto simp: stmt_defs state_live_def list_ex_iff split: if_splits)

lemma dead_token_kept:
  "\<forall>rt. x = OCreateRefreshToken rt \<longrightarrow> rt_hash rt \<noteq> c \<Longrightarrow>
   state_io_rel (keeps (\<lambda>d. \<not> token_live c d)) (op_io e x)"
  by (cases x; simp only: op_io.simps; unfold void_def method_defs map_stateE.simps; intro keeps_rules)
     (auto simp: stmt_defs token_live_def list_ex_iff split: if_splits)

lemma mint_failed:
  assumes "run_state (op_io e x) w = (Inl err, w')"
    and "x = OCreateAuthCode ac \<or> x = OCreateLoginState ls \<or> x = OCreateRefreshToken rt"
  shows "db w' = db w"
  using assms
  by (auto simp: CreateAuthCode_def CreateLoginState_def CreateRefreshToken_def dest: stmt_Inl)

interpretation code_use: single_use "store_step e" "code_live c" "mints_code c" "redeems_code c"
  for e c
proof
  fix ev d d'
  assume "store_step e ev d d'"
  then obtain x success w r w' where ev: "ev = (x, success)"
    and run: "run_state (op_io e x) w = (r, w')" and d: "d = db w" "d' = db w'"
    and s: "success \<longleftrightarrow> (\<exists>u. r = Inr u)"
    by (cases ev) (auto elim: store_step_ran)
  show "redeems_code c ev \<Longrightarrow> code_live c d"
    using run s by (auto simp: redeems_iff ev d void_def run_bindE_Inr ConsumeAuthCode_Inr
        code_live_def list_ex_iff dest: find_SomeD)
  show "redeems_code c ev \<Longrightarrow> \<not> code_live c d'"
    using run s by (auto simp: redeems_iff ev d void_def run_bindE_Inr ConsumeAuthCode_Inr
        code_live_def list_ex_iff)
  show "code_live c d \<or> mints_code c ev" if live: "code_live c d'"
  proof (cases "\<forall>ac. x = OCreateAuthCode ac \<longrightarrow> ac_code ac \<noteq> c")
    case True
    from fke.frameD [OF dead_code_kept [OF True] run] live show ?thesis by (auto simp: keeps_def d)
  next
    case False
    then obtain ac where x: "x = OCreateAuthCode ac" "ac_code ac = c" by auto
    show ?thesis
    proof (cases r)
      case (Inl err)
      with mint_failed [OF run [unfolded Inl]] x live show ?thesis by (auto simp: d)
    next
      case (Inr u)
      with s x show ?thesis by (auto simp: mints_iff ev)
    qed
  qed
qed

interpretation state_use: single_use "store_step e" "state_live c" "mints_state c" "redeems_state c"
  for e c
proof
  fix ev d d'
  assume "store_step e ev d d'"
  then obtain x success w r w' where ev: "ev = (x, success)"
    and run: "run_state (op_io e x) w = (r, w')" and d: "d = db w" "d' = db w'"
    and s: "success \<longleftrightarrow> (\<exists>u. r = Inr u)"
    by (cases ev) (auto elim: store_step_ran)
  show "redeems_state c ev \<Longrightarrow> state_live c d"
    using run s by (auto simp: redeems_iff ev d void_def run_bindE_Inr
        state_live_def list_ex_iff dest!: ConsumeLoginState_Inr(2) dest: find_SomeD)
  show "redeems_state c ev \<Longrightarrow> \<not> state_live c d'"
    using run s by (auto simp: redeems_iff ev d void_def run_bindE_Inr
        state_live_def list_ex_iff dest!: ConsumeLoginState_Inr(3))
  show "state_live c d \<or> mints_state c ev" if live: "state_live c d'"
  proof (cases "\<forall>ls. x = OCreateLoginState ls \<longrightarrow> ls_state ls \<noteq> c")
    case True
    from fke.frameD [OF dead_state_kept [OF True] run] live show ?thesis by (auto simp: keeps_def d)
  next
    case False
    then obtain ls where x: "x = OCreateLoginState ls" "ls_state ls = c" by auto
    show ?thesis
    proof (cases r)
      case (Inl err)
      with mint_failed [OF run [unfolded Inl]] x live show ?thesis by (auto simp: d)
    next
      case (Inr u)
      with s x show ?thesis by (auto simp: mints_iff ev)
    qed
  qed
qed

text \<open>
  A token hash is unique in its table, so the row that \<open>RotateRefreshToken\<close> revokes is the only
  one with that hash. The contract of refresh tokens therefore holds on tables that meet the
  schema invariant, which every step keeps.
\<close>

definition ok_step :: "machine \<Rightarrow> event \<Rightarrow> database \<Rightarrow> database \<Rightarrow> bool" where
  "ok_step e ev d d' \<longleftrightarrow> store_step e ev d d' \<and> db_ok d"

lemma history_ok_steps: "history e d evs d' \<Longrightarrow> db_ok d \<Longrightarrow> path (ok_step e) d evs d'"
proof (induction rule: path.induct)
  case (path_Cons ev s t evs u)
  then show ?case
    by (auto simp: ok_step_def dest: store_step_db_ok intro!: path.path_Cons)
qed (rule path_Nil)

lemma rotate_kills:
  assumes "db_ok d" "find (token_usable h n) (oauth_refresh_tokens d) = Some r"
    "d' = d\<lparr>oauth_refresh_tokens :=
        map (\<lambda>r. if token_usable h n r then r\<lparr>rr_revoked := True\<rparr> else r) (oauth_refresh_tokens d)\<rparr>"
  shows "\<not> token_live h d'"
proof -
  from assms(2) have r: "r \<in> set (oauth_refresh_tokens d)" "token_usable h n r"
    by (auto dest: find_SomeD)
  have "x = r" if "x \<in> set (oauth_refresh_tokens d)" "rr_token_hash x = h" for x
    using assms(1) r that by (auto simp: db_ok_def token_usable_def dest: inj_onD distinct_map [THEN iffD1])
  with r show ?thesis
    by (auto simp: token_live_def list_ex_iff assms(3) token_usable_def)
qed

interpretation token_use: single_use "ok_step e" "token_live h" "mints_token h" "redeems_token h"
  for e h
proof
  fix ev d d'
  assume "ok_step e ev d d'"
  then obtain x success w r w' where ev: "ev = (x, success)" and ok: "db_ok d"
    and run: "run_state (op_io e x) w = (r, w')" and d: "d = db w" "d' = db w'"
    and s: "success \<longleftrightarrow> (\<exists>u. r = Inr u)"
    by (cases ev) (auto simp: ok_step_def elim: store_step_ran)
  show "redeems_token h ev \<Longrightarrow> token_live h d"
    using run s by (auto simp: redeems_iff ev d void_def run_bindE_Inr RotateRefreshToken_Inr
        token_live_def list_ex_iff token_usable_def dest!: find_SomeD) blast
  show "redeems_token h ev \<Longrightarrow> \<not> token_live h d'"
    using run s rotate_kills [OF ok]
    by (auto simp: redeems_iff ev d void_def run_bindE_Inr RotateRefreshToken_Inr)
  show "token_live h d \<or> mints_token h ev" if live: "token_live h d'"
  proof (cases "\<forall>rt. x = OCreateRefreshToken rt \<longrightarrow> rt_hash rt \<noteq> h")
    case True
    from fke.frameD [OF dead_token_kept [OF True] run] live show ?thesis by (auto simp: keeps_def d)
  next
    case False
    then obtain rt where x: "x = OCreateRefreshToken rt" "rt_hash rt = h" by auto
    show ?thesis
    proof (cases r)
      case (Inl err)
      with mint_failed [OF run [unfolded Inl]] x live show ?thesis by (auto simp: d)
    next
      case (Inr u)
      with s x show ?thesis by (auto simp: mints_iff ev)
    qed
  qed
qed

end
