(* ===== verification/AuthFacts.thy ===== *)
theory AuthFacts
  imports AuthServer StoreTrace
begin

text \<open>
  What the authorization server guarantees: when each grant issues tokens and for whom, that a
  code or a refresh token cannot be redeemed twice, that the authorization endpoint never
  redirects to an unregistered address, which redirect URIs can be registered, and that an access
  token is accepted exactly when it carries this server's signature, issuer and audience and has
  not expired.
\<close>

section \<open>Issuing tokens\<close>

lemma status_simps [simp]:
  "rs_status (writeJSON s j) = s" "rs_status (writeOAuthError s c d) = s"
  "rs_status internal_error = 500" "rs_status (with_headers hs r) = rs_status r"
  "rs_status (redirect t) = 302" "rs_status no_content = 204"
  by (simp_all add: writeJSON_def writeOAuthError_def internal_error_def with_headers_def
      redirect_def no_content_def)

lemma location_simps [simp]:
  "location (writeJSON s j) = None" "location (writeOAuthError s c d) = None"
  "location internal_error = None"
  by (simp_all add: location_def writeJSON_def writeOAuthError_def internal_error_def)

lemma location_cors [simp]: "location (with_headers cors_headers r) = location r"
  by (simp add: location_def with_headers_def cors_headers_def)

lemma body_simps [simp]:
  "rs_body (writeJSON s j) = JsonBody j" "rs_body (with_headers hs r) = rs_body r"
  by (simp_all add: writeJSON_def with_headers_def)

lemma MintAccessToken_frames [io_intros]:
  "state_io_rel same_db (MintAccessToken e opts tid cid)"
  "state_io_rel (emits P) (MintAccessToken e opts tid cid)"
  unfolding MintAccessToken_def Let_def
  by (intro fdb.rules io_intros | intro fem.rules io_intros)+

definition refresh_record :: "machine \<Rightarrow> string \<Rightarrow> string \<Rightarrow> string \<Rightarrow> int \<Rightarrow> refresh_row" where
  "refresh_record e secret cid tid expires =
     \<lparr>rr_token_hash = hashToken e secret, rr_client_id = cid, rr_tenant_id = tid,
      rr_expires_at = expires, rr_revoked = False\<rparr>"

definition add_refresh :: "refresh_row \<Rightarrow> database \<Rightarrow> database" where
  "add_refresh r d = d\<lparr>oauth_refresh_tokens := oauth_refresh_tokens d @ [r]\<rparr>"

lemma CreateRefreshToken_Inr:
  "run_state (CreateRefreshToken e rt) w = (Inr u, w') \<Longrightarrow>
   db w' = add_refresh \<lparr>rr_token_hash = rt_hash rt, rr_client_id = rt_client_id rt,
     rr_tenant_id = rt_tenant_id rt, rr_expires_at = unix (rt_expires_at rt), rr_revoked = False\<rparr>
     (db w)"
  by (auto simp: CreateRefreshToken_def run_sql_Inr insert_token_def add_refresh_def split: if_splits)

lemma CreateRefreshToken_Inl:
  "run_state (CreateRefreshToken e rt) w = (Inl err, w') \<Longrightarrow> db w' = db w"
  by (auto simp: CreateRefreshToken_def dest: stmt_Inl)

text \<open>Either nothing is stored, or one live refresh token of this tenant and client is.\<close>

lemma issueTokens_result:
  assumes "run_state (issueTokens e opts tid cid) w = (resp, w')"
  shows "resp = internal_error \<and> db w' = db w \<or>
    (\<exists>access expires secret expiry w1. run_state (MintAccessToken e opts tid cid) w = (Inr (access, expiry), w1) \<and>
       resp = writeJSON 200 (token_response access expires secret) \<and>
       (\<exists>t. db w' = add_refresh (refresh_record e secret cid tid t) (db w)))"
proof -
  obtain m w1 where m: "run_state (MintAccessToken e opts tid cid) w = (m, w1)"
    by (cases "run_state (MintAccessToken e opts tid cid) w") auto
  have d: "db w1 = db w"
    using fdb.frameD [OF MintAccessToken_frames(1) m] by (simp add: same_db_def)
  show ?thesis
  proof (cases m)
    case (Inl err)
    with assms m d show ?thesis by (simp add: issueTokens_def)
  next
    case (Inr p)
    obtain access expiry where p: "p = (access, expiry)" by (cases p)
    show ?thesis
    proof (cases "mc_rand e (n_rand w1) 32")
      case None
      with assms m d Inr p show ?thesis by (auto simp: issueTokens_def run_randomSecret)
    next
      case (Some bs)
      let ?w2 = "w1\<lparr>n_rand := Suc (n_rand w1), n_clock := Suc (n_clock w1)\<rparr>"
      let ?rt = "\<lparr>rt_hash = hashToken e (b64_encode bs), rt_client_id = cid, rt_tenant_id = tid,
        rt_expires_at = time_add (mc_clock e (n_clock w1)) (o_refresh_ttl opts),
        rt_revoked = False\<rparr>"
      obtain s w3 where s: "run_state (CreateRefreshToken e ?rt) ?w2 = (s, w3)"
        by (cases "run_state (CreateRefreshToken e ?rt) ?w2") auto
      show ?thesis
      proof (cases s)
        case (Inl err)
        with assms m d Inr p Some s CreateRefreshToken_Inl [OF s [unfolded Inl]] show ?thesis
          by (simp add: issueTokens_def run_randomSecret run_clock_now)
      next
        case (Inr u)
        with assms m d \<open>m = Inr p\<close> p Some s CreateRefreshToken_Inr [OF s [unfolded Inr]]
        show ?thesis
          by (auto simp: issueTokens_def run_randomSecret run_clock_now refresh_record_def) blast+
      qed
    qed
  qed
qed

section \<open>The authorization code grant\<close>

definition code_accepted ::
  "machine \<Rightarrow> options \<Rightarrow> values \<Rightarrow> instant \<Rightarrow> code_row \<Rightarrow> bool" where
  "code_accepted e opts form now r \<longleftrightarrow>
     co_code r = values_get form ''code'' \<and> co_code r \<noteq> [] \<and>
     now < from_unix (co_expires_at r) \<and>
     co_client_id r = values_get form ''client_id'' \<and>
     co_redirect_uri r = values_get form ''redirect_uri'' \<and>
     verifyPKCE e (values_get form ''code_verifier'') (co_code_challenge r) \<and>
     minVerifierLen \<le> length (values_get form ''code_verifier'') \<and>
     length (values_get form ''code_verifier'') \<le> maxVerifierLen \<and>
     values_get form ''resource'' \<in> {[], o_resource opts}"

definition drop_code :: "string \<Rightarrow> database \<Rightarrow> database" where
  "drop_code code d = d\<lparr>oauth_codes := filter (\<lambda>r. co_code r \<noteq> code) (oauth_codes d)\<rparr>"

lemma ConsumeAuthCode_Inl:
  "run_state (ConsumeAuthCode e code) w = (Inl err, w') \<Longrightarrow>
   db w' = db w \<and> (err = ErrNotFound \<longrightarrow> \<not> code_live code (db w))"
  by (auto simp: ConsumeAuthCode_def run_bindE run_stmt delete_code_def find_None_iff code_live_def
      list_ex_iff split: option.splits if_splits intro!: database.equality)

text \<open>The checks, in the order the code makes them: a refusal at any of them is not a 200.\<close>

lemma refused_200: "run_state (if b then State_Monad.return (writeOAuthError 400 c d) else m) w = (resp, w') \<Longrightarrow>
   rs_status resp = 200 \<Longrightarrow> \<not> b \<and> run_state m w = (resp, w')"
  by (cases b) auto

lemma grant_code_checks:
  assumes run: "run_state (grantAuthorizationCode e opts form) w = (resp, w')"
    and ok: "rs_status resp = 200"
    and c: "run_state (ConsumeAuthCode e (values_get form ''code'')) w = (Inr (scanCode r), w1)"
    and n: "n_clock w1 = n_clock w" and code: "co_code r = values_get form ''code''"
  shows "code_accepted e opts form (mc_clock e (n_clock w)) r \<and>
    run_state (issueTokens e opts (co_tenant_id r) (co_client_id r))
      (w1\<lparr>n_clock := Suc (n_clock w1)\<rparr>) = (resp, w')"
proof -
  note run1 = refused_200 [OF run [unfolded grantAuthorizationCode_def Let_def] ok]
  note run2 = refused_200 [OF conjunct2 [OF run1] ok]
  note run3 = conjunct2 [OF run2, unfolded run_bind_pair c Let_def prod.case sum.case run_clock_now]
  note run4 = refused_200 [OF run3 ok]
  note run5 = refused_200 [OF conjunct2 [OF run4] ok]
  note run6 = refused_200 [OF conjunct2 [OF run5] ok]
  note run7 = refused_200 [OF conjunct2 [OF run6] ok]
  note run8 = refused_200 [OF conjunct2 [OF run7] ok]
  show ?thesis
    using conjunct1 [OF run1] conjunct1 [OF run2] conjunct1 [OF run4] conjunct1 [OF run5]
      conjunct1 [OF run6] conjunct1 [OF run7] run8 n code
    by (simp add: code_accepted_def scanCode_def not_less)
qed

lemma grant_code_200:
  assumes "run_state (grantAuthorizationCode e opts form) w = (resp, w')" "rs_status resp = 200"
  obtains r access expires secret t expiry w1 w2 where "r \<in> set (oauth_codes (db w))"
    "code_accepted e opts form (mc_clock e (n_clock w)) r"
    "run_state (MintAccessToken e opts (co_tenant_id r) (co_client_id r)) w1 = (Inr (access, expiry), w2)"
    "resp = writeJSON 200 (token_response access expires secret)"
    "db w' = add_refresh (refresh_record e secret (co_client_id r) (co_tenant_id r) t)
       (drop_code (co_code r) (db w))"
proof -
  let ?code = "values_get form ''code''"
  obtain c w1 where c: "run_state (ConsumeAuthCode e ?code) w = (c, w1)"
    by (cases "run_state (ConsumeAuthCode e ?code) w") auto
  show thesis
  proof (cases c)
    case (Inl err)
    with assms c show thesis
      by (auto simp: grantAuthorizationCode_def Let_def split: if_splits)
  next
    case (Inr ac)
    from c [unfolded Inr] obtain r where r: "find (\<lambda>r. co_code r = ?code) (oauth_codes (db w)) = Some r"
      and ac: "ac = scanCode r" and w1: "db w1 = drop_code ?code (db w)" "n_clock w1 = n_clock w"
      by (auto simp: ConsumeAuthCode_Inr drop_code_def)
    let ?w2 = "w1\<lparr>n_clock := Suc (n_clock w1)\<rparr>"
    have "code_accepted e opts form (mc_clock e (n_clock w)) r \<and>
        run_state (issueTokens e opts (co_tenant_id r) (co_client_id r)) ?w2 = (resp, w')"
      by (rule grant_code_checks [OF assms]) (use c Inr ac w1 find_SomeD [OF r] in simp_all)
    then have acc: "code_accepted e opts form (mc_clock e (n_clock w)) r"
      and run: "run_state (issueTokens e opts (co_tenant_id r) (co_client_id r)) ?w2 = (resp, w')"
      by simp_all
    from issueTokens_result [OF run] assms(2) obtain access expires secret expiry w3 t
      where "run_state (MintAccessToken e opts (co_tenant_id r) (co_client_id r)) ?w2 =
               (Inr (access, expiry), w3)"
        and "resp = writeJSON 200 (token_response access expires secret)"
        and "db w' = add_refresh (refresh_record e secret (co_client_id r) (co_tenant_id r) t) (db ?w2)"
      by auto
    with that [OF _ acc] find_SomeD [OF r] w1 show thesis by auto
  qed
qed

text \<open>A refusal stops where it stands.\<close>

lemma refused_rel:
  assumes "run_state (if b then State_Monad.return x else m) w = (resp, w')"
    and "Q w" "\<And>w'. run_state m w = (resp, w') \<Longrightarrow> Q w'"
  shows "Q w'"
  using assms by (cases b) auto

lemma grant_code_end:
  assumes run: "run_state (grantAuthorizationCode e opts form) w = (resp, w')"
    and c: "run_state (ConsumeAuthCode e (values_get form ''code'')) w = (Inr ac, w1)"
    and Q: "Q w" "Q (w1\<lparr>n_clock := Suc (n_clock w1)\<rparr>)"
    and issue: "\<And>w'. run_state (issueTokens e opts (ac_tenant_id ac) (ac_client_id ac))
      (w1\<lparr>n_clock := Suc (n_clock w1)\<rparr>) = (resp, w') \<Longrightarrow> Q w'"
  shows "Q w'"
proof (rule refused_rel [where Q = Q, OF run [unfolded grantAuthorizationCode_def Let_def] Q(1)],
    erule refused_rel [where Q = Q, OF _ Q(1)], unfold run_bind_pair c Let_def prod.case sum.case
    run_clock_now)
qed (erule refused_rel [where Q = Q, OF _ Q(2)] issue)+
text \<open>Whatever the answer, a code that was found is gone, and a refusal stores no token.\<close>

lemma grant_code_refused:
  assumes run: "run_state (grantAuthorizationCode e opts form) w = (resp, w')"
    and no: "rs_status resp \<noteq> 200"
  shows "oauth_refresh_tokens (db w') = oauth_refresh_tokens (db w) \<and>
    (db w' = db w \<or> db w' = drop_code (values_get form ''code'') (db w))"
proof -
  let ?code = "values_get form ''code''"
  let ?Q = "\<lambda>w'. db w' = db w \<or> db w' = drop_code ?code (db w)"
  obtain c w1 where c: "run_state (ConsumeAuthCode e ?code) w = (c, w1)"
    by (cases "run_state (ConsumeAuthCode e ?code) w") auto
  have "?Q w'"
  proof (cases c)
    case (Inl err)
    with ConsumeAuthCode_Inl [OF c [unfolded Inl]] run c show ?thesis
      by (auto simp: grantAuthorizationCode_def Let_def split: if_splits)
  next
    case (Inr ac)
    with c have c': "run_state (ConsumeAuthCode e ?code) w = (Inr ac, w1)" by simp
    then have w1: "db w1 = drop_code ?code (db w)"
      by (auto simp: ConsumeAuthCode_Inr drop_code_def)
    show ?thesis
    proof (rule grant_code_end [where Q = ?Q, OF run c'])
      fix w''
      assume "run_state (issueTokens e opts (ac_tenant_id ac) (ac_client_id ac))
        (w1\<lparr>n_clock := Suc (n_clock w1)\<rparr>) = (resp, w'')"
      from issueTokens_result [OF this] no w1 show "?Q w''" by auto
    qed (simp_all add: w1)
  qed
  then show ?thesis by (auto simp: drop_code_def)
qed

lemma grant_code_dead:
  "run_state (grantAuthorizationCode e opts form) w = (resp, w') \<Longrightarrow>
   \<not> code_live (values_get form ''code'') (db w) \<Longrightarrow> rs_status resp \<noteq> 200"
  by (rule ccontr) (auto elim!: grant_code_200 simp: code_accepted_def code_live_def list_ex_iff)

section \<open>The refresh grant\<close>

definition rotated :: "string \<Rightarrow> int \<Rightarrow> database \<Rightarrow> database" where
  "rotated h now d = d\<lparr>oauth_refresh_tokens :=
     map (\<lambda>r. if token_usable h now r then r\<lparr>rr_revoked := True\<rparr> else r) (oauth_refresh_tokens d)\<rparr>"

lemma RotateRefreshToken_Inl:
  "run_state (RotateRefreshToken e h now) w = (Inl err, w') \<Longrightarrow> db w' = db w"
  by (auto simp: RotateRefreshToken_def run_bindE run_stmt rotate_token_def find_None_iff
      split: option.splits if_splits intro!: database.equality map_idI)

lemma grant_refresh_200:
  assumes "run_state (grantRefreshToken e opts form) w = (resp, w')" "rs_status resp = 200"
  obtains r access expires secret t expiry w1 w2 where
    "r \<in> set (oauth_refresh_tokens (db w))"
    "token_usable (hashToken e (values_get form ''refresh_token'')) (unix (mc_clock e (n_clock w))) r"
    "rr_client_id r = values_get form ''client_id''"
    "run_state (MintAccessToken e opts (rr_tenant_id r) (rr_client_id r)) w1 = (Inr (access, expiry), w2)"
    "resp = writeJSON 200 (token_response access expires secret)"
    "db w' = add_refresh (refresh_record e secret (rr_client_id r) (rr_tenant_id r) t)
       (rotated (hashToken e (values_get form ''refresh_token'')) (unix (mc_clock e (n_clock w))) (db w))"
proof -
  let ?h = "hashToken e (values_get form ''refresh_token'')" and ?now = "mc_clock e (n_clock w)"
  let ?w0 = "w\<lparr>n_clock := Suc (n_clock w)\<rparr>"
  obtain c w1 where c: "run_state (RotateRefreshToken e ?h ?now) ?w0 = (c, w1)"
    by (cases "run_state (RotateRefreshToken e ?h ?now) ?w0") auto
  show thesis
  proof (cases c)
    case (Inl err)
    with assms c show thesis
      by (auto simp: grantRefreshToken_def Let_def run_clock_now split: if_splits)
  next
    case (Inr rt)
    from c [unfolded Inr] obtain r
      where r: "find (token_usable ?h (unix ?now)) (oauth_refresh_tokens (db w)) = Some r"
        and rt: "rt = scanToken r" and w1: "db w1 = rotated ?h (unix ?now) (db w)"
      by (auto simp: RotateRefreshToken_Inr rotated_def)
    have cl: "rr_client_id r = values_get form ''client_id''"
      and run: "run_state (issueTokens e opts (rr_tenant_id r) (rr_client_id r)) w1 = (resp, w')"
      using assms c Inr
      by (auto simp: grantRefreshToken_def Let_def rt scanToken_def run_clock_now split: if_splits)
    from issueTokens_result [OF run] assms(2) obtain access expires secret expiry w3 t
      where "run_state (MintAccessToken e opts (rr_tenant_id r) (rr_client_id r)) w1 =
               (Inr (access, expiry), w3)"
        and "resp = writeJSON 200 (token_response access expires secret)"
        and "db w' = add_refresh (refresh_record e secret (rr_client_id r) (rr_tenant_id r) t) (db w1)"
      by auto
    with that find_SomeD [OF r] cl w1 show thesis by metis
  qed
qed

lemma grant_refresh_dead:
  "run_state (grantRefreshToken e opts form) w = (resp, w') \<Longrightarrow>
   \<not> token_live (hashToken e (values_get form ''refresh_token'')) (db w) \<Longrightarrow> rs_status resp \<noteq> 200"
  by (rule ccontr) (auto elim!: grant_refresh_200 simp: token_usable_def token_live_def list_ex_iff)

section \<open>Registration\<close>

lemma first_invalid_None:
  "first_invalid e uris = None \<longleftrightarrow> list_all (\<lambda>uri. validateRedirectURI e uri = None) uris"
  by (induction uris) (auto split: option.splits)

text \<open>The addresses the rule lets through.\<close>

definition acceptable_uri :: "machine \<Rightarrow> string \<Rightarrow> bool" where
  "acceptable_uri e raw \<longleftrightarrow>
     CHR ''#'' \<notin> set raw \<and>
     (case mc_url_parse e raw of
        None \<Rightarrow> False
      | Some u \<Rightarrow> u_fragment u = [] \<and>
          (u_scheme u = ''https'' \<and> u_host u \<noteq> [] \<or>
           u_scheme u = ''http'' \<and> u_hostname u \<in> {''localhost'', ''127.0.0.1'', ''::1''}))"

lemma validateRedirectURI_None: "validateRedirectURI e raw = None \<longleftrightarrow> acceptable_uri e raw"
  by (auto simp: validateRedirectURI_def acceptable_uri_def isLoopback_def split: option.splits)

lemma RegisterClient_Inr:
  "run_state (RegisterClient e c) w = (Inr u, w') \<Longrightarrow>
   db w' = (db w)\<lparr>oauth_clients := oauth_clients (db w) @
     [\<lparr>cr_client_id = c_id c, cr_client_name = c_name c,
       cr_redirect_uris = print_json (JArr (map JStr (c_redirect_uris c))),
       cr_created_at = unix (c_created_at c)\<rparr>]\<rparr>"
  by (auto simp: RegisterClient_def run_sql_Inr insert_client_def split: if_splits)

lemma RegisterHandler_result:
  assumes "run_state (RegisterHandler e r) w = (resp, w')"
  shows "rs_status resp \<noteq> 201 \<and> db w' = db w \<or>
    (\<exists>name uris client row. json_first (rq_body r) = Some row \<and> dec_registration row = Some (name, uris) \<and>
       c_redirect_uris client = uris \<and> (\<exists>bs. c_id client = b64_encode bs) \<and>
       1 \<le> length uris \<and> length uris \<le> maxRedirectURIs \<and> list_all (acceptable_uri e) uris \<and>
       resp = with_headers cors_headers (writeJSON 201 (registration_response client)) \<and>
       db w' = (db w)\<lparr>oauth_clients := oauth_clients (db w) @
         [\<lparr>cr_client_id = c_id client, cr_client_name = c_name client,
           cr_redirect_uris = print_json (JArr (map JStr uris)),
           cr_created_at = unix (c_created_at client)\<rparr>]\<rparr>)"
proof (cases "rq_method r = ''OPTIONS''")
  case True
  with assms show ?thesis by (auto simp: RegisterHandler_def)
next
  case False
  show ?thesis
  proof (cases "Option.bind (json_first (rq_body r)) dec_registration")
    case None
    with False assms show ?thesis by (auto simp: RegisterHandler_def)
  next
    case (Some p)
    then obtain name uris row where p: "p = (name, uris)" "json_first (rq_body r) = Some row"
      "dec_registration row = Some (name, uris)"
      by (cases p) (auto simp: Option.bind_eq_Some_conv)
    show ?thesis
    proof (cases "length uris = 0 \<or> maxRedirectURIs < length uris \<or> first_invalid e uris \<noteq> None")
      case True
      with False Some p(1) assms show ?thesis
        by (auto simp: RegisterHandler_def split: if_splits option.splits)
    next
      case good: False
      then have uris: "1 \<le> length uris" "length uris \<le> maxRedirectURIs" "list_all (acceptable_uri e) uris"
        and none: "first_invalid e uris = None"
        by (auto simp: first_invalid_None validateRedirectURI_None Suc_le_eq)
      show ?thesis
      proof (cases "mc_rand e (n_rand w) 32")
        case None
        with False Some p(1) good none assms show ?thesis
          by (auto simp: RegisterHandler_def run_randomSecret)
      next
        case rnd: (Some bs)
        let ?c = "\<lparr>c_id = b64_encode bs, c_name = trim_space name, c_redirect_uris = uris,
          c_created_at = mc_clock e (n_clock w)\<rparr>"
        let ?w1 = "w\<lparr>n_rand := Suc (n_rand w), n_clock := Suc (n_clock w)\<rparr>"
        obtain s w2 where s: "run_state (RegisterClient e ?c) ?w1 = (s, w2)"
          by (cases "run_state (RegisterClient e ?c) ?w1") auto
        have run: "(resp, w') = (case s of Inl _ \<Rightarrow> (with_headers cors_headers internal_error, w2)
            | Inr _ \<Rightarrow> (with_headers cors_headers (writeJSON 201 (registration_response ?c)), w2))"
          using False Some p(1) good none assms rnd s
          by (cases s) (auto simp: RegisterHandler_def Let_def run_randomSecret run_clock_now)
        show ?thesis
        proof (cases s)
          case (Inl err)
          with s have "db w2 = db w" by (auto simp: RegisterClient_def dest: stmt_Inl)
          with run Inl show ?thesis by simp
        next
          case (Inr u)
          from RegisterClient_Inr [OF s [unfolded Inr]] run Inr p uris show ?thesis
            by (intro disjI2 exI [of _ name] exI [of _ uris] exI [of _ ?c] exI [of _ row]) auto
        qed
      qed
    qed
  qed
qed

section \<open>The authorization endpoint\<close>

definition registered_uri :: "database \<Rightarrow> string \<Rightarrow> string \<Rightarrow> bool" where
  "registered_uri d cid uri \<longleftrightarrow>
     list_ex (\<lambda>r. cr_client_id r = cid \<and>
       (case decode_strings (cr_redirect_uris r) of None \<Rightarrow> False | Some uris \<Rightarrow> uri \<in> set uris))
       (oauth_clients d)"

lemma CreateLoginState_Inr:
  "run_state (CreateLoginState e st) w = (Inr u, w') \<Longrightarrow>
   db w' = (db w)\<lparr>login_states := login_states (db w) @
     [\<lparr>lr_state = ls_state st, lr_oauth_request = print_json (request_json (ls_request st)),
       lr_expires_at = unix (ls_expires_at st)\<rparr>]\<rparr>"
  by (auto simp: CreateLoginState_def run_sql_Inr insert_state_def split: if_splits)

lemma CreateLoginState_Inl: "run_state (CreateLoginState e st) w = (Inl err, w') \<Longrightarrow> db w' = db w"
  by (auto simp: CreateLoginState_def dest: stmt_Inl)

lemma ClientByID_db: "run_state (ClientByID e cid) w = (r, w') \<Longrightarrow> db w' = db w"
  using fdb.frameD [OF store_reads(6)] by (auto simp: same_db_def)

lemma location_redirectError: "location (redirectError e uri st c d) =
  Some (redirectWithParams e uri ([(''error'', c), (''error_description'', d)] @
    (if st \<noteq> [] then [(''state'', st)] else [])))"
  by (simp add: redirectError_def)

text \<open>
  The endpoint answers with an error page and touches nothing, or the redirect address is
  registered for the client; then it sends an error to that address, or parks the request with
  its PKCE challenge and goes to the login page.
\<close>

lemma AuthorizeHandler_result:
  assumes "run_state (AuthorizeHandler e opts r) w = (resp, w')"
  defines "uri \<equiv> values_get (Query r) ''redirect_uri''"
    and "cid \<equiv> values_get (Query r) ''client_id''"
  shows "location resp = None \<and> db w' = db w \<or>
    registered_uri (db w) cid uri \<and>
    ((\<exists>params. location resp = Some (redirectWithParams e uri params) \<and> db w' = db w) \<or>
     (\<exists>secret. location resp = Some (o_login_path opts @ ''?state='' @ query_escape secret) \<and>
        values_get (Query r) ''response_type'' = ''code'' \<and>
        values_get (Query r) ''code_challenge'' \<noteq> [] \<and>
        values_get (Query r) ''code_challenge_method'' = ''S256'' \<and>
        values_get (Query r) ''resource'' \<in> {[], o_resource opts} \<and>
        (\<exists>row. db w' = (db w)\<lparr>login_states := login_states (db w) @ [row]\<rparr> \<and>
           lr_state row = secret \<and>
           lr_oauth_request row = print_json (request_json
             \<lparr>or_client_id = cid, or_redirect_uri = uri,
              or_code_challenge = values_get (Query r) ''code_challenge'',
              or_client_state = values_get (Query r) ''state'',
              or_resource = values_get (Query r) ''resource''\<rparr>))))"
proof (cases "cid = []")
  case True
  with assms show ?thesis by (auto simp: AuthorizeHandler_def Let_def)
next
  case False
  obtain c w1 where c: "run_state (ClientByID e cid) w = (c, w1)"
    by (cases "run_state (ClientByID e cid) w") auto
  note d = ClientByID_db [OF c]
  show ?thesis
  proof (cases c)
    case (Inl err)
    with False assms c d show ?thesis
      by (auto simp: AuthorizeHandler_def Let_def split: if_splits)
  next
    case (Inr client)
    from c [unfolded Inr] obtain row where "row \<in> set (oauth_clients (db w))" "cr_client_id row = cid"
      "decode_strings (cr_redirect_uris row) = Some (c_redirect_uris client)"
      by (auto simp: ClientByID_Inr dest: find_SomeD)
    then have reg: "AllowsRedirectURI client uri \<Longrightarrow> registered_uri (db w) cid uri"
      by (auto simp: registered_uri_def list_ex_iff AllowsRedirectURI_iff intro!: bexI [of _ row])
    let ?q = "Query r"
    let ?bad = "uri = [] \<or> \<not> AllowsRedirectURI client uri"
    let ?reject = "values_get ?q ''response_type'' \<noteq> ''code'' \<or> values_get ?q ''code_challenge'' = [] \<or>
      values_get ?q ''code_challenge_method'' \<noteq> ''S256'' \<or>
      values_get ?q ''resource'' \<noteq> [] \<and> values_get ?q ''resource'' \<noteq> o_resource opts"
    consider ?bad | "\<not> ?bad" ?reject | "\<not> ?bad" "\<not> ?reject" by blast
    then show ?thesis
    proof cases
      case 1
      with False assms c d Inr show ?thesis by (auto simp: AuthorizeHandler_def Let_def)
    next
      case 2
      then have "location resp \<in> range (\<lambda>ps. Some (redirectWithParams e uri ps)) \<and> db w' = db w"
        using False assms c d Inr
        by (auto simp: AuthorizeHandler_def Let_def location_redirectError simp del: append.simps
            split: if_splits)
      with reg 2 show ?thesis by blast
    next
      case 3
      show ?thesis
      proof (cases "mc_rand e (n_rand w1) 32")
        case None
        then have "location resp \<in> range (\<lambda>ps. Some (redirectWithParams e uri ps)) \<and> db w' = db w"
          using 3 False assms c d Inr
          by (auto simp: AuthorizeHandler_def Let_def run_randomSecret location_redirectError
              simp del: append.simps)
        with reg 3 show ?thesis by blast
      next
        case (Some bs)
        let ?ls = "\<lparr>ls_state = b64_encode bs,
          ls_request = \<lparr>or_client_id = cid, or_redirect_uri = uri,
            or_code_challenge = values_get ?q ''code_challenge'',
            or_client_state = values_get ?q ''state'', or_resource = values_get ?q ''resource''\<rparr>,
          ls_expires_at = time_add (mc_clock e (n_clock w1)) LoginStateTTL\<rparr>"
        let ?w2 = "w1\<lparr>n_rand := Suc (n_rand w1), n_clock := Suc (n_clock w1)\<rparr>"
        obtain s w3 where s: "run_state (CreateLoginState e ?ls) ?w2 = (s, w3)"
          by (cases "run_state (CreateLoginState e ?ls) ?w2") auto
        have run: "(resp, w') = (case s of
            Inl _ \<Rightarrow> redirectError e uri (values_get ?q ''state'') errServerError ''erreur interne''
          | Inr _ \<Rightarrow> redirect (o_login_path opts @ ''?state='' @ query_escape (b64_encode bs)), w3)"
          using 3 False assms c d Inr Some s
          by (cases s) (auto simp: AuthorizeHandler_def Let_def run_randomSecret run_clock_now)
        show ?thesis
        proof (cases s)
          case (Inl err)
          with CreateLoginState_Inl [OF s [unfolded Inl]] run d
          have "location resp \<in> range (\<lambda>ps. Some (redirectWithParams e uri ps)) \<and> db w' = db w"
            by (auto simp: location_redirectError simp del: append.simps)
          with reg 3 show ?thesis by blast
        next
          case (Inr u)
          let ?row = "\<lparr>lr_state = b64_encode bs,
            lr_oauth_request = print_json (request_json (ls_request ?ls)),
            lr_expires_at = unix (ls_expires_at ?ls)\<rparr>"
          have loc: "location resp = Some (o_login_path opts @ ''?state='' @ query_escape (b64_encode bs))"
            using run Inr by simp
          have "db w' = (db w)\<lparr>login_states := login_states (db w) @ [?row]\<rparr>"
            using CreateLoginState_Inr [OF s [unfolded Inr]] run Inr d by simp
          moreover have "values_get ?q ''resource'' \<in> {[], o_resource opts}" using 3(2) by blast
          ultimately show ?thesis
            using reg 3 loc
            by (intro disjI2 conjI exI [of _ "b64_encode bs"] exI [of _ ?row])
               (simp_all del: append.simps)
        qed
      qed
    qed
  qed
qed

end
