(* ===== verification/AccessTokens.thy ===== *)
theory AccessTokens
  imports AuthFacts
begin

text \<open>
  The access tokens of \<open>authserver/jwt.go\<close>: \<open>VerifyAccessToken\<close> accepts only a token signed with
  this server's key under HS256 for this issuer and audience that has not expired, and accepts
  every token that \<open>MintAccessToken\<close> made until it expires. HMAC is a parameter; the only thing
  used of it is that a digest is never empty.
\<close>

lemma splitToken_Some:
  "splitToken t = Some (h, p, s) \<longleftrightarrow>
     t = h @ ''.'' @ p @ ''.'' @ s \<and> h \<noteq> [] \<and> p \<noteq> [] \<and> s \<noteq> [] \<and>
     CHR ''.'' \<notin> set h \<and> CHR ''.'' \<notin> set p \<and> CHR ''.'' \<notin> set s"
proof
  assume "splitToken t = Some (h, p, s)"
  then obtain r where "cut (CHR ''.'') t = Some (h, r)" "cut (CHR ''.'') r = Some (p, s)"
    "h \<noteq> []" "p \<noteq> []" "s \<noteq> []" "CHR ''.'' \<notin> set s"
    by (auto simp: splitToken_def split: option.splits if_splits)
  then show "t = h @ ''.'' @ p @ ''.'' @ s \<and> h \<noteq> [] \<and> p \<noteq> [] \<and> s \<noteq> [] \<and>
     CHR ''.'' \<notin> set h \<and> CHR ''.'' \<notin> set p \<and> CHR ''.'' \<notin> set s"
    by (simp add: cut_Some)
qed (simp add: splitToken_def cut_append)

definition genuine :: "machine \<Rightarrow> options \<Rightarrow> string \<Rightarrow> claims \<Rightarrow> bool" where
  "genuine e opts token c \<longleftrightarrow>
     (case splitToken token of
        None \<Rightarrow> False
      | Some (h, p, s) \<Rightarrow>
          b64_decode s = Some (sign e opts (h @ ''.'' @ p)) \<and>
          (case Option.bind (decodeSegment h) dec_header of
             None \<Rightarrow> False | Some (alg, typ) \<Rightarrow> alg = algHS256 \<and> typ \<in> {[], typJWT}) \<and>
          Option.bind (decodeSegment p) dec_claims = Some c) \<and>
     cl_issuer c = o_issuer opts \<and> cl_audience c = o_resource opts \<and> cl_subject c \<noteq> [] \<and>
     cl_expires_at c \<noteq> 0"

lemma VerifyAccessToken_Inr:
  "run_state (VerifyAccessToken e opts token) w = (Inr c, w') \<longleftrightarrow>
     genuine e opts token c \<and> mc_clock e (n_clock w) < Expiry c \<and>
     w' = w\<lparr>n_clock := Suc (n_clock w)\<rparr>"
proof (cases "splitToken token")
  case None
  then show ?thesis by (simp add: VerifyAccessToken_def genuine_def)
next
  case (Some hps)
  obtain h p s where hps: "hps = (h, p, s)" by (cases hps)
  let ?hd = "Option.bind (decodeSegment h) dec_header"
    and ?cl = "Option.bind (decodeSegment p) dec_claims"
  show ?thesis
  proof (cases "?hd = None \<or> b64_decode s = None \<or> ?cl = None")
    case True
    with Some hps show ?thesis
      by (auto simp: VerifyAccessToken_def genuine_def split: option.splits prod.splits if_splits)
  next
    case False
    then obtain at sg c0 where "?hd = Some at" "b64_decode s = Some sg" "?cl = Some c0" by auto
    with Some hps show ?thesis
      by (cases at) (auto simp: VerifyAccessToken_def genuine_def run_clock_now algHS256_def)
  qed
qed

lemma VerifyAccessToken_Inl:
  "run_state (VerifyAccessToken e opts token) w = (Inl err, w') \<Longrightarrow> err = ErrInvalidToken"
  by (auto simp: VerifyAccessToken_def run_clock_now
      split: option.splits prod.splits if_splits)

lemma VerifyAccessToken_frames [io_intros]:
  "state_io_rel same_db (VerifyAccessToken e opts token)"
  "state_io_rel (emits P) (VerifyAccessToken e opts token)"
  unfolding VerifyAccessToken_def
  by (intro fdb.rules io_intros | intro fem.rules io_intros)+

section \<open>Minted tokens verify\<close>

lemma b64_decode_encode [simp]: "b64_decode (b64_encode s) = Some s"
  by (rule b64_roundtrip)

lemma decode_encode_segment: "plain j \<Longrightarrow> decodeSegment (encodeSegment j) = Some j"
  by (simp add: decodeSegment_def encodeSegment_def json_roundtrip)

lemma encodeSegment_ne: "plain j \<Longrightarrow> encodeSegment j \<noteq> []"
  by (simp add: encodeSegment_def print_json_ne)

lemma encodeSegment_no_dot: "CHR ''.'' \<notin> set (encodeSegment j)"
  by (simp add: encodeSegment_def b64_encode_no_dot)

lemma plain_header: "plain header_json"
  by (simp add: header_json_def algHS256_def typJWT_def utf8_valid_ascii)

lemma dec_header_json: "dec_header header_json = Some (algHS256, typJWT)"
  by (simp add: dec_header_def header_json_def json_field_def ascii_lower_def)

lemma dec_claims_json:
  "min64 \<le> cl_issued_at c \<Longrightarrow> cl_issued_at c \<le> max64 \<Longrightarrow>
   min64 \<le> cl_expires_at c \<Longrightarrow> cl_expires_at c \<le> max64 \<Longrightarrow> dec_claims (claims_json c) = Some c"
  by (cases c) (simp add: dec_claims_def claims_json_def json_field_def ascii_lower_def)

lemma utf8_valid_b64: "utf8_valid (b64_encode s)"
  by (rule utf8_valid_ascii) (auto dest: b64_encode_ascii)

text \<open>What the claims of a minted token are.\<close>

lemma MintAccessToken_Inr:
  assumes "run_state (MintAccessToken e opts tid cid) w = (Inr (token, expiry), w')"
  obtains c where "token = encodeSegment header_json @ ''.'' @ encodeSegment (claims_json c) @ ''.'' @
      b64_encode (sign e opts (encodeSegment header_json @ ''.'' @ encodeSegment (claims_json c)))"
    "cl_issuer c = o_issuer opts" "cl_subject c = tid" "cl_audience c = o_resource opts"
    "cl_client_id c = cid" "cl_issued_at c = unix (mc_clock e (n_clock w))"
    "cl_expires_at c = unix expiry" "utf8_valid (cl_jti c)"
    "expiry = time_add (mc_clock e (n_clock w)) (o_access_ttl opts)"
proof -
  let ?now = "mc_clock e (n_clock w)"
  from assms obtain bs where r: "mc_rand e (n_rand w) 32 = Some bs"
    by (cases "mc_rand e (n_rand w) 32")
       (simp_all add: MintAccessToken_def run_bindE run_mapE run_randomSecret)
  let ?c = "\<lparr>cl_issuer = o_issuer opts, cl_subject = tid, cl_audience = o_resource opts,
    cl_client_id = cid, cl_issued_at = unix ?now,
    cl_expires_at = unix (time_add ?now (o_access_ttl opts)), cl_jti = b64_encode bs\<rparr>"
  from assms r have "token = encodeSegment header_json @ ''.'' @ encodeSegment (claims_json ?c) @
      ''.'' @ b64_encode (sign e opts
        (encodeSegment header_json @ ''.'' @ encodeSegment (claims_json ?c)))"
    and "expiry = time_add ?now (o_access_ttl opts)"
    by (auto simp: MintAccessToken_def run_bindE run_mapE run_randomSecret run_clock_now Let_def)
  then show thesis using that [of ?c] utf8_valid_b64 by simp
qed

text \<open>
  What a minted token needs to be read back: the configured addresses, the tenant and the client
  are UTF-8, and the two times fit the 64 bit claims.
\<close>

definition mintable :: "options \<Rightarrow> string \<Rightarrow> string \<Rightarrow> instant \<Rightarrow> bool" where
  "mintable opts tid cid now \<longleftrightarrow>
     utf8_valid (o_issuer opts) \<and> utf8_valid (o_resource opts) \<and> utf8_valid tid \<and> tid \<noteq> [] \<and>
     utf8_valid cid \<and> min64 \<le> unix now \<and> unix now \<le> max64 \<and>
     min64 \<le> unix (time_add now (o_access_ttl opts)) \<and>
     unix (time_add now (o_access_ttl opts)) \<le> max64 \<and>
     unix (time_add now (o_access_ttl opts)) \<noteq> 0"

definition hmac_ok :: "machine \<Rightarrow> bool" where
  "hmac_ok e \<longleftrightarrow> (\<forall>k m. length (mc_hmac e k m) = 32)"

lemma mint_genuine:
  assumes run: "run_state (MintAccessToken e opts tid cid) w = (Inr (token, expiry), w')"
    and m: "mintable opts tid cid (mc_clock e (n_clock w))" and h: "hmac_ok e"
  obtains c where "genuine e opts token c" "cl_subject c = tid" "cl_client_id c = cid"
    "Expiry c = from_unix (unix expiry)"
proof -
  from run obtain c where token: "token = encodeSegment header_json @ ''.'' @
        encodeSegment (claims_json c) @ ''.'' @
        b64_encode (sign e opts (encodeSegment header_json @ ''.'' @ encodeSegment (claims_json c)))"
    and c: "cl_issuer c = o_issuer opts" "cl_subject c = tid" "cl_audience c = o_resource opts"
      "cl_client_id c = cid" "cl_issued_at c = unix (mc_clock e (n_clock w))"
      "cl_expires_at c = unix expiry" "utf8_valid (cl_jti c)"
      "expiry = time_add (mc_clock e (n_clock w)) (o_access_ttl opts)"
    by (rule MintAccessToken_Inr)
  have plain: "plain (claims_json c)"
    using c m by (simp add: claims_json_def mintable_def utf8_valid_ascii)
  have "sign e opts x \<noteq> []" for x
    using h by (metis hmac_ok_def list.size(3) sign_def zero_neq_numeral)
  then have split: "splitToken token = Some (encodeSegment header_json, encodeSegment (claims_json c),
      b64_encode (sign e opts (encodeSegment header_json @ ''.'' @ encodeSegment (claims_json c))))"
    unfolding token splitToken_Some
    by (simp add: encodeSegment_no_dot encodeSegment_ne plain plain_header b64_encode_no_dot)
  have "dec_claims (claims_json c) = Some c"
    using c m by (simp add: dec_claims_json mintable_def)
  then have "genuine e opts token c"
    using c m by (simp add: genuine_def split decode_encode_segment plain plain_header
        dec_header_json mintable_def)
  moreover have "Expiry c = from_unix (unix expiry)" using c by (simp add: Expiry_def)
  ultimately show thesis using c that by simp
qed

end
