(* ===== verification/Example.thy ===== *)
theory Example
  imports Crypto
begin

text \<open>
  A concrete machine, on which the theorems are applied in their witnesses. Its clock ticks one
  second per reading, its random bytes are all different from one read to the next, no SQL
  statement fails, the context is never cancelled, Meta does not answer unless a list of canned
  answers says so, sealing appends sixteen bytes, and a URL is read when a table has it.
\<close>

definition ex_random :: "nat \<Rightarrow> nat \<Rightarrow> string" where
  "ex_random n k = replicate k (char_of (65 + n))"

definition ex_seal :: "string \<Rightarrow> string" where
  "ex_seal p = p @ replicate overhead (CHR ''t'')"

definition ex_open :: "string \<Rightarrow> string option" where
  "ex_open c =
     (if overhead \<le> length c \<and> drop (length c - overhead) c = replicate overhead (CHR ''t'')
      then Some (take (length c - overhead) c) else None)"

definition ex_digest :: "string \<Rightarrow> string" where
  "ex_digest m = take 32 (m @ replicate 32 (CHR ''d''))"

definition ex_url :: "string \<Rightarrow> string \<Rightarrow> url" where
  "ex_url host query =
     \<lparr>u_scheme = ''https'', u_host = host, u_hostname = host, u_fragment = [], u_raw_query = query,
      u_rest = ''/cb''\<rparr>"

definition ex_url_parse :: "string \<Rightarrow> url option" where
  "ex_url_parse s =
     (if prefix ''https://'' s
      then Some (ex_url (takeWhile (\<lambda>c. c \<noteq> CHR ''/'' \<and> c \<noteq> CHR ''?'') (drop 8 s)) [])
      else None)"

definition ex_url_string :: "url \<Rightarrow> string" where
  "ex_url_string u =
     u_scheme u @ ''://'' @ u_host u @ u_rest u @
     (if u_raw_query u = [] then [] else CHR ''?'' # u_raw_query u)"

text \<open>The answers Meta gives, in order.\<close>

definition ex_meta :: "http_answer list \<Rightarrow> http_request list \<Rightarrow> http_request \<Rightarrow> http_answer" where
  "ex_meta answers sent r =
     (if length sent < length answers then answers ! length sent else NoAnswer)"

definition ex_machine :: "http_answer list \<Rightarrow> machine" where
  "ex_machine answers =
     \<lparr>mc_clock = (\<lambda>n. from_unix (1700000000 + int n)),
      mc_rand = (\<lambda>n k. Some (ex_random n k)),
      mc_sql_fails = (\<lambda>n. False),
      mc_ctx_done = (\<lambda>n. False),
      mc_meta = ex_meta answers,
      mc_hmac = (\<lambda>k m. ex_digest (k @ m)),
      mc_sha256 = ex_digest,
      mc_seal = (\<lambda>nonce p. ex_seal p),
      mc_open = (\<lambda>nonce c. ex_open c),
      mc_url_parse = ex_url_parse,
      mc_url_string = ex_url_string\<rparr>"

definition ex_world :: "database \<Rightarrow> world" where
  "ex_world d =
     \<lparr>db = d, n_clock = 0, n_rand = 0, n_sql = 0, n_ctx = 0, requests = [], sleeps = []\<rparr>"

text \<open>An HTTP answer of the Graph API.\<close>

definition ex_ok :: "string \<Rightarrow> http_answer" where
  "ex_ok body = Answer 200 body []"

lemma from_unix_less [simp]: "from_unix a < from_unix b \<longleftrightarrow> a < b"
  by (simp add: from_unix_def)

lemma ex_cipher_ok: "cipher_ok (ex_machine answers)"
  by (auto simp: cipher_ok_def rand_ok_def aead_ok_def ex_machine_def ex_random_def ex_seal_def
      ex_open_def overhead_def)

lemma ex_fields [simp]:
  "mc_sql_fails (ex_machine answers) n = False"
  "mc_ctx_done (ex_machine answers) n = False"
  "mc_clock (ex_machine answers) n = from_unix (1700000000 + int n)"
  "mc_rand (ex_machine answers) n k = Some (ex_random n k)"
  "db (ex_world d) = d" "n_sql (ex_world d) = 0" "n_clock (ex_world d) = 0"
  "n_rand (ex_world d) = 0" "requests (ex_world d) = []" "sleeps (ex_world d) = []"
  by (simp_all add: ex_machine_def ex_world_def)

text \<open>A tenant with one page, as the store holds them.\<close>

definition ex_seal_row :: "string \<Rightarrow> string" where
  "ex_seal_row p = replicate nonce_size (CHR ''n'') @ ex_seal p"

definition ex_tenant_row :: tenant_row where
  "ex_tenant_row =
     \<lparr>tr_id = ''t1'', tr_meta_user_id = ''u1'', tr_display_name = ''Ann'',
      tr_user_token_enc = ex_seal_row ''usertok'', tr_created_at = 100, tr_updated_at = 100,
      tr_user_token_expires_at = 1700100000\<rparr>"

definition ex_page_row :: "string \<Rightarrow> page_row" where
  "ex_page_row pid =
     \<lparr>pg_tenant_id = ''t1'', pg_page_id = pid, pg_name = ''Shop'', pg_ig_user_id = Some ''ig1'',
      pg_ig_username = Some ''shop'', pg_page_token_enc = ex_seal_row ''pagetok'', pg_synced_at = 100\<rparr>"

definition ex_db :: database where
  "ex_db = empty_db\<lparr>tenants := [ex_tenant_row], pages := [ex_page_row ''p1'']\<rparr>"

lemmas ex_defs = ex_db_def ex_tenant_row_def ex_page_row_def empty_db_def

end
