(* ===== verification/StoreProps.thy ===== *)
theory StoreProps
  imports StoreTrace Example
begin

text \<open>
  What the rest of the program may rely on from the store. Each property with a hypothesis is
  followed by a concrete run it applies to.
\<close>

section \<open>Running operations\<close>

text \<open>The events a list of operations makes, for the concrete histories.\<close>

fun run_ops :: "machine \<Rightarrow> store_op list \<Rightarrow> world \<Rightarrow> event list \<times> world" where
  "run_ops e [] w = ([], w)"
| "run_ops e (x # xs) w =
     (let (r, w1) = run_state (op_io e x) w; (evs, w2) = run_ops e xs w1 in
      ((x, case r of Inl _ \<Rightarrow> False | Inr _ \<Rightarrow> True) # evs, w2))"

lemma run_ops_history: "run_ops e xs w = (evs, w') \<Longrightarrow> history e (db w) evs (db w')"
proof (induction xs arbitrary: w evs w')
  case (Cons x xs)
  obtain r w1 where r: "run_state (op_io e x) w = (r, w1)" by (cases "run_state (op_io e x) w")
  obtain evs1 w2 where q: "run_ops e xs w1 = (evs1, w2)" by (cases "run_ops e xs w1")
  have "(case r of Inl _ \<Rightarrow> False | Inr _ \<Rightarrow> True) = (\<not> isl r)" by (cases r) auto
  with Cons.prems r q have "evs = (x, \<not> isl r) # evs1" "w' = w2" by simp_all
  with store_stepI [OF r] Cons.IH [OF q] show ?case by (auto intro: path.intros)
qed (auto intro: path.intros)

definition ex_code :: auth_code where
  "ex_code =
     \<lparr>ac_code = ''c'', ac_client_id = ''cl'', ac_tenant_id = ''t1'',
      ac_redirect_uri = ''https://app/cb'', ac_code_challenge = ''ch'', ac_resource = [],
      ac_expires_at = from_unix 1700000300\<rparr>"

definition ex_token :: refresh_token where
  "ex_token =
     \<lparr>rt_hash = ''h'', rt_client_id = ''cl'', rt_tenant_id = ''t1'',
      rt_expires_at = from_unix 1700000300, rt_revoked = False\<rparr>"

definition ex_state :: login_state where
  "ex_state =
     \<lparr>ls_state = ''s'', ls_request = empty_request, ls_expires_at = from_unix 1700000300\<rparr>"

definition ex_ops :: "store_op list" where
  "ex_ops =
     [OCreateAuthCode ex_code, OConsumeAuthCode ''c'', OConsumeAuthCode ''c'',
      OCreateRefreshToken ex_token, ORotateRefreshToken ''h'' (from_unix 1700000000),
      ORotateRefreshToken ''h'' (from_unix 1700000000),
      OCreateLoginState ex_state, OConsumeLoginState ''s'', OConsumeLoginState ''s'']"

text \<open>Each credential is consumed twice; the second time is refused.\<close>

definition ex_events :: "event list" where
  "ex_events = zip ex_ops [True, True, False, True, True, False, True, True, False]"

definition ex_after :: world where
  "ex_after = snd (run_ops (ex_machine []) ex_ops (ex_world ex_db))"

lemmas store_ops = CreateAuthCode_def ConsumeAuthCode_def CreateRefreshToken_def
  RotateRefreshToken_def CreateLoginState_def ConsumeLoginState_def DeleteTenant_def in_tx_def
  insert_code_def delete_code_def insert_token_def rotate_token_def token_usable_def insert_state_def
  delete_state_def delete_tokens_of_def delete_codes_of_def delete_pages_of_def delete_tenant_def
  scanCode_def scanToken_def void_def run_simps

lemma ex_history: "history (ex_machine []) ex_db ex_events (db ex_after)"
proof -
  have "fst (run_ops (ex_machine []) ex_ops (ex_world ex_db)) = ex_events"
    by (simp add: ex_ops_def ex_events_def ex_code_def ex_token_def ex_state_def store_ops
        reread_request ex_db_def empty_db_def cong: prod.case_cong_weak del: print_json.simps)
  then have "run_ops (ex_machine []) ex_ops (ex_world ex_db) = (ex_events, ex_after)"
    by (metis ex_after_def prod.collapse)
  from run_ops_history [OF this] show ?thesis by simp
qed

lemma ex_db_ok: "db_ok ex_db"
  by (simp add: db_ok_def ex_db_def ex_tenant_row_def ex_page_row_def empty_db_def)

lemma ex_no_failure: "\<not> mc_sql_fails (ex_machine answers) n"
  by simp

section \<open>Histories\<close>

text \<open>Whatever operations reach the store, and however they fail, its tables keep their keys:
  no tenant id, Meta user id, page of a tenant, client id, code, token hash or state appears twice,
  and every page belongs to a tenant that exists.\<close>

lemma schema_invariant:
  assumes "history e d evs d'" "db_ok d"
  shows "db_ok d'"
  using assms by (rule path_invariant) (rule store_step_db_ok)

text \<open>Over any history of store operations, an authorization code is redeemed at most as
  often as it was minted, plus once if it was stored at the start.\<close>

lemma code_single_use:
  assumes "history e d evs d'"
  shows "length (filter (redeems_code c) evs) \<le>
    of_bool (code_live c d) + length (filter (mints_code c) evs)"
  using code_use.redeem_count [OF assms, of c] by simp

text \<open>Over any history, the state of a login is consumed at most as often as it was
  parked.\<close>

lemma state_single_use:
  assumes "history e d evs d'"
  shows "length (filter (redeems_state s) evs) \<le>
    of_bool (state_live s d) + length (filter (mints_state s) evs)"
  using state_use.redeem_count [OF assms, of s] by simp

text \<open>C11: over any history that starts from well-formed tables, a refresh token is rotated at
  most as often as it was created, whatever else revokes, purges or rotates tokens meanwhile.\<close>

theorem refresh_single_use:
  assumes "history e d evs d'" "db_ok d"
  shows "length (filter (redeems_token h) evs) \<le>
    of_bool (token_live h d) + length (filter (mints_token h) evs)"
  using token_use.redeem_count [OF history_ok_steps [OF assms], of h] by simp

theorem refresh_single_use_witness: "length (filter (redeems_token ''h'') ex_events) \<le> 1"
proof -
  have "of_bool (token_live ''h'' ex_db) + length (filter (mints_token ''h'') ex_events) = (1 :: nat)"
    by code_simp
  with refresh_single_use [OF ex_history ex_db_ok, of "''h''"] show ?thesis by simp
qed

section \<open>Tenants and their pages\<close>

text \<open>C13: a tenant that was stored is read back under its Meta user id with the same token,
  name and deadline (a deadline loses its fraction of a second); a Meta user who was known keeps
  the tenant id and the creation date of the first login.\<close>

theorem upsert_roundtrip:
  assumes "cipher_ok e" "run_state (UpsertTenant e t) w = (Inr (), w')"
    "\<not> mc_sql_fails e (n_sql w')"
  shows "\<exists>t' w''. run_state (TenantByMetaUserID e (t_meta_user_id t)) w' = (Inr t', w'') \<and>
    t_user_token t' = t_user_token t \<and> t_display_name t' = t_display_name t \<and>
    t_meta_user_id t' = t_meta_user_id t \<and>
    t_updated_at t' = from_unix (unix (t_updated_at t)) \<and>
    t_token_expires_at t' = timeOrZero (unixOrZero (t_token_expires_at t)) \<and>
    (case find (\<lambda>r. tr_meta_user_id r = t_meta_user_id t) (tenants (db w)) of
       None \<Rightarrow> t_id t' = t_id t \<and> t_created_at t' = from_unix (unix (t_created_at t))
     | Some r \<Rightarrow> t_id t' = tr_id r \<and> t_created_at t' = from_unix (tr_created_at r))"
proof -
  from assms(2) obtain enc w1 where enc: "run_state (Encrypt e (t_user_token t)) w = (Inr enc, w1)"
    and ins: "upsert_tenant (tenant_record t enc) (db w) = Some ((), db w')"
    by (rule UpsertTenant_Inr)
  let ?row = "upserted (tenant_record t enc) (db w)"
  have f: "find (\<lambda>y. tr_meta_user_id y = t_meta_user_id t) (tenants (db w')) = Some ?row"
    using upsert_tenant_find [OF ins] by (simp add: tenant_record_def)
  have dec: "Decrypt e (tr_user_token_enc ?row) = Inr (t_user_token t)"
    using ciph.enc_dec [OF assms(1) enc]
    by (auto simp: upserted_def merge_tenant_def tenant_record_def split: option.splits dest!: find_SomeD)
  then obtain t' where t': "scanTenant e ?row = Inr t'" by (simp add: scanTenant_def)
  with f assms(3) have "run_state (TenantByMetaUserID e (t_meta_user_id t)) w' =
      (Inr t', w'\<lparr>n_sql := Suc (n_sql w')\<rparr>)"
    by (simp add: TenantByMetaUserID_def tenantBy_Inr)
  moreover from t' dec have "t_user_token t' = t_user_token t" "t_display_name t' = t_display_name t"
    "t_meta_user_id t' = t_meta_user_id t" "t_updated_at t' = from_unix (unix (t_updated_at t))"
    "t_token_expires_at t' = timeOrZero (unixOrZero (t_token_expires_at t))"
    "case find (\<lambda>r. tr_meta_user_id r = t_meta_user_id t) (tenants (db w)) of
       None \<Rightarrow> t_id t' = t_id t \<and> t_created_at t' = from_unix (unix (t_created_at t))
     | Some r \<Rightarrow> t_id t' = tr_id r \<and> t_created_at t' = from_unix (tr_created_at r)"
    by (auto simp: scanTenant_Inr upserted_def merge_tenant_def tenant_record_def
        split: option.splits dest!: find_SomeD)
  ultimately show ?thesis by blast
qed

definition ex_tenant :: tenant where
  "ex_tenant =
     \<lparr>t_id = ''new'', t_meta_user_id = ''u1'', t_display_name = ''Ann B'', t_user_token = ''tok2'',
      t_created_at = from_unix 200, t_updated_at = from_unix 200, t_token_expires_at = zero_time\<rparr>"

theorem upsert_roundtrip_witness:
  "\<exists>t' w''. run_state (TenantByMetaUserID (ex_machine []) ''u1'')
     (snd (run_state (UpsertTenant (ex_machine []) ex_tenant) (ex_world ex_db))) = (Inr t', w'') \<and>
     t_user_token t' = ''tok2'' \<and> t_id t' = ''t1''"
proof -
  let ?r = "run_state (UpsertTenant (ex_machine []) ex_tenant) (ex_world ex_db)"
  have "fst ?r = Inr ()" by code_simp
  then have run: "?r = (Inr (), snd ?r)" by (cases ?r) simp
  have "find (\<lambda>r. tr_meta_user_id r = ''u1'') (tenants ex_db) = Some ex_tenant_row" by code_simp
  then show ?thesis
    using upsert_roundtrip [OF ex_cipher_ok run] by (auto simp: ex_tenant_def ex_tenant_row_def)
qed

text \<open>C14: after the pages of a tenant were replaced, listing them gives exactly the new pages,
  by name, with their tokens; and the pages of every other tenant are as before.\<close>

theorem replace_pages_exact:
  assumes "cipher_ok e" "run_state (ReplacePages e tid ps) w = (Inr (), w')"
    "\<not> mc_sql_fails e (n_sql w')"
  shows "fst (run_state (ListPages e tid) w') = Inr (sort_key p_name (map (as_stored tid) ps)) \<and>
    (\<forall>other. other \<noteq> tid \<longrightarrow> pages_of other (db w') = pages_of other (db w))"
proof -
  from ReplacePages_Inr [OF assms(2)] assms(1) obtain encs where l: "length encs = length ps"
    and d: "db w' = (db w)\<lparr>pages := filter (\<lambda>r. pg_tenant_id r \<noteq> tid) (pages (db w)) @
                map (\<lambda>(p, enc). page_record tid p enc) (zip ps encs)\<rparr>"
    and dec: "list_all2 (\<lambda>p enc. Decrypt e enc = Inr (p_page_token p)) ps encs"
    by blast
  let ?new = "map (\<lambda>(p, enc). page_record tid p enc) (zip ps encs)"
  have new: "pg_tenant_id r = tid" if "r \<in> set ?new" for r
    using that by (auto simp: page_record_def)
  then have "filter (\<lambda>r. pg_tenant_id r = tid) ?new = ?new" by (intro filter_True) blast
  then have mine: "pages_of tid (db w') = ?new"
    by (simp add: pages_of_def d)
  have "run_state (ListPages e tid) w' =
      (Inr (sort_key p_name (map (as_stored tid) ps)), w'\<lparr>n_sql := Suc (n_sql w')\<rparr>)"
    using assms(3) by (simp add: ListPages_Inr mine scan_sorted_rows [OF l dec])
  moreover have "pages_of other (db w') = pages_of other (db w)" if "other \<noteq> tid" for other
  proof -
    have "filter (\<lambda>r. pg_tenant_id r = other) ?new = []"
      unfolding filter_empty_conv using new that by blast
    then have "pages_of other (db w') =
        filter (\<lambda>r. pg_tenant_id r \<noteq> tid \<and> pg_tenant_id r = other) (pages (db w))"
      by (simp add: pages_of_def d conj_commute)
    also have "\<dots> = pages_of other (db w)"
      unfolding pages_of_def using that by (intro filter_cong) auto
    finally show ?thesis .
  qed
  ultimately show ?thesis by simp
qed

definition ex_page :: "string \<Rightarrow> string \<Rightarrow> page" where
  "ex_page pid name =
     \<lparr>p_tenant_id = [], p_page_id = pid, p_name = name, p_ig_user_id = [], p_ig_username = [],
      p_page_token = ''tok'' @ pid, p_synced_at = from_unix 200\<rparr>"

theorem replace_pages_exact_witness:
  "map p_page_id (projr (fst (run_state (ListPages (ex_machine []) ''t1'')
     (snd (run_state (ReplacePages (ex_machine []) ''t1'' [ex_page ''9'' ''B'', ex_page ''8'' ''A''])
       (ex_world ex_db)))))) = [''8'', ''9'']"
proof -
  let ?r = "run_state (ReplacePages (ex_machine []) ''t1'' [ex_page ''9'' ''B'', ex_page ''8'' ''A''])
       (ex_world ex_db)"
  have "fst ?r = Inr ()"
    by (simp add: method_defs stmt_defs in_tx_def run_simps Encrypt_def page_record_def ex_page_def ex_defs)
  then have run: "?r = (Inr (), snd ?r)" by (cases ?r) simp
  have listed: "fst (run_state (ListPages (ex_machine []) ''t1'') (snd ?r)) =
      Inr (sort_key p_name (map (as_stored ''t1'') [ex_page ''9'' ''B'', ex_page ''8'' ''A'']))"
    by (rule replace_pages_exact [OF ex_cipher_ok run ex_no_failure, THEN conjunct1])
  show ?thesis unfolding listed by code_simp
qed

text \<open>A purge that fails has run none, one or two of its three statements.\<close>

lemma PurgeExpired_Inl:
  assumes "run_state (PurgeExpired e now) w = (Inl err, w')"
  shows "\<exists>done \<in> {[], [purge_codes (unix now)], [purge_codes (unix now), purge_states (unix now)]}.
    db w' = fold (\<lambda>q d. snd (the (q d))) done (db w)"
  using assms
  by (auto simp: PurgeExpired_def run_bindE run_mapE run_sql purge_codes_def purge_states_def
      purge_tokens_def split: if_splits)

lemma ConsumeLoginState_Inl:
  assumes "run_state (ConsumeLoginState e st) w = (Inl err, w')"
  shows "db w' = db w \<or>
    (\<exists>r. find (\<lambda>r. lr_state r = st) (login_states (db w)) = Some r \<and>
       Option.bind (json_parse (lr_oauth_request r)) dec_request = None \<and>
       db w' = (db w)\<lparr>login_states := filter (\<lambda>r. lr_state r \<noteq> st) (login_states (db w))\<rparr>)"
  using assms
  by (auto simp: ConsumeLoginState_def run_bindE run_stmt delete_state_def find_None_iff
      split: option.splits if_splits intro!: database.equality filter_True)

lemma failed_consume_code:
  "run_state (ConsumeAuthCode e code) w = (Inl err, w') \<Longrightarrow> db w' = db w"
  by (auto simp: ConsumeAuthCode_def run_bindE run_stmt delete_code_def find_None_iff
      split: option.splits if_splits intro!: database.equality filter_True)

lemma failed_rotation:
  "run_state (RotateRefreshToken e h now) w = (Inl err, w') \<Longrightarrow> db w' = db w"
  by (auto simp: RotateRefreshToken_def run_bindE run_stmt rotate_token_def find_None_iff
      split: option.splits if_splits intro!: database.equality map_idI)

lemma RevokeTenantRefreshTokens_Inl:
  "run_state (RevokeTenantRefreshTokens e tid) w = (Inl err, w') \<Longrightarrow> db w' = db w"
  by (auto simp: RevokeTenantRefreshTokens_def run_mapE run_sql revoke_tokens_of_def split: if_splits)

lemma void_Inl: "run_state (void m) w = (Inl err, w') \<longleftrightarrow> run_state m w = (Inl err, w')"
  by (auto simp: void_def run_bindE split: prod.splits sum.splits)

lemmas failed_writes = UpsertTenant_Inl failed_consume_code failed_rotation
  RevokeTenantRefreshTokens_Inl

text \<open>C15: what a failed call of the store leaves behind, for every call. All but two leave every table
  as it was, also when they fail between the statements of a transaction, at its commit, or after
  finding nothing to consume. A login state whose stored request cannot be read is consumed
  nevertheless, it alone; and a purge that fails has done nothing but the purges before the one
  that failed, which are those of the codes and then of the login states.\<close>

theorem failed_writes_atomic:
  assumes "run_state (op_io e x) w = (Inl err, w')"
  shows "case x of
      OConsumeLoginState st \<Rightarrow> db w' = db w \<or>
        (\<exists>r. find (\<lambda>r. lr_state r = st) (login_states (db w)) = Some r \<and>
           Option.bind (json_parse (lr_oauth_request r)) dec_request = None \<and>
           db w' = (db w)\<lparr>login_states := filter (\<lambda>r. lr_state r \<noteq> st) (login_states (db w))\<rparr>)
    | OPurgeExpired now \<Rightarrow>
        (\<exists>done \<in> {[], [purge_codes (unix now)], [purge_codes (unix now), purge_states (unix now)]}.
           db w' = fold (\<lambda>q d. snd (the (q d))) done (db w))
    | _ \<Rightarrow> db w' = db w"
proof (cases x)
  case (OConsumeLoginState st)
  with assms ConsumeLoginState_Inl show ?thesis by (simp add: void_Inl)
next
  case (OPurgeExpired now)
  with assms PurgeExpired_Inl show ?thesis by simp
qed (use assms in \<open>auto simp: void_Inl DeleteTenant_def ReplacePages_def RegisterClient_def CreateAuthCode_def
    CreateRefreshToken_def CreateLoginState_def same_db_def
    dest: in_tx_Inl stmt_Inl failed_writes fdb.frameD [OF store_reads(1)] fdb.frameD [OF store_reads(2)]
      fdb.frameD [OF store_reads(3)] fdb.frameD [OF store_reads(4)] fdb.frameD [OF store_reads(5)]
      fdb.frameD [OF store_reads(6)] fdb.frameD [OF store_reads(7)]\<close>)

text \<open>The machine whose statement number \<open>n\<close> fails.\<close>

definition ex_failing :: "nat \<Rightarrow> machine" where
  "ex_failing n = (ex_machine [])\<lparr>mc_sql_fails := (\<lambda>k. k = n)\<rparr>"

theorem failed_writes_atomic_witness:
  "db (snd (run_state (DeleteTenant (ex_failing 5) ''t1'') (ex_world ex_db))) = ex_db"
proof -
  let ?r = "run_state (DeleteTenant (ex_failing 5) ''t1'') (ex_world ex_db)"
  have "fst ?r = Inl (Wrap ''commit delete tenant'' ErrSql)" by code_simp
  then have "run_state (op_io (ex_failing 5) (ODeleteTenant ''t1'')) (ex_world ex_db) =
      (Inl (Wrap ''commit delete tenant'' ErrSql), snd ?r)" by (cases ?r) simp
  from failed_writes_atomic [OF this] show ?thesis by simp
qed

text \<open>Deleting a tenant removes the tenant, its pages, its codes and its refresh tokens, and
  leaves every row of the other tenants, every client and every parked login as it was.\<close>

lemma delete_tenant_exact:
  assumes "run_state (DeleteTenant e tid) w = (Inr x, w')"
  shows "tenants (db w') = filter (\<lambda>r. tr_id r \<noteq> tid) (tenants (db w)) \<and>
    pages_of tid (db w') = [] \<and>
    (\<forall>r \<in> set (oauth_codes (db w')). co_tenant_id r \<noteq> tid) \<and>
    (\<forall>r \<in> set (oauth_refresh_tokens (db w')). rr_tenant_id r \<noteq> tid) \<and>
    (\<forall>other. other \<noteq> tid \<longrightarrow> pages_of other (db w') = pages_of other (db w) \<and>
       filter (\<lambda>r. co_tenant_id r = other) (oauth_codes (db w')) =
         filter (\<lambda>r. co_tenant_id r = other) (oauth_codes (db w)) \<and>
       filter (\<lambda>r. rr_tenant_id r = other) (oauth_refresh_tokens (db w')) =
         filter (\<lambda>r. rr_tenant_id r = other) (oauth_refresh_tokens (db w))) \<and>
    oauth_clients (db w') = oauth_clients (db w) \<and> login_states (db w') = login_states (db w)"
  by (auto simp: DeleteTenant_Inr [OF assms] pages_of_def filter_empty_conv intro: filter_cong)

section \<open>Sweeps\<close>

text \<open>A purge at an instant removes exactly the codes, parked logins and refresh tokens whose
  deadline has come, and nothing else.\<close>

lemma purge_exact:
  assumes "run_state (PurgeExpired e now) w = (Inr x, w')"
  shows "oauth_codes (db w') = filter (\<lambda>r. now < from_unix (co_expires_at r)) (oauth_codes (db w)) \<and>
    login_states (db w') = filter (\<lambda>r. now < from_unix (lr_expires_at r)) (login_states (db w)) \<and>
    oauth_refresh_tokens (db w') =
      filter (\<lambda>r. now < from_unix (rr_expires_at r)) (oauth_refresh_tokens (db w)) \<and>
    tenants (db w') = tenants (db w) \<and> pages (db w') = pages (db w) \<and>
    oauth_clients (db w') = oauth_clients (db w)"
  by (simp add: PurgeExpired_Inr [OF assms] less_from_unix)

lemma list_all2_image:
  "list_all2 (\<lambda>x y. f x = Inr y) xs ys \<Longrightarrow> y \<in> set ys \<longleftrightarrow> (\<exists>x \<in> set xs. f x = Inr y)"
  by (induction rule: list_all2_induct) auto

lemma timeOrZero_mono: "a \<le> b \<Longrightarrow> timeOrZero a \<le> timeOrZero b"
  by (auto simp: timeOrZero_def zero_time_def from_unix_def second_def)

text \<open>C16: the tenants due for a renewal are those whose known deadline falls before the given
  instant, and those without a deadline that were left alone long enough; the nearest deadline
  comes first.\<close>

theorem tenants_due_exact:
  assumes "run_state (TenantsDueForTokenRefresh e expiring unchecked) w = (Inr ts, w')"
  shows "(t \<in> set ts \<longleftrightarrow>
      (\<exists>r \<in> set (tenants (db w)). scanTenant e r = Inr t \<and>
        (if tr_user_token_expires_at r = 0 then tr_updated_at r < unix unchecked
         else 0 < tr_user_token_expires_at r \<and> tr_user_token_expires_at r < unix expiring))) \<and>
    sorted (map t_token_expires_at ts)"
proof -
  let ?rows = "filter (due_for_refresh (unix expiring) (unix unchecked)) (tenants (db w))"
  have m: "list_all2 (\<lambda>r t. scanTenant e r = Inr t) (sort_key tr_user_token_expires_at ?rows) ts"
    using assms
    by (auto simp: TenantsDueForTokenRefresh_def run_bindE_Inr stmt_Inr run_sql_Inr select_all_def
        simp flip: map_res_Inr)
  have "t \<in> set ts \<longleftrightarrow> (\<exists>r \<in> set ?rows. scanTenant e r = Inr t)"
    using list_all2_image [OF m] by simp
  moreover have "sorted (map t_token_expires_at ts)"
  proof -
    have "map t_token_expires_at ts = map (\<lambda>r. timeOrZero (tr_user_token_expires_at r))
        (sort_key tr_user_token_expires_at ?rows)"
      using m by (induction rule: list_all2_induct) (auto simp: scanTenant_Inr)
    moreover have "sorted (map (\<lambda>r. timeOrZero (tr_user_token_expires_at r))
        (sort_key tr_user_token_expires_at ?rows))"
      unfolding sorted_map
      by (rule sorted_wrt_mono_rel [OF _ sorted_sort_key [unfolded sorted_map]]) (rule timeOrZero_mono)
    ultimately show ?thesis by simp
  qed
  ultimately show ?thesis by (auto simp: due_for_refresh_def)
qed

definition ex_due :: "tenant list res \<times> world" where
  "ex_due = run_state (TenantsDueForTokenRefresh (ex_machine []) (from_unix 1700200000) (from_unix 0))
     (ex_world ex_db)"

theorem tenants_due_exact_witness: "sorted (map t_token_expires_at (projr (fst ex_due)))"
proof -
  have "fst ex_due = Inr (projr (fst ex_due))" by code_simp
  then have run: "run_state (TenantsDueForTokenRefresh (ex_machine []) (from_unix 1700200000)
      (from_unix 0)) (ex_world ex_db) = (Inr (projr (fst ex_due)), snd ex_due)"
    unfolding ex_due_def by (metis prod.collapse)
  from tenants_due_exact [OF run] show ?thesis by blast
qed

end
