(* ===== verification/AuthProps.thy ===== *)
theory AuthProps
  imports AccessTokens StoreProps
begin

text \<open>
  What the authorization server guarantees, with concrete runs: which requests are granted and
  what a grant and a refusal leave in the store, replays over any history, where the
  authorization endpoint may send a browser, and which access tokens are accepted.
\<close>

definition ex_opts :: options where
  "ex_opts =
     \<lparr>o_issuer = ''https://m'', o_resource = ''https://m/mcp'', o_signing_key = ''key'',
      o_login_path = ''/meta/login'', o_access_ttl = hour, o_refresh_ttl = 24 * hour\<rparr>"

definition ex_verifier :: string where
  "ex_verifier = replicate 43 (CHR ''v'')"

definition ex_code_row :: code_row where
  "ex_code_row =
     \<lparr>co_code = ''c'', co_client_id = ''cl'', co_tenant_id = ''t1'',
      co_redirect_uri = ''https://app/cb'',
      co_code_challenge = b64_encode (ex_digest ex_verifier),
      co_resource = None, co_expires_at = 1700000300\<rparr>"

definition ex_form :: "values" where
  "ex_form =
     [(''code'', [''c'']), (''code_verifier'', [ex_verifier]), (''client_id'', [''cl'']),
      (''redirect_uri'', [''https://app/cb''])]"

definition ex_auth_world :: world where
  "ex_auth_world = ex_world (ex_db\<lparr>oauth_codes := [ex_code_row]\<rparr>)"

definition ex_grant :: "http_resp \<times> world" where
  "ex_grant = run_state (grantAuthorizationCode (ex_machine []) ex_opts ex_form) ex_auth_world"

lemma ex_form_get [simp]:
  "values_get ex_form ''code'' = ''c''" "values_get ex_form ''code_verifier'' = ex_verifier"
  "values_get ex_form ''client_id'' = ''cl''" "values_get ex_form ''redirect_uri'' = ''https://app/cb''"
  "values_get ex_form ''resource'' = []"
  by (simp_all add: ex_form_def values_get_def values_all_def)

lemma ex_verifier_length: "length ex_verifier = 43" "ex_verifier \<noteq> []"
  by (simp_all add: ex_verifier_def)

lemmas ex_grant_eval = grantAuthorizationCode_def grantRefreshToken_def issueTokens_def
  MintAccessToken_def ConsumeAuthCode_def RotateRefreshToken_def CreateRefreshToken_def
  delete_code_def rotate_token_def insert_token_def minVerifierLen_def maxVerifierLen_def
  ex_auth_world_def ex_code_row_def scanCode_def scanToken_def verifyPKCE_def ex_verifier_length
  run_simps ex_defs Let_def

lemma ex_sha [simp]: "mc_sha256 (ex_machine answers) = ex_digest"
  by (simp add: ex_machine_def)

lemma ex_grant_200: "rs_status (fst ex_grant) = 200"
  unfolding ex_grant_def by (simp add: ex_grant_eval)

section \<open>Authorization codes\<close>

text \<open>C4: a code is exchanged for tokens only if it is stored, has not expired, was issued to
  this client for this redirect URI, and the verifier (43 to 128 bytes) hashes to its PKCE
  challenge. The access token is then minted for the tenant and the client of the code, the code
  is gone, and one refresh token record for them is added; nothing else changes.\<close>

theorem code_grant_sound:
  assumes "run_state (grantAuthorizationCode e opts form) w = (resp, w')" "rs_status resp = 200"
  shows "\<exists>r \<in> set (oauth_codes (db w)). code_accepted e opts form (mc_clock e (n_clock w)) r \<and>
    (\<exists>access expiry expires secret t w1 w2.
       run_state (MintAccessToken e opts (co_tenant_id r) (co_client_id r)) w1 =
         (Inr (access, expiry), w2) \<and>
       resp = writeJSON 200 (token_response access expires secret) \<and>
       db w' = add_refresh (refresh_record e secret (co_client_id r) (co_tenant_id r) t)
         (drop_code (co_code r) (db w)))"
  using assms by (rule grant_code_200) blast

theorem code_grant_sound_witness:
  "\<exists>r \<in> {ex_code_row}. code_accepted (ex_machine []) ex_opts ex_form (from_unix 1700000000) r"
  using code_grant_sound [of "ex_machine []" ex_opts ex_form ex_auth_world "fst ex_grant" "snd ex_grant"]
    ex_grant_200 by (simp add: ex_grant_def ex_auth_world_def)

text \<open>C5: once a code was exchanged, every later attempt with it is refused, whatever operations
  reached the store in between, as long as none of them minted the same code again.\<close>

theorem code_replay_refused:
  assumes "run_state (grantAuthorizationCode e opts form) w = (resp, w')" "rs_status resp = 200"
    and "history e (db w') evs (db w2)"
    and "list_all (\<lambda>ev. \<not> mints_code (values_get form ''code'') ev) evs"
    and "values_get form2 ''code'' = values_get form ''code''"
    and "run_state (grantAuthorizationCode e opts2 form2) w2 = (resp2, w3)"
  shows "rs_status resp2 \<noteq> 200"
proof -
  from assms(1,2) have "\<not> code_live (values_get form ''code'') (db w')"
    by (rule grant_code_200)
       (auto simp: code_accepted_def code_live_def add_refresh_def drop_code_def list_ex_iff)
  from code_use.stays_dead [OF assms(3) this assms(4)]
  have "\<not> code_live (values_get form2 ''code'') (db w2)" by (simp add: assms(5))
  with assms(6) show ?thesis by (rule grant_code_dead)
qed

theorem code_replay_refused_witness:
  "rs_status (fst (run_state (grantAuthorizationCode (ex_machine []) ex_opts ex_form) (snd ex_grant))) \<noteq> 200"
proof -
  have "run_state (grantAuthorizationCode (ex_machine []) ex_opts ex_form) ex_auth_world =
      (fst ex_grant, snd ex_grant)"
    by (simp add: ex_grant_def)
  then show ?thesis
    using code_replay_refused [OF _ ex_grant_200 path_Nil _ refl prod.collapse [symmetric]] by simp
qed

section \<open>Refresh tokens\<close>

text \<open>C6: a refresh token is exchanged only if its hash is stored, unrevoked and unexpired, for
  the client it was issued to. The tenant and the client stay the same, the presented token is
  revoked, and one new record is added.\<close>

theorem refresh_grant_sound:
  assumes "run_state (grantRefreshToken e opts form) w = (resp, w')" "rs_status resp = 200"
  shows "\<exists>r \<in> set (oauth_refresh_tokens (db w)).
    rr_token_hash r = hashToken e (values_get form ''refresh_token'') \<and> \<not> rr_revoked r \<and>
    mc_clock e (n_clock w) < from_unix (rr_expires_at r) \<and>
    rr_client_id r = values_get form ''client_id'' \<and>
    (\<exists>access expiry expires secret t w1 w2.
       run_state (MintAccessToken e opts (rr_tenant_id r) (rr_client_id r)) w1 =
         (Inr (access, expiry), w2) \<and>
       resp = writeJSON 200 (token_response access expires secret) \<and>
       db w' = add_refresh (refresh_record e secret (rr_client_id r) (rr_tenant_id r) t)
         (rotated (rr_token_hash r) (unix (mc_clock e (n_clock w))) (db w)))"
  using assms
  by (rule grant_refresh_200) (force simp: token_usable_def less_from_unix)

definition ex_refresh_row :: refresh_row where
  "ex_refresh_row =
     \<lparr>rr_token_hash = hashToken (ex_machine []) ''r'', rr_client_id = ''cl'', rr_tenant_id = ''t1'',
      rr_expires_at = 1700000300, rr_revoked = False\<rparr>"

definition ex_refresh_form :: "values" where
  "ex_refresh_form = [(''refresh_token'', [''r'']), (''client_id'', [''cl''])]"

definition ex_refresh_world :: world where
  "ex_refresh_world = ex_world (ex_db\<lparr>oauth_refresh_tokens := [ex_refresh_row]\<rparr>)"

definition ex_refresh :: "http_resp \<times> world" where
  "ex_refresh = run_state (grantRefreshToken (ex_machine []) ex_opts ex_refresh_form) ex_refresh_world"

lemma ex_refresh_get [simp]:
  "values_get ex_refresh_form ''refresh_token'' = ''r''"
  "values_get ex_refresh_form ''client_id'' = ''cl''"
  by (simp_all add: ex_refresh_form_def values_get_def values_all_def)

lemma ex_digest_hd: "m \<noteq> [] \<Longrightarrow> hd (ex_digest m) = hd m"
  by (simp add: ex_digest_def hd_append)

lemma ex_hashes:
  "hashToken (ex_machine []) (b64_encode (ex_random (Suc 0) 32)) \<noteq> hashToken (ex_machine []) ''r''"
proof
  assume "hashToken (ex_machine []) (b64_encode (ex_random (Suc 0) 32)) = hashToken (ex_machine []) ''r''"
  then have "hd (ex_digest (b64_encode (ex_random (Suc 0) 32))) = hd (ex_digest ''r'')"
    by (auto simp: hashToken_def dest: b64_encode_inj)
  moreover have "ex_random (Suc 0) 32 = CHR ''B'' # CHR ''B'' # CHR ''B'' # replicate 29 (CHR ''B'')"
    by code_simp
  moreover have "char_of (81 :: nat) \<noteq> CHR ''r''" by (simp add: char_eq_iff of_char_of)
  ultimately show False by (simp add: ex_digest_hd b64_char_def)
qed

lemma ex_mintable:
  "n < 1000 \<Longrightarrow> mintable ex_opts ''t1'' ''cl'' (mc_clock (ex_machine []) n)"
  by (simp add: mintable_def ex_opts_def utf8_valid_ascii time_add_def from_unix_def unix_def hour_def
      minute_def second_def min64_def max64_def)

lemma ex_refresh_200: "rs_status (fst ex_refresh) = 200"
  unfolding ex_refresh_def
  by (simp add: ex_grant_eval ex_refresh_world_def ex_refresh_row_def token_usable_def ex_hashes
      not_sym [OF ex_hashes])

theorem refresh_grant_sound_witness:
  "\<exists>r \<in> {ex_refresh_row}. rr_token_hash r = hashToken (ex_machine []) ''r'' \<and> rr_client_id r = ''cl''"
  using refresh_grant_sound [of "ex_machine []" ex_opts ex_refresh_form ex_refresh_world
      "fst ex_refresh" "snd ex_refresh"] ex_refresh_200
  by (auto simp: ex_refresh_def ex_refresh_world_def)

lemma auth_keeps_db_ok [io_intros]:
  "state_io_rel (keeps db_ok) (issueTokens e opts tid cid)"
  "state_io_rel (keeps db_ok) (grantAuthorizationCode e opts form)"
  "state_io_rel (keeps db_ok) (grantRefreshToken e opts form)"
  "state_io_rel (keeps db_ok) (TokenHandler e opts r)"
  "state_io_rel (keeps db_ok) (AuthorizeHandler e opts r)"
  "state_io_rel (keeps db_ok) (RegisterHandler e r)"
  "state_io_rel (keeps db_ok) (IssueAuthCode e req tid)"
  unfolding TokenHandler_def AuthorizeHandler_def RegisterHandler_def IssueAuthCode_def
    grantAuthorizationCode_def grantRefreshToken_def issueTokens_def MintAccessToken_def Let_def
  by (intro fke.rules io_intros)+

lemma refresh_grant_kills:
  assumes "db_ok (db w)"
    and run: "run_state (grantRefreshToken e opts form) w = (resp, w')" and "rs_status resp = 200"
  shows "\<not> token_live (hashToken e (values_get form ''refresh_token'')) (db w')"
  using run \<open>rs_status resp = 200\<close>
proof (rule grant_refresh_200)
  let ?h = "hashToken e (values_get form ''refresh_token'')"
    and ?now = "unix (mc_clock e (n_clock w))"
  fix r secret t
  assume r: "r \<in> set (oauth_refresh_tokens (db w))" "token_usable ?h ?now r"
    and d: "db w' = add_refresh (refresh_record e secret (rr_client_id r) (rr_tenant_id r) t)
      (rotated ?h ?now (db w))"
  have "db_ok (db w')"
    using fke.frameD [OF auth_keeps_db_ok(3) run] assms(1) by (simp add: keeps_def)
  then have "hashToken e secret \<noteq> ?h"
    using r by (auto simp: d db_ok_def add_refresh_def rotated_def refresh_record_def token_usable_def
        image_iff)
  moreover have "\<exists>r'. find (token_usable ?h ?now) (oauth_refresh_tokens (db w)) = Some r'"
    using r by (cases "find (token_usable ?h ?now) (oauth_refresh_tokens (db w))")
      (auto simp: find_None_iff)
  then have "\<not> token_live ?h (rotated ?h ?now (db w))"
    using rotate_kills [OF assms(1)] by (auto simp: rotated_def)
  ultimately show ?thesis
    by (auto simp: d token_live_def add_refresh_def refresh_record_def list_ex_iff)
qed

text \<open>C7: once a refresh token was exchanged, presenting it again is refused for good, whatever
  operations reached the store in between, as long as none created a token with the same hash.\<close>

theorem refresh_replay_refused:
  assumes "db_ok (db w)"
    and "run_state (grantRefreshToken e opts form) w = (resp, w')" "rs_status resp = 200"
    and "history e (db w') evs (db w2)"
    and "list_all (\<lambda>ev. \<not> mints_token (hashToken e (values_get form ''refresh_token'')) ev) evs"
    and "values_get form2 ''refresh_token'' = values_get form ''refresh_token''"
    and "run_state (grantRefreshToken e opts2 form2) w2 = (resp2, w3)"
  shows "rs_status resp2 \<noteq> 200"
proof -
  have "db_ok (db w')"
    using fke.frameD [OF auth_keeps_db_ok(3) assms(2)] assms(1) by (simp add: keeps_def)
  from token_use.stays_dead [OF history_ok_steps [OF assms(4) this]
      refresh_grant_kills [OF assms(1-3)] assms(5)]
  have "\<not> token_live (hashToken e (values_get form2 ''refresh_token'')) (db w2)"
    by (simp add: assms(6))
  with assms(7) show ?thesis by (rule grant_refresh_dead)
qed

theorem refresh_replay_refused_witness:
  "rs_status (fst (run_state (grantRefreshToken (ex_machine []) ex_opts ex_refresh_form) (snd ex_refresh))) \<noteq> 200"
proof -
  have "db_ok (db ex_refresh_world)"
    using ex_db_ok by (simp add: db_ok_def ex_refresh_world_def)
  moreover have "run_state (grantRefreshToken (ex_machine []) ex_opts ex_refresh_form) ex_refresh_world =
      (fst ex_refresh, snd ex_refresh)"
    by (simp add: ex_refresh_def)
  ultimately show ?thesis
    using refresh_replay_refused [OF _ _ ex_refresh_200 path_Nil _ refl prod.collapse [symmetric]] by simp
qed

section \<open>Registration and authorization\<close>

text \<open>C12: a client is only registered with one to ten redirect URIs, each of which parses, has no
  fragment and is https with a host, or http on a loopback host; any other registration changes
  nothing.\<close>

theorem register_checked:
  assumes "run_state (RegisterHandler e r) w = (resp, w')"
  shows "(rs_status resp \<noteq> 201 \<and> db w' = db w) \<or>
    (\<exists>row uris. db w' = (db w)\<lparr>oauth_clients := oauth_clients (db w) @ [row]\<rparr> \<and>
       rs_status resp = 201 \<and> cr_redirect_uris row = print_json (JArr (map JStr uris)) \<and>
       1 \<le> length uris \<and> length uris \<le> 10 \<and> (\<forall>uri \<in> set uris. acceptable_uri e uri))"
proof (cases "rs_status resp = 201")
  case True
  with RegisterHandler_result [OF assms] obtain uris and client :: oauth_client
    where uris: "1 \<le> length uris" "length uris \<le> maxRedirectURIs" "list_all (acceptable_uri e) uris"
      and d: "db w' = (db w)\<lparr>oauth_clients := oauth_clients (db w) @
         [\<lparr>cr_client_id = c_id client, cr_client_name = c_name client,
           cr_redirect_uris = print_json (JArr (map JStr uris)),
           cr_created_at = unix (c_created_at client)\<rparr>]\<rparr>"
    by (elim disjE exE conjE) (simp, rule that, assumption+)
  show ?thesis
    by (intro disjI2 exI conjI, rule d)
       (use True uris in \<open>auto simp: maxRedirectURIs_def list_all_iff simp del: print_json.simps\<close>)
next
  case False
  with RegisterHandler_result [OF assms] show ?thesis by auto
qed

definition ex_register :: http_req where
  "ex_register =
     \<lparr>rq_method = ''POST'', rq_path = ''/oauth/register'', rq_raw_query = [], rq_is_form = False,
      rq_body = print_json (JObj [(''redirect_uris'', JArr [JStr ''http://evil/cb''])]), rq_cut = False\<rparr>"

theorem register_checked_witness:
  "rs_status (fst (run_state (RegisterHandler (ex_machine []) ex_register) (ex_world ex_db))) \<noteq> 201 \<and>
   db (snd (run_state (RegisterHandler (ex_machine []) ex_register) (ex_world ex_db))) = ex_db"
proof -
  let ?r = "run_state (RegisterHandler (ex_machine []) ex_register) (ex_world ex_db)"
  have parsed: "Option.bind (json_first (rq_body ex_register)) dec_registration =
      Some ([], [''http://evil/cb''])"
    by code_simp
  have invalid: "validateRedirectURI (ex_machine []) ''http://evil/cb'' = Some ''redirect_uri illisible''"
    by code_simp
  have "rq_method ex_register = ''POST''" by (simp add: ex_register_def)
  then have "rs_status (fst ?r) = 400"
    by (simp add: RegisterHandler_def run_simps parsed invalid maxRedirectURIs_def)
  then show ?thesis using register_checked [of "ex_machine []" ex_register "ex_world ex_db" "fst ?r" "snd ?r"]
    by auto
qed

text \<open>C8: the authorization endpoint is no open redirector. A browser is only sent to a redirect URI
  registered for the client in the request, or to the login path of this server; in the latter
  case a request with PKCE was parked, unchanged, under the state the browser carries. Without a
  redirect nothing is stored.\<close>

theorem authorize_no_open_redirect:
  assumes "run_state (AuthorizeHandler e opts r) w = (resp, w')"
  shows "location resp = None \<and> db w' = db w \<or>
    registered_uri (db w) (values_get (Query r) ''client_id'') (values_get (Query r) ''redirect_uri'') \<and>
    ((\<exists>params. location resp =
        Some (redirectWithParams e (values_get (Query r) ''redirect_uri'') params) \<and> db w' = db w) \<or>
     (\<exists>row. location resp = Some (o_login_path opts @ ''?state='' @ query_escape (lr_state row)) \<and>
        values_get (Query r) ''code_challenge'' \<noteq> [] \<and>
        values_get (Query r) ''code_challenge_method'' = ''S256'' \<and>
        db w' = (db w)\<lparr>login_states := login_states (db w) @ [row]\<rparr> \<and>
        lr_oauth_request row = print_json (request_json
          \<lparr>or_client_id = values_get (Query r) ''client_id'',
           or_redirect_uri = values_get (Query r) ''redirect_uri'',
           or_code_challenge = values_get (Query r) ''code_challenge'',
           or_client_state = values_get (Query r) ''state'',
           or_resource = values_get (Query r) ''resource''\<rparr>)))"
  using AuthorizeHandler_result [OF assms] by blast

definition ex_client_row :: client_row where
  "ex_client_row =
     \<lparr>cr_client_id = ''cl'', cr_client_name = [],
      cr_redirect_uris = print_json (JArr [JStr ''https://app/cb'']), cr_created_at = 1\<rparr>"

definition ex_authorize :: http_req where
  "ex_authorize =
     \<lparr>rq_method = ''GET'', rq_path = ''/oauth/authorize'',
      rq_raw_query = ''client_id=cl&redirect_uri=https://evil/&response_type=code'',
      rq_is_form = False, rq_body = [], rq_cut = False\<rparr>"

theorem authorize_no_open_redirect_witness:
  "location (fst (run_state (AuthorizeHandler (ex_machine []) ex_opts ex_authorize)
     (ex_world (ex_db\<lparr>oauth_clients := [ex_client_row]\<rparr>)))) = None"
proof -
  let ?w = "ex_world (ex_db\<lparr>oauth_clients := [ex_client_row]\<rparr>)"
  let ?r = "run_state (AuthorizeHandler (ex_machine []) ex_opts ex_authorize) ?w"
  have "\<not> registered_uri (db ?w) (values_get (Query ex_authorize) ''client_id'')
      (values_get (Query ex_authorize) ''redirect_uri'')"
    by code_simp
  then show ?thesis
    using authorize_no_open_redirect [of "ex_machine []" ex_opts ex_authorize ?w "fst ?r" "snd ?r"]
    by auto
qed

section \<open>Access tokens\<close>

text \<open>C9: an access token is only accepted if it has three segments, names HS256, carries the
  HMAC of its first two segments under the signing key, was issued by and for this server, names a
  tenant, and has not expired at the clock reading of the check.\<close>

theorem access_token_sound:
  assumes "run_state (VerifyAccessToken e opts token) w = (Inr c, w')"
  shows "\<exists>h p s. token = h @ ''.'' @ p @ ''.'' @ s \<and>
    map_option fst (Option.bind (decodeSegment h) dec_header) = Some ''HS256'' \<and>
    b64_decode s = Some (mc_hmac e (o_signing_key opts) (h @ ''.'' @ p)) \<and>
    Option.bind (decodeSegment p) dec_claims = Some c \<and>
    cl_issuer c = o_issuer opts \<and> cl_audience c = o_resource opts \<and> TenantID c \<noteq> [] \<and>
    mc_clock e (n_clock w) < Expiry c"
  using assms
  by (auto simp: VerifyAccessToken_Inr genuine_def splitToken_Some TenantID_def sign_def algHS256_def
      split: option.splits prod.splits)

text \<open>C10: a minted access token is accepted, as long as the clock of the check is before its
  expiry, and names the tenant and the client it was minted for.\<close>

theorem mint_then_verify:
  assumes "run_state (MintAccessToken e opts tid cid) w = (Inr (token, expiry), w')"
    and "mintable opts tid cid (mc_clock e (n_clock w))" "hmac_ok e"
    and "mc_clock e (n_clock v) < from_unix (unix expiry)"
  shows "\<exists>c v'. run_state (VerifyAccessToken e opts token) v = (Inr c, v') \<and>
    TenantID c = tid \<and> cl_client_id c = cid \<and> Expiry c = from_unix (unix expiry)"
proof -
  from assms(1-3) obtain c where "genuine e opts token c" "cl_subject c = tid" "cl_client_id c = cid"
    "Expiry c = from_unix (unix expiry)"
    by (rule mint_genuine)
  with assms(4) show ?thesis by (auto simp: VerifyAccessToken_Inr TenantID_def)
qed

definition ex_minted :: "string \<times> instant" where
  "ex_minted = projr (fst (run_state (MintAccessToken (ex_machine []) ex_opts ''t1'' ''cl'') (ex_world ex_db)))"

lemma ex_mint:
  "run_state (MintAccessToken (ex_machine []) ex_opts ''t1'' ''cl'') (ex_world ex_db) =
     (Inr (fst ex_minted, snd ex_minted),
      snd (run_state (MintAccessToken (ex_machine []) ex_opts ''t1'' ''cl'') (ex_world ex_db)))"
  unfolding ex_minted_def by (simp add: MintAccessToken_def run_simps Let_def)

lemma ex_hmac_ok: "hmac_ok (ex_machine answers)"
  by (auto simp: hmac_ok_def ex_machine_def ex_digest_def min_def)

theorem mint_then_verify_witness:
  "\<exists>c v'. run_state (VerifyAccessToken (ex_machine []) ex_opts (fst ex_minted)) (ex_world ex_db) = (Inr c, v') \<and>
     TenantID c = ''t1''"
proof -
  have "mintable ex_opts ''t1'' ''cl'' (mc_clock (ex_machine []) (n_clock (ex_world ex_db)))"
    using ex_mintable [of 0] by simp
  moreover have "mc_clock (ex_machine []) (n_clock (ex_world ex_db)) < from_unix (unix (snd ex_minted))"
    by (simp add: ex_minted_def MintAccessToken_def run_simps Let_def ex_opts_def hour_def minute_def
        second_def time_add_def unix_def from_unix_def)
  ultimately show ?thesis
    using mint_then_verify [OF ex_mint _ ex_hmac_ok] by blast
qed

theorem access_token_sound_witness:
  "\<exists>h p s. fst ex_minted = h @ ''.'' @ p @ ''.'' @ s"
proof -
  have "mintable ex_opts ''t1'' ''cl'' (mc_clock (ex_machine []) (n_clock (ex_world ex_db)))"
    using ex_mintable [of 0] by simp
  from mint_genuine [OF ex_mint this ex_hmac_ok] obtain c
    where "genuine (ex_machine []) ex_opts (fst ex_minted) c" "Expiry c = from_unix (unix (snd ex_minted))"
    by blast
  moreover have "mc_clock (ex_machine []) (n_clock (ex_world ex_db)) < from_unix (unix (snd ex_minted))"
    by (simp add: ex_minted_def MintAccessToken_def run_simps Let_def ex_opts_def hour_def minute_def
        second_def time_add_def unix_def from_unix_def)
  ultimately obtain v' where "run_state (VerifyAccessToken (ex_machine []) ex_opts (fst ex_minted))
      (ex_world ex_db) = (Inr c, v')"
    by (auto simp: VerifyAccessToken_Inr)
  from access_token_sound [OF this] show ?thesis by blast
qed

end
