(* ===== verification/MetaClient.thy ===== *)
theory MetaClient
  imports Crypto
begin

text \<open>
  \<open>internal/adapters/meta/client.go\<close> and \<open>oauth.go\<close>: authenticated calls to the Graph API with a
  single retry after a rate limit, the translation of its errors, bounded pagination, and the
  calls of the Facebook login.

  A request is kept as method, address and parameters; \<open>wire_url\<close> and \<open>wire_body\<close> are what goes
  over the network.
\<close>

section \<open>client.go\<close>

definition defaultGraphBaseURL :: string where
  "defaultGraphBaseURL = ''https://graph.facebook.com''"
definition defaultDialogBaseURL :: string where
  "defaultDialogBaseURL = ''https://www.facebook.com''"
definition defaultRetryDelay :: duration where "defaultRetryDelay = 60 * second"
definition maxPages :: nat where "maxPages = 50"
definition maxErrorBody :: nat where "maxErrorBody = 300"

record meta_client =
  gc_graph_base :: string
  gc_dialog_base :: string
  gc_version :: string
  gc_app_id :: string
  gc_app_secret :: string
  gc_scopes :: string
  gc_retry_delay :: duration

definition orDefault :: "string \<Rightarrow> string \<Rightarrow> string" where
  "orDefault v def = (if v = [] then def else v)"

definition NewClient :: "meta_client \<Rightarrow> meta_client" where
  "NewClient opts = opts
     \<lparr>gc_graph_base := trim_right_char (CHR ''/'') (orDefault (gc_graph_base opts) defaultGraphBaseURL),
      gc_dialog_base := trim_right_char (CHR ''/'') (orDefault (gc_dialog_base opts) defaultDialogBaseURL),
      gc_version := orDefault (gc_version opts) ''v26.0'',
      gc_retry_delay := (if gc_retry_delay opts = 0 then defaultRetryDelay else gc_retry_delay opts)\<rparr>"

definition endpoint :: "meta_client \<Rightarrow> string \<Rightarrow> string" where
  "endpoint c path = gc_graph_base c @ ''/'' @ gc_version c @ ''/'' @ trim_left_slash path"

definition appSecretProof :: "machine \<Rightarrow> meta_client \<Rightarrow> string \<Rightarrow> string" where
  "appSecretProof e c token = hex_encode (mc_hmac e (gc_app_secret c) token)"

definition wire_url :: "http_request \<Rightarrow> string" where
  "wire_url r =
     (case hr_method r of
        GET \<Rightarrow> hr_url r @ (if CHR ''?'' \<in> set (hr_url r) then ''&'' else ''?'') @
               values_encode (hr_params r)
      | POST \<Rightarrow> hr_url r)"

definition wire_body :: "http_request \<Rightarrow> string" where
  "wire_body r = (case hr_method r of GET \<Rightarrow> [] | POST \<Rightarrow> values_encode (hr_params r))"

definition authParams :: "machine \<Rightarrow> meta_client \<Rightarrow> string \<Rightarrow> values \<Rightarrow> values" where
  "authParams e c token params =
     (if token = [] then params
      else let p = values_set params ''access_token'' token in
        if gc_app_secret c = [] then p
        else values_set p ''appsecret_proof'' (appSecretProof e c token))"

text \<open>\<open>strconv.Atoi\<close> on a 64 bit machine.\<close>

definition atoi :: "string \<Rightarrow> int option" where
  "atoi s =
     (let (neg, ds) = (case s of
            c # r \<Rightarrow> if c = CHR ''-'' then (True, r) else if c = CHR ''+'' then (False, r) else (False, s)
          | [] \<Rightarrow> (False, [])) in
      if ds = [] \<or> \<not> list_all is_digit ds then None
      else let n = (if neg then - int (digits_val ds) else int (digits_val ds)) in
        if min64 \<le> n \<and> n \<le> max64 then Some n else None)"

definition truncate :: "string \<Rightarrow> nat \<Rightarrow> string" where
  "truncate s n = (if length s \<le> n then s else take n s @ [CHR 0xE2, CHR 0x80, CHR 0xA6])"

definition dec_error_envelope :: "json \<Rightarrow> (string \<times> string \<times> int \<times> int \<times> string) option" where
  "dec_error_envelope j =
     Option.bind (json_fields j) (\<lambda>fs.
     Option.bind (json_struct ''error'' fs) (\<lambda>er.
     Option.bind (str_field ''message'' er) (\<lambda>msg.
     Option.bind (str_field ''type'' er) (\<lambda>typ.
     Option.bind (int_field ''code'' er) (\<lambda>code.
     Option.bind (int_field ''error_subcode'' er) (\<lambda>sub.
     Option.bind (str_field ''fbtrace_id'' er) (\<lambda>trace.
       Some (msg, typ, code, sub, trace))))))))"

definition graphErrorFrom :: "int \<Rightarrow> string \<Rightarrow> string \<Rightarrow> graph_error" where
  "graphErrorFrom status body after =
     (let ra = (if after = [] then 0
                else (case atoi after of
                        None \<Rightarrow> 0
                      | Some secs \<Rightarrow> if 0 < secs then wrap64 (secs * second) else 0)) in
      case Option.bind (json_parse body) dec_error_envelope of
        Some (msg, typ, code, sub, trace) \<Rightarrow>
          if msg \<noteq> [] then
            \<lparr>ge_status = status, ge_code = code, ge_subcode = sub, ge_type = typ, ge_message = msg,
             ge_trace = trace, ge_retry_after = ra\<rparr>
          else
            \<lparr>ge_status = status, ge_code = 0, ge_subcode = 0, ge_type = [],
             ge_message = truncate body maxErrorBody, ge_trace = [], ge_retry_after = ra\<rparr>
      | None \<Rightarrow>
          \<lparr>ge_status = status, ge_code = 0, ge_subcode = 0, ge_type = [],
           ge_message = truncate body maxErrorBody, ge_trace = [], ge_retry_after = ra\<rparr>)"

text \<open>A request that fails before an answer comes back is a \<^verbatim>\<open>*url.Error\<close>, which keeps the
  address it was sent to, query included.\<close>

fun url_op :: "http_method \<Rightarrow> string" where
  "url_op GET = ''Get''"
| "url_op POST = ''Post''"

definition callOnce ::
  "machine \<Rightarrow> meta_client \<Rightarrow> http_method \<Rightarrow> string \<Rightarrow> string \<Rightarrow> values \<Rightarrow> string io" where
  "callOnce e c m rawURL token params =
     (let r = \<lparr>hr_method = m, hr_url = rawURL, hr_params = authParams e c token params\<rparr> in
      if mc_url_parse e (wire_url r) = None
      then fail (Wrap ''construction de la requete Meta'' (UrlError ''parse'' (wire_url r)))
      else do {
        a \<leftarrow> http_do e r;
        (case a of
           NoAnswer \<Rightarrow> fail (Wrap ''appel de l'API Meta'' (UrlError (url_op m) (wire_url r)))
         | BrokenBody \<Rightarrow> fail (Wrap ''lecture de la reponse Meta'' ErrTransport)
         | Answer status body after \<Rightarrow>
             if status < 200 \<or> 300 \<le> status
             then fail (GraphError (graphErrorFrom status body after))
             else ok body)
      })"

definition call ::
  "machine \<Rightarrow> meta_client \<Rightarrow> http_method \<Rightarrow> string \<Rightarrow> string \<Rightarrow> values \<Rightarrow> string io" where
  "call e c m rawURL token params = do {
     first \<leftarrow> callOnce e c m rawURL token params;
     (case first of
        Inr body \<Rightarrow> ok body
      | Inl err \<Rightarrow>
          (case AsGraphError err of
             None \<Rightarrow> fail err
           | Some ge \<Rightarrow>
               if \<not> IsRateLimit ge then fail err
               else
                 (let delay = (if ge_retry_after ge \<le> 0 then gc_retry_delay c else ge_retry_after ge) in
                  bindE (sleep_or_done e delay) (\<lambda>_.
                  callOnce e c m rawURL token params))))
   }"

text \<open>\<open>get\<close> and \<open>post\<close> decode the body with the decoder of the target's type.\<close>

definition decodeInto :: "(json \<Rightarrow> 'a option) \<Rightarrow> string \<Rightarrow> 'a res" where
  "decodeInto dec body =
     (case Option.bind (json_parse body) dec of
        None \<Rightarrow> Inl (Wrap ''decodage de la reponse Meta'' ErrJson)
      | Some x \<Rightarrow> Inr x)"

definition get ::
  "machine \<Rightarrow> meta_client \<Rightarrow> string \<Rightarrow> string \<Rightarrow> values \<Rightarrow> (json \<Rightarrow> 'a option) \<Rightarrow> 'a io" where
  "get e c token path params dec =
     bindE (call e c GET (endpoint c path) token params) (\<lambda>body. from_res (decodeInto dec body))"

definition post ::
  "machine \<Rightarrow> meta_client \<Rightarrow> string \<Rightarrow> string \<Rightarrow> values \<Rightarrow> (json \<Rightarrow> 'a option) \<Rightarrow> 'a io" where
  "post e c token path params dec =
     bindE (call e c POST (endpoint c path) token params) (\<lambda>body. from_res (decodeInto dec body))"

text \<open>A page of a list: its items and the address of the next page.\<close>

definition dec_page :: "json \<Rightarrow> (json list \<times> string) option" where
  "dec_page j =
     Option.bind (json_fields j) (\<lambda>fs.
     Option.bind (list_field Some ''data'' fs) (\<lambda>items.
     Option.bind (json_struct ''paging'' fs) (\<lambda>paging.
     Option.bind (str_field ''next'' paging) (\<lambda>nxt. Some (items, nxt)))))"

definition fetchPage :: "machine \<Rightarrow> meta_client \<Rightarrow> string \<Rightarrow> string \<Rightarrow> values \<Rightarrow> json list io" where
  "fetchPage e c token path params =
     bindE (call e c GET (endpoint c path) token params) (\<lambda>body.
     case Option.bind (json_parse body) dec_page of
       None \<Rightarrow> fail (Wrap ''decodage de la reponse'' ErrJson)
     | Some (items, _) \<Rightarrow> ok items)"

text \<open>The loop of \<open>collect\<close>; the first argument is the number of pages it may still read.\<close>

fun collect_from ::
  "machine \<Rightarrow> meta_client \<Rightarrow> int \<Rightarrow> nat \<Rightarrow> string \<Rightarrow> json list \<Rightarrow> json list io" where
  "collect_from e c limit 0 body items = ok items"
| "collect_from e c limit (Suc n) body items =
     (case Option.bind (json_parse body) dec_page of
        None \<Rightarrow> fail (Wrap ''decodage de la page'' ErrJson)
      | Some (new, nxt) \<Rightarrow>
          (let items' = items @ new in
           if 0 < limit \<and> limit \<le> int (length items') then ok (take (nat limit) items')
           else if nxt = [] then ok items'
           else bindE (call e c GET nxt [] []) (\<lambda>body'.
                collect_from e c limit n body' items')))"

definition collect ::
  "machine \<Rightarrow> meta_client \<Rightarrow> string \<Rightarrow> string \<Rightarrow> values \<Rightarrow> int \<Rightarrow> json list io" where
  "collect e c token path params limit =
     bindE (call e c GET (endpoint c path) token params) (\<lambda>body.
     collect_from e c limit maxPages body [])"

definition unixParams :: "values \<Rightarrow> instant \<Rightarrow> instant \<Rightarrow> values" where
  "unixParams params since until =
     (let p = (if is_zero_time since then params
               else values_set params ''since'' (print_int (unix since))) in
      if is_zero_time until then p else values_set p ''until'' (print_int (unix until)))"

text \<open>Decoding every item, the first failure wrapped.\<close>

definition decode_items :: "string \<Rightarrow> (json \<Rightarrow> 'a option) \<Rightarrow> json list \<Rightarrow> 'a list res" where
  "decode_items what dec items =
     map_res (\<lambda>j. case dec j of None \<Rightarrow> Inl (Wrap what ErrJson) | Some x \<Rightarrow> Inr x) items"

section \<open>oauth.go\<close>

definition AuthorizeURL :: "meta_client \<Rightarrow> string \<Rightarrow> string \<Rightarrow> string" where
  "AuthorizeURL c redirectURI st =
     gc_dialog_base c @ ''/'' @ gc_version c @ ''/dialog/oauth?'' @
     values_encode [(''client_id'', [gc_app_id c]), (''redirect_uri'', [redirectURI]),
       (''state'', [st]), (''scope'', [gc_scopes c]), (''response_type'', [''code''])]"

definition dec_token_response :: "json \<Rightarrow> (string \<times> int) option" where
  "dec_token_response j =
     Option.bind (json_fields j) (\<lambda>fs.
     Option.bind (str_field ''access_token'' fs) (\<lambda>token.
     Option.bind (str_field ''token_type'' fs) (\<lambda>_.
     Option.bind (int_field ''expires_in'' fs) (\<lambda>secs. Some (token, secs)))))"

definition ExchangeCode :: "machine \<Rightarrow> meta_client \<Rightarrow> string \<Rightarrow> string \<Rightarrow> string io" where
  "ExchangeCode e c code redirectURI =
     bindE (mapE (Wrap ''echange du code Meta'')
       (get e c [] ''oauth/access_token''
          [(''client_id'', [gc_app_id c]), (''client_secret'', [gc_app_secret c]),
           (''redirect_uri'', [redirectURI]), (''code'', [code])] dec_token_response))
       (\<lambda>(token, _).
     if token = [] then fail (Msg ''echange du code Meta: aucun access_token dans la reponse'')
     else ok token)"

definition ExchangeLongLivedToken :: "machine \<Rightarrow> meta_client \<Rightarrow> string \<Rightarrow> long_lived_token io" where
  "ExchangeLongLivedToken e c token =
     bindE (mapE (Wrap ''obtention du jeton longue duree'')
       (get e c [] ''oauth/access_token''
          [(''grant_type'', [''fb_exchange_token'']), (''client_id'', [gc_app_id c]),
           (''client_secret'', [gc_app_secret c]), (''fb_exchange_token'', [token])]
          dec_token_response))
       (\<lambda>(new, secs).
     if new = [] then fail (Msg ''obtention du jeton longue duree: aucun access_token dans la reponse'')
     else ok \<lparr>ll_token = new, ll_expires_in = wrap64 (secs * second)\<rparr>)"

definition dec_debug :: "json \<Rightarrow> token_status option" where
  "dec_debug j =
     Option.bind (json_fields j) (\<lambda>top.
     Option.bind (json_struct ''data'' top) (\<lambda>fs.
     Option.bind (str_field ''app_id'' fs) (\<lambda>_.
     Option.bind (json_field dec_bool False ''is_valid'' fs) (\<lambda>valid.
     Option.bind (int_field ''expires_at'' fs) (\<lambda>expires.
     Option.bind (int_field ''data_access_expires_at'' fs) (\<lambda>access.
     Option.bind (list_field dec_string ''scopes'' fs) (\<lambda>scopes.
     Option.bind (str_field ''user_id'' fs) (\<lambda>_.
     Option.bind (str_field ''type'' fs) (\<lambda>_.
     Option.bind (str_field ''application'' fs) (\<lambda>_.
     Option.bind (json_struct ''error'' fs) (\<lambda>er.
     Option.bind (str_field ''message'' er) (\<lambda>reason.
       Some \<lparr>ts_valid = valid,
             ts_expires_at = (if 0 < expires then from_unix expires else zero_time),
             ts_data_access_expires_at = (if 0 < access then from_unix access else zero_time),
             ts_scopes = scopes, ts_reason = reason\<rparr>))))))))))))"

definition DebugToken :: "machine \<Rightarrow> meta_client \<Rightarrow> string \<Rightarrow> token_status io" where
  "DebugToken e c token =
     mapE (Wrap ''diagnostic du jeton'') (get e c [] ''debug_token''
       [(''input_token'', [token]), (''access_token'', [gc_app_id c @ ''|'' @ gc_app_secret c])]
       dec_debug)"

definition dec_user :: "json \<Rightarrow> meta_user option" where
  "dec_user j =
     Option.bind (json_fields j) (\<lambda>fs.
     Option.bind (str_field ''id'' fs) (\<lambda>i.
     Option.bind (str_field ''name'' fs) (\<lambda>n. Some \<lparr>mu_id = i, mu_name = n\<rparr>)))"

definition Me :: "machine \<Rightarrow> meta_client \<Rightarrow> string \<Rightarrow> meta_user io" where
  "Me e c userToken =
     bindE (mapE (Wrap ''lecture du profil Meta'')
       (get e c userToken ''me'' [(''fields'', [''id,name''])] dec_user)) (\<lambda>user.
     if mu_id user = [] then fail (Msg ''lecture du profil Meta: identifiant absent'')
     else ok user)"

record account_item =
  ai_id :: string
  ai_name :: string
  ai_token :: string
  ai_ig_id :: string
  ai_ig_username :: string

definition accountFields :: string where
  "accountFields = ''id,name,access_token,instagram_business_account{id,username}''"

definition dec_account :: "json \<Rightarrow> account_item option" where
  "dec_account j =
     Option.bind (json_fields j) (\<lambda>fs.
     Option.bind (str_field ''id'' fs) (\<lambda>i.
     Option.bind (str_field ''name'' fs) (\<lambda>n.
     Option.bind (str_field ''access_token'' fs) (\<lambda>t.
     Option.bind (json_struct ''instagram_business_account'' fs) (\<lambda>ig.
     Option.bind (str_field ''id'' ig) (\<lambda>gi.
     Option.bind (str_field ''username'' ig) (\<lambda>gu.
       Some \<lparr>ai_id = i, ai_name = n, ai_token = t, ai_ig_id = gi, ai_ig_username = gu\<rparr>)))))))"

definition account_page :: "instant \<Rightarrow> account_item \<Rightarrow> page" where
  "account_page now item =
     \<lparr>p_tenant_id = [], p_page_id = ai_id item, p_name = ai_name item,
      p_ig_user_id = ai_ig_id item, p_ig_username = ai_ig_username item,
      p_page_token = ai_token item, p_synced_at = now\<rparr>"

definition Accounts :: "machine \<Rightarrow> meta_client \<Rightarrow> string \<Rightarrow> page list io" where
  "Accounts e c userToken =
     bindE (mapE (Wrap ''lecture des pages Meta'')
       (collect e c userToken ''me/accounts''
          [(''fields'', [accountFields]), (''limit'', [''100''])] 0)) (\<lambda>items. do {
       now \<leftarrow> clock_now e;
       bindE (from_res (decode_items ''decodage d'une page Meta'' dec_account items)) (\<lambda>accounts.
       ok (map (account_page now)
         (filter (\<lambda>a. \<not> (ai_id a = [] \<or> ai_token a = [])) accounts)))
     })"

section \<open>Frames\<close>

text \<open>A request made for a token: it carries that token, or follows a link Meta handed out.\<close>

definition carries :: "string \<Rightarrow> http_request \<Rightarrow> bool" where
  "carries token r \<longleftrightarrow>
     values_get (hr_params r) ''access_token'' = token \<or> hr_method r = GET \<and> hr_params r = []"

definition is_get :: "http_request \<Rightarrow> bool" where
  "is_get r \<longleftrightarrow> hr_method r = GET"

lemma values_get_auth:
  "token \<noteq> [] \<Longrightarrow> values_get (authParams e c token params) ''access_token'' = token"
  by (simp add: authParams_def Let_def)

lemma callOnce_same_db: "state_io_rel same_db (callOnce e c m url token params)"
  unfolding callOnce_def Let_def
  by (auto intro!: fdb.rules io_intros split: http_answer.splits)

lemma callOnce_emits:
  "P \<lparr>hr_method = m, hr_url = url, hr_params = authParams e c token params\<rparr> \<Longrightarrow>
   state_io_rel (emits P) (callOnce e c m url token params)"
  unfolding callOnce_def Let_def
  by (auto intro!: fem.rules io_intros split: http_answer.splits)

lemma call_same_db [io_intros]: "state_io_rel same_db (call e c m url token params)"
  unfolding call_def Let_def
  by (auto intro!: fdb.rules io_intros callOnce_same_db split: sum.splits option.splits)

lemma call_emits:
  "P \<lparr>hr_method = m, hr_url = url, hr_params = authParams e c token params\<rparr> \<Longrightarrow>
   state_io_rel (emits P) (call e c m url token params)"
  unfolding call_def Let_def
  by (auto intro!: fem.rules io_intros callOnce_emits split: sum.splits option.splits)

text \<open>Reading: every request is a GET and made for the token.\<close>

definition reads :: "string \<Rightarrow> http_request \<Rightarrow> bool" where
  "reads token r \<longleftrightarrow> is_get r \<and> (token \<noteq> [] \<longrightarrow> carries token r)"

lemma collect_from_same_db: "state_io_rel same_db (collect_from e c limit n body items)"
  by (induction n arbitrary: body items)
     (auto simp: Let_def intro!: fdb.rules io_intros split: option.splits)

lemma collect_from_reads: "state_io_rel (emits (reads token)) (collect_from e c limit n body items)"
  by (induction n arbitrary: body items)
     (auto simp: Let_def reads_def is_get_def carries_def authParams_def
        intro!: fem.rules call_emits split: option.splits)

lemma client_same_db [io_intros]:
  "state_io_rel same_db (get e c token path params dec)"
  "state_io_rel same_db (post e c token path params dec)"
  "state_io_rel same_db (fetchPage e c token path params)"
  "state_io_rel same_db (collect e c token path params limit)"
  unfolding get_def post_def fetchPage_def collect_def
  by (auto intro!: fdb.rules io_intros collect_from_same_db split: option.splits)

lemma call_reads: "state_io_rel (emits (reads token)) (call e c GET url token params)"
  by (rule call_emits) (auto simp: reads_def is_get_def carries_def values_get_auth)

lemma client_reads [io_intros]:
  "state_io_rel (emits (reads token)) (get e c token path params dec)"
  "state_io_rel (emits (reads token)) (fetchPage e c token path params)"
  "state_io_rel (emits (reads token)) (collect e c token path params limit)"
  unfolding get_def fetchPage_def collect_def
  by (auto intro!: fem.rules call_reads collect_from_reads split: option.splits)

lemma oauth_same_db [io_intros]:
  "state_io_rel same_db (ExchangeCode e c code uri)"
  "state_io_rel same_db (ExchangeLongLivedToken e c token)"
  "state_io_rel same_db (DebugToken e c token)"
  "state_io_rel same_db (Me e c token)"
  "state_io_rel same_db (Accounts e c token)"
  unfolding ExchangeCode_def ExchangeLongLivedToken_def DebugToken_def Me_def Accounts_def
  by (intro fdb.rules io_intros)+

end
