(* ===== verification/Calendar.thy ===== *)
theory Calendar
  imports JsonText
begin

text \<open>
  The civil calendar as Go's \<open>time\<close> package reads and writes it, for the two layouts the program
  uses: the day \<^verbatim>\<open>2006-01-02\<close> in UTC and RFC 3339.
\<close>

definition day :: duration where "day = 24 * hour"

definition is_leap :: "int \<Rightarrow> bool" where
  "is_leap y \<longleftrightarrow> y mod 4 = 0 \<and> (y mod 100 \<noteq> 0 \<or> y mod 400 = 0)"

definition month_lengths :: "int \<Rightarrow> int list" where
  "month_lengths y = [31, if is_leap y then 29 else 28, 31, 30, 31, 30, 31, 31, 30, 31, 30, 31]"

definition days_in :: "nat \<Rightarrow> int \<Rightarrow> int" where
  "days_in m y = month_lengths y ! (m - 1)"

text \<open>Days since 1970-01-01, and back.\<close>

definition days_before_year :: "int \<Rightarrow> int" where
  "days_before_year y = 365 * (y - 1) + (y - 1) div 4 - (y - 1) div 100 + (y - 1) div 400 - 719162"

definition days_from_civil :: "int \<Rightarrow> nat \<Rightarrow> int \<Rightarrow> int" where
  "days_from_civil y m d =
     days_before_year y + sum_list (take (m - 1) (month_lengths y)) + (d - 1)"

fun month_of :: "int list \<Rightarrow> nat \<Rightarrow> int \<Rightarrow> nat \<times> int" where
  "month_of [] m r = (m, r + 1)"
| "month_of (l # ls) m r = (if r < l then (m, r + 1) else month_of ls (m + 1) (r - l))"

definition civil_from_days :: "int \<Rightarrow> int \<times> nat \<times> int" where
  "civil_from_days n =
     (let z = n + 719162;
          r400 = z mod 146097;
          n100 = min 3 (r400 div 36524);
          r100 = r400 - n100 * 36524;
          r4 = r100 mod 1461;
          n1 = min 3 (r4 div 365);
          y = 400 * (z div 146097) + 100 * n100 + 4 * (r100 div 1461) + n1 + 1;
          (m, d) = month_of (month_lengths y) 1 (r4 - n1 * 365) in
      (y, m, d))"

section \<open>Reading\<close>

text \<open>A number of exactly so many digits.\<close>

definition read_num :: "nat \<Rightarrow> string \<Rightarrow> (int \<times> string) option" where
  "read_num k s =
     (if length s < k \<or> \<not> list_all is_digit (take k s) then None
      else Some (int (digits_val (take k s)), drop k s))"

text \<open>An hour may be written with a single digit.\<close>

definition read_hour :: "string \<Rightarrow> (int \<times> string) option" where
  "read_hour s = (case read_num 2 s of Some p \<Rightarrow> Some p | None \<Rightarrow> read_num 1 s)"

definition read_char :: "char \<Rightarrow> string \<Rightarrow> string option" where
  "read_char c s = (case s of x # r \<Rightarrow> if x = c then Some r else None | [] \<Rightarrow> None)"

text \<open>\<^verbatim>\<open>2006-01-02\<close>: the day as days since the epoch, and what follows.\<close>

definition read_date :: "string \<Rightarrow> (int \<times> string) option" where
  "read_date s =
     Option.bind (read_num 4 s) (\<lambda>(y, s).
     Option.bind (read_char (CHR ''-'') s) (\<lambda>s.
     Option.bind (read_num 2 s) (\<lambda>(m, s).
     Option.bind (read_char (CHR ''-'') s) (\<lambda>s.
     Option.bind (read_num 2 s) (\<lambda>(d, s).
       if 1 \<le> m \<and> m \<le> 12 \<and> 1 \<le> d \<and> d \<le> days_in (nat m) y
       then Some (days_from_civil y (nat m) d, s) else None)))))"

definition parse_day :: "string \<Rightarrow> instant option" where
  "parse_day s =
     (case read_date s of
        Some (n, []) \<Rightarrow> Some (Instant (n * day))
      | _ \<Rightarrow> None)"

text \<open>A fraction of a second: nine digits count, the rest is dropped.\<close>

definition read_fraction :: "string \<Rightarrow> int \<times> string" where
  "read_fraction s =
     (case s of
        c # r \<Rightarrow>
          (let ds = takeWhile is_digit r in
           if (c = CHR ''.'' \<or> c = CHR '','') \<and> ds \<noteq> []
           then (int (digits_val (take 9 (ds @ replicate 9 (CHR ''0'')))), drop (length ds) r)
           else (0, s))
      | [] \<Rightarrow> (0, s))"

text \<open>The zone, as seconds east of UTC. Offsets up to 24:60 are let through.\<close>

definition read_zone :: "string \<Rightarrow> (int \<times> string) option" where
  "read_zone s =
     (case s of
        c # r \<Rightarrow>
          if c = CHR ''Z'' then Some (0, r)
          else if c = CHR ''+'' \<or> c = CHR ''-'' then
            Option.bind (read_num 2 r) (\<lambda>(h, s).
            Option.bind (read_char (CHR '':'') s) (\<lambda>s.
            Option.bind (read_num 2 s) (\<lambda>(m, s).
              if h \<le> 24 \<and> m \<le> 60
              then Some ((if c = CHR ''-'' then -1 else 1) * (h * 3600 + m * 60), s) else None)))
          else None
      | [] \<Rightarrow> None)"

definition parse_rfc3339 :: "string \<Rightarrow> instant option" where
  "parse_rfc3339 s =
     Option.bind (read_date s) (\<lambda>(n, s).
     Option.bind (read_char (CHR ''T'') s) (\<lambda>s.
     Option.bind (read_hour s) (\<lambda>(h, s).
     Option.bind (read_char (CHR '':'') s) (\<lambda>s.
     Option.bind (read_num 2 s) (\<lambda>(mi, s).
     Option.bind (read_char (CHR '':'') s) (\<lambda>s.
     Option.bind (read_num 2 s) (\<lambda>(sec, s).
     (let (frac, s) = read_fraction s in
      if h < 24 \<and> mi < 60 \<and> sec < 60 then
        (case read_zone s of
           Some (z, []) \<Rightarrow>
             Some (Instant (n * day + (h * 3600 + mi * 60 + sec - z) * second + frac))
         | _ \<Rightarrow> None)
      else None))))))))"

section \<open>Writing\<close>

definition pad :: "nat \<Rightarrow> int \<Rightarrow> string" where
  "pad k n =
     (let ds = print_nat (nat \<bar>n\<bar>) in
      (if n < 0 then ''-'' else []) @ replicate (k - length ds) (CHR ''0'') @ ds)"

text \<open>\<open>t.UTC().Format(time.RFC3339)\<close>: the fraction of a second is not written.\<close>

definition format_rfc3339 :: "instant \<Rightarrow> string" where
  "format_rfc3339 t =
     (let s = unix t;
          (y, m, d) = civil_from_days (s div 86400);
          r = s mod 86400 in
      pad 4 y @ ''-'' @ pad 2 (int m) @ ''-'' @ pad 2 d @ ''T'' @
      pad 2 (r div 3600) @ '':'' @ pad 2 (r div 60 mod 60) @ '':'' @ pad 2 (r mod 60) @ ''Z'')"

lemma day_pos [simp]: "0 < day" "day \<noteq> 0"
  by (simp_all add: day_def hour_def minute_def second_def)

lemma parse_day_midnight: "parse_day s = Some t \<Longrightarrow> nanos t mod day = 0"
  by (auto simp: parse_day_def split: option.splits list.splits)

text \<open>The calendar against known dates.\<close>

lemma epoch_day: "days_from_civil 1970 1 1 = 0"
  by (simp add: days_from_civil_def days_before_year_def month_lengths_def)

lemma leap_day: "days_from_civil 2024 2 29 = 19782" "is_leap 2024" "\<not> is_leap 2100"
  by (simp_all add: days_from_civil_def days_before_year_def month_lengths_def is_leap_def)

end
