(* ===== verification/Float64.thy ===== *)
theory Float64
  imports Prelude Complex_Main
begin

text \<open>
  \<open>float64\<close> arithmetic as the program meets it, in \<open>Duration.Hours\<close> and in \<open>time.ParseDuration\<close>: the
  exact result rounded to 53 significant bits, ties to even. A rounded value is a rational. The
  values here are far from the ends of the exponent range, or so small that they truncate to 0.
\<close>

function bit_count :: "int \<Rightarrow> int" where
  "bit_count n = (if n \<le> 0 then 0 else 1 + bit_count (n div 2))"
  by pat_completeness auto
termination by (relation "measure nat") auto

declare bit_count.simps [simp del]

definition half_even :: "rat \<Rightarrow> int" where
  "half_even x =
     (let n = \<lfloor>x\<rfloor>; r = x - of_int n in
      if r < 1 / 2 then n else if 1 / 2 < r then n + 1 else if even n then n else n + 1)"

definition scale2 :: "int \<Rightarrow> rat \<Rightarrow> rat" where
  "scale2 k x = (if 0 \<le> k then x * 2 ^ nat k else x / 2 ^ nat (- k))"

definition round53 :: "rat \<Rightarrow> rat" where
  "round53 x =
     (if x = 0 then 0
      else let (n, d) = quotient_of \<bar>x\<bar>;
               k = 53 + bit_count d - bit_count n;
               k' = (if 2 ^ 53 \<le> scale2 k \<bar>x\<bar> then k - 1 else k);
               m = of_int (half_even (scale2 k' \<bar>x\<bar>)) in
           (if x < 0 then -1 else 1) * scale2 (- k') m)"

text \<open>Go's integer division and remainder truncate towards zero, and so does the conversion.\<close>

definition quot :: "int \<Rightarrow> int \<Rightarrow> int" where
  "quot a b = (if a < 0 then - (- a div b) else a div b)"

definition rem :: "int \<Rightarrow> int \<Rightarrow> int" where
  "rem a b = a - quot a b * b"

definition truncate_rat :: "rat \<Rightarrow> int" where
  "truncate_rat x = (if x < 0 then - \<lfloor>- x\<rfloor> else \<lfloor>x\<rfloor>)"

text \<open>
  The conversion to \<open>int64\<close>: out of its range the language leaves the result open, and the lowest
  number is what amd64 gives.
\<close>

definition int64_of_float :: "rat \<Rightarrow> int" where
  "int64_of_float x =
     (let n = truncate_rat x in if min64 \<le> n \<and> n \<le> max64 then n else min64)"

text \<open>A number read into a \<open>float64\<close>, if it is in range.\<close>

definition finite_float :: "rat \<Rightarrow> rat option" where
  "finite_float x = (let y = round53 x in if \<bar>y\<bar> < 2 ^ 1024 then Some y else None)"

end
