(* ===== verification/MetaGraph.thy ===== *)
theory MetaGraph
  imports MetaClient Calendar Float64
begin

text \<open>
  \<open>internal/adapters/meta/graph.go\<close> and the reads of \<open>moderate.go\<close>: insights with the fallback
  over unsupported metrics, posts, comments, media, ratings, demographics and scheduled posts.
\<close>

section \<open>Insights\<close>

definition codeUnsupportedMetric :: int where "codeUnsupportedMetric = 100"
definition codeDeprecated :: int where "codeDeprecated = 12"

record insight_item =
  ii_name :: string
  ii_period :: string
  ii_title :: string
  ii_values :: "insight_value list"
  ii_total :: "json option"
  ii_results :: "(string list \<times> int) list" \<comment> \<open>of every breakdown, in order\<close>

definition dec_insight_value :: "json \<Rightarrow> insight_value option" where
  "dec_insight_value j =
     Option.bind (json_fields j) (\<lambda>fs.
     Option.bind (str_field ''end_time'' fs) (\<lambda>t.
       Some \<lparr>iv_end_time = t, iv_value = json_raw ''value'' fs\<rparr>))"

definition dec_result :: "json \<Rightarrow> (string list \<times> int) option" where
  "dec_result j =
     Option.bind (json_fields j) (\<lambda>fs.
     Option.bind (list_field dec_string ''dimension_values'' fs) (\<lambda>dims.
     Option.bind (int_field ''value'' fs) (\<lambda>n. Some (dims, n))))"

definition dec_breakdown :: "json \<Rightarrow> (string list \<times> int) list option" where
  "dec_breakdown j =
     Option.bind (json_fields j) (\<lambda>fs.
     Option.bind (list_field dec_string ''dimension_keys'' fs) (\<lambda>_.
       list_field dec_result ''results'' fs))"

definition dec_insight :: "json \<Rightarrow> insight_item option" where
  "dec_insight j =
     Option.bind (json_fields j) (\<lambda>fs.
     Option.bind (str_field ''name'' fs) (\<lambda>n.
     Option.bind (str_field ''period'' fs) (\<lambda>p.
     Option.bind (str_field ''title'' fs) (\<lambda>t.
     Option.bind (list_field dec_insight_value ''values'' fs) (\<lambda>vs.
     Option.bind (json_struct ''total_value'' fs) (\<lambda>total.
     Option.bind (list_field dec_breakdown ''breakdowns'' total) (\<lambda>bs.
       Some \<lparr>ii_name = n, ii_period = p, ii_title = t, ii_values = vs,
             ii_total = json_raw ''value'' total, ii_results = concat bs\<rparr>)))))))"

definition toInsight :: "insight_item \<Rightarrow> insight" where
  "toInsight i =
     \<lparr>in_metric = ii_name i, in_period = ii_period i, in_title = ii_title i,
      in_values =
        (if ii_values i = [] \<and> ii_total i \<noteq> None
         then [\<lparr>iv_end_time = [], iv_value = ii_total i\<rparr>]
         else ii_values i)\<rparr>"

definition insights ::
  "machine \<Rightarrow> meta_client \<Rightarrow> string \<Rightarrow> string \<Rightarrow> values \<Rightarrow> string list \<Rightarrow> insight_set io" where
  "insights e c token path base metrics =
     bindE (fetchPage e c token path (values_set base ''metric'' (join '','' metrics))) (\<lambda>items.
     bindE (from_res (decode_items ''decodage d'une metrique'' dec_insight items)) (\<lambda>ins.
     ok \<lparr>is_insights = map toInsight ins, is_rejected = []\<rparr>))"

definition unsupported :: "go_error \<Rightarrow> bool" where
  "unsupported err \<longleftrightarrow>
     (case AsGraphError err of None \<Rightarrow> False | Some ge \<Rightarrow> ge_code ge = codeUnsupportedMetric)"

fun insights_each ::
  "machine \<Rightarrow> meta_client \<Rightarrow> string \<Rightarrow> string \<Rightarrow> values \<Rightarrow> string list \<Rightarrow> insight_set \<Rightarrow> insight_set io" where
  "insights_each e c token path base [] out = ok out"
| "insights_each e c token path base (m # ms) out = do {
     one \<leftarrow> insights e c token path base [m];
     (case one of
        Inr got \<Rightarrow> insights_each e c token path base ms
          (out\<lparr>is_insights := is_insights out @ is_insights got\<rparr>)
      | Inl err \<Rightarrow>
          if unsupported err
          then insights_each e c token path base ms (out\<lparr>is_rejected := is_rejected out @ [m]\<rparr>)
          else fail err)
   }"

definition no_insights :: insight_set where
  "no_insights = \<lparr>is_insights = [], is_rejected = []\<rparr>"

definition insightsWithFallback ::
  "machine \<Rightarrow> meta_client \<Rightarrow> string \<Rightarrow> string \<Rightarrow> values \<Rightarrow> string list \<Rightarrow> insight_set io" where
  "insightsWithFallback e c token path base metrics =
     (if metrics = [] then ok no_insights
      else do {
        all \<leftarrow> insights e c token path base metrics;
        (case all of
           Inr got \<Rightarrow> ok got
         | Inl err \<Rightarrow>
             if \<not> unsupported err then fail err
             else insights_each e c token path base metrics no_insights)
      })"

definition PageInsights ::
  "machine \<Rightarrow> meta_client \<Rightarrow> string \<Rightarrow> string \<Rightarrow> string list \<Rightarrow> instant \<Rightarrow> instant \<Rightarrow> insight_set io" where
  "PageInsights e c token pageID metrics since until =
     mapE (Wrap ''statistiques de la page'')
       (insightsWithFallback e c token (pageID @ ''/insights'')
          (unixParams [(''period'', [''day''])] since until) metrics)"

definition PostInsights ::
  "machine \<Rightarrow> meta_client \<Rightarrow> string \<Rightarrow> string \<Rightarrow> string list \<Rightarrow> insight_set io" where
  "PostInsights e c token postID metrics =
     mapE (Wrap ''statistiques de la publication'')
       (insightsWithFallback e c token (postID @ ''/insights'') [] metrics)"

definition IGMediaInsights ::
  "machine \<Rightarrow> meta_client \<Rightarrow> string \<Rightarrow> string \<Rightarrow> string list \<Rightarrow> insight_set io" where
  "IGMediaInsights e c token mediaID metrics =
     mapE (Wrap ''statistiques du media'')
       (insightsWithFallback e c token (mediaID @ ''/insights'') [] metrics)"

definition timeSeriesIGMetrics :: "string \<Rightarrow> bool" where
  "timeSeriesIGMetrics m \<longleftrightarrow> m = ''follower_count''"

definition append_insights :: "insight_set \<Rightarrow> insight_set \<Rightarrow> insight_set" where
  "append_insights a b =
     \<lparr>is_insights = is_insights a @ is_insights b, is_rejected = is_rejected a @ is_rejected b\<rparr>"

definition IGAccountInsights ::
  "machine \<Rightarrow> meta_client \<Rightarrow> string \<Rightarrow> string \<Rightarrow> string list \<Rightarrow> instant \<Rightarrow> instant \<Rightarrow> insight_set io" where
  "IGAccountInsights e c token igUserID metrics since until =
     (let series = filter timeSeriesIGMetrics metrics;
          totals = filter (\<lambda>m. \<not> timeSeriesIGMetrics m) metrics;
          path = igUserID @ ''/insights'' in
      bindE
        (if totals \<noteq> [] then
           bindE (mapE (Wrap ''statistiques Instagram'')
             (insightsWithFallback e c token path
                (unixParams [(''period'', [''day'']), (''metric_type'', [''total_value''])] since until)
                totals)) (\<lambda>got.
           ok (append_insights no_insights got))
         else ok no_insights) (\<lambda>out.
      if series \<noteq> [] then
        bindE (mapE (Wrap ''statistiques Instagram'')
          (insightsWithFallback e c token path (unixParams [(''period'', [''day''])] since until)
             series)) (\<lambda>got.
        ok (append_insights out got))
      else ok out))"

definition IGFollowerDemographics ::
  "machine \<Rightarrow> meta_client \<Rightarrow> string \<Rightarrow> string \<Rightarrow> string \<Rightarrow> breakdown list io" where
  "IGFollowerDemographics e c token igUserID by_what =
     bindE (mapE (Wrap ''demographie des abonnes'')
       (fetchPage e c token (igUserID @ ''/insights'')
          [(''metric'', [''follower_demographics'']), (''period'', [''lifetime'']),
           (''metric_type'', [''total_value'']), (''breakdown'', [by_what])])) (\<lambda>items.
     bindE (from_res (decode_items ''decodage de la demographie'' dec_insight items)) (\<lambda>ins.
     ok (map (\<lambda>(dims, n). \<lparr>bd_key = join '' / '' dims, bd_value = n\<rparr>)
           (concat (map ii_results ins)))))"

text \<open>
  The number an insight carries: an integer, or the sum of an object of integers. In the sum
  a key that appears twice counts once, with its last value.
\<close>

definition sum_by_type :: "fields \<Rightarrow> int option" where
  "sum_by_type fs =
     (case those (map (\<lambda>(k, v). map_option (Pair k) (dec_int64 v)) fs) of
        None \<Rightarrow> None
      | Some kvs \<Rightarrow>
          Some (wrap64 (sum_list (map (\<lambda>k. the (map_of (rev kvs) k)) (remdups (map fst kvs))))))"

definition number_of :: "json option \<Rightarrow> int" where
  "number_of raw =
     (case raw of
        None \<Rightarrow> 0
      | Some j \<Rightarrow>
          (case dec_int64 j of
             Some n \<Rightarrow> n
           | None \<Rightarrow>
               (case Option.bind (json_fields j) sum_by_type of Some n \<Rightarrow> n | None \<Rightarrow> 0)))"

definition firstMetricValue :: "insight_item \<Rightarrow> int" where
  "firstMetricValue i =
     (case ii_values i of v # _ \<Rightarrow> number_of (iv_value v) | [] \<Rightarrow> number_of (ii_total i))"

definition pageSize :: "int \<Rightarrow> int" where
  "pageSize limit = (if limit \<le> 0 \<or> 100 < limit then 100 else limit)"

definition firstNonEmpty :: "string \<Rightarrow> string \<Rightarrow> string" where
  "firstNonEmpty a b = (if a \<noteq> [] then a else b)"

section \<open>Posts\<close>

definition postFieldsPlain :: string where
  "postFieldsPlain = ''id,message,created_time,permalink_url''"
definition postFields :: string where
  "postFields = ''id,message,created_time,permalink_url,insights.metric(post_clicks,post_reactions_by_type_total)''"

definition dec_inlined :: "fields \<Rightarrow> insight_item list option" where
  "dec_inlined fs =
     Option.bind (json_struct ''insights'' fs) (\<lambda>ins. list_field dec_insight ''data'' ins)"

definition set_post_metric :: "post \<Rightarrow> insight_item \<Rightarrow> post" where
  "set_post_metric p i =
     (if ii_name i = ''post_clicks'' then p\<lparr>po_clicks := firstMetricValue i\<rparr>
      else if ii_name i = ''post_reactions_by_type_total'' then p\<lparr>po_reactions := firstMetricValue i\<rparr>
      else if ii_name i = ''post_video_views'' then p\<lparr>po_video_views := firstMetricValue i\<rparr>
      else p)"

definition dec_post :: "json \<Rightarrow> post option" where
  "dec_post j =
     Option.bind (json_fields j) (\<lambda>fs.
     Option.bind (str_field ''id'' fs) (\<lambda>i.
     Option.bind (str_field ''message'' fs) (\<lambda>msg.
     Option.bind (str_field ''created_time'' fs) (\<lambda>t.
     Option.bind (str_field ''permalink_url'' fs) (\<lambda>link.
     Option.bind (dec_inlined fs) (\<lambda>ins.
       Some (foldl set_post_metric
         \<lparr>po_id = i, po_created_time = t, po_message = msg, po_permalink = link,
          po_clicks = 0, po_reactions = 0, po_video_views = 0\<rparr> ins)))))))"

text \<open>A listing whose inlined metrics Meta refuses is read again without them.\<close>

definition collect_plain ::
  "machine \<Rightarrow> meta_client \<Rightarrow> string \<Rightarrow> string \<Rightarrow> string \<Rightarrow> values \<Rightarrow> string \<Rightarrow> int \<Rightarrow> json list io" where
  "collect_plain e c what token path params plain_fields limit = do {
     first \<leftarrow> collect e c token path params limit;
     (case first of
        Inr items \<Rightarrow> ok items
      | Inl err \<Rightarrow>
          if \<not> unsupported err then fail (Wrap what err)
          else mapE (Wrap what)
            (collect e c token path (values_set params ''fields'' plain_fields) limit))
   }"

definition PagePosts ::
  "machine \<Rightarrow> meta_client \<Rightarrow> string \<Rightarrow> string \<Rightarrow> instant \<Rightarrow> int \<Rightarrow> post list io" where
  "PagePosts e c token pageID since limit =
     bindE (collect_plain e c ''publications de la page'' token (pageID @ ''/posts'')
       (unixParams [(''fields'', [postFields]), (''limit'', [print_int (pageSize limit)])] since zero_time)
       postFieldsPlain limit) (\<lambda>items.
     from_res (decode_items ''decodage d'une publication'' dec_post items))"

section \<open>Comments\<close>

definition commentFields :: string where "commentFields = ''id,from{name},message,created_time''"
definition igCommentFields :: string where "igCommentFields = ''id,username,text,timestamp''"

definition dec_comment :: "json \<Rightarrow> comment option" where
  "dec_comment j =
     Option.bind (json_fields j) (\<lambda>fs.
     Option.bind (str_field ''id'' fs) (\<lambda>i.
     Option.bind (json_struct ''from'' fs) (\<lambda>from_fs.
     Option.bind (str_field ''name'' from_fs) (\<lambda>name.
     Option.bind (str_field ''username'' fs) (\<lambda>user.
     Option.bind (str_field ''message'' fs) (\<lambda>msg.
     Option.bind (str_field ''text'' fs) (\<lambda>txt.
     Option.bind (str_field ''created_time'' fs) (\<lambda>created.
     Option.bind (str_field ''timestamp'' fs) (\<lambda>stamp.
       Some \<lparr>cm_id = i, cm_from = name, cm_username = user, cm_message = firstNonEmpty msg txt,
             cm_created_time = firstNonEmpty created stamp\<rparr>)))))))))"

definition comments ::
  "machine \<Rightarrow> meta_client \<Rightarrow> string \<Rightarrow> string \<Rightarrow> string \<Rightarrow> int \<Rightarrow> string \<Rightarrow> comment list io" where
  "comments e c token path flds limit what =
     bindE (mapE (Wrap what) (collect e c token path
       [(''fields'', [flds]), (''limit'', [print_int (pageSize limit)])] limit)) (\<lambda>items.
     from_res (decode_items ''decodage d'un commentaire'' dec_comment items))"

definition PostComments :: "machine \<Rightarrow> meta_client \<Rightarrow> string \<Rightarrow> string \<Rightarrow> int \<Rightarrow> comment list io" where
  "PostComments e c token postID limit =
     comments e c token (postID @ ''/comments'') commentFields limit ''commentaires de la publication''"

definition IGMediaComments :: "machine \<Rightarrow> meta_client \<Rightarrow> string \<Rightarrow> string \<Rightarrow> int \<Rightarrow> comment list io" where
  "IGMediaComments e c token mediaID limit =
     comments e c token (mediaID @ ''/comments'') igCommentFields limit ''commentaires du media''"

section \<open>Instagram media\<close>

definition igMediaFieldsPlain :: string where
  "igMediaFieldsPlain = ''id,caption,media_type,media_product_type,timestamp,permalink,like_count,comments_count''"
definition igMediaFields :: string where
  "igMediaFields = igMediaFieldsPlain @ '',insights.metric(reach,views,saved,shares,total_interactions)''"
definition igStoryFields :: string where
  "igStoryFields = ''id,media_type,media_product_type,timestamp,caption,permalink''"

definition set_media_metric :: "media \<Rightarrow> insight_item \<Rightarrow> media" where
  "set_media_metric m i =
     (if ii_name i = ''reach'' then m\<lparr>m_reach := firstMetricValue i\<rparr>
      else if ii_name i = ''views'' then m\<lparr>m_views := firstMetricValue i\<rparr>
      else if ii_name i = ''saved'' then m\<lparr>m_saved := firstMetricValue i\<rparr>
      else if ii_name i = ''shares'' then m\<lparr>m_shares := firstMetricValue i\<rparr>
      else if ii_name i = ''total_interactions'' then m\<lparr>m_total_interactions := firstMetricValue i\<rparr>
      else m)"

definition dec_media :: "json \<Rightarrow> (media \<times> insight_item list) option" where
  "dec_media j =
     Option.bind (json_fields j) (\<lambda>fs.
     Option.bind (str_field ''id'' fs) (\<lambda>i.
     Option.bind (str_field ''caption'' fs) (\<lambda>cap.
     Option.bind (str_field ''media_type'' fs) (\<lambda>typ.
     Option.bind (str_field ''media_product_type'' fs) (\<lambda>prod.
     Option.bind (str_field ''timestamp'' fs) (\<lambda>stamp.
     Option.bind (str_field ''permalink'' fs) (\<lambda>link.
     Option.bind (int_field ''like_count'' fs) (\<lambda>likes.
     Option.bind (int_field ''comments_count'' fs) (\<lambda>ncomments.
     Option.bind (dec_inlined fs) (\<lambda>ins.
       Some (\<lparr>m_id = i, m_type = typ, m_product_type = prod, m_timestamp = stamp, m_caption = cap,
              m_permalink = link, m_like_count = likes, m_comments_count = ncomments, m_reach = 0,
              m_views = 0, m_saved = 0, m_shares = 0, m_total_interactions = 0\<rparr>, ins)))))))))))"

definition IGMedia ::
  "machine \<Rightarrow> meta_client \<Rightarrow> string \<Rightarrow> string \<Rightarrow> instant \<Rightarrow> int \<Rightarrow> media list io" where
  "IGMedia e c token igUserID since limit =
     bindE (collect_plain e c ''medias Instagram'' token (igUserID @ ''/media'')
       (unixParams [(''fields'', [igMediaFields]), (''limit'', [print_int (pageSize limit)])] since zero_time)
       igMediaFieldsPlain limit) (\<lambda>items.
     from_res (decode_items ''decodage d'un media''
       (\<lambda>j. map_option (\<lambda>(m, ins). foldl set_media_metric m ins) (dec_media j)) items))"

definition IGStories :: "machine \<Rightarrow> meta_client \<Rightarrow> string \<Rightarrow> string \<Rightarrow> media list io" where
  "IGStories e c token igUserID =
     bindE (mapE (Wrap ''stories Instagram'')
       (collect e c token (igUserID @ ''/stories'') [(''fields'', [igStoryFields])] 0)) (\<lambda>items.
     from_res (decode_items ''decodage d'une story''
       (\<lambda>j. map_option (\<lambda>(m, _). m\<lparr>m_like_count := 0, m_comments_count := 0\<rparr>) (dec_media j)) items))"

section \<open>Ratings\<close>

definition pageRatingFields :: string where
  "pageRatingFields = ''overall_star_rating,rating_count''"
definition ratingFields :: string where
  "ratingFields = ''created_time,recommendation_type,rating,review_text,reviewer{name}''"

definition dec_summary :: "json \<Rightarrow> (json \<times> int) option" where
  "dec_summary j =
     Option.bind (json_fields j) (\<lambda>fs.
     Option.bind (json_field dec_number (JNum 0) ''overall_star_rating'' fs) (\<lambda>stars.
     Option.bind (int_field ''rating_count'' fs) (\<lambda>n. Some (stars, n))))"

definition dec_rating :: "json \<Rightarrow> recommendation option" where
  "dec_rating j =
     Option.bind (json_fields j) (\<lambda>fs.
     Option.bind (str_field ''created_time'' fs) (\<lambda>t.
     Option.bind (str_field ''recommendation_type'' fs) (\<lambda>typ.
     Option.bind (int_field ''rating'' fs) (\<lambda>n.
     Option.bind (str_field ''review_text'' fs) (\<lambda>txt.
     Option.bind (json_struct ''reviewer'' fs) (\<lambda>rv.
     Option.bind (str_field ''name'' rv) (\<lambda>name.
       Some \<lparr>rc_created_time = t, rc_type = typ, rc_rating = n, rc_review_text = txt,
             rc_reviewer = name\<rparr>)))))))"

definition PageRatings :: "machine \<Rightarrow> meta_client \<Rightarrow> string \<Rightarrow> string \<Rightarrow> int \<Rightarrow> page_ratings io" where
  "PageRatings e c token pageID limit =
     bindE (mapE (Wrap ''note de la page'')
       (get e c token pageID [(''fields'', [pageRatingFields])] dec_summary)) (\<lambda>(stars, n). do {
       listed \<leftarrow> collect e c token (pageID @ ''/ratings'')
         [(''fields'', [ratingFields]), (''limit'', [print_int (pageSize limit)])] limit;
       (let out = \<lparr>pr_page_id = pageID, pr_overall = stars, pr_count = n, pr_recommendations = [],
                   pr_unavailable = False\<rparr> in
        case listed of
          Inl err \<Rightarrow>
            (case AsGraphError err of
               Some ge \<Rightarrow>
                 if ge_code ge = codeDeprecated then ok (out\<lparr>pr_unavailable := True\<rparr>)
                 else fail (Wrap ''avis de la page'' err)
             | None \<Rightarrow> fail (Wrap ''avis de la page'' err))
        | Inr items \<Rightarrow>
            bindE (from_res (decode_items ''decodage d'un avis'' dec_rating items)) (\<lambda>rs.
            ok (out\<lparr>pr_recommendations := rs\<rparr>)))
     })"

section \<open>Scheduled posts\<close>

definition scheduledPostFields :: string where
  "scheduledPostFields = ''id,message,created_time,scheduled_publish_time''"

text \<open>The text of a JSON number.\<close>

definition scale10 :: "int \<Rightarrow> rat \<Rightarrow> rat" where
  "scale10 k x = (if 0 \<le> k then x * 10 ^ nat k else x / 10 ^ nat (- k))"

definition decimal_value :: "string \<Rightarrow> rat" where
  "decimal_value s =
     (let neg = (s \<noteq> [] \<and> hd s = CHR ''-'');
          s1 = (if neg then tl s else s);
          whole = takeWhile is_digit s1;
          s2 = dropWhile is_digit s1;
          frac = (if s2 \<noteq> [] \<and> hd s2 = CHR ''.'' then takeWhile is_digit (tl s2) else []);
          s3 = (if s2 \<noteq> [] \<and> hd s2 = CHR ''.'' then dropWhile is_digit (tl s2) else s2);
          s4 = (if s3 \<noteq> [] \<and> hd s3 \<in> {CHR ''e'', CHR ''E''} then tl s3 else []);
          expo = (if s4 \<noteq> [] \<and> hd s4 = CHR ''-'' then - int (digits_val (tl s4))
                  else if s4 \<noteq> [] \<and> hd s4 = CHR ''+'' then int (digits_val (tl s4))
                  else int (digits_val s4));
          v = scale10 (expo - int (length frac)) (of_nat (digits_val (whole @ frac))) in
      if neg then - v else v)"

text \<open>
  A JSON value read into an \<open>any\<close>: every number in it must fit a \<open>float64\<close>. The rendering is the one
  of \<open>time.Time\<close>, for the seconds it can count.
\<close>

fun any_number :: "json \<Rightarrow> rat option" where
  "any_number (JNum n) = finite_float (of_int n)"
| "any_number (JFloat s) = finite_float (decimal_value s)"
| "any_number _ = None"

fun dec_any_ok :: "json \<Rightarrow> bool" where
  "dec_any_ok (JNum n) = (any_number (JNum n) \<noteq> None)"
| "dec_any_ok (JFloat s) = (any_number (JFloat s) \<noteq> None)"
| "dec_any_ok (JArr xs) = list_all dec_any_ok xs"
| "dec_any_ok (JObj kvs) = list_all (\<lambda>(k, v). dec_any_ok v) kvs"
| "dec_any_ok _ = True"

definition scheduledTime :: "json \<Rightarrow> string" where
  "scheduledTime value =
     (case value of
        JStr s \<Rightarrow> s
      | _ \<Rightarrow>
          (case any_number value of
             None \<Rightarrow> []
           | Some v \<Rightarrow> format_rfc3339 (from_unix (int64_of_float v))))"

definition dec_scheduled :: "json \<Rightarrow> scheduled_post option" where
  "dec_scheduled j =
     Option.bind (json_fields j) (\<lambda>fs.
     Option.bind (str_field ''id'' fs) (\<lambda>i.
     Option.bind (str_field ''message'' fs) (\<lambda>msg.
     Option.bind (str_field ''created_time'' fs) (\<lambda>t.
     Option.bind (json_field Some JNull ''scheduled_publish_time'' fs) (\<lambda>v.
       if \<not> dec_any_ok v then None
       else Some \<lparr>sp_id = i, sp_message = msg, sp_created_time = t,
         sp_scheduled_at = scheduledTime v\<rparr>)))))"

definition ScheduledPosts ::
  "machine \<Rightarrow> meta_client \<Rightarrow> string \<Rightarrow> string \<Rightarrow> int \<Rightarrow> scheduled_post list io" where
  "ScheduledPosts e c token pageID limit =
     bindE (mapE (Wrap ''publications programmees'')
       (collect e c token (pageID @ ''/scheduled_posts'')
          [(''fields'', [scheduledPostFields]), (''limit'', [print_int (pageSize limit)])] limit))
       (\<lambda>items.
     from_res (decode_items ''decodage d'une publication programmee'' dec_scheduled items))"

section \<open>Frames: every read only sends GETs for its token and touches no table\<close>

lemma insights_frames [io_intros]:
  "state_io_rel same_db (insights e c token path base metrics)"
  "state_io_rel (emits (reads token)) (insights e c token path base metrics)"
  unfolding insights_def by (intro fdb.rules io_intros | intro fem.rules io_intros)+

lemma insights_each_same_db: "state_io_rel same_db (insights_each e c token path base ms out)"
  by (induction ms arbitrary: out) (auto intro!: fdb.rules insights_frames split: sum.splits)

lemma insights_each_reads: "state_io_rel (emits (reads token)) (insights_each e c token path base ms out)"
  by (induction ms arbitrary: out) (auto intro!: fem.rules insights_frames split: sum.splits)

lemma insightsWithFallback_frames [io_intros]:
  "state_io_rel same_db (insightsWithFallback e c token path base metrics)"
  "state_io_rel (emits (reads token)) (insightsWithFallback e c token path base metrics)"
  unfolding insightsWithFallback_def
  by (auto intro!: fdb.rules insights_frames insights_each_same_db split: sum.splits)
     (auto intro!: fem.rules insights_frames insights_each_reads split: sum.splits)

lemma graph_same_db [io_intros]:
  "state_io_rel same_db (PageInsights e c token i ms a b)"
  "state_io_rel same_db (PostInsights e c token i ms)"
  "state_io_rel same_db (IGMediaInsights e c token i ms)"
  "state_io_rel same_db (IGAccountInsights e c token i ms a b)"
  "state_io_rel same_db (IGFollowerDemographics e c token i j)"
  "state_io_rel same_db (PagePosts e c token i a n)"
  "state_io_rel same_db (PostComments e c token i n)"
  "state_io_rel same_db (IGMediaComments e c token i n)"
  "state_io_rel same_db (IGMedia e c token i a n)"
  "state_io_rel same_db (IGStories e c token i)"
  "state_io_rel same_db (PageRatings e c token i n)"
  "state_io_rel same_db (ScheduledPosts e c token i n)"
  unfolding PageInsights_def PostInsights_def IGMediaInsights_def IGAccountInsights_def
    IGFollowerDemographics_def PagePosts_def PostComments_def IGMediaComments_def comments_def
    IGMedia_def IGStories_def PageRatings_def ScheduledPosts_def collect_plain_def Let_def
  by (intro fdb.rules io_intros)+

lemma graph_reads [io_intros]:
  "state_io_rel (emits (reads token)) (PageInsights e c token i ms a b)"
  "state_io_rel (emits (reads token)) (PostInsights e c token i ms)"
  "state_io_rel (emits (reads token)) (IGMediaInsights e c token i ms)"
  "state_io_rel (emits (reads token)) (IGAccountInsights e c token i ms a b)"
  "state_io_rel (emits (reads token)) (IGFollowerDemographics e c token i j)"
  "state_io_rel (emits (reads token)) (PagePosts e c token i a n)"
  "state_io_rel (emits (reads token)) (PostComments e c token i n)"
  "state_io_rel (emits (reads token)) (IGMediaComments e c token i n)"
  "state_io_rel (emits (reads token)) (IGMedia e c token i a n)"
  "state_io_rel (emits (reads token)) (IGStories e c token i)"
  "state_io_rel (emits (reads token)) (PageRatings e c token i n)"
  "state_io_rel (emits (reads token)) (ScheduledPosts e c token i n)"
  unfolding PageInsights_def PostInsights_def IGMediaInsights_def IGAccountInsights_def
    IGFollowerDemographics_def PagePosts_def PostComments_def IGMediaComments_def comments_def
    IGMedia_def IGStories_def PageRatings_def ScheduledPosts_def collect_plain_def Let_def
  by (intro fem.rules io_intros)+

end
