(* ===== verification/MetaPublish.thy ===== *)
theory MetaPublish
  imports MetaClient StoreFacts
begin

text \<open>
  \<open>internal/adapters/meta/publish.go\<close> and the writes of \<open>moderate.go\<close>: publishing on a page,
  replies, the two step Instagram publication with its polling, hiding and deleting.
\<close>

definition defaultPollDelay :: duration where "defaultPollDelay = 2 * second"
definition maxPollAttempts :: nat where "maxPollAttempts = 30"

definition dec_id :: "json \<Rightarrow> (string \<times> string) option" where
  "dec_id j =
     Option.bind (json_fields j) (\<lambda>fs.
     Option.bind (str_field ''id'' fs) (\<lambda>i.
     Option.bind (str_field ''post_id'' fs) (\<lambda>p. Some (i, p))))"

definition publish_params :: "publish_post_request \<Rightarrow> values" where
  "publish_params req =
     (let params =
        (if IsPhoto req then
           (let p = values_set [] ''url'' (pp_photo_url req) in
            if pp_message req \<noteq> [] then values_set p ''caption'' (pp_message req) else p)
         else
           (let p = values_set [] ''message'' (pp_message req) in
            if pp_link req \<noteq> [] then values_set p ''link'' (pp_link req) else p)) in
      if IsScheduled req
      then values_set (values_set params ''published'' ''false'') ''scheduled_publish_time''
             (print_int (unix (pp_scheduled_at req)))
      else params)"

definition PublishPost ::
  "machine \<Rightarrow> meta_client \<Rightarrow> string \<Rightarrow> string \<Rightarrow> publish_post_request \<Rightarrow> string io" where
  "PublishPost e c token pageID req =
     bindE (mapE (Wrap ''publication sur la page'')
       (post e c token (pageID @ (if IsPhoto req then ''/photos'' else ''/feed''))
          (publish_params req) dec_id)) (\<lambda>(i, p).
     let published = (if p \<noteq> [] then p else i) in
     if published \<noteq> [] then ok published
     else fail (Msg ''publication sur la page: Meta n'a renvoye aucun identifiant''))"

definition ReplyToComment ::
  "machine \<Rightarrow> meta_client \<Rightarrow> string \<Rightarrow> string \<Rightarrow> string \<Rightarrow> string io" where
  "ReplyToComment e c token commentID message =
     bindE (mapE (Wrap ''reponse au commentaire'')
       (post e c token (commentID @ ''/comments'') [(''message'', [message])] dec_id)) (\<lambda>(i, _).
     if i = [] then fail (Msg ''reponse au commentaire: Meta n'a renvoye aucun identifiant'')
     else ok i)"

definition IGReplyToComment ::
  "machine \<Rightarrow> meta_client \<Rightarrow> string \<Rightarrow> string \<Rightarrow> string \<Rightarrow> string io" where
  "IGReplyToComment e c token commentID message =
     bindE (mapE (Wrap ''reponse au commentaire Instagram'')
       (post e c token (commentID @ ''/replies'') [(''message'', [message])] dec_id)) (\<lambda>(i, _).
     if i = [] then fail (Msg ''reponse au commentaire Instagram: Meta n'a renvoye aucun identifiant'')
     else ok i)"

text \<open>The containers of a carousel's slides, numbered from 1 in the errors.\<close>

fun createCarouselItems ::
  "machine \<Rightarrow> meta_client \<Rightarrow> string \<Rightarrow> string \<Rightarrow> nat \<Rightarrow> string list \<Rightarrow> string list io" where
  "createCarouselItems e c token igUserID i [] = ok []"
| "createCarouselItems e c token igUserID i (mediaURL # urls) =
     bindE (mapE (Wrap (''creation de l'element '' @ print_nat (i + 1) @ '' du carrousel''))
       (post e c token (igUserID @ ''/media'')
          [(''image_url'', [mediaURL]), (''is_carousel_item'', [''true''])] dec_id)) (\<lambda>(child, _).
     if child = [] then
       fail (Msg (''creation de l'element '' @ print_nat (i + 1) @ '' du carrousel: aucun identifiant renvoye''))
     else
       bindE (createCarouselItems e c token igUserID (i + 1) urls) (\<lambda>children.
       ok (child # children)))"

definition container_params ::
  "machine \<Rightarrow> meta_client \<Rightarrow> string \<Rightarrow> string \<Rightarrow> ig_publish_request \<Rightarrow> values io" where
  "container_params e c token igUserID req =
     (let params = (if ig_caption req \<noteq> [] then values_set [] ''caption'' (ig_caption req) else []) in
      if ig_media_type req = IGMediaTypeStories then
        (let p = values_del (values_set params ''media_type'' IGMediaTypeStories) ''caption'' in
         ok (if ig_video_url req \<noteq> [] then values_set p ''video_url'' (ig_video_url req)
             else values_set p ''image_url'' (ig_image_url req)))
      else if ig_media_type req = IGMediaTypeReels then
        ok (values_set (values_set params ''media_type'' IGMediaTypeReels) ''video_url'' (ig_video_url req))
      else if ig_media_type req = IGMediaTypeCarousel then
        bindE (createCarouselItems e c token igUserID 0 (ig_children req)) (\<lambda>children.
        ok (values_set (values_set params ''media_type'' IGMediaTypeCarousel) ''children''
              (join '','' children)))
      else ok (values_set params ''image_url'' (ig_image_url req)))"

definition createIGContainer ::
  "machine \<Rightarrow> meta_client \<Rightarrow> string \<Rightarrow> string \<Rightarrow> ig_publish_request \<Rightarrow> string io" where
  "createIGContainer e c token igUserID req =
     bindE (container_params e c token igUserID req) (\<lambda>params.
     bindE (mapE (Wrap ''creation du conteneur Instagram'')
       (post e c token (igUserID @ ''/media'') params dec_id)) (\<lambda>(i, _).
     if i = [] then fail (Msg ''creation du conteneur Instagram: aucun identifiant renvoye'')
     else ok i))"

definition pollDelay :: "meta_client \<Rightarrow> duration" where
  "pollDelay c =
     (if 0 < gc_retry_delay c \<and> gc_retry_delay c < defaultPollDelay then gc_retry_delay c
      else defaultPollDelay)"

definition dec_status :: "json \<Rightarrow> (string \<times> string) option" where
  "dec_status j =
     Option.bind (json_fields j) (\<lambda>fs.
     Option.bind (str_field ''status_code'' fs) (\<lambda>code.
     Option.bind (str_field ''status'' fs) (\<lambda>st. Some (code, st))))"

text \<open>
  The polling loop; the first argument counts the attempts left. No sleep follows the last one.
\<close>

fun wait_container ::
  "nat \<Rightarrow> machine \<Rightarrow> meta_client \<Rightarrow> string \<Rightarrow> string \<Rightarrow> unit io" where
  "wait_container 0 e c token containerID =
     fail (Msg ''le media Instagram n'a pas fini d'etre traite par Meta, reessayez dans quelques minutes'')"
| "wait_container (Suc n) e c token containerID =
     bindE (mapE (Wrap ''suivi du conteneur Instagram'')
       (get e c token containerID [(''fields'', [''status_code,status''])] dec_status)) (\<lambda>(code, st).
     if code = ''FINISHED'' then ok ()
     else if code = ''ERROR'' then fail (Msg (''Meta a rejete le media Instagram: '' @ st))
     else if code = ''EXPIRED'' then
       fail (Msg ''le conteneur Instagram a expire avant d'etre publie'')
     else if n = 0 then wait_container 0 e c token containerID
     else bindE (sleep_or_done e (pollDelay c)) (\<lambda>_. wait_container n e c token containerID))"

definition waitForIGContainer :: "machine \<Rightarrow> meta_client \<Rightarrow> string \<Rightarrow> string \<Rightarrow> unit io" where
  "waitForIGContainer e c token containerID = wait_container maxPollAttempts e c token containerID"

definition IGPublish ::
  "machine \<Rightarrow> meta_client \<Rightarrow> string \<Rightarrow> string \<Rightarrow> ig_publish_request \<Rightarrow> string io" where
  "IGPublish e c token igUserID req =
     bindE (createIGContainer e c token igUserID req) (\<lambda>containerID.
     bindE (waitForIGContainer e c token containerID) (\<lambda>_.
     bindE (mapE (Wrap ''publication Instagram'')
       (post e c token (igUserID @ ''/media_publish'') [(''creation_id'', [containerID])] dec_id)) (\<lambda>(i, _).
     if i = [] then fail (Msg ''publication Instagram: Meta n'a renvoye aucun identifiant'')
     else ok i)))"

text \<open>The writes of \<open>moderate.go\<close>. The answer is decoded, its \<open>success\<close> field is not looked at.\<close>

definition dec_success :: "json \<Rightarrow> bool option" where
  "dec_success j = Option.bind (json_fields j) (\<lambda>fs. json_field dec_bool False ''success'' fs)"

definition SetCommentHidden ::
  "machine \<Rightarrow> meta_client \<Rightarrow> string \<Rightarrow> string \<Rightarrow> bool \<Rightarrow> bool \<Rightarrow> unit io" where
  "SetCommentHidden e c token commentID hidden instagram =
     bindE (mapE (Wrap ''moderation du commentaire'')
       (post e c token commentID
          [(if instagram then ''hide'' else ''is_hidden'',
            [if hidden then ''true'' else ''false''])] dec_success)) (\<lambda>_. ok ())"

definition DeleteObject :: "machine \<Rightarrow> meta_client \<Rightarrow> string \<Rightarrow> string \<Rightarrow> unit io" where
  "DeleteObject e c token objectID =
     bindE (mapE (Wrap ''suppression'')
       (post e c token objectID [(''method'', [''delete''])] dec_success)) (\<lambda>_. ok ())"

section \<open>Frames\<close>

definition uses :: "string \<Rightarrow> http_request \<Rightarrow> bool" where
  "uses token r \<longleftrightarrow> (token \<noteq> [] \<longrightarrow> carries token r)"

lemma emits_mono: "(\<And>r. P r \<Longrightarrow> Q r) \<Longrightarrow> emits P w w' \<Longrightarrow> emits Q w w'"
  unfolding emits_def by (metis list.pred_mono_strong)

lemma state_emits_mono:
  "state_io_rel (emits P) m \<Longrightarrow> (\<And>r. P r \<Longrightarrow> Q r) \<Longrightarrow> state_io_rel (emits Q) m"
  unfolding state_io_rel_def by (meson emits_mono)

lemma emits_none: "state_io_rel (emits (\<lambda>_. False)) m \<Longrightarrow> requests (snd (run_state m v)) = requests v"
  using fem.frameD [of "\<lambda>_. False" m v "fst (run_state m v)" "snd (run_state m v)"]
  by (auto simp: emits_def list_all_iff filter_empty_conv)

lemma reads_uses: "state_io_rel (emits (reads token)) m \<Longrightarrow> state_io_rel (emits (uses token)) m"
  by (erule state_emits_mono) (simp add: reads_def uses_def)

lemma reads_get: "state_io_rel (emits (reads token)) m \<Longrightarrow> state_io_rel (emits is_get) m"
  by (erule state_emits_mono) (simp add: reads_def)

lemma post_uses [io_intros]: "state_io_rel (emits (uses token)) (post e c token path params dec)"
  unfolding post_def
  by (auto intro!: fem.rules call_emits simp: uses_def carries_def values_get_auth)

lemma get_uses [io_intros]: "state_io_rel (emits (uses token)) (get e c token path params dec)"
  by (rule reads_uses) (rule client_reads)

lemma createCarouselItems_frames [io_intros]:
  "state_io_rel same_db (createCarouselItems e c token ig i urls)"
  "state_io_rel (emits (uses token)) (createCarouselItems e c token ig i urls)"
  by (induction urls arbitrary: i)
     (auto intro!: fdb.rules fem.rules client_same_db post_uses split: prod.splits)

lemma wait_container_frames [io_intros]:
  "state_io_rel same_db (wait_container n e c token cid)"
  "state_io_rel (emits (reads token)) (wait_container n e c token cid)"
  by (induction n)
     (auto intro!: fdb.rules fem.rules io_intros split: prod.splits)

lemma publish_same_db [io_intros]:
  "state_io_rel same_db (PublishPost e c token i req)"
  "state_io_rel same_db (ReplyToComment e c token i msg)"
  "state_io_rel same_db (IGReplyToComment e c token i msg)"
  "state_io_rel same_db (IGPublish e c token i ig)"
  "state_io_rel same_db (SetCommentHidden e c token i h b)"
  "state_io_rel same_db (DeleteObject e c token i)"
  unfolding PublishPost_def ReplyToComment_def IGReplyToComment_def IGPublish_def
    createIGContainer_def container_params_def waitForIGContainer_def SetCommentHidden_def
    DeleteObject_def Let_def
  by (intro fdb.rules io_intros)+

lemma wait_container_uses [io_intros]:
  "state_io_rel (emits (uses token)) (wait_container n e c token cid)"
  by (rule reads_uses) (rule wait_container_frames)

lemma publish_uses [io_intros]:
  "state_io_rel (emits (uses token)) (PublishPost e c token i req)"
  "state_io_rel (emits (uses token)) (ReplyToComment e c token i msg)"
  "state_io_rel (emits (uses token)) (IGReplyToComment e c token i msg)"
  "state_io_rel (emits (uses token)) (IGPublish e c token i ig)"
  "state_io_rel (emits (uses token)) (SetCommentHidden e c token i h b)"
  "state_io_rel (emits (uses token)) (DeleteObject e c token i)"
  unfolding PublishPost_def ReplyToComment_def IGReplyToComment_def IGPublish_def
    createIGContainer_def container_params_def waitForIGContainer_def SetCommentHidden_def
    DeleteObject_def Let_def
  by (intro fem.rules io_intros)+

section \<open>The Instagram publication\<close>

text \<open>The container was seen finished: the last request asked for its status and got it.\<close>

definition seen_finished :: "machine \<Rightarrow> meta_client \<Rightarrow> string \<Rightarrow> string \<Rightarrow> world \<Rightarrow> bool" where
  "seen_finished e c token cid w \<longleftrightarrow>
     requests w \<noteq> [] \<and> hr_method (last (requests w)) = GET \<and>
     hr_url (last (requests w)) = endpoint c cid \<and>
     (case mc_meta e (butlast (requests w)) (last (requests w)) of
        Answer status body _ \<Rightarrow>
          200 \<le> status \<and> status < 300 \<and>
          map_option fst (Option.bind (json_parse body) dec_status) = Some ''FINISHED''
      | _ \<Rightarrow> False)"

lemma callOnce_Inr:
  assumes "run_state (callOnce e c m url token params) w = (Inr body, w')"
  shows "\<exists>r status after. hr_method r = m \<and> hr_url r = url \<and> requests w' = requests w @ [r] \<and>
    mc_meta e (requests w) r = Answer status body after \<and> 200 \<le> status \<and> status < 300"
  using assms
  by (auto simp: callOnce_def Let_def run_http_do not_less not_le
      split: if_splits http_answer.splits)

lemma call_Inr:
  assumes "run_state (call e c m url token params) w = (Inr body, w')"
  shows "\<exists>before r status after. hr_method r = m \<and> hr_url r = url \<and> requests w' = before @ [r] \<and>
    mc_meta e before r = Answer status body after \<and> 200 \<le> status \<and> status < 300"
proof -
  obtain a w1 where a: "run_state (callOnce e c m url token params) w = (a, w1)"
    by (cases "run_state (callOnce e c m url token params) w") auto
  show ?thesis
  proof (cases a)
    case (Inr b)
    with assms a have "b = body" "w1 = w'" by (auto simp: call_def)
    with callOnce_Inr [OF a [unfolded Inr]] show ?thesis by blast
  next
    case (Inl err)
    with assms a obtain w2 where "run_state (callOnce e c m url token params) w2 = (Inr body, w')"
      by (auto simp: call_def run_bindE run_sleep_or_done Let_def
          split: option.splits if_splits prod.splits sum.splits)
    from callOnce_Inr [OF this] show ?thesis by blast
  qed
qed

lemma wait_step:
  assumes "run_state (wait_container (Suc n) e c token cid) w = (Inr u, w')"
  obtains code st w1
    where "run_state (get e c token cid [(''fields'', [''status_code,status''])] dec_status) w =
                (Inr (code, st), w1)"
      and "code = ''FINISHED'' \<and> w' = w1 \<or>
        (\<exists>w2. run_state (wait_container n e c token cid) w2 = (Inr u, w'))"
proof -
  from assms obtain p w1 where
    g: "run_state (get e c token cid [(''fields'', [''status_code,status''])] dec_status) w = (Inr p, w1)"
    and r: "run_state (case p of (code, st) \<Rightarrow>
     if code = ''FINISHED'' then ok ()
     else if code = ''ERROR'' then fail (Msg (''Meta a rejete le media Instagram: '' @ st))
     else if code = ''EXPIRED'' then
       fail (Msg ''le conteneur Instagram a expire avant d'etre publie'')
     else if n = 0 then wait_container 0 e c token cid
     else bindE (sleep_or_done e (pollDelay c)) (\<lambda>_. wait_container n e c token cid)) w1 = (Inr u, w')"
    unfolding wait_container.simps(2) run_bindE_Inr run_mapE_Inr by blast
  obtain code st where p: "p = (code, st)" by (cases p)
  show thesis
  proof (cases "code = ''FINISHED''")
    case True
    with r p show thesis using that [OF g [unfolded p]] by simp
  next
    case False
    with r p have "\<exists>w2. run_state (wait_container n e c token cid) w2 = (Inr u, w')"
      by (simp only: run_bindE_Inr split: if_splits) (auto simp: run_bindE_Inr split: if_splits)
    then show thesis using that [OF g [unfolded p]] by blast
  qed
qed

lemma wait_container_Inr:
  "run_state (wait_container n e c token cid) w = (Inr u, w') \<Longrightarrow> seen_finished e c token cid w'"
proof (induction n arbitrary: w)
  case (Suc n)
  from wait_step [OF Suc.prems] obtain code st w1
    where g: "run_state (get e c token cid [(''fields'', [''status_code,status''])] dec_status) w =
                (Inr (code, st), w1)"
      and next': "code = ''FINISHED'' \<and> w' = w1 \<or>
        (\<exists>w2. run_state (wait_container n e c token cid) w2 = (Inr u, w'))"
    by blast
  from next' show ?case
  proof
    assume fin: "code = ''FINISHED'' \<and> w' = w1"
    from g obtain body where b: "run_state (call e c GET (endpoint c cid) token
        [(''fields'', [''status_code,status''])]) w = (Inr body, w1)"
      and d: "Option.bind (json_parse body) dec_status = Some (code, st)"
      by (auto simp: get_def run_bindE_Inr decodeInto_def split: option.splits)
    from call_Inr [OF b] d fin show ?thesis by (auto simp: seen_finished_def)
  qed (use Suc.IH in blast)
qed simp

end
