(* ===== verification/AppService.thy ===== *)
theory AppService
  imports MetaGraph MetaPublish Calendar
begin

text \<open>
  \<open>internal/app\<close>: the service behind the MCP tools. Here are the resolution of a page
  (\<open>service.go\<close>) and the tools that only read. Every method takes the tenant id of the
  bearer token. The tools that write are in theory \<open>AppWrite\<close>.
\<close>

section \<open>service.go\<close>

definition defaultWindowDays :: int where "defaultWindowDays = 28"
definition ServiceStateTTL :: duration where "ServiceStateTTL = 10 * minute"

record service =
  sv_graph :: meta_client
  sv_public_url :: string
  sv_required_scopes :: "string list"

definition NewService :: "meta_client \<Rightarrow> string \<Rightarrow> string list \<Rightarrow> service" where
  "NewService graph publicURL requiredScopes =
     \<lparr>sv_graph = graph, sv_public_url = publicURL, sv_required_scopes = requiredScopes\<rparr>"

record page_view =
  pv_page_id :: string
  pv_name :: string
  pv_ig_user_id :: string
  pv_ig_username :: string
  pv_synced_at :: string

definition toPageViews :: "page list \<Rightarrow> page_view list" where
  "toPageViews ps = map (\<lambda>p.
     \<lparr>pv_page_id = p_page_id p, pv_name = p_name p, pv_ig_user_id = p_ig_user_id p,
      pv_ig_username = p_ig_username p, pv_synced_at = format_rfc3339 (p_synced_at p)\<rparr>) ps"

definition unknown_page :: "go_error \<Rightarrow> go_error" where
  "unknown_page err =
     (if errors_is err ErrNotFound then ErrUnknownPage else Wrap ''lecture de la page'' err)"

definition Service_page :: "machine \<Rightarrow> string \<Rightarrow> string \<Rightarrow> page io" where
  "Service_page e tid pageID =
     (if trim_space pageID = [] then fail (Msg ''page_id est obligatoire'')
      else mapE unknown_page (PageByID e tid pageID))"

definition Service_igPage :: "machine \<Rightarrow> string \<Rightarrow> string \<Rightarrow> page io" where
  "Service_igPage e tid pageID =
     bindE (Service_page e tid pageID) (\<lambda>p.
     if \<not> HasInstagram p then fail ErrNoInstagram else ok p)"

text \<open>The page whose id is the prefix of the object id, if the tenant has it.\<close>

definition prefix_page :: "machine \<Rightarrow> string \<Rightarrow> string \<Rightarrow> page option io" where
  "prefix_page e tid objectID =
     (case cut (CHR ''_'') objectID of
        None \<Rightarrow> ok None
      | Some (pre, _) \<Rightarrow>
          if pre = [] then ok None
          else do {
            found \<leftarrow> PageByID e tid pre;
            (case found of
               Inr p \<Rightarrow> ok (Some p)
             | Inl err \<Rightarrow>
                 if \<not> errors_is err ErrNotFound then fail (Wrap ''lecture de la page'' err)
                 else ok None)
          })"

definition only_page :: "machine \<Rightarrow> string \<Rightarrow> page io" where
  "only_page e tid =
     bindE (mapE (Wrap ''liste des pages'') (ListPages e tid)) (\<lambda>ps.
     if length ps = 1 then ok (ps ! 0)
     else if length ps = 0 then fail (Msg ''aucune page connectee, utilisez sync_pages'')
     else fail (Msg ''impossible de determiner la page concernee, precisez page_id''))"

definition Service_ownerPage :: "machine \<Rightarrow> string \<Rightarrow> string \<Rightarrow> string \<Rightarrow> page io" where
  "Service_ownerPage e tid pageIDHint objectID =
     (if trim_space objectID = [] then fail (Msg ''identifiant de l'objet manquant'')
      else if pageIDHint \<noteq> [] then Service_page e tid pageIDHint
      else bindE (prefix_page e tid objectID) (\<lambda>found.
        case found of Some p \<Rightarrow> ok p | None \<Rightarrow> only_page e tid))"

definition Service_ownerIGPage :: "machine \<Rightarrow> string \<Rightarrow> string \<Rightarrow> string \<Rightarrow> page io" where
  "Service_ownerIGPage e tid pageIDHint objectID =
     (if pageIDHint \<noteq> [] then Service_igPage e tid pageIDHint
      else bindE (mapE (Wrap ''liste des pages'') (ListPages e tid)) (\<lambda>ps.
        let withIG = filter HasInstagram ps in
        if length withIG = 0 then fail ErrNoInstagram
        else if length withIG = 1 then ok (withIG ! 0)
        else fail (Msg ''plusieurs comptes Instagram sont connectes, precisez page_id'')))"

definition parseDay :: "string \<Rightarrow> string \<Rightarrow> instant res" where
  "parseDay value name =
     (case parse_day value of
        None \<Rightarrow> Inl (Msg (name @ '' doit etre au format AAAA-MM-JJ''))
      | Some d \<Rightarrow> Inr d)"

definition optionalDay :: "string \<Rightarrow> string \<Rightarrow> instant res" where
  "optionalDay value name = (if value = [] then Inr zero_time else parseDay value name)"

text \<open>The window for a reading of the clock. Days have 24 hours: everything is in UTC.\<close>

definition window_at :: "instant \<Rightarrow> string \<Rightarrow> string \<Rightarrow> (instant \<times> instant) res" where
  "window_at now since until =
     (case (if until \<noteq> []
            then map_sum id (\<lambda>d. time_add d (24 * hour - second)) (parseDay until ''until'')
            else Inr now) of
        Inl err \<Rightarrow> Inl err
      | Inr stop \<Rightarrow>
          (case (if since \<noteq> [] then parseDay since ''since''
                 else Inr (time_add stop (- (defaultWindowDays * day)))) of
             Inl err \<Rightarrow> Inl err
           | Inr start \<Rightarrow>
               if \<not> start < stop then Inl (Msg ''since doit etre anterieur a until'')
               else Inr (start, stop)))"

definition dateWindow :: "machine \<Rightarrow> string \<Rightarrow> string \<Rightarrow> (instant \<times> instant) io" where
  "dateWindow e since until = do { now \<leftarrow> clock_now e; from_res (window_at now since until) }"

definition metricsOrDefault :: "string list \<Rightarrow> string list \<Rightarrow> string list" where
  "metricsOrDefault requested fallback =
     (let cleaned = filter (\<lambda>m. m \<noteq> []) (map trim_space requested) in
      if cleaned = [] then fallback else cleaned)"

definition clampLimit :: "int \<Rightarrow> int \<Rightarrow> int \<Rightarrow> int" where
  "clampLimit limit def mx =
     (if limit \<le> 0 then def else if mx < limit then mx else limit)"

definition syncPages :: "machine \<Rightarrow> meta_client \<Rightarrow> string \<Rightarrow> string \<Rightarrow> page list io" where
  "syncPages e meta tid userToken =
     bindE (Accounts e meta userToken) (\<lambda>ps.
     bindE (mapE (Wrap ''enregistrement des pages'') (ReplacePages e tid ps)) (\<lambda>_.
     ok ps))"

section \<open>The tools that read\<close>

definition Service_ListPages :: "machine \<Rightarrow> string \<Rightarrow> page_view list io" where
  "Service_ListPages e tid =
     bindE (mapE (Wrap ''liste des pages'') (ListPages e tid)) (\<lambda>ps. ok (toPageViews ps))"

definition Service_SyncPages :: "machine \<Rightarrow> service \<Rightarrow> string \<Rightarrow> page_view list io" where
  "Service_SyncPages e s tid =
     bindE (TenantByID e tid) (\<lambda>t.
     bindE (syncPages e (sv_graph s) (t_id t) (t_user_token t)) (\<lambda>ps.
     ok (toPageViews ps)))"

text \<open>\<open>page_insights\<close>\<close>

definition DefaultPageMetrics :: "string list" where
  "DefaultPageMetrics =
     [''page_post_engagements'', ''page_daily_follows'', ''page_follows'', ''page_views_total'']"

record insights_input =
  ip_page_id :: string
  ip_since :: string
  ip_until :: string
  ip_metrics :: "string list"

definition Service_PageInsights :: "machine \<Rightarrow> service \<Rightarrow> string \<Rightarrow> insights_input \<Rightarrow> insight_set io"
  where
  "Service_PageInsights e s tid i =
     bindE (Service_page e tid (ip_page_id i)) (\<lambda>p.
     bindE (dateWindow e (ip_since i) (ip_until i)) (\<lambda>(since, until).
     PageInsights e (sv_graph s) (p_page_token p) (p_page_id p)
       (metricsOrDefault (ip_metrics i) DefaultPageMetrics) since until))"

text \<open>\<open>page_insights_metadata\<close>\<close>

definition on_surface :: "string \<Rightarrow> string \<times> string \<Rightarrow> insight_meta" where
  "on_surface surface = (\<lambda>(name, description).
     \<lparr>im_name = name, im_period = ''day'', im_description = description, im_surface = surface\<rparr>)"

definition KnownMetrics :: "insight_meta list" where
  "KnownMetrics =
     map (on_surface ''page'')
       [(''page_post_engagements'', ''Interactions avec les publications de la Page.''),
        (''page_daily_follows'', ''Nouveaux abonnes dans la journee.''),
        (''page_daily_unfollows'', ''Desabonnements dans la journee.''),
        (''page_follows'', ''Nombre total d'abonnes.''),
        (''page_views_total'', ''Vues de la Page.''),
        (''page_video_views'', ''Vues des videos de la Page.'')] @
     map (on_surface ''instagram'')
       [(''reach'', ''Comptes uniques ayant vu le contenu.''),
        (''views'', ''Vues du contenu.''),
        (''profile_views'', ''Visites du profil.''),
        (''accounts_engaged'', ''Comptes ayant interagi.''),
        (''total_interactions'', ''J'aime, commentaires, enregistrements et partages.''),
        (''likes'', ''Mentions J'aime.''),
        (''comments'', ''Commentaires.''),
        (''saves'', ''Enregistrements.''),
        (''shares'', ''Partages.''),
        (''follower_count'', ''Nouveaux abonnes par jour. Refusee avec metric_type=total_value, le serveur la demande donc a part.'')]"

definition Service_PageInsightsMetadata :: "machine \<Rightarrow> string \<Rightarrow> string \<Rightarrow> insight_meta list io" where
  "Service_PageInsightsMetadata e tid pageID =
     bindE (Service_page e tid pageID) (\<lambda>p.
     ok (filter (\<lambda>m. \<not> (im_surface m = ''instagram'' \<and> \<not> HasInstagram p)) KnownMetrics))"

text \<open>\<open>page_posts\<close>\<close>

definition defaultPostLimit :: int where "defaultPostLimit = 25"
definition maxPostLimit :: int where "maxPostLimit = 100"

record listing_input =
  li_page_id :: string
  li_since :: string
  li_limit :: int

definition Service_PagePosts :: "machine \<Rightarrow> service \<Rightarrow> string \<Rightarrow> listing_input \<Rightarrow> post list io" where
  "Service_PagePosts e s tid i =
     bindE (Service_page e tid (li_page_id i)) (\<lambda>p.
     bindE (from_res (optionalDay (li_since i) ''since'')) (\<lambda>since.
     PagePosts e (sv_graph s) (p_page_token p) (p_page_id p) since
       (clampLimit (li_limit i) defaultPostLimit maxPostLimit)))"

text \<open>\<open>page_post_comments\<close>\<close>

definition defaultCommentLimit :: int where "defaultCommentLimit = 50"
definition maxCommentLimit :: int where "maxCommentLimit = 100"

record comments_input =
  ci_object_id :: string
  ci_page_id :: string
  ci_limit :: int

definition Service_PagePostComments :: "machine \<Rightarrow> service \<Rightarrow> string \<Rightarrow> comments_input \<Rightarrow> comment list io"
  where
  "Service_PagePostComments e s tid i =
     bindE (Service_ownerPage e tid (ci_page_id i) (ci_object_id i)) (\<lambda>p.
     PostComments e (sv_graph s) (p_page_token p) (ci_object_id i)
       (clampLimit (ci_limit i) defaultCommentLimit maxCommentLimit))"

text \<open>\<open>page_ratings\<close> and \<open>page_scheduled_posts\<close>\<close>

definition defaultRatingLimit :: int where "defaultRatingLimit = 25"
definition maxRatingLimit :: int where "maxRatingLimit = 100"

definition Service_PageRatings :: "machine \<Rightarrow> service \<Rightarrow> string \<Rightarrow> string \<Rightarrow> int \<Rightarrow> page_ratings io" where
  "Service_PageRatings e s tid pageID limit =
     bindE (Service_page e tid pageID) (\<lambda>p.
     PageRatings e (sv_graph s) (p_page_token p) (p_page_id p)
       (clampLimit limit defaultRatingLimit maxRatingLimit))"

definition defaultScheduledLimit :: int where "defaultScheduledLimit = 25"
definition maxScheduledLimit :: int where "maxScheduledLimit = 100"

definition Service_PageScheduledPosts ::
  "machine \<Rightarrow> service \<Rightarrow> string \<Rightarrow> string \<Rightarrow> int \<Rightarrow> scheduled_post list io" where
  "Service_PageScheduledPosts e s tid pageID limit =
     bindE (Service_page e tid pageID) (\<lambda>p.
     ScheduledPosts e (sv_graph s) (p_page_token p) (p_page_id p)
       (clampLimit limit defaultScheduledLimit maxScheduledLimit))"

text \<open>\<open>page_post_insights\<close> and \<open>ig_media_insights\<close>\<close>

definition DefaultPostMetrics :: "string list" where
  "DefaultPostMetrics =
     [''post_clicks'', ''post_reactions_by_type_total'', ''post_reactions_like_total'',
      ''post_video_views'']"

definition DefaultIGMediaMetrics :: "string list" where
  "DefaultIGMediaMetrics =
     [''reach'', ''views'', ''likes'', ''comments'', ''saved'', ''shares'', ''total_interactions'']"

record object_input =
  oi_object_id :: string
  oi_page_id :: string
  oi_metrics :: "string list"

definition Service_PagePostInsights :: "machine \<Rightarrow> service \<Rightarrow> string \<Rightarrow> object_input \<Rightarrow> insight_set io"
  where
  "Service_PagePostInsights e s tid i =
     (if trim_space (oi_object_id i) = [] then fail (Msg ''post_id est obligatoire'')
      else bindE (Service_ownerPage e tid (oi_page_id i) (oi_object_id i)) (\<lambda>p.
        PostInsights e (sv_graph s) (p_page_token p) (oi_object_id i)
          (metricsOrDefault (oi_metrics i) DefaultPostMetrics)))"

definition Service_IGMediaInsights :: "machine \<Rightarrow> service \<Rightarrow> string \<Rightarrow> object_input \<Rightarrow> insight_set io"
  where
  "Service_IGMediaInsights e s tid i =
     (if trim_space (oi_object_id i) = [] then fail (Msg ''media_id est obligatoire'')
      else bindE (Service_ownerIGPage e tid (oi_page_id i) (oi_object_id i)) (\<lambda>p.
        IGMediaInsights e (sv_graph s) (p_page_token p) (oi_object_id i)
          (metricsOrDefault (oi_metrics i) DefaultIGMediaMetrics)))"

text \<open>The other Instagram tools.\<close>

definition DefaultIGMetrics :: "string list" where
  "DefaultIGMetrics =
     [''reach'', ''views'', ''profile_views'', ''accounts_engaged'', ''total_interactions'',
      ''follower_count'']"

definition Service_IGAccountInsights ::
  "machine \<Rightarrow> service \<Rightarrow> string \<Rightarrow> insights_input \<Rightarrow> insight_set io" where
  "Service_IGAccountInsights e s tid i =
     bindE (Service_igPage e tid (ip_page_id i)) (\<lambda>p.
     bindE (dateWindow e (ip_since i) (ip_until i)) (\<lambda>(since, until).
     IGAccountInsights e (sv_graph s) (p_page_token p) (p_ig_user_id p)
       (metricsOrDefault (ip_metrics i) DefaultIGMetrics) since until))"

definition AllowedBreakdowns :: "string list" where
  "AllowedBreakdowns = [''city'', ''country'', ''age'', ''gender'']"

definition Service_IGFollowerDemographics ::
  "machine \<Rightarrow> service \<Rightarrow> string \<Rightarrow> string \<Rightarrow> string \<Rightarrow> breakdown list io" where
  "Service_IGFollowerDemographics e s tid pageID by_what =
     (if by_what \<notin> set AllowedBreakdowns
      then fail (Msg ''breakdown doit valoir [city country age gender]'')
      else bindE (Service_igPage e tid pageID) (\<lambda>p.
        IGFollowerDemographics e (sv_graph s) (p_page_token p) (p_ig_user_id p) by_what))"

definition defaultMediaLimit :: int where "defaultMediaLimit = 25"
definition maxMediaLimit :: int where "maxMediaLimit = 100"

definition Service_IGMedia :: "machine \<Rightarrow> service \<Rightarrow> string \<Rightarrow> listing_input \<Rightarrow> media list io" where
  "Service_IGMedia e s tid i =
     bindE (Service_igPage e tid (li_page_id i)) (\<lambda>p.
     bindE (from_res (optionalDay (li_since i) ''since'')) (\<lambda>since.
     IGMedia e (sv_graph s) (p_page_token p) (p_ig_user_id p) since
       (clampLimit (li_limit i) defaultMediaLimit maxMediaLimit)))"

definition Service_IGMediaComments :: "machine \<Rightarrow> service \<Rightarrow> string \<Rightarrow> comments_input \<Rightarrow> comment list io"
  where
  "Service_IGMediaComments e s tid i =
     bindE (Service_ownerIGPage e tid (ci_page_id i) (ci_object_id i)) (\<lambda>p.
     IGMediaComments e (sv_graph s) (p_page_token p) (ci_object_id i)
       (clampLimit (ci_limit i) defaultCommentLimit maxCommentLimit))"

definition Service_IGStories :: "machine \<Rightarrow> service \<Rightarrow> string \<Rightarrow> string \<Rightarrow> media list io" where
  "Service_IGStories e s tid pageID =
     bindE (Service_igPage e tid pageID) (\<lambda>p.
     IGStories e (sv_graph s) (p_page_token p) (p_ig_user_id p))"

end
