(* ===== verification/AppWrite.thy ===== *)
theory AppWrite
  imports AppService
begin

text \<open>
  The tools of \<open>internal/app\<close> that write: publications, replies, moderation, cancellation and
  deletion, each behind the confirmation gate. Without \<open>confirm\<close> they return a preview.
\<close>

definition previewNotice :: string where
  "previewNotice =
     ''Apercu uniquement, rien n'a ete publie. Montrez ce contenu a l'utilisateur et attendez son accord explicite, puis rappelez le meme outil avec confirm=true.''"

section \<open>page_publish_post.go\<close>

definition minSchedule :: duration where "minSchedule = 10 * minute"
definition maxSchedule :: duration where "maxSchedule = 180 * 24 * hour"

record publish_input =
  pin_page_id :: string
  pin_message :: string
  pin_link :: string
  pin_photo_url :: string
  pin_scheduled_at :: string
  pin_confirm :: bool

record publish_output =
  pout_preview :: bool
  pout_post_id :: string
  pout_page_id :: string
  pout_page_name :: string
  pout_kind :: string
  pout_message :: string
  pout_link :: string
  pout_photo_url :: string
  pout_scheduled_at :: string
  pout_notice :: string

definition validateHTTPSURL :: "machine \<Rightarrow> string \<Rightarrow> string \<Rightarrow> unit res" where
  "validateHTTPSURL e raw field =
     (case mc_url_parse e raw of
        None \<Rightarrow> Inl (Msg (field @ '' n'est pas une URL valide''))
      | Some u \<Rightarrow>
          if u_host u = [] then Inl (Msg (field @ '' n'est pas une URL valide''))
          else if u_scheme u \<noteq> ''https'' then Inl (Msg (field @ '' doit etre une URL https''))
          else Inr ())"

definition parseSchedule :: "string \<Rightarrow> instant \<Rightarrow> instant res" where
  "parseSchedule value now =
     (case parse_rfc3339 value of
        None \<Rightarrow> Inl (Msg ''scheduled_at doit etre une date ISO 8601'')
      | Some t \<Rightarrow>
          (let delay = time_sub t now in
           if delay < minSchedule
           then Inl (Msg ''scheduled_at doit etre au moins 10 minutes dans le futur'')
           else if maxSchedule < delay then Inl (Msg ''scheduled_at ne peut pas depasser six mois'')
           else Inr t))"

definition buildPublishRequest :: "machine \<Rightarrow> publish_input \<Rightarrow> publish_post_request io" where
  "buildPublishRequest e i =
     (let message = trim_space (pin_message i);
          link = trim_space (pin_link i);
          photo = trim_space (pin_photo_url i);
          req = \<lparr>pp_message = message, pp_link = link, pp_photo_url = photo,
                 pp_scheduled_at = zero_time\<rparr> in
      if message = [] \<and> link = [] \<and> photo = []
      then fail (Msg ''fournissez au moins message, link ou photo_url'')
      else if photo \<noteq> [] \<and> link \<noteq> []
      then fail (Msg ''link et photo_url s'excluent: une photo ne porte pas de lien'')
      else
        bindE (if link \<noteq> [] then from_res (validateHTTPSURL e link ''link'') else ok ()) (\<lambda>_.
        bindE (if photo \<noteq> [] then from_res (validateHTTPSURL e photo ''photo_url'') else ok ()) (\<lambda>_.
        if pin_scheduled_at i \<noteq> [] then do {
          now \<leftarrow> clock_now e;
          bindE (from_res (parseSchedule (pin_scheduled_at i) now)) (\<lambda>t.
          ok (req\<lparr>pp_scheduled_at := t\<rparr>))
        }
        else ok req)))"

definition publish_draft :: "page \<Rightarrow> publish_post_request \<Rightarrow> publish_output" where
  "publish_draft p req =
     \<lparr>pout_preview = False, pout_post_id = [], pout_page_id = p_page_id p,
      pout_page_name = p_name p, pout_kind = (if IsPhoto req then ''photo'' else ''feed''),
      pout_message = pp_message req, pout_link = pp_link req, pout_photo_url = pp_photo_url req,
      pout_scheduled_at = (if IsScheduled req then format_rfc3339 (pp_scheduled_at req) else []),
      pout_notice = []\<rparr>"

definition Service_PublishPost ::
  "machine \<Rightarrow> service \<Rightarrow> string \<Rightarrow> publish_input \<Rightarrow> publish_output io" where
  "Service_PublishPost e s tid i =
     bindE (Service_page e tid (pin_page_id i)) (\<lambda>p.
     bindE (buildPublishRequest e i) (\<lambda>req.
     let out = publish_draft p req in
     if \<not> pin_confirm i then ok (out\<lparr>pout_preview := True, pout_notice := previewNotice\<rparr>)
     else bindE (PublishPost e (sv_graph s) (p_page_token p) (p_page_id p) req) (\<lambda>postID.
       ok (out\<lparr>pout_post_id := postID\<rparr>))))"

section \<open>page_reply_comment.go and ig_reply_comment.go\<close>

record reply_input =
  rin_comment_id :: string
  rin_page_id :: string
  rin_message :: string
  rin_confirm :: bool

record reply_output =
  rout_preview :: bool
  rout_reply_id :: string
  rout_comment_id :: string
  rout_page_id :: string
  rout_page_name :: string
  rout_message :: string
  rout_notice :: string

definition reply_draft :: "page \<Rightarrow> reply_input \<Rightarrow> string \<Rightarrow> reply_output" where
  "reply_draft p i message =
     \<lparr>rout_preview = False, rout_reply_id = [], rout_comment_id = rin_comment_id i,
      rout_page_id = p_page_id p, rout_page_name = p_name p, rout_message = message,
      rout_notice = []\<rparr>"

definition Service_ReplyToComment ::
  "machine \<Rightarrow> service \<Rightarrow> string \<Rightarrow> reply_input \<Rightarrow> reply_output io" where
  "Service_ReplyToComment e s tid i =
     (let message = trim_space (rin_message i) in
      if message = [] then fail (Msg ''message est obligatoire'')
      else bindE (Service_ownerPage e tid (rin_page_id i) (rin_comment_id i)) (\<lambda>p.
        let out = reply_draft p i message in
        if \<not> rin_confirm i then ok (out\<lparr>rout_preview := True, rout_notice := previewNotice\<rparr>)
        else bindE (ReplyToComment e (sv_graph s) (p_page_token p) (rin_comment_id i) message) (\<lambda>replyID.
          ok (out\<lparr>rout_reply_id := replyID\<rparr>))))"

definition Service_IGReplyToComment ::
  "machine \<Rightarrow> service \<Rightarrow> string \<Rightarrow> reply_input \<Rightarrow> reply_output io" where
  "Service_IGReplyToComment e s tid i =
     (let message = trim_space (rin_message i) in
      if message = [] then fail (Msg ''message est obligatoire'')
      else bindE (Service_ownerIGPage e tid (rin_page_id i) (rin_comment_id i)) (\<lambda>p.
        let out = reply_draft p i message in
        if \<not> rin_confirm i then ok (out\<lparr>rout_preview := True, rout_notice := previewNotice\<rparr>)
        else bindE (IGReplyToComment e (sv_graph s) (p_page_token p) (rin_comment_id i) message) (\<lambda>replyID.
          ok (out\<lparr>rout_reply_id := replyID\<rparr>))))"

section \<open>ig_publish.go\<close>

definition minCarouselItems :: nat where "minCarouselItems = 2"
definition maxCarouselItems :: nat where "maxCarouselItems = 10"

record ig_publish_input =
  gin_page_id :: string
  gin_media_type :: string
  gin_image_url :: string
  gin_video_url :: string
  gin_caption :: string
  gin_children :: "string list"
  gin_confirm :: bool

record ig_publish_output =
  gout_preview :: bool
  gout_media_id :: string
  gout_page_id :: string
  gout_ig_username :: string
  gout_media_type :: string
  gout_image_url :: string
  gout_video_url :: string
  gout_children :: "string list"
  gout_caption :: string
  gout_notice :: string

text \<open>The children of a carousel, from the one at index \<open>n\<close> on. Blank ones are skipped.\<close>

fun carousel_children :: "machine \<Rightarrow> nat \<Rightarrow> string list \<Rightarrow> string list res" where
  "carousel_children e n [] = Inr []"
| "carousel_children e n (raw # rest) =
     (let child = trim_space raw in
      if child = [] then carousel_children e (n + 1) rest
      else (case validateHTTPSURL e child (''children['' @ print_nat n @ '']'') of
              Inl err \<Rightarrow> Inl err
            | Inr _ \<Rightarrow> map_sum id (\<lambda>cs. child # cs) (carousel_children e (n + 1) rest)))"

definition buildIGPublishRequest :: "machine \<Rightarrow> ig_publish_input \<Rightarrow> ig_publish_request res" where
  "buildIGPublishRequest e i =
     (let upper = to_upper (trim_space (gin_media_type i));
          mtype = (if upper = [] then IGMediaTypeImage else upper);
          image = trim_space (gin_image_url i);
          video = trim_space (gin_video_url i);
          req = \<lparr>ig_media_type = mtype, ig_image_url = image, ig_video_url = video,
                 ig_caption = trim_space (gin_caption i), ig_children = []\<rparr> in
      if mtype = IGMediaTypeStories then
        (if image = [] \<and> video = []
         then Inl (Msg ''image_url ou video_url est obligatoire pour media_type=STORIES'')
         else if image \<noteq> [] \<and> video \<noteq> []
         then Inl (Msg ''une story porte soit image_url, soit video_url, pas les deux'')
         else (case (if video \<noteq> [] then validateHTTPSURL e video ''video_url''
                     else validateHTTPSURL e image ''image_url'') of
                 Inl err \<Rightarrow> Inl err
               | Inr _ \<Rightarrow> Inr (req\<lparr>ig_caption := []\<rparr>)))
      else if mtype = IGMediaTypeImage then
        (if image = [] then Inl (Msg ''image_url est obligatoire pour media_type=IMAGE'')
         else (case validateHTTPSURL e image ''image_url'' of
                 Inl err \<Rightarrow> Inl err | Inr _ \<Rightarrow> Inr req))
      else if mtype = IGMediaTypeReels then
        (if video = [] then Inl (Msg ''video_url est obligatoire pour media_type=REELS'')
         else (case validateHTTPSURL e video ''video_url'' of
                 Inl err \<Rightarrow> Inl err | Inr _ \<Rightarrow> Inr req))
      else if mtype = IGMediaTypeCarousel then
        (case carousel_children e 0 (gin_children i) of
           Inl err \<Rightarrow> Inl err
         | Inr children \<Rightarrow>
             if length children < minCarouselItems \<or> maxCarouselItems < length children
             then Inl (Msg ''un carrousel demande entre 2 et 10 URLs dans children'')
             else Inr (req\<lparr>ig_children := children\<rparr>))
      else Inl (Msg ''media_type doit valoir IMAGE, REELS, CAROUSEL ou STORIES''))"

definition ig_draft :: "page \<Rightarrow> ig_publish_request \<Rightarrow> ig_publish_output" where
  "ig_draft p req =
     \<lparr>gout_preview = False, gout_media_id = [], gout_page_id = p_page_id p,
      gout_ig_username = p_ig_username p, gout_media_type = ig_media_type req,
      gout_image_url = ig_image_url req, gout_video_url = ig_video_url req,
      gout_children = ig_children req, gout_caption = ig_caption req, gout_notice = []\<rparr>"

definition Service_IGPublish ::
  "machine \<Rightarrow> service \<Rightarrow> string \<Rightarrow> ig_publish_input \<Rightarrow> ig_publish_output io" where
  "Service_IGPublish e s tid i =
     bindE (Service_igPage e tid (gin_page_id i)) (\<lambda>p.
     bindE (from_res (buildIGPublishRequest e i)) (\<lambda>req.
     let out = ig_draft p req in
     if \<not> gin_confirm i then ok (out\<lparr>gout_preview := True, gout_notice := previewNotice\<rparr>)
     else bindE (IGPublish e (sv_graph s) (p_page_token p) (p_ig_user_id p) req) (\<lambda>mediaID.
       ok (out\<lparr>gout_media_id := mediaID\<rparr>))))"

section \<open>moderate_comment.go\<close>

definition AllowedModerationActions :: "string list" where
  "AllowedModerationActions = [ModerationHide, ModerationUnhide, ModerationDelete]"

record moderate_input =
  min_comment_id :: string
  min_page_id :: string
  min_action :: string
  min_confirm :: bool

record moderate_output =
  mout_preview :: bool
  mout_done :: bool
  mout_comment_id :: string
  mout_action :: string
  mout_page_id :: string
  mout_page_name :: string
  mout_notice :: string

definition moderate ::
  "machine \<Rightarrow> service \<Rightarrow> page \<Rightarrow> moderate_input \<Rightarrow> bool \<Rightarrow> moderate_output io" where
  "moderate e s p i instagram =
     (if trim_space (min_comment_id i) = [] then fail (Msg ''comment_id est obligatoire'')
      else let action = to_lower (trim_space (min_action i)) in
        if action \<notin> set AllowedModerationActions
        then fail (Msg ''action doit valoir [hide unhide delete]'')
        else let out = \<lparr>mout_preview = False, mout_done = False, mout_comment_id = min_comment_id i,
                        mout_action = action, mout_page_id = p_page_id p,
                        mout_page_name = p_name p, mout_notice = []\<rparr> in
          if \<not> min_confirm i then
            ok (out\<lparr>mout_preview := True, mout_notice := previewNotice @
              (if action = ModerationDelete then '' La suppression est definitive et irreversible.''
               else [])\<rparr>)
          else bindE
            (if action = ModerationDelete
             then DeleteObject e (sv_graph s) (p_page_token p) (min_comment_id i)
             else SetCommentHidden e (sv_graph s) (p_page_token p) (min_comment_id i)
                    (action = ModerationHide) instagram) (\<lambda>_.
            ok (out\<lparr>mout_done := True\<rparr>)))"

definition Service_ModerateComment ::
  "machine \<Rightarrow> service \<Rightarrow> string \<Rightarrow> moderate_input \<Rightarrow> moderate_output io" where
  "Service_ModerateComment e s tid i =
     bindE (Service_ownerPage e tid (min_page_id i) (min_comment_id i)) (\<lambda>p.
     moderate e s p i False)"

definition Service_IGModerateComment ::
  "machine \<Rightarrow> service \<Rightarrow> string \<Rightarrow> moderate_input \<Rightarrow> moderate_output io" where
  "Service_IGModerateComment e s tid i =
     bindE (Service_ownerIGPage e tid (min_page_id i) (min_comment_id i)) (\<lambda>p.
     moderate e s p i True)"

section \<open>page_cancel_scheduled_post.go and page_delete_post.go\<close>

record removal_input =
  din_post_id :: string
  din_page_id :: string
  din_confirm :: bool

record removal_output =
  dout_preview :: bool
  dout_done :: bool
  dout_post_id :: string
  dout_page_id :: string
  dout_page_name :: string
  dout_notice :: string

definition removal_draft :: "page \<Rightarrow> removal_input \<Rightarrow> removal_output" where
  "removal_draft p i =
     \<lparr>dout_preview = False, dout_done = False, dout_post_id = din_post_id i,
      dout_page_id = p_page_id p, dout_page_name = p_name p, dout_notice = []\<rparr>"

definition Service_PageCancelScheduledPost ::
  "machine \<Rightarrow> service \<Rightarrow> string \<Rightarrow> removal_input \<Rightarrow> removal_output io" where
  "Service_PageCancelScheduledPost e s tid i =
     (if trim_space (din_post_id i) = [] then fail (Msg ''post_id est obligatoire'')
      else bindE (Service_ownerPage e tid (din_page_id i) (din_post_id i)) (\<lambda>p.
        let out = removal_draft p i in
        if \<not> din_confirm i then
          ok (out\<lparr>dout_preview := True, dout_notice := previewNotice @
            '' L'annulation est definitive : la publication programmee sera supprimee, pas mise en pause.''\<rparr>)
        else bindE (DeleteObject e (sv_graph s) (p_page_token p) (din_post_id i)) (\<lambda>_.
          ok (out\<lparr>dout_done := True\<rparr>))))"

definition Service_PageDeletePost ::
  "machine \<Rightarrow> service \<Rightarrow> string \<Rightarrow> removal_input \<Rightarrow> removal_output io" where
  "Service_PageDeletePost e s tid i =
     (if trim_space (din_post_id i) = [] then fail (Msg ''post_id est obligatoire'')
      else bindE (Service_ownerPage e tid (din_page_id i) (din_post_id i)) (\<lambda>p.
        let out = removal_draft p i in
        if \<not> din_confirm i then
          ok (out\<lparr>dout_preview := True, dout_notice := previewNotice @
            '' La suppression est definitive : la publication, ses reactions et ses commentaires disparaissent.''\<rparr>)
        else bindE (DeleteObject e (sv_graph s) (p_page_token p) (din_post_id i)) (\<lambda>_.
          ok (out\<lparr>dout_done := True\<rparr>))))"

end
