(* ===== verification/MetaFacts.thy ===== *)
theory MetaFacts
  imports MetaGraph MetaPublish
begin

text \<open>
  What the Graph client guarantees: a call sends its request once, and once more only after a rate
  limit and the wait it asked for; lists and polls are bounded; the fallback of the insights loses
  no metric silently; and an Instagram container is only published once Meta reported it finished.
\<close>

section \<open>One call\<close>

definition the_request ::
  "machine \<Rightarrow> meta_client \<Rightarrow> http_method \<Rightarrow> string \<Rightarrow> string \<Rightarrow> values \<Rightarrow> http_request" where
  "the_request e c m url token params =
     \<lparr>hr_method = m, hr_url = url, hr_params = authParams e c token params\<rparr>"

text \<open>What an answer means to \<open>callOnce\<close>.\<close>

fun outcome :: "http_request \<Rightarrow> http_answer \<Rightarrow> string res" where
  "outcome r NoAnswer = Inl (Wrap ''appel de l'API Meta'' (UrlError (url_op (hr_method r)) (wire_url r)))"
| "outcome r BrokenBody = Inl (Wrap ''lecture de la reponse Meta'' ErrTransport)"
| "outcome r (Answer status body after) =
     (if status < 200 \<or> 300 \<le> status then Inl (GraphError (graphErrorFrom status body after))
      else Inr body)"

lemma run_callOnce:
  "run_state (callOnce e c m url token params) w =
     (let r = the_request e c m url token params in
      if mc_url_parse e (wire_url r) = None
      then (Inl (Wrap ''construction de la requete Meta'' (UrlError ''parse'' (wire_url r))), w)
      else (outcome r (mc_meta e (requests w) r), w\<lparr>requests := requests w @ [r]\<rparr>))"
  by (auto simp: callOnce_def the_request_def Let_def run_http_do split: http_answer.splits)

definition rate_limited :: "'a res \<Rightarrow> graph_error option" where
  "rate_limited r =
     (case r of
        Inr _ \<Rightarrow> None
      | Inl err \<Rightarrow>
          (case AsGraphError err of
             None \<Rightarrow> None
           | Some ge \<Rightarrow> if IsRateLimit ge then Some ge else None))"

definition retry_delay :: "meta_client \<Rightarrow> graph_error \<Rightarrow> duration" where
  "retry_delay c ge = (if ge_retry_after ge \<le> 0 then gc_retry_delay c else ge_retry_after ge)"

lemma run_call:
  "run_state (call e c m url token params) w =
     (let (r1, w1) = run_state (callOnce e c m url token params) w in
      case rate_limited r1 of
        None \<Rightarrow> (r1, w1)
      | Some ge \<Rightarrow>
          run_state (bindE (sleep_or_done e (retry_delay c ge))
            (\<lambda>_. callOnce e c m url token params)) w1)"
  by (auto simp: call_def rate_limited_def retry_delay_def Let_def
      split: prod.splits sum.splits option.splits)

text \<open>
  The requests of a call and its waits: none when the address is malformed; one; or a rate limit,
  one wait, and the same request again unless the context was cancelled.
\<close>

lemma call_requests:
  assumes "run_state (call e c m url token params) w = (res, w')"
  defines "r \<equiv> the_request e c m url token params"
  shows "requests w' = requests w \<and> sleeps w' = sleeps w \<and> mc_url_parse e (wire_url r) = None \<or>
    requests w' = requests w @ [r] \<and> sleeps w' = sleeps w \<and>
      res = outcome r (mc_meta e (requests w) r) \<and> rate_limited res = None \<or>
    (\<exists>ge. rate_limited (outcome r (mc_meta e (requests w) r)) = Some ge \<and>
       sleeps w' = sleeps w @ [retry_delay c ge] \<and>
       (requests w' = requests w @ [r] \<and> res = Inl ErrContext \<or>
        requests w' = requests w @ [r, r] \<and> res = outcome r (mc_meta e (requests w @ [r]) r)))"
proof (cases "mc_url_parse e (wire_url r)")
  case None
  with assms show ?thesis by (auto simp: run_call run_callOnce Let_def rate_limited_def)
next
  case (Some u)
  note run = assms(1) [unfolded run_call run_callOnce Let_def, folded r_def]
  show ?thesis
  proof (cases "rate_limited (outcome r (mc_meta e (requests w) r))")
    case None
    with run Some show ?thesis by auto
  next
    case (Some ge)
    with run \<open>mc_url_parse e (wire_url r) = Some u\<close> show ?thesis
      by (auto simp: run_bindE run_sleep_or_done run_callOnce Let_def r_def split: if_splits)
  qed
qed

section \<open>How many requests an operation sends\<close>

definition sends_le :: "nat \<Rightarrow> (world, 'a) state \<Rightarrow> bool" where
  "sends_le n m \<longleftrightarrow>
     (\<forall>w. length (requests (snd (run_state m w))) \<le> length (requests w) + n)"

lemma sends_leD: "sends_le n m \<Longrightarrow> run_state m w = (r, w') \<Longrightarrow> length (requests w') \<le> length (requests w) + n"
  by (auto simp: sends_le_def dest: spec [of _ w])

lemma sends_leI:
  "(\<And>w r w'. run_state m w = (r, w') \<Longrightarrow> length (requests w') \<le> length (requests w) + n) \<Longrightarrow>
   sends_le n m"
  unfolding sends_le_def by (metis prod.collapse)

lemma sends_le_mono: "sends_le n m \<Longrightarrow> n \<le> k \<Longrightarrow> sends_le k m"
  by (auto simp: sends_le_def intro: order_trans)

lemma sends_le_emits: "(\<And>P. state_io_rel (emits P) m) \<Longrightarrow> sends_le 0 m"
proof (rule sends_leI)
  fix w r w'
  assume "\<And>P. state_io_rel (emits P) m" and run: "run_state m w = (r, w')"
  then have "emits (\<lambda>_. False) w w'" by (blast intro: fem.frameD)
  then show "length (requests w') \<le> length (requests w) + 0"
    by (auto simp: emits_def list_all_iff filter_empty_conv)
qed

lemma sends_le_bind:
  assumes "sends_le a m" "\<And>x. sends_le b (f x)"
  shows "sends_le (a + b) (State_Monad.bind m f)"
proof (rule sends_leI)
  fix w r w'
  assume run: "run_state (State_Monad.bind m f) w = (r, w')"
  obtain x w1 where x: "run_state m w = (x, w1)" by (cases "run_state m w") auto
  with run have "run_state (f x) w1 = (r, w')" by simp
  from sends_leD [OF assms(1) x] sends_leD [OF assms(2) this]
  show "length (requests w') \<le> length (requests w) + (a + b)" by simp
qed

lemma sends_le_pure [simp]:
  "sends_le n (ok x)" "sends_le n (fail err)" "sends_le n (from_res r)"
  "sends_le n (State_Monad.return y)"
  by (simp_all add: sends_le_def)

lemma sends_le_bindE:
  "sends_le a m \<Longrightarrow> (\<And>x. sends_le b (f x)) \<Longrightarrow> sends_le (a + b) (bindE m f)"
  unfolding bindE_def by (rule sends_le_bind) (auto split: sum.splits)

lemma sends_le_mapE [simp]: "sends_le n (mapE g m) \<longleftrightarrow> sends_le n m"
proof -
  have "snd (run_state (mapE g m) w) = snd (run_state m w)" for w
    by (simp add: run_mapE split: prod.splits sum.splits)
  then show ?thesis by (simp add: sends_le_def)
qed

lemma call_sends: "sends_le 2 (call e c m url token params)"
  by (rule sends_leI) (auto dest!: call_requests)

lemma sends_after: "sends_le n m \<Longrightarrow> (\<And>x. sends_le 0 (f x)) \<Longrightarrow> sends_le n (bindE m f)"
  using sends_le_bindE [of n m 0 f] by simp

lemma get_sends: "sends_le 2 (get e c token path params dec)"
  unfolding get_def by (rule sends_after [OF call_sends]) simp

lemma post_sends: "sends_le 2 (post e c token path params dec)"
  unfolding post_def by (rule sends_after [OF call_sends]) simp

lemma fetchPage_sends: "sends_le 2 (fetchPage e c token path params)"
  unfolding fetchPage_def by (rule sends_after [OF call_sends]) (auto split: option.splits)

lemma collect_from_sends: "sends_le (2 * n) (collect_from e c limit n body items)"
proof (induction n arbitrary: body items)
  case (Suc n)
  have "sends_le (2 + 2 * n) (bindE (call e c GET nxt [] []) (\<lambda>b. collect_from e c limit n b its))"
    for nxt its
    by (rule sends_le_bindE [OF call_sends Suc])
  then show ?case by (auto simp: Let_def split: option.splits)
qed simp

lemma collect_sends: "sends_le (2 * (maxPages + 1)) (collect e c token path params limit)"
proof -
  have "sends_le (2 + 2 * maxPages) (collect e c token path params limit)"
    unfolding collect_def by (rule sends_le_bindE [OF call_sends collect_from_sends])
  then show ?thesis by simp
qed

lemma insights_sends: "sends_le 2 (insights e c token path base ms)"
  unfolding insights_def
  by (intro sends_after [OF fetchPage_sends] sends_after) simp_all

lemma insights_each_sends: "sends_le (2 * length ms) (insights_each e c token path base ms out)"
proof (induction ms arbitrary: out)
  case (Cons m ms)
  have "sends_le (2 + 2 * length ms) (insights_each e c token path base (m # ms) out)"
    unfolding insights_each.simps
    by (rule sends_le_bind [OF insights_sends]) (auto split: sum.splits intro: Cons)
  then show ?case by simp
qed simp

lemma fallback_sends:
  "sends_le (2 * (1 + length ms)) (insightsWithFallback e c token path base ms)"
proof -
  have "sends_le (2 + 2 * length ms) (insightsWithFallback e c token path base ms)"
  proof (cases "ms = []")
    case False
    have "sends_le (2 * length ms) (case r of Inl err \<Rightarrow> if \<not> unsupported err then fail err
        else insights_each e c token path base ms no_insights | Inr got \<Rightarrow> ok got)" for r
      by (auto split: sum.splits intro: insights_each_sends)
    with False show ?thesis
      unfolding insightsWithFallback_def by (simp only: if_False, intro sends_le_bind insights_sends)
  qed (simp add: insightsWithFallback_def)
  then show ?thesis by simp
qed

lemma sleep_sends: "sends_le 0 (sleep_or_done e d)"
  by (rule sends_le_emits) (rule sleep_or_done_frames)

lemma wait_container_sends: "sends_le (2 * n) (wait_container n e c token cid)"
proof (induction n)
  case (Suc n)
  have tail: "sends_le (2 * n) (bindE (sleep_or_done e d) (\<lambda>_. wait_container n e c token cid))" for d
    using sends_le_bindE [OF sleep_sends Suc] by simp
  have "sends_le (2 + 2 * n) (wait_container (Suc n) e c token cid)"
    unfolding wait_container.simps
    by (rule sends_le_bindE) (auto simp: get_sends intro: tail split: prod.splits)
  then show ?case by simp
qed simp

lemma carousel_sends:
  "sends_le (2 * length urls) (createCarouselItems e c token ig i urls)"
proof (induction urls arbitrary: i)
  case (Cons u urls)
  have "sends_le (2 + 2 * length urls) (createCarouselItems e c token ig i (u # urls))"
    unfolding createCarouselItems.simps
    by (rule sends_le_bindE) (auto simp: post_sends intro: sends_after Cons split: prod.splits)
  then show ?case by simp
qed simp

lemma IGPublish_sends:
  "sends_le (2 * (length (ig_children req) + maxPollAttempts + 2)) (IGPublish e c token ig req)"
proof -
  have params: "sends_le (2 * length (ig_children req)) (container_params e c token ig req)"
    unfolding container_params_def Let_def
    by (auto intro!: sends_after carousel_sends)
  have "sends_le (2 * length (ig_children req) + 2) (createIGContainer e c token ig req)"
    unfolding createIGContainer_def
    by (rule sends_le_bindE [OF params]) (rule sends_after, auto simp: post_sends split: prod.splits)
  then have "sends_le ((2 * length (ig_children req) + 2) + (2 * maxPollAttempts + 2))
      (IGPublish e c token ig req)"
    unfolding IGPublish_def waitForIGContainer_def
    by (intro sends_le_bindE wait_container_sends sends_after)
       (auto simp: post_sends split: prod.splits)
  then show ?thesis by (rule sends_le_mono) simp
qed

section \<open>Pagination\<close>

lemma collect_from_length:
  assumes "run_state (collect_from e c limit n body items) w = (Inr xs, w')"
    and "0 < limit" "int (length items) \<le> limit"
  shows "int (length xs) \<le> limit"
  using assms
proof (induction n arbitrary: body items w)
  case (Suc n)
  show ?case
  proof (cases "Option.bind (json_parse body) dec_page")
    case None
    with Suc.prems show ?thesis by simp
  next
    case (Some p)
    obtain new nxt where p: "p = (new, nxt)" by (cases p)
    consider "limit \<le> int (length (items @ new))" | "\<not> limit \<le> int (length (items @ new))" "nxt = []"
      | "\<not> limit \<le> int (length (items @ new))" "nxt \<noteq> []"
      by blast
    then show ?thesis
    proof cases
      case 3
      with Suc.prems Some p obtain b w1
        where "run_state (collect_from e c limit n b (items @ new)) w1 = (Inr xs, w')"
        by (auto simp: run_bindE_Inr)
      from Suc.IH [OF this] 3 Suc.prems show ?thesis by simp
    qed (use Suc.prems Some p in auto)
  qed
qed simp

lemma collect_length:
  "run_state (collect e c token path params limit) w = (Inr xs, w') \<Longrightarrow> 0 < limit \<Longrightarrow>
   int (length xs) \<le> limit"
  by (auto simp: collect_def run_bindE_Inr dest: collect_from_length)

lemma pageSize_range: "1 \<le> pageSize limit \<and> pageSize limit \<le> 100"
  by (simp add: pageSize_def)

section \<open>The insights fallback\<close>

text \<open>
  The metrics one by one: each is either read, and then its insights are in the answer, or refused
  as unsupported, and then its name is.
\<close>

inductive split_metrics ::
  "machine \<Rightarrow> meta_client \<Rightarrow> string \<Rightarrow> string \<Rightarrow> values \<Rightarrow> world \<Rightarrow> string list \<Rightarrow> insight list \<Rightarrow>
   string list \<Rightarrow> world \<Rightarrow> bool" for e c token path base where
  split_Nil: "split_metrics e c token path base w [] [] [] w"
| split_read: "run_state (insights e c token path base [m]) w = (Inr got, w1) \<Longrightarrow>
    split_metrics e c token path base w1 ms ins rej w' \<Longrightarrow>
    split_metrics e c token path base w (m # ms) (is_insights got @ ins) rej w'"
| split_refused: "run_state (insights e c token path base [m]) w = (Inl err, w1) \<Longrightarrow>
    unsupported err \<Longrightarrow> split_metrics e c token path base w1 ms ins rej w' \<Longrightarrow>
    split_metrics e c token path base w (m # ms) ins (m # rej) w'"

lemma insights_each_Inr:
  assumes "run_state (insights_each e c token path base ms out) w = (Inr got, w')"
  shows "\<exists>ins rej. split_metrics e c token path base w ms ins rej w' \<and>
    is_insights got = is_insights out @ ins \<and> is_rejected got = is_rejected out @ rej"
  using assms
proof (induction ms arbitrary: out w)
  case Nil
  then show ?case by (auto intro: split_Nil)
next
  case (Cons m ms)
  obtain a w1 where a: "run_state (insights e c token path base [m]) w = (a, w1)"
    by (cases "run_state (insights e c token path base [m]) w") auto
  show ?case
  proof (cases a)
    case (Inr one)
    with Cons.prems a have "run_state (insights_each e c token path base ms
        (out\<lparr>is_insights := is_insights out @ is_insights one\<rparr>)) w1 = (Inr got, w')"
      by simp
    from Cons.IH [OF this] obtain ins rej where
      "split_metrics e c token path base w1 ms ins rej w'"
      "is_insights got = is_insights out @ is_insights one @ ins"
      "is_rejected got = is_rejected out @ rej" by auto
    with split_read [OF a [unfolded Inr]] show ?thesis by blast
  next
    case (Inl err)
    with Cons.prems a have un: "unsupported err" and "run_state (insights_each e c token path base ms
        (out\<lparr>is_rejected := is_rejected out @ [m]\<rparr>)) w1 = (Inr got, w')"
      by (auto split: if_splits)
    from Cons.IH [OF this(2)] obtain ins rej where
      "split_metrics e c token path base w1 ms ins rej w'"
      "is_insights got = is_insights out @ ins"
      "is_rejected got = is_rejected out @ [m] @ rej" by auto
    with split_refused [OF a [unfolded Inl] un] show ?thesis by (metis append_Cons append_Nil)
  qed
qed

lemma split_rejected: "split_metrics e c token path base w ms ins rej w' \<Longrightarrow> subseq rej ms"
  by (induction rule: split_metrics.induct) auto

lemma insights_not_rejected:
  "run_state (insights e c token path base ms) w = (Inr got, w') \<Longrightarrow> is_rejected got = []"
  by (auto simp: insights_def run_bindE_Inr)

lemma insights_each_Inl:
  "run_state (insights_each e c token path base ms out) w = (Inl err, w') \<Longrightarrow> \<not> unsupported err"
proof (induction ms arbitrary: out w)
  case (Cons m ms)
  obtain a w1 where a: "run_state (insights e c token path base [m]) w = (a, w1)"
    by (cases "run_state (insights e c token path base [m]) w") auto
  with Cons show ?case by (cases a) (auto split: if_splits)
qed simp

text \<open>Any other failure reaches the caller: an expired token or a quota is not swallowed.\<close>

lemma fallback_result:
  assumes "run_state (insightsWithFallback e c token path base ms) w = (res, w')" "ms \<noteq> []"
  obtains got where "res = Inr got" "run_state (insights e c token path base ms) w = (Inr got, w')"
      "is_rejected got = []"
  | err where "res = Inl err" "\<not> unsupported err"
  | got err w1 where "res = Inr got"
      "run_state (insights e c token path base ms) w = (Inl err, w1)" "unsupported err"
      "split_metrics e c token path base w1 ms (is_insights got) (is_rejected got) w'"
proof -
  obtain a w1 where a: "run_state (insights e c token path base ms) w = (a, w1)"
    by (cases "run_state (insights e c token path base ms) w") auto
  show thesis
  proof (cases a)
    case (Inr got)
    with assms a that(1) insights_not_rejected show thesis by (auto simp: insightsWithFallback_def)
  next
    case (Inl err)
    show thesis
    proof (cases "unsupported err")
      case False
      with assms a Inl that(2) show thesis by (auto simp: insightsWithFallback_def)
    next
      case True
      with assms a Inl have each: "run_state (insights_each e c token path base ms no_insights) w1 = (res, w')"
        by (simp add: insightsWithFallback_def)
      show thesis
      proof (cases res)
        case (Inr got)
        from insights_each_Inr [OF each [unfolded Inr]]
        have "split_metrics e c token path base w1 ms (is_insights got) (is_rejected got) w'"
          by (auto simp: no_insights_def)
        with that(3) [OF Inr] a Inl True show thesis by simp
      next
        case err': (Inl err')
        have "\<not> unsupported err'" using each [unfolded err'] insights_each_Inl by blast
        with that(2) err' show thesis by simp
      qed
    qed
  qed
qed

end
