(* ===== verification/MetaTrace.thy ===== *)
theory MetaTrace
  imports MetaFacts
begin

text \<open>
  Where the requests of the Graph client go. Every request of an operation is addressed to one of
  the nodes the operation is about, or follows an answer that Meta gave to an earlier request of
  the same operation: the next page of a list, or the container it created. And what the writes
  send, request by request.
\<close>

section \<open>Answers among the requests of an operation\<close>

text \<open>Meta answered the request \<open>r\<close> with \<open>body\<close>, at or after the position \<open>n\<close> of the requests \<open>rs\<close>.\<close>

definition answered :: "machine \<Rightarrow> nat \<Rightarrow> http_request list \<Rightarrow> http_request \<Rightarrow> string \<Rightarrow> bool" where
  "answered e n rs r body \<longleftrightarrow> (\<exists>j. n \<le> j \<and> j < length rs \<and> rs ! j = r \<and>
     (\<exists>status after. mc_meta e (take j rs) r = Answer status body after \<and> 200 \<le> status \<and> status < 300))"

lemma answered_mono:
  assumes "answered e n rs r body" "k \<le> n"
  shows "answered e k (rs @ us) r body"
proof -
  from assms(1) obtain j status after where "n \<le> j" "j < length rs" "rs ! j = r"
    "mc_meta e (take j rs) r = Answer status body after" "200 \<le> status" "status < 300"
    by (auto simp: answered_def)
  with assms(2) show ?thesis
    unfolding answered_def by (intro exI [of _ j]) (auto simp: nth_append)
qed

lemmas answered_append = answered_mono [OF _ le_refl]
lemmas answered_earlier = answered_mono [where us = "[]", unfolded append_Nil2]

lemma answered_last:
  "mc_meta e rs r = Answer status body after \<Longrightarrow> 200 \<le> status \<Longrightarrow> status < 300 \<Longrightarrow>
   n \<le> length rs \<Longrightarrow> answered e n (rs @ [r]) r body"
  unfolding answered_def by (intro exI [of _ "length rs"]) auto

lemma outcome_Inr:
  "outcome r a = Inr body \<longleftrightarrow> (\<exists>status after. a = Answer status body after \<and> 200 \<le> status \<and> status < 300)"
  by (cases a) (auto simp: not_less)

text \<open>A call sends its request, once or twice, and returns what Meta answered to it.\<close>

lemma call_sent:
  assumes "run_state (call e c m url token params) w = (res, w')"
  obtains k where "k \<le> 2" "requests w' = requests w @ replicate k (the_request e c m url token params)"
    and "\<And>body. res = Inr body \<Longrightarrow>
      answered e (length (requests w)) (requests w') (the_request e c m url token params) body"
proof -
  let ?r = "the_request e c m url token params"
  have bad: "res = Inl err" if "mc_url_parse e (wire_url ?r) = None" "err = Wrap ''construction de la requete Meta'' (UrlError ''parse'' (wire_url ?r))" for err
    using assms that by (simp add: run_call run_callOnce Let_def rate_limited_def)
  from call_requests [OF assms] show thesis
  proof (elim disjE exE conjE)
    assume "requests w' = requests w" "mc_url_parse e (wire_url ?r) = None"
    with bad show thesis using that [of 0] by simp
  next
    assume "requests w' = requests w @ [?r]" "res = outcome ?r (mc_meta e (requests w) ?r)"
    then show thesis using that [of 1] by (auto simp: outcome_Inr dest: sym intro: answered_last)
  next
    assume "requests w' = requests w @ [?r]" "res = Inl ErrContext"
    then show thesis using that [of 1] by simp
  next
    assume rs: "requests w' = requests w @ [?r, ?r]"
      and res: "res = outcome ?r (mc_meta e (requests w @ [?r]) ?r)"
    have "answered e (length (requests w)) (requests w') ?r body" if "res = Inr body" for body
    proof -
      from res that obtain status after where a: "mc_meta e (requests w @ [?r]) ?r = Answer status body after"
        "200 \<le> status" "status < 300" by (auto simp: outcome_Inr dest!: sym [of "Inr body"])
      show ?thesis using answered_last [OF a, of "length (requests w)"] by (simp add: rs)
    qed
    then show thesis using that [of 2] rs by (simp add: numeral_2_eq_2)
  qed
qed

section \<open>Addresses\<close>

definition addresses :: "meta_client \<Rightarrow> string list \<Rightarrow> http_request \<Rightarrow> bool" where
  "addresses c paths r \<longleftrightarrow> hr_url r \<in> endpoint c ` set paths"

text \<open>What an answer leads to: the next page it links to, or the state of the object it created.\<close>

definition follows :: "meta_client \<Rightarrow> string \<Rightarrow> http_request \<Rightarrow> bool" where
  "follows c body r \<longleftrightarrow> hr_method r = GET \<and>
     ((\<exists>items. Option.bind (json_parse body) dec_page = Some (items, hr_url r) \<and> hr_params r = []) \<or>
      (\<exists>i p. Option.bind (json_parse body) dec_id = Some (i, p) \<and> i \<noteq> [] \<and> hr_url r = endpoint c i))"

text \<open>The requests from position \<open>n\<close> on are addressed to the nodes \<open>paths\<close>, or follow an answer.\<close>

definition reaches_only :: "machine \<Rightarrow> meta_client \<Rightarrow> string list \<Rightarrow> nat \<Rightarrow> http_request list \<Rightarrow> bool" where
  "reaches_only e c paths n rs \<longleftrightarrow> (\<forall>i. n \<le> i \<and> i < length rs \<longrightarrow> addresses c paths (rs ! i) \<or>
     (\<exists>r body. answered e n (take i rs) r body \<and> follows c body (rs ! i)))"

lemma reaches_only_same [simp]: "length rs \<le> n \<Longrightarrow> reaches_only e c paths n rs"
  by (auto simp: reaches_only_def)

lemma reaches_only_snoc:
  "reaches_only e c paths n (rs @ [r]) \<longleftrightarrow> reaches_only e c paths n rs \<and>
     (n \<le> length rs \<longrightarrow> addresses c paths r \<or> (\<exists>q body. answered e n rs q body \<and> follows c body r))"
  unfolding reaches_only_def by (auto simp: nth_append less_Suc_eq)

lemma reaches_only_replicate:
  assumes "reaches_only e c paths n rs"
    and "addresses c paths r \<or> (\<exists>q body. answered e n rs q body \<and> follows c body r)"
  shows "reaches_only e c paths n (rs @ replicate k r)"
proof (induction k)
  case (Suc k)
  have eq: "rs @ replicate (Suc k) r = (rs @ replicate k r) @ [r]"
    by (simp add: replicate_append_same)
  show ?case
    unfolding eq reaches_only_snoc using Suc assms(2) answered_append by blast
qed (use assms(1) in simp)

lemma reaches_only_subset: "reaches_only e c paths n rs \<Longrightarrow> set paths \<subseteq> set paths' \<Longrightarrow> reaches_only e c paths' n rs"
  unfolding reaches_only_def addresses_def by (meson image_mono subsetD)

text \<open>As a frame: an operation keeps what was sent before within its nodes.\<close>

definition traces :: "machine \<Rightarrow> meta_client \<Rightarrow> string list \<Rightarrow> world \<Rightarrow> world \<Rightarrow> bool" where
  "traces e c paths w w' \<longleftrightarrow> prefix (requests w) (requests w') \<and>
     (\<forall>n \<le> length (requests w). reaches_only e c paths n (requests w) \<longrightarrow> reaches_only e c paths n (requests w'))"

lemma traces_quiet: "requests w' = requests w \<Longrightarrow> traces e c paths w w'"
  by (simp add: traces_def)

interpretation ftr: frame "traces e c paths" for e c paths
proof
  show "traces e c paths s s" for s by (simp add: traces_def)
  show "traces e c paths s u" if "traces e c paths s t" "traces e c paths t u" for s t u
    using that prefix_length_le [of "requests s" "requests t"]
    by (auto simp: traces_def intro: prefix_order.trans)
qed

lemma emits_traces: "state_io_rel (emits (\<lambda>_. False)) m \<Longrightarrow> state_io_rel (traces e c paths) m"
  by (rule state_io_relI) (auto dest!: fem.frameD intro!: traces_quiet simp: emits_def list_all_iff filter_empty_conv)

lemmas effects_trace = clock_now_frames(2) [THEN emits_traces] ctx_err_frames(2) [THEN emits_traces]
  sleep_or_done_frames(2) [THEN emits_traces]

lemma call_traces:
  assumes "url \<in> endpoint c ` set paths"
  shows "state_io_rel (traces e c paths) (call e c m url token params)"
proof
  fix w res w'
  assume "run_state (call e c m url token params) w = (res, w')"
  then obtain k where "requests w' = requests w @ replicate k (the_request e c m url token params)"
    using call_sent by metis
  with assms show "traces e c paths w w'"
    by (auto simp: traces_def addresses_def the_request_def intro!: reaches_only_replicate)
qed

text \<open>The pages after the first one are those the answers link to.\<close>

lemma collect_from_traced:
  assumes "run_state (collect_from e c limit k body items) w = (res, w')"
    and "reaches_only e c paths n (requests w)" "answered e n (requests w) r body" "n \<le> length (requests w)"
  shows "prefix (requests w) (requests w') \<and> reaches_only e c paths n (requests w')"
  using assms
proof (induction k arbitrary: body items w r)
  case (Suc k)
  show ?case
  proof (cases "Option.bind (json_parse body) dec_page")
    case None
    with Suc.prems show ?thesis by simp
  next
    case (Some p)
    obtain new nxt where p: "p = (new, nxt)" by (cases p)
    let ?items = "items @ new"
    show ?thesis
    proof (cases "0 < limit \<and> limit \<le> int (length ?items) \<or> nxt = []")
      case True
      with Suc.prems(1) Some p have "w' = w" by (auto simp: Let_def split: if_splits)
      with Suc.prems(2) show ?thesis by simp
    next
      case False
      with Suc.prems(1) Some p have run: "run_state (bindE (call e c GET nxt [] [])
          (\<lambda>body'. collect_from e c limit k body' ?items)) w = (res, w')"
        by (auto simp: Let_def split: if_splits)
      obtain q w1 where q: "run_state (call e c GET nxt [] []) w = (q, w1)"
        by (cases "run_state (call e c GET nxt [] []) w")
      let ?r = "the_request e c GET nxt [] []"
      obtain m where rs: "requests w1 = requests w @ replicate m ?r"
        and ans: "\<And>b. q = Inr b \<Longrightarrow> answered e (length (requests w)) (requests w1) ?r b"
        using call_sent [OF q] by metis
      have "follows c body ?r"
        using Some p by (auto simp: follows_def the_request_def authParams_def)
      with Suc.prems(2,3) have tr: "reaches_only e c paths n (requests w1)"
        unfolding rs by (blast intro: reaches_only_replicate)
      show ?thesis
      proof (cases q)
        case (Inl err)
        with run q rs tr show ?thesis by (simp add: run_bindE)
      next
        case (Inr b)
        with run q have "run_state (collect_from e c limit k b ?items) w1 = (res, w')"
          by (simp add: run_bindE)
        from Suc.IH [OF this tr answered_earlier [OF ans [OF Inr] Suc.prems(4)]] Suc.prems(4) rs
        show ?thesis by (auto intro: prefix_order.trans [OF prefixI])
      qed
    qed
  qed
qed simp

lemma client_traces:
  assumes "path \<in> set paths"
  shows "state_io_rel (traces e c paths) (get e c token path params dec)"
    and "state_io_rel (traces e c paths) (post e c token path params dec)"
    and "state_io_rel (traces e c paths) (fetchPage e c token path params)"
    and "state_io_rel (traces e c paths) (collect e c token path params limit)"
proof -
  have url: "endpoint c path \<in> endpoint c ` set paths" using assms by simp
  show "state_io_rel (traces e c paths) (get e c token path params dec)"
    and "state_io_rel (traces e c paths) (post e c token path params dec)"
    and "state_io_rel (traces e c paths) (fetchPage e c token path params)"
    unfolding get_def post_def fetchPage_def by (intro ftr.rules call_traces [OF url])+
  show "state_io_rel (traces e c paths) (collect e c token path params limit)"
  proof
    fix w res w'
    assume run: "run_state (collect e c token path params limit) w = (res, w')"
    let ?m = "call e c GET (endpoint c path) token params"
    obtain q w1 where q: "run_state ?m w = (q, w1)" by (cases "run_state ?m w")
    have tr: "traces e c paths w w1" by (rule ftr.frameD [OF call_traces [OF url] q])
    show "traces e c paths w w'"
    proof (cases q)
      case (Inl err)
      with run q tr show ?thesis by (simp add: collect_def run_bindE)
    next
      case (Inr body)
      with run q have rest: "run_state (collect_from e c limit maxPages body []) w1 = (res, w')"
        by (simp add: collect_def run_bindE)
      obtain r where ans: "answered e (length (requests w)) (requests w1) r body"
        using call_sent [OF q] Inr by metis
      have "prefix (requests w) (requests w1)" using tr by (simp add: traces_def)
      then have len: "length (requests w) \<le> length (requests w1)" by (rule prefix_length_le)
      have both: "prefix (requests w) (requests w') \<and> reaches_only e c paths n (requests w')"
        if "n \<le> length (requests w)" "reaches_only e c paths n (requests w)" for n
        using collect_from_traced [OF rest _ answered_earlier [OF ans that(1)]] that tr len
        by (auto simp: traces_def intro: prefix_order.trans)
      from both [OF le_refl reaches_only_same] both show ?thesis by (simp add: traces_def)
    qed
  qed
qed

section \<open>Where the operations of the adapter go\<close>

lemma insights_traces: "path \<in> set paths \<Longrightarrow> state_io_rel (traces e c paths) (insights e c token path base ms)"
  unfolding insights_def by (intro ftr.rules client_traces)

lemma insights_each_traces:
  "path \<in> set paths \<Longrightarrow> state_io_rel (traces e c paths) (insights_each e c token path base ms out)"
  by (induction ms arbitrary: out) (auto intro!: ftr.rules insights_traces split: sum.splits)

lemma fallback_traces:
  "path \<in> set paths \<Longrightarrow> state_io_rel (traces e c paths) (insightsWithFallback e c token path base ms)"
  unfolding insightsWithFallback_def
  by (auto intro!: ftr.rules insights_traces insights_each_traces split: sum.splits)

lemma graph_traces:
  "state_io_rel (traces e c [i @ ''/insights'']) (PageInsights e c token i ms a b)"
  "state_io_rel (traces e c [i @ ''/insights'']) (PostInsights e c token i ms)"
  "state_io_rel (traces e c [i @ ''/insights'']) (IGMediaInsights e c token i ms)"
  "state_io_rel (traces e c [i @ ''/insights'']) (IGAccountInsights e c token i ms a b)"
  "state_io_rel (traces e c [i @ ''/insights'']) (IGFollowerDemographics e c token i k)"
  "state_io_rel (traces e c [i @ ''/posts'']) (PagePosts e c token i a n)"
  "state_io_rel (traces e c [i @ ''/comments'']) (PostComments e c token i n)"
  "state_io_rel (traces e c [i @ ''/comments'']) (IGMediaComments e c token i n)"
  "state_io_rel (traces e c [i @ ''/media'']) (IGMedia e c token i a n)"
  "state_io_rel (traces e c [i @ ''/stories'']) (IGStories e c token i)"
  "state_io_rel (traces e c [i, i @ ''/ratings'']) (PageRatings e c token i n)"
  "state_io_rel (traces e c [i @ ''/scheduled_posts'']) (ScheduledPosts e c token i n)"
  unfolding PageInsights_def PostInsights_def IGMediaInsights_def IGAccountInsights_def
    IGFollowerDemographics_def PagePosts_def PostComments_def IGMediaComments_def comments_def
    IGMedia_def IGStories_def PageRatings_def ScheduledPosts_def collect_plain_def Let_def
  by (intro ftr.rules fallback_traces client_traces; simp)+

lemma write_traces:
  "state_io_rel (traces e c [i @ ''/photos'', i @ ''/feed'']) (PublishPost e c token i req)"
  "state_io_rel (traces e c [i @ ''/comments'']) (ReplyToComment e c token i msg)"
  "state_io_rel (traces e c [i @ ''/replies'']) (IGReplyToComment e c token i msg)"
  "state_io_rel (traces e c [i]) (SetCommentHidden e c token i h b)"
  "state_io_rel (traces e c [i]) (DeleteObject e c token i)"
  unfolding PublishPost_def ReplyToComment_def IGReplyToComment_def SetCommentHidden_def
    DeleteObject_def Let_def
  by (intro ftr.rules client_traces; simp)+

text \<open>The container an Instagram publication waits for is the one Meta just created.\<close>

lemma post_sent:
  assumes "run_state (post e c token path params dec) w = (res, w')"
  obtains k where "k \<le> 2"
    "requests w' = requests w @ replicate k (the_request e c POST (endpoint c path) token params)"
    "\<And>x. res = Inr x \<Longrightarrow> \<exists>body. Option.bind (json_parse body) dec = Some x \<and>
       answered e (length (requests w)) (requests w') (the_request e c POST (endpoint c path) token params) body"
proof -
  obtain q w1 where q: "run_state (call e c POST (endpoint c path) token params) w = (q, w1)"
    by (cases "run_state (call e c POST (endpoint c path) token params) w")
  have w1: "w1 = w'" and res: "\<And>x. res = Inr x \<Longrightarrow> \<exists>body. q = Inr body \<and> Option.bind (json_parse body) dec = Some x"
    using assms q by (cases q; auto simp: post_def run_bindE decodeInto_def split: option.splits)+
  from call_sent [OF q] show thesis using that res unfolding w1 by metis
qed

lemma get_follows:
  assumes "run_state (get e c token i params dec) w = (res, w')"
    and "Option.bind (json_parse body) dec_id = Some (i, p)" "i \<noteq> []"
    and "reaches_only e c paths n (requests w)" "answered e n (requests w) r body"
  shows "prefix (requests w) (requests w') \<and> reaches_only e c paths n (requests w')"
proof -
  obtain q w1 where q: "run_state (call e c GET (endpoint c i) token params) w = (q, w1)"
    by (cases "run_state (call e c GET (endpoint c i) token params) w")
  have w1: "w1 = w'" using assms(1) q by (auto simp: get_def run_bindE split: sum.splits)
  obtain k where k: "requests w' = requests w @ replicate k (the_request e c GET (endpoint c i) token params)"
    using call_sent [OF q] unfolding w1 by metis
  have "follows c body (the_request e c GET (endpoint c i) token params)"
    using assms(2,3) by (auto simp: follows_def the_request_def)
  with assms(4,5) show ?thesis unfolding k by (blast intro: reaches_only_replicate prefixI)
qed

lemma wait_traced:
  assumes "run_state (wait_container k e c token i) w = (res, w')"
    and "Option.bind (json_parse body) dec_id = Some (i, p)" "i \<noteq> []"
    and "reaches_only e c paths n (requests w)" "answered e n (requests w) r body"
  shows "prefix (requests w) (requests w') \<and> reaches_only e c paths n (requests w')"
  using assms
proof (induction k arbitrary: w)
  case (Suc k)
  let ?get = "get e c token i [(''fields'', [''status_code,status''])] dec_status"
  obtain q w1 where q: "run_state ?get w = (q, w1)" by (cases "run_state ?get w")
  have one: "prefix (requests w) (requests w1)" "reaches_only e c paths n (requests w1)"
    using get_follows [OF q Suc.prems(2-5)] by simp_all
  from one(1) obtain us where us: "requests w1 = requests w @ us" by (auto simp: prefix_def)
  have "requests w' = requests w1 \<or>
      (\<exists>w2. requests w2 = requests w1 \<and> run_state (wait_container k e c token i) w2 = (res, w'))"
  proof (cases q)
    case (Inl err)
    with Suc.prems(1) q show ?thesis by (simp add: run_bindE run_mapE)
  next
    case (Inr x)
    with Suc.prems(1) q show ?thesis
      by (cases x) (auto simp: run_bindE run_mapE run_sleep_or_done split: if_splits prod.splits sum.splits)
  qed
  then show ?case
  proof (elim disjE exE conjE)
    fix w2
    assume same: "requests w2 = requests w1" and run: "run_state (wait_container k e c token i) w2 = (res, w')"
    from Suc.IH [OF run Suc.prems(2,3)] one Suc.prems(5) same us
    show ?thesis by (auto intro: answered_append dest: append_prefixD)
  qed (use one in simp)
qed simp

lemma createCarouselItems_traces:
  "ig @ ''/media'' \<in> set paths \<Longrightarrow> state_io_rel (traces e c paths) (createCarouselItems e c token ig k urls)"
  by (induction urls arbitrary: k) (auto intro!: ftr.rules client_traces split: prod.splits)

lemma createIGContainer_traces:
  "ig @ ''/media'' \<in> set paths \<Longrightarrow> state_io_rel (traces e c paths) (createIGContainer e c token ig req)"
  unfolding createIGContainer_def container_params_def Let_def
  by (intro ftr.rules createCarouselItems_traces client_traces)

lemma createIGContainer_Inr:
  assumes "run_state (createIGContainer e c token ig req) w = (Inr i, w')"
  obtains params w1 body p where "run_state (container_params e c token ig req) w = (Inr params, w1)"
    "run_state (post e c token (ig @ ''/media'') params dec_id) w1 = (Inr (i, p), w')"
    "Option.bind (json_parse body) dec_id = Some (i, p)" "i \<noteq> []"
    "answered e (length (requests w1)) (requests w')
       (the_request e c POST (endpoint c (ig @ ''/media'')) token params) body"
proof -
  from assms obtain params w1 p where *: "run_state (container_params e c token ig req) w = (Inr params, w1)"
    "run_state (post e c token (ig @ ''/media'') params dec_id) w1 = (Inr (i, p), w')" "i \<noteq> []"
    by (auto simp: createIGContainer_def run_bindE_Inr split: prod.splits if_splits)
  from post_sent [OF *(2)] obtain body where "Option.bind (json_parse body) dec_id = Some (i, p)"
    "answered e (length (requests w1)) (requests w')
       (the_request e c POST (endpoint c (ig @ ''/media'')) token params) body" by metis
  with * that show thesis by blast
qed

lemma container_params_prefix:
  assumes "run_state (container_params e c token ig req) w = (res, w')"
  shows "prefix (requests w) (requests w')"
proof -
  have "state_io_rel (traces e c [ig @ ''/media'']) (container_params e c token ig req)"
    unfolding container_params_def Let_def by (intro ftr.rules createCarouselItems_traces) simp
  from ftr.frameD [OF this assms] show ?thesis by (simp add: traces_def)
qed

lemma wait_traces:
  assumes "run_state (createIGContainer e c token ig req) w = (Inr i, w1)"
    and "run_state (waitForIGContainer e c token i) w1 = (res, w2)" "ig @ ''/media'' \<in> set paths"
  shows "traces e c paths w w2"
proof -
  have pre: "traces e c paths w w1"
    by (rule ftr.frameD [OF createIGContainer_traces [OF assms(3)] assms(1)])
  obtain params w0 body p where params: "run_state (container_params e c token ig req) w = (Inr params, w0)"
    and id: "Option.bind (json_parse body) dec_id = Some (i, p)" "i \<noteq> []"
    and ans: "answered e (length (requests w0)) (requests w1)
      (the_request e c POST (endpoint c (ig @ ''/media'')) token params) body"
    using createIGContainer_Inr [OF assms(1)] by metis
  have len: "length (requests w) \<le> length (requests w0)"
    by (rule prefix_length_le [OF container_params_prefix [OF params]])
  have both: "prefix (requests w) (requests w2) \<and> reaches_only e c paths n (requests w2)"
    if n: "n \<le> length (requests w)" and tr: "reaches_only e c paths n (requests w)" for n
  proof -
    from n tr pre have "reaches_only e c paths n (requests w1)" by (simp add: traces_def)
    from wait_traced [OF assms(2) [unfolded waitForIGContainer_def] id this answered_earlier [OF ans]] n len pre
    show ?thesis by (auto simp: traces_def intro: prefix_order.trans)
  qed
  from both [OF le_refl reaches_only_same] both show ?thesis by (simp add: traces_def)
qed

lemma IGPublish_traces:
  "state_io_rel (traces e c [ig @ ''/media'', ig @ ''/media_publish'']) (IGPublish e c token ig req)"
proof
  let ?paths = "[ig @ ''/media'', ig @ ''/media_publish'']"
  fix w res w'
  assume run: "run_state (IGPublish e c token ig req) w = (res, w')"
  obtain q w1 where q: "run_state (createIGContainer e c token ig req) w = (q, w1)"
    by (cases "run_state (createIGContainer e c token ig req) w")
  show "traces e c ?paths w w'"
  proof (cases q)
    case (Inl err)
    with run q have "w' = w1" by (simp add: IGPublish_def run_bindE)
    with ftr.frameD [OF createIGContainer_traces q, of ?paths] show ?thesis by simp
  next
    case (Inr i)
    obtain u w2 where u: "run_state (waitForIGContainer e c token i) w1 = (u, w2)"
      by (cases "run_state (waitForIGContainer e c token i) w1")
    have tr: "traces e c ?paths w w2" by (rule wait_traces [OF q [unfolded Inr] u]) simp
    show ?thesis
    proof (cases u)
      case (Inl err)
      with run q Inr u tr show ?thesis by (simp add: IGPublish_def run_bindE)
    next
      case (Inr x)
      have "state_io_rel (traces e c ?paths) (bindE (mapE (Wrap ''publication Instagram'')
         (post e c token (ig @ ''/media_publish'') [(''creation_id'', [i])] dec_id)) (\<lambda>(i, _).
          if i = [] then fail (Msg ''publication Instagram: Meta n'a renvoye aucun identifiant'') else ok i))"
        by (intro ftr.rules client_traces) simp
      moreover have "run_state (bindE (mapE (Wrap ''publication Instagram'')
         (post e c token (ig @ ''/media_publish'') [(''creation_id'', [i])] dec_id)) (\<lambda>(i, _).
          if i = [] then fail (Msg ''publication Instagram: Meta n'a renvoye aucun identifiant'') else ok i)) w2 = (res, w')"
        using run q \<open>q = Inr i\<close> u Inr by (simp add: IGPublish_def run_bindE)
      ultimately show ?thesis by (rule ftr.trans [OF tr ftr.frameD])
    qed
  qed
qed

section \<open>What the writes send\<close>

text \<open>One write: the same POST once or twice, and on success Meta accepted it.\<close>

definition one_write ::
  "machine \<Rightarrow> meta_client \<Rightarrow> string \<Rightarrow> string \<Rightarrow> values \<Rightarrow> bool \<Rightarrow> http_request list \<Rightarrow> http_request list \<Rightarrow> bool" where
  "one_write e c token path params success rs rs' \<longleftrightarrow>
     (let r = the_request e c POST (endpoint c path) token params in
      (\<exists>k \<le> 2. rs' = rs @ replicate k r) \<and> (success \<longrightarrow> (\<exists>body. answered e (length rs) rs' r body)))"

lemma post_one_write:
  assumes "run_state (post e c token path params dec) w = (res, w')" "success \<longrightarrow> \<not> isl res"
  shows "one_write e c token path params success (requests w) (requests w')"
  using post_sent [OF assms(1)] assms(2) unfolding one_write_def Let_def by (metis isl_def sum.exhaust)

lemma then_pure:
  assumes "run_state (bindE (mapE g m) f) w = (res, w')" "\<And>x v. snd (run_state (f x) v) = v"
  obtains q where "run_state m w = (q, w')" "\<not> isl res \<longrightarrow> \<not> isl q"
proof -
  obtain q w1 where q: "run_state m w = (q, w1)" by (cases "run_state m w")
  have "w1 = w'" using assms(1) assms(2) [of "projr q" w1] q
    by (cases q) (auto simp: run_bindE run_mapE)
  moreover have "\<not> isl res \<longrightarrow> \<not> isl q" using assms(1) q by (cases q) (auto simp: run_bindE run_mapE)
  ultimately show thesis using that q by blast
qed

lemma simple_writes:
  "run_state (PublishPost e c token i req) w = (res, w') \<Longrightarrow>
   one_write e c token (i @ (if IsPhoto req then ''/photos'' else ''/feed'')) (publish_params req)
     (\<not> isl res) (requests w) (requests w')"
  "run_state (ReplyToComment e c token i msg) w = (r2, w') \<Longrightarrow>
   one_write e c token (i @ ''/comments'') [(''message'', [msg])] (\<not> isl r2) (requests w) (requests w')"
  "run_state (IGReplyToComment e c token i msg) w = (r3, w') \<Longrightarrow>
   one_write e c token (i @ ''/replies'') [(''message'', [msg])] (\<not> isl r3) (requests w) (requests w')"
  "run_state (SetCommentHidden e c token i h b) w = (r4, w') \<Longrightarrow>
   one_write e c token i [(if b then ''hide'' else ''is_hidden'', [if h then ''true'' else ''false''])]
     (\<not> isl r4) (requests w) (requests w')"
  "run_state (DeleteObject e c token i) w = (r5, w') \<Longrightarrow>
   one_write e c token i [(''method'', [''delete''])] (\<not> isl r5) (requests w) (requests w')"
  unfolding PublishPost_def ReplyToComment_def IGReplyToComment_def SetCommentHidden_def DeleteObject_def Let_def
  by (erule then_pure; auto split: prod.splits intro: post_one_write)+

text \<open>
  An Instagram publication: the slides of a carousel, the container, and its publication. Each
  identifier it sends is one that Meta answered to the request before it in that list.
\<close>

definition item_values :: "string \<Rightarrow> values" where
  "item_values u = [(''image_url'', [u]), (''is_carousel_item'', [''true''])]"

definition container_values :: "string \<Rightarrow> string \<Rightarrow> string \<Rightarrow> string \<Rightarrow> string list \<Rightarrow> values" where
  "container_values kind img vid caption ids =
     (let cap = (if caption = [] then [] else [(''caption'', [caption])]) in
      if kind = ''STORIES'' then
        [(''media_type'', [''STORIES'']),
         if vid \<noteq> [] then (''video_url'', [vid]) else (''image_url'', [img])]
      else if kind = ''REELS'' then cap @ [(''media_type'', [''REELS'']), (''video_url'', [vid])]
      else if kind = ''CAROUSEL'' then cap @ [(''media_type'', [''CAROUSEL'']), (''children'', [join '','' ids])]
      else cap @ [(''image_url'', [img])])"

definition id_answered ::
  "machine \<Rightarrow> meta_client \<Rightarrow> string \<Rightarrow> nat \<Rightarrow> http_request list \<Rightarrow> string \<Rightarrow> values \<Rightarrow> string \<Rightarrow> bool" where
  "id_answered e c token n rs path params i \<longleftrightarrow> (\<exists>body p.
     answered e n rs (the_request e c POST (endpoint c path) token params) body \<and>
     Option.bind (json_parse body) dec_id = Some (i, p))"

definition slide_ids ::
  "machine \<Rightarrow> meta_client \<Rightarrow> string \<Rightarrow> string \<Rightarrow> string \<Rightarrow> string list \<Rightarrow> nat \<Rightarrow> http_request list \<Rightarrow>
   string list \<Rightarrow> bool" where
  "slide_ids e c token ig kind children n rs ids \<longleftrightarrow>
     (if kind = ''CAROUSEL''
      then list_all2 (\<lambda>u i. id_answered e c token n rs (ig @ ''/media'') (item_values u) i) children ids
      else ids = [])"

definition container_of :: "ig_publish_request \<Rightarrow> string list \<Rightarrow> values" where
  "container_of req = container_values (ig_media_type req) (ig_image_url req) (ig_video_url req) (ig_caption req)"

inductive ig_write ::
  "machine \<Rightarrow> meta_client \<Rightarrow> string \<Rightarrow> string \<Rightarrow> ig_publish_request \<Rightarrow> nat \<Rightarrow> http_request list \<Rightarrow>
   string \<Rightarrow> values \<Rightarrow> bool" for e c token ig req n rs where
  write_slide: "ig_media_type req = ''CAROUSEL'' \<Longrightarrow> u \<in> set (ig_children req) \<Longrightarrow>
    ig_write e c token ig req n rs (ig @ ''/media'') (item_values u)"
| write_container: "slide_ids e c token ig (ig_media_type req) (ig_children req) n rs ids \<Longrightarrow>
    ig_write e c token ig req n rs (ig @ ''/media'') (container_of req ids)"
| write_publication: "slide_ids e c token ig (ig_media_type req) (ig_children req) n rs ids \<Longrightarrow>
    id_answered e c token n rs (ig @ ''/media'') (container_of req ids) i \<Longrightarrow>
    ig_write e c token ig req n rs (ig @ ''/media_publish'') [(''creation_id'', [i])]"

definition ig_writes ::
  "machine \<Rightarrow> meta_client \<Rightarrow> string \<Rightarrow> string \<Rightarrow> ig_publish_request \<Rightarrow> nat \<Rightarrow> http_request list \<Rightarrow> bool" where
  "ig_writes e c token ig req n rs \<longleftrightarrow> (\<forall>j. n \<le> j \<and> j < length rs \<and> hr_method (rs ! j) = POST \<longrightarrow>
     (\<exists>path params. rs ! j = the_request e c POST (endpoint c path) token params \<and>
        ig_write e c token ig req n (take j rs) path params))"

lemma id_answered_append: "id_answered e c token n rs path params i \<Longrightarrow> id_answered e c token n (rs @ us) path params i"
  unfolding id_answered_def using answered_append by blast

lemma slide_ids_append:
  "slide_ids e c token ig kind children n rs ids \<Longrightarrow> slide_ids e c token ig kind children n (rs @ us) ids"
  unfolding slide_ids_def by (auto intro: id_answered_append elim!: list_all2_mono split: if_splits)

lemma ig_write_append: "ig_write e c token ig req n rs path params \<Longrightarrow> ig_write e c token ig req n (rs @ us) path params"
  by (induction rule: ig_write.induct) (auto intro: ig_write.intros slide_ids_append id_answered_append)

lemma ig_writes_snoc:
  "ig_writes e c token ig req n rs \<Longrightarrow>
   (hr_method r = POST \<Longrightarrow> \<exists>path params. r = the_request e c POST (endpoint c path) token params \<and>
      ig_write e c token ig req n rs path params) \<Longrightarrow>
   ig_writes e c token ig req n (rs @ [r])"
  unfolding ig_writes_def by (auto simp: nth_append less_Suc_eq)

lemma ig_writes_replicate:
  assumes "ig_writes e c token ig req n rs" "ig_write e c token ig req n rs path params"
  shows "ig_writes e c token ig req n (rs @ replicate k (the_request e c POST (endpoint c path) token params))"
proof (induction k)
  case (Suc k)
  let ?r = "the_request e c POST (endpoint c path) token params"
  have eq: "rs @ replicate (Suc k) ?r = (rs @ replicate k ?r) @ [?r]"
    by (simp add: replicate_append_same)
  show ?case
    unfolding eq by (rule ig_writes_snoc [OF Suc]) (use ig_write_append [OF assms(2)] in blast)
qed (use assms(1) in simp)

lemma ig_writes_gets:
  "ig_writes e c token ig req n rs \<Longrightarrow> list_all is_get us \<Longrightarrow> ig_writes e c token ig req n (rs @ us)"
proof (induction us rule: rev_induct)
  case (snoc r us)
  have "ig_writes e c token ig req n ((rs @ us) @ [r])"
    by (rule ig_writes_snoc) (use snoc in \<open>auto simp: is_get_def\<close>)
  then show ?case by simp
qed simp

lemma carousel_sent:
  assumes "run_state (createCarouselItems e c token ig k urls) w = (res, w')"
    and "ig_writes e c token ig req n (requests w)" "n \<le> length (requests w)"
    and "ig_media_type req = ''CAROUSEL''" "set urls \<subseteq> set (ig_children req)"
  shows "prefix (requests w) (requests w') \<and> ig_writes e c token ig req n (requests w') \<and>
    (\<forall>ids. res = Inr ids \<longrightarrow>
       list_all2 (\<lambda>u i. id_answered e c token n (requests w') (ig @ ''/media'') (item_values u) i) urls ids)"
  using assms
proof (induction urls arbitrary: k w res)
  case (Cons u urls)
  let ?post = "post e c token (ig @ ''/media'') (item_values u) dec_id"
  let ?r = "the_request e c POST (endpoint c (ig @ ''/media'')) token (item_values u)"
  obtain q w1 where q: "run_state ?post w = (q, w1)" by (cases "run_state ?post w")
  obtain m where rs: "requests w1 = requests w @ replicate m ?r"
    and ans: "\<And>x. q = Inr x \<Longrightarrow> \<exists>body. Option.bind (json_parse body) dec_id = Some x \<and>
       answered e (length (requests w)) (requests w1) ?r body"
    using post_sent [OF q] by metis
  have "ig_write e c token ig req n (requests w) (ig @ ''/media'') (item_values u)"
    using Cons.prems(4,5) by (intro write_slide) auto
  from ig_writes_replicate [OF Cons.prems(2) this] have w1: "ig_writes e c token ig req n (requests w1)"
    by (simp add: rs)
  have "run_state (createCarouselItems e c token ig k (u # urls)) w = (res, w') \<Longrightarrow>
      requests w' = requests w1 \<and> isl res \<or>
      (\<exists>child p res'. q = Inr (child, p) \<and>
         run_state (createCarouselItems e c token ig (k + 1) urls) w1 = (res', w') \<and>
         (\<forall>ids. res = Inr ids \<longrightarrow> (\<exists>rest. ids = child # rest \<and> res' = Inr rest)))"
    using q by (cases q) (auto simp: run_bindE run_mapE item_values_def split: prod.splits sum.splits if_splits)
  then show ?case
    using Cons.prems(1)
  proof (elim meta_impE disjE exE conjE)
    assume "requests w' = requests w1" "isl res"
    with w1 rs show ?thesis by auto
  next
    fix child p res'
    assume child: "q = Inr (child, p)"
      and run: "run_state (createCarouselItems e c token ig (k + 1) urls) w1 = (res', w')"
      and res: "\<forall>ids. res = Inr ids \<longrightarrow> (\<exists>rest. ids = child # rest \<and> res' = Inr rest)"
    have len: "n \<le> length (requests w1)" using Cons.prems(3) by (simp add: rs)
    note tail = Cons.IH [OF run w1 len Cons.prems(4)]
    have "id_answered e c token n (requests w1) (ig @ ''/media'') (item_values u) child"
      using ans [OF child] answered_earlier [OF _ Cons.prems(3)] unfolding id_answered_def by blast
    moreover obtain zs where zs: "requests w' = requests w1 @ zs"
      using tail Cons.prems(5) by (auto simp: prefix_def)
    ultimately have "id_answered e c token n (requests w') (ig @ ''/media'') (item_values u) child"
      by (simp add: id_answered_append)
    with tail Cons.prems(5) res show ?thesis by (auto simp: zs rs)
  qed
qed (auto split: if_splits)

lemma container_params_sent:
  assumes "run_state (container_params e c token ig req) w = (res, w')"
    and "ig_writes e c token ig req n (requests w)" "n \<le> length (requests w)"
  shows "prefix (requests w) (requests w') \<and> ig_writes e c token ig req n (requests w') \<and>
    (\<forall>params. res = Inr params \<longrightarrow> (\<exists>ids. params = container_of req ids \<and>
       slide_ids e c token ig (ig_media_type req) (ig_children req) n (requests w') ids))"
proof (cases "ig_media_type req = ''CAROUSEL''")
  case True
  obtain q w1 where q: "run_state (createCarouselItems e c token ig 0 (ig_children req)) w = (q, w1)"
    by (cases "run_state (createCarouselItems e c token ig 0 (ig_children req)) w")
  have w1: "w' = w1" and res: "res = map_sum id (container_of req) q"
    using assms(1) q True
    by (auto simp: container_params_def media_type_defs run_bindE Let_def container_of_def
        container_values_def values_set_def split: sum.splits)
  from carousel_sent [OF q assms(2,3) True subset_refl] show ?thesis
    unfolding w1 res by (cases q) (auto simp: slide_ids_def True)
next
  case False
  then have "w' = w \<and> res = Inr (container_of req [])"
    using assms(1)
    by (auto simp: container_params_def media_type_defs Let_def container_of_def container_values_def
        values_set_def values_del_def split: if_splits)
  with assms(2) False show ?thesis by (auto simp: slide_ids_def)
qed

text \<open>What is sent for an Instagram publication; on success Meta accepted the publication itself.\<close>

definition ig_sent ::
  "machine \<Rightarrow> meta_client \<Rightarrow> string \<Rightarrow> string \<Rightarrow> ig_publish_request \<Rightarrow> bool \<Rightarrow> http_request list \<Rightarrow>
   http_request list \<Rightarrow> bool" where
  "ig_sent e c token ig req success rs rs' \<longleftrightarrow> prefix rs rs' \<and>
     ig_writes e c token ig req (length rs) rs' \<and>
     (success \<longrightarrow> (\<exists>i body. answered e (length rs) rs'
        (the_request e c POST (endpoint c (ig @ ''/media_publish'')) token [(''creation_id'', [i])]) body))"

lemma createIGContainer_sent:
  assumes "run_state (createIGContainer e c token ig req) w = (res, w')"
  defines "n \<equiv> length (requests w)"
  shows "prefix (requests w) (requests w') \<and> ig_writes e c token ig req n (requests w') \<and>
    (\<forall>i. res = Inr i \<longrightarrow> (\<exists>ids. slide_ids e c token ig (ig_media_type req) (ig_children req) n (requests w') ids \<and>
       id_answered e c token n (requests w') (ig @ ''/media'') (container_of req ids) i))"
proof -
  have start: "ig_writes e c token ig req n (requests w)" by (auto simp: ig_writes_def n_def)
  obtain q w1 where q: "run_state (container_params e c token ig req) w = (q, w1)"
    by (cases "run_state (container_params e c token ig req) w")
  note params = container_params_sent [OF q start [unfolded n_def] le_refl, folded n_def]
  show ?thesis
  proof (cases q)
    case (Inl err)
    with assms(1) q have "w' = w1" "isl res" by (auto simp: createIGContainer_def run_bindE)
    with params show ?thesis by auto
  next
    case (Inr ps)
    with params obtain ids where ps: "ps = container_of req ids"
      and ids: "slide_ids e c token ig (ig_media_type req) (ig_children req) n (requests w1) ids"
      and pre: "prefix (requests w) (requests w1)" and ok1: "ig_writes e c token ig req n (requests w1)" by auto
    have len: "n \<le> length (requests w1)" unfolding n_def by (rule prefix_length_le [OF pre])
    let ?r = "the_request e c POST (endpoint c (ig @ ''/media'')) token ps"
    from assms(1) q Inr obtain a where
      a: "run_state (post e c token (ig @ ''/media'') ps dec_id) w1 = (a, w')"
        "\<And>i. res = Inr i \<Longrightarrow> \<exists>p. a = Inr (i, p)"
      by (cases "run_state (post e c token (ig @ ''/media'') ps dec_id) w1")
         (auto simp: createIGContainer_def run_bindE run_mapE split: sum.splits prod.splits if_splits)
    obtain m where rs: "requests w' = requests w1 @ replicate m ?r"
      and ans: "\<And>x. a = Inr x \<Longrightarrow> \<exists>body. Option.bind (json_parse body) dec_id = Some x \<and>
        answered e (length (requests w1)) (requests w') ?r body"
      using post_sent [OF a(1)] by metis
    have "ig_writes e c token ig req n (requests w')"
      unfolding rs by (rule ig_writes_replicate [OF ok1]) (unfold ps, rule write_container [OF ids])
    moreover have "id_answered e c token n (requests w') (ig @ ''/media'') (container_of req ids) i"
      if "res = Inr i" for i
      using a(2) [OF that] ans answered_earlier [OF _ len] unfolding id_answered_def ps by blast
    ultimately show ?thesis using pre slide_ids_append [OF ids] by (auto simp: rs)
  qed
qed

lemma IGPublish_sent:
  assumes "run_state (IGPublish e c token ig req) w = (res, w')"
  shows "ig_sent e c token ig req (\<not> isl res) (requests w) (requests w')"
proof -
  let ?n = "length (requests w)" and ?rq = "\<lambda>i. the_request e c POST (endpoint c (ig @ ''/media_publish'')) token [(''creation_id'', [i])]"
  obtain q w2 where q: "run_state (createIGContainer e c token ig req) w = (q, w2)"
    by (cases "run_state (createIGContainer e c token ig req) w")
  note made = createIGContainer_sent [OF q]
  show ?thesis
  proof (cases q)
    case (Inl err)
    with assms q have "w' = w2" "isl res" by (auto simp: IGPublish_def run_bindE)
    with made show ?thesis by (simp add: ig_sent_def)
  next
    case (Inr i)
    with made obtain ids
      where ids: "slide_ids e c token ig (ig_media_type req) (ig_children req) ?n (requests w2) ids"
      and id: "id_answered e c token ?n (requests w2) (ig @ ''/media'') (container_of req ids) i" by blast
    obtain u w3 where u: "run_state (waitForIGContainer e c token i) w2 = (u, w3)"
      by (cases "run_state (waitForIGContainer e c token i) w2")
    have "state_io_rel (emits is_get) (waitForIGContainer e c token i)"
      unfolding waitForIGContainer_def by (rule reads_get [OF wait_container_frames(2)])
    from fem.frameD [OF this u] obtain us where us: "requests w3 = requests w2 @ us" "list_all is_get us"
      by (auto simp: emits_def)
    have waited: "ig_writes e c token ig req ?n (requests w3)"
      unfolding us(1) by (rule ig_writes_gets [OF _ us(2)]) (use made in blast)
    have pre: "prefix (requests w) (requests w3)" using made by (auto simp: us(1))
    show ?thesis
    proof (cases u)
      case (Inl err)
      with assms q \<open>q = Inr i\<close> u have "w' = w3" "isl res" by (auto simp: IGPublish_def run_bindE)
      with pre waited show ?thesis by (simp add: ig_sent_def)
    next
      case (Inr x)
      with assms q \<open>q = Inr i\<close> u obtain b where b: "\<not> isl res \<longrightarrow> \<not> isl b"
        "run_state (post e c token (ig @ ''/media_publish'') [(''creation_id'', [i])] dec_id) w3 = (b, w')"
        by (cases "run_state (post e c token (ig @ ''/media_publish'') [(''creation_id'', [i])] dec_id) w3")
           (auto simp: IGPublish_def run_bindE run_mapE split: sum.splits prod.splits if_splits)
      obtain k where rs: "requests w' = requests w3 @ replicate k (?rq i)"
        and acc: "\<And>x. b = Inr x \<Longrightarrow> \<exists>body. Option.bind (json_parse body) dec_id = Some x \<and>
          answered e (length (requests w3)) (requests w') (?rq i) body"
        using post_sent [OF b(2)] by metis
      have "ig_write e c token ig req ?n (requests w3) (ig @ ''/media_publish'') [(''creation_id'', [i])]"
        unfolding us(1) by (rule ig_write_append [OF write_publication [OF ids id]])
      from ig_writes_replicate [OF waited this] have "ig_writes e c token ig req ?n (requests w')"
        by (simp add: rs)
      moreover have "\<exists>body. answered e ?n (requests w') (?rq i) body" if "\<not> isl res"
      proof -
        from b(1) that obtain y where "b = Inr y" by (cases b) auto
        with acc answered_earlier [OF _ prefix_length_le [OF pre]] show ?thesis by blast
      qed
      ultimately show ?thesis using pre by (auto simp: ig_sent_def rs)
    qed
  qed
qed

end
