(* ===== verification/Resolver.thy ===== *)
theory Resolver
  imports AppWrite StoreFacts MetaTrace
begin

text \<open>
  The contract between the resolution of a page and the tools: a resolution only looks, it answers
  a page the tenant has stored, the very one the client asked for, and a tool over it sends its
  requests for that page. And nothing else of the database shows: on two databases with the same
  rows of the tenant, an operation sends the same requests, gives the same answer, changes those
  rows alike and leaves all other rows alone.
\<close>

section \<open>Operations that never look at the database\<close>

definition blind :: "(world, 'a) state \<Rightarrow> bool" where
  "blind m \<longleftrightarrow> (\<forall>w d. run_state m (w\<lparr>db := d\<rparr>) =
     (fst (run_state m w), (snd (run_state m w))\<lparr>db := d\<rparr>))"

lemma blindI: "(\<And>w d. run_state m (w\<lparr>db := d\<rparr>) =
    (fst (run_state m w), (snd (run_state m w))\<lparr>db := d\<rparr>)) \<Longrightarrow> blind m"
  by (simp add: blind_def)

lemma blindD: "blind m \<Longrightarrow> run_state m w = (r, w') \<Longrightarrow> run_state m (w\<lparr>db := d\<rparr>) = (r, w'\<lparr>db := d\<rparr>)"
  by (simp add: blind_def)

lemma blind_return: "blind (State_Monad.return x)" "blind (ok y)" "blind (fail z)" "blind (from_res r)"
  by (simp_all add: blind_def)

lemma blind_bind:
  assumes "blind m" "\<And>x. blind (f x)"
  shows "blind (State_Monad.bind m f)"
proof (rule blindI)
  fix w d
  obtain r w' where m: "run_state m w = (r, w')" by (cases "run_state m w")
  obtain q w'' where f: "run_state (f r) w' = (q, w'')" by (cases "run_state (f r) w'")
  from m f blindD [OF assms(1) m, of d] blindD [OF assms(2) f, of d]
  show "run_state (State_Monad.bind m f) (w\<lparr>db := d\<rparr>) =
      (fst (run_state (State_Monad.bind m f) w), (snd (run_state (State_Monad.bind m f) w))\<lparr>db := d\<rparr>)"
    by simp
qed

lemma blind_bindE: "blind m \<Longrightarrow> (\<And>x. blind (f x)) \<Longrightarrow> blind (bindE m f)"
  unfolding bindE_def by (rule blind_bind) (auto split: sum.splits intro: blind_return)

lemma blind_mapE: "blind m \<Longrightarrow> blind (mapE g m)"
  unfolding mapE_def by (rule blind_bind) (auto split: sum.splits intro: blind_return)

lemma blind_cases:
  "blind a \<Longrightarrow> blind b \<Longrightarrow> blind (if c then a else b)"
  "(\<And>x. blind (f x)) \<Longrightarrow> (\<And>x. blind (g x)) \<Longrightarrow> blind (case_sum f g s)"
  "blind a \<Longrightarrow> (\<And>x. blind (h x)) \<Longrightarrow> blind (case_option a h v)"
  "(\<And>x y. blind (k x y)) \<Longrightarrow> blind (case_prod k p)"
  by (auto split: sum.splits option.splits prod.splits)

lemma blind_effects:
  "blind (clock_now e)" "blind (rand_read e k)" "blind (ctx_err e)" "blind (sleep_or_done e t)"
  "blind (http_do e r)"
  by (rule blindI; simp add: run_clock_now run_rand_read run_ctx_err run_sleep_or_done run_http_do)+

lemmas blind_rules = blind_return blind_bind blind_bindE blind_mapE blind_cases blind_effects

lemma blind_callOnce: "blind (callOnce e c m url token params)"
  unfolding callOnce_def Let_def
  by (auto intro!: blind_rules split: http_answer.splits)

lemma blind_call: "blind (call e c m url token params)"
  unfolding call_def Let_def
  by (auto intro!: blind_rules blind_callOnce split: sum.splits option.splits)

lemma blind_collect_from: "blind (collect_from e c limit n body items)"
  by (induction n arbitrary: body items)
     (auto simp: Let_def intro!: blind_rules blind_call split: option.splits)

lemma blind_client:
  "blind (get e c token path params dec)" "blind (post e c token path params dec)"
  "blind (fetchPage e c token path params)" "blind (collect e c token path params limit)"
  unfolding get_def post_def fetchPage_def collect_def
  by (auto intro!: blind_rules blind_call blind_collect_from split: option.splits)

lemma blind_insights: "blind (insights e c token path base ms)"
  unfolding insights_def Let_def by (intro blind_rules blind_client)

lemma blind_insights_each: "blind (insights_each e c token path base ms out)"
  by (induction ms arbitrary: out) (auto intro!: blind_rules blind_insights split: sum.splits)

lemma blind_fallback: "blind (insightsWithFallback e c token path base ms)"
  unfolding insightsWithFallback_def
  by (auto intro!: blind_rules blind_insights blind_insights_each split: sum.splits)

lemma blind_graph:
  "blind (PageInsights e c token i ms a b)" "blind (PostInsights e c token i ms)"
  "blind (IGMediaInsights e c token i ms)" "blind (IGAccountInsights e c token i ms a b)"
  "blind (IGFollowerDemographics e c token i s)" "blind (PagePosts e c token i a n)"
  "blind (PostComments e c token i n)" "blind (IGMediaComments e c token i n)"
  "blind (IGMedia e c token i a n)" "blind (IGStories e c token i)"
  "blind (PageRatings e c token i n)" "blind (ScheduledPosts e c token i n)"
  unfolding PageInsights_def PostInsights_def IGMediaInsights_def IGAccountInsights_def
    IGFollowerDemographics_def PagePosts_def collect_plain_def PostComments_def IGMediaComments_def
    comments_def IGMedia_def IGStories_def PageRatings_def ScheduledPosts_def Let_def
  by (intro blind_rules blind_fallback blind_client)+

lemma blind_carousel: "blind (createCarouselItems e c token ig i urls)"
  by (induction urls arbitrary: i) (auto intro!: blind_rules blind_client split: prod.splits)

lemma blind_wait: "blind (wait_container n e c token cid)"
  by (induction n) (auto intro!: blind_rules blind_client split: prod.splits)

lemma blind_publish:
  "blind (PublishPost e c token i req)" "blind (ReplyToComment e c token i msg)"
  "blind (IGReplyToComment e c token i msg)" "blind (IGPublish e c token i ig)"
  "blind (SetCommentHidden e c token i h b)" "blind (DeleteObject e c token i)"
  unfolding PublishPost_def ReplyToComment_def IGReplyToComment_def IGPublish_def
    createIGContainer_def container_params_def waitForIGContainer_def SetCommentHidden_def
    DeleteObject_def Let_def
  by (intro blind_rules blind_client blind_carousel blind_wait)+

section \<open>Operations that see one tenant's rows only\<close>

text \<open>
  What an operation for a tenant may see: the tenant's row, its pages, and the parked logins, which
  belong to no tenant and are where a new state has to find its key free. All the rest is
  other tenants' or the authorization server's.
\<close>

definition own_rows :: "string \<Rightarrow> database \<Rightarrow> tenant_row list \<times> page_row list \<times> login_row list" where
  "own_rows tid d = (filter (\<lambda>r. tr_id r = tid) (tenants d), pages_of tid d, login_states d)"

definition other_rows :: "string \<Rightarrow> database \<Rightarrow> database" where
  "other_rows tid d = d\<lparr>tenants := filter (\<lambda>r. tr_id r \<noteq> tid) (tenants d),
     pages := filter (\<lambda>r. pg_tenant_id r \<noteq> tid) (pages d), login_states := []\<rparr>"

text \<open>
  On a database with the same rows of the tenant the operation gives the same result, sends the
  same requests, takes the same readings and makes the same of those rows; and the others it
  leaves as they are.
\<close>

definition agrees :: "string \<Rightarrow> database \<Rightarrow> database \<Rightarrow> database \<Rightarrow> bool" where
  "agrees tid d d' d0 \<longleftrightarrow> own_rows tid d' = own_rows tid d0 \<and> other_rows tid d' = other_rows tid d"

definition isolated :: "string \<Rightarrow> (world, 'a) state \<Rightarrow> bool" where
  "isolated tid m \<longleftrightarrow> (\<forall>w d r w'. own_rows tid d = own_rows tid (db w) \<longrightarrow> run_state m w = (r, w') \<longrightarrow>
     (\<exists>d'. run_state m (w\<lparr>db := d\<rparr>) = (r, w'\<lparr>db := d'\<rparr>) \<and> agrees tid d d' (db w')))"

lemma isolatedI:
  "(\<And>w d r w'. own_rows tid d = own_rows tid (db w) \<Longrightarrow> run_state m w = (r, w') \<Longrightarrow>
     \<exists>d'. run_state m (w\<lparr>db := d\<rparr>) = (r, w'\<lparr>db := d'\<rparr>) \<and> agrees tid d d' (db w')) \<Longrightarrow> isolated tid m"
  unfolding isolated_def by blast

lemma isolatedE:
  assumes "isolated tid m" "run_state m w = (r, w')" "own_rows tid d = own_rows tid (db w)"
  obtains d' where "run_state m (w\<lparr>db := d\<rparr>) = (r, w'\<lparr>db := d'\<rparr>)" "agrees tid d d' (db w')"
  using assms unfolding isolated_def by blast

lemma blind_isolated:
  assumes "blind m"
  shows "isolated tid m"
proof (rule isolatedI)
  fix w d r w'
  assume d: "own_rows tid d = own_rows tid (db w)" and run: "run_state m w = (r, w')"
  have "db w' = db w" using blindD [OF assms run, of "db w"] run by (metis prod.inject world.select_convs(1) world.surjective world.update_convs(1))
  with blindD [OF assms run, of d] d show "\<exists>d'. run_state m (w\<lparr>db := d\<rparr>) = (r, w'\<lparr>db := d'\<rparr>) \<and> agrees tid d d' (db w')"
    by (auto simp: agrees_def)
qed

text \<open>One operation after another; the second may rely on what the first answered.\<close>

lemma isolated_bind_of:
  assumes "isolated tid m" "\<And>x w w'. run_state m w = (x, w') \<Longrightarrow> isolated tid (f x)"
  shows "isolated tid (State_Monad.bind m f)"
proof (rule isolatedI)
  fix w d q w''
  assume d: "own_rows tid d = own_rows tid (db w)" and run: "run_state (State_Monad.bind m f) w = (q, w'')"
  obtain r w' where m: "run_state m w = (r, w')" by (cases "run_state m w")
  with run have f: "run_state (f r) w' = (q, w'')" by simp
  obtain d1 where d1: "run_state m (w\<lparr>db := d\<rparr>) = (r, w'\<lparr>db := d1\<rparr>)" "agrees tid d d1 (db w')"
    by (rule isolatedE [OF assms(1) m d])
  then have "own_rows tid d1 = own_rows tid (db w')" by (simp add: agrees_def)
  from isolatedE [OF assms(2) [OF m] f this] obtain d2
    where d2: "run_state (f r) (w'\<lparr>db := d1\<rparr>) = (q, w''\<lparr>db := d2\<rparr>)" "agrees tid d1 d2 (db w'')" by blast
  with d1 show "\<exists>d'. run_state (State_Monad.bind m f) (w\<lparr>db := d\<rparr>) = (q, w''\<lparr>db := d'\<rparr>) \<and> agrees tid d d' (db w'')"
    by (auto simp: agrees_def)
qed

lemma isolated_bindE_of:
  "isolated tid m \<Longrightarrow> (\<And>x w w'. run_state m w = (Inr x, w') \<Longrightarrow> isolated tid (f x)) \<Longrightarrow> isolated tid (bindE m f)"
  unfolding bindE_def
  by (rule isolated_bind_of) (auto split: sum.splits intro: blind_isolated blind_return)

lemma isolated_bind: "isolated tid m \<Longrightarrow> (\<And>x. isolated tid (f x)) \<Longrightarrow> isolated tid (State_Monad.bind m f)"
  by (rule isolated_bind_of)

lemma isolated_bindE: "isolated tid m \<Longrightarrow> (\<And>x. isolated tid (f x)) \<Longrightarrow> isolated tid (bindE m f)"
  by (rule isolated_bindE_of)

lemma isolated_mapE: "isolated tid m \<Longrightarrow> isolated tid (mapE g m)"
  unfolding mapE_def
  by (rule isolated_bind) (auto split: sum.splits intro: blind_isolated blind_return)

lemma isolated_cases:
  "isolated tid a \<Longrightarrow> isolated tid b \<Longrightarrow> isolated tid (if c then a else b)"
  "(\<And>x. isolated tid (f x)) \<Longrightarrow> (\<And>x. isolated tid (g x)) \<Longrightarrow> isolated tid (case_sum f g s)"
  "isolated tid a \<Longrightarrow> (\<And>x. isolated tid (h x)) \<Longrightarrow> isolated tid (case_option a h v)"
  "(\<And>x y. isolated tid (k x y)) \<Longrightarrow> isolated tid (case_prod k p)"
  by (auto split: sum.splits option.splits prod.splits)

lemma isolated_pure:
  "isolated tid (ok y)" "isolated tid (fail z)" "isolated tid (from_res r)"
  "isolated tid (State_Monad.return x)"
  by (auto intro: blind_isolated blind_return)

text \<open>A statement is isolated when it reads and writes the tenant's rows only.\<close>

definition local_stmt :: "string \<Rightarrow> 'a stmt \<Rightarrow> bool" where
  "local_stmt tid stmt \<longleftrightarrow> (\<forall>d d0. own_rows tid d = own_rows tid d0 \<longrightarrow>
     rel_option (\<lambda>(x, d') (y, d0'). x = y \<and> agrees tid d d' d0') (stmt d) (stmt d0))"

lemma isolated_sql:
  assumes "local_stmt tid stmt"
  shows "isolated tid (sql e stmt)"
proof (rule isolatedI)
  fix w d r w'
  assume d: "own_rows tid d = own_rows tid (db w)" and run: "run_state (sql e stmt) w = (r, w')"
  from assms d have rel: "rel_option (\<lambda>(x, d') (y, d0'). x = y \<and> agrees tid d d' d0') (stmt d) (stmt (db w))"
    by (simp add: local_stmt_def)
  show "\<exists>d'. run_state (sql e stmt) (w\<lparr>db := d\<rparr>) = (r, w'\<lparr>db := d'\<rparr>) \<and> agrees tid d d' (db w')"
    using rel run d
    by (cases "stmt d"; cases "stmt (db w)")
       (auto simp: run_sql agrees_def split: if_splits intro: exI [of _ d])
qed

lemma isolated_in_tx:
  assumes "isolated tid body"
  shows "isolated tid (in_tx e what body)"
proof (rule isolatedI)
  fix w d r w'
  assume d: "own_rows tid d = own_rows tid (db w)" and run: "run_state (in_tx e what body) w = (r, w')"
  let ?w = "w\<lparr>n_sql := Suc (n_sql w)\<rparr>"
  obtain q w2 where body: "run_state body ?w = (q, w2)" by (cases "run_state body ?w")
  from isolatedE [OF assms body, of d] d obtain d2
    where *: "run_state body (?w\<lparr>db := d\<rparr>) = (q, w2\<lparr>db := d2\<rparr>)" "agrees tid d d2 (db w2)" by auto
  have eq: "(w\<lparr>db := d\<rparr>)\<lparr>n_sql := Suc (n_sql w)\<rparr> = ?w\<lparr>db := d\<rparr>" by simp
  have "agrees tid d d (db w)" using d by (simp add: agrees_def)
  with run body * show "\<exists>d'. run_state (in_tx e what body) (w\<lparr>db := d\<rparr>) = (r, w'\<lparr>db := d'\<rparr>) \<and> agrees tid d d' (db w')"
    by (cases "mc_sql_fails e (n_sql w)"; cases q; cases "mc_sql_fails e (n_sql w2)")
       (auto simp: in_tx_def Let_def eq intro: exI [of _ d] exI [of _ d2])
qed

lemma isolated_map_stateE: "(\<And>x. isolated tid (f x)) \<Longrightarrow> isolated tid (map_stateE f xs)"
  by (induction xs) (auto intro!: isolated_bindE isolated_pure)

text \<open>The statements a tenant's tools run.\<close>

lemma find_in_filter: "find P xs = find (\<lambda>_. True) (filter P xs)"
  by (induction xs) auto

lemma list_ex_filter: "list_ex P xs \<longleftrightarrow> filter P xs \<noteq> []"
  by (auto simp: list_ex_iff filter_empty_conv)

lemma own_tenant:
  assumes "own_rows tid d = own_rows tid d0"
  shows "find (\<lambda>r. tr_id r = tid) (tenants d) = find (\<lambda>r. tr_id r = tid) (tenants d0)"
    and "list_ex (\<lambda>r. tr_id r = tid) (tenants d) = list_ex (\<lambda>r. tr_id r = tid) (tenants d0)"
  unfolding find_in_filter [of "\<lambda>r. tr_id r = tid"] list_ex_filter
  using assms by (simp_all add: own_rows_def)

lemma own_pages: "own_rows tid d = own_rows tid d0 \<Longrightarrow> pages_of tid d = pages_of tid d0"
  by (simp add: own_rows_def)

lemma local_reads:
  "local_stmt tid (select_first tenants (\<lambda>r. tr_id r = tid))"
  "local_stmt tid (select_first pages (\<lambda>r. pg_tenant_id r = tid \<and> pg_page_id r = pid))"
  "local_stmt tid (select_all pages (\<lambda>r. pg_tenant_id r = tid) order_by)"
  unfolding local_stmt_def select_first_def select_all_def find_pages_of pages_of_def [symmetric]
  by (intro allI impI; frule own_tenant(1); frule own_pages; simp add: agrees_def)+

lemma own_page:
  assumes "own_rows tid d = own_rows tid d0"
  shows "list_ex (\<lambda>o'. pg_tenant_id o' = tid \<and> pg_page_id o' = pid) (pages d) =
    list_ex (\<lambda>o'. pg_tenant_id o' = tid \<and> pg_page_id o' = pid) (pages d0)"
proof -
  have "list_ex (\<lambda>o'. pg_tenant_id o' = tid \<and> pg_page_id o' = pid) (pages x) =
      list_ex (\<lambda>o'. pg_page_id o' = pid) (pages_of tid x)" for x
    by (auto simp: list_ex_iff pages_of_def)
  then show ?thesis using own_pages [OF assms] by simp
qed

lemma local_writes:
  "local_stmt tid (delete_pages_of tid)" "pg_tenant_id r = tid \<Longrightarrow> local_stmt tid (insert_page r)"
  "local_stmt tid (insert_state l)"
proof -
  show "local_stmt tid (delete_pages_of tid)" "local_stmt tid (insert_state l)"
    by (auto simp: local_stmt_def stmt_defs agrees_def own_rows_def other_rows_def pages_of_def)
  show "local_stmt tid (insert_page r)" if r: "pg_tenant_id r = tid"
    unfolding local_stmt_def
  proof (intro allI impI)
    fix d d0
    assume d: "own_rows tid d = own_rows tid d0"
    from own_page [OF d, of "pg_page_id r"] own_tenant(2) [OF d] d
    show "rel_option (\<lambda>(x, d') (y, d0'). x = y \<and> agrees tid d d' d0') (insert_page r d) (insert_page r d0)"
      by (simp add: insert_page_def r agrees_def own_rows_def other_rows_def pages_of_def)
  qed
qed

lemma isolated_insertPage: "isolated tid (insertPage e tid p)"
  unfolding insertPage_def
  Encrypt_def
  by (intro isolated_bindE isolated_mapE isolated_sql local_writes blind_isolated blind_rules)
     (simp_all add: page_record_def)

lemma isolated_store:
  "isolated tid (TenantByID e tid)" "isolated tid (PageByID e tid pid)" "isolated tid (ListPages e tid)"
  "isolated tid (ReplacePages e tid ps)" "isolated tid (CreateLoginState e st)"
  unfolding TenantByID_def tenantBy_def PageByID_def ListPages_def ReplacePages_def CreateLoginState_def
  by (intro isolated_bindE isolated_mapE isolated_sql isolated_in_tx isolated_map_stateE isolated_pure
      isolated_cases isolated_insertPage local_reads local_writes)+

lemmas isolated_rules = isolated_pure isolated_bindE isolated_bind isolated_mapE isolated_cases
  isolated_store

section \<open>The contract of a resolution\<close>

text \<open>
  All an operation sends is sent for one page the tenant has stored, one the call picks: with the
  token of that page, and to the nodes \<open>paths\<close> of that page or to what Meta's answers lead to. And
  the database is as it was.
\<close>

definition goes ::
  "machine \<Rightarrow> meta_client \<Rightarrow> (string \<Rightarrow> http_request \<Rightarrow> bool) \<Rightarrow> (page \<Rightarrow> string list) \<Rightarrow> page \<Rightarrow> nat \<Rightarrow>
   http_request list \<Rightarrow> bool" where
  "goes e c P paths p n rs \<longleftrightarrow> list_all (P (p_page_token p)) (drop n rs) \<and> reaches_only e c (paths p) n rs"

definition for_owner ::
  "machine \<Rightarrow> meta_client \<Rightarrow> string \<Rightarrow> (database \<Rightarrow> page \<Rightarrow> bool) \<Rightarrow> (string \<Rightarrow> http_request \<Rightarrow> bool) \<Rightarrow>
   (page \<Rightarrow> string list) \<Rightarrow> world \<Rightarrow> world \<Rightarrow> bool" where
  "for_owner e c tid picks P paths w w' \<longleftrightarrow> db w' = db w \<and> prefix (requests w) (requests w') \<and>
     (requests w' = requests w \<or> (\<exists>p. stored_page e (db w) tid p \<and> picks (db w) p \<and>
        goes e c P paths p (length (requests w)) (requests w')))"

text \<open>An operation that only looks: no row changes and nothing is sent.\<close>

definition quiet :: "(world, 'a) state \<Rightarrow> bool" where
  "quiet m \<longleftrightarrow> (\<forall>w. db (snd (run_state m w)) = db w \<and> requests (snd (run_state m w)) = requests w)"

lemma quietD: "quiet m \<Longrightarrow> run_state m w = (r, w') \<Longrightarrow> db w' = db w \<and> requests w' = requests w"
  unfolding quiet_def by (metis snd_conv)

lemma quietI:
  assumes "state_io_rel same_db m" "\<And>P. state_io_rel (emits P) m"
  shows "quiet m"
  unfolding quiet_def
proof
  fix w
  obtain r w' where run: "run_state m w = (r, w')" by (cases "run_state m w")
  have "same_db w w'" "emits (\<lambda>_. False) w w'"
    using fdb.frameD [OF assms(1) run] fem.frameD [OF assms(2) run] by auto
  with run show "db (snd (run_state m w)) = db w \<and> requests (snd (run_state m w)) = requests w"
    by (auto simp: same_db_def emits_def list_all_iff filter_empty_conv)
qed

locale page_resolver =
  fixes e :: machine and tid :: string and resolve :: "page io" and picks :: "database \<Rightarrow> page \<Rightarrow> bool"
  assumes resolved: "run_state resolve w = (Inr p, w') \<Longrightarrow> stored_page e (db w) tid p"
    and picked: "run_state resolve w = (Inr p, w') \<Longrightarrow> picks (db w) p"
    and looks: "quiet resolve"
    and own: "isolated tid resolve"
begin

lemma tool_owner:
  assumes "\<And>p. state_io_rel same_db (f p)" "\<And>p. state_io_rel (emits (P (p_page_token p))) (f p)"
    and "\<And>p. state_io_rel (traces e c (paths p)) (f p)"
  shows "state_io_rel (for_owner e c tid picks P paths) (bindE resolve f)"
proof
  fix w r w'
  assume run: "run_state (bindE resolve f) w = (r, w')"
  obtain q w1 where q: "run_state resolve w = (q, w1)" by (cases "run_state resolve w")
  have w1: "db w1 = db w" "requests w1 = requests w" using quietD [OF looks q] by auto
  show "for_owner e c tid picks P paths w w'"
  proof (cases q)
    case (Inl err)
    with run q w1 show ?thesis by (simp add: run_bindE for_owner_def)
  next
    case (Inr p)
    with run q have f: "run_state (f p) w1 = (r, w')" by (simp add: run_bindE)
    have "same_db w1 w'" "emits (P (p_page_token p)) w1 w'" "traces e c (paths p) w1 w'"
      using fdb.frameD [OF assms(1) f] fem.frameD [OF assms(2) f] ftr.frameD [OF assms(3) f] by auto
    then have "goes e c P paths p (length (requests w)) (requests w')" "db w' = db w"
      "prefix (requests w) (requests w')"
      using w1 by (auto simp: goes_def same_db_def emits_def traces_def)
    with resolved [OF q [unfolded Inr]] picked [OF q [unfolded Inr]] show ?thesis
      by (auto simp: for_owner_def)
  qed
qed

lemma tool_isolated: "(\<And>p. blind (f p)) \<Longrightarrow> isolated tid (bindE resolve f)"
  by (rule isolated_bindE [OF own]) (rule blind_isolated)

text \<open>A tenant with no stored page gets nothing out of it.\<close>

lemma no_pages: "pages_of tid (db w) = [] \<Longrightarrow> \<exists>err. fst (run_state (bindE resolve f) w) = Inl err"
  by (cases "run_state resolve w"; cases "fst (run_state resolve w)")
     (auto simp: run_bindE stored_page_def dest!: resolved)

end

section \<open>The four resolutions\<close>

lemma resolutions_same_db [io_intros]:
  "state_io_rel same_db (Service_page e tid pid)" "state_io_rel same_db (Service_igPage e tid pid)"
  "state_io_rel same_db (Service_ownerPage e tid hint obj)"
  "state_io_rel same_db (Service_ownerIGPage e tid hint obj)"
  unfolding Service_page_def Service_igPage_def Service_ownerPage_def Service_ownerIGPage_def
    prefix_page_def only_page_def Let_def
  by (intro fdb.rules io_intros)+

lemma resolutions_emit [io_intros]:
  "state_io_rel (emits P) (Service_page e tid pid)" "state_io_rel (emits P) (Service_igPage e tid pid)"
  "state_io_rel (emits P) (Service_ownerPage e tid hint obj)"
  "state_io_rel (emits P) (Service_ownerIGPage e tid hint obj)"
  unfolding Service_page_def Service_igPage_def Service_ownerPage_def Service_ownerIGPage_def
    prefix_page_def only_page_def Let_def
  by (intro fem.rules io_intros)+

lemma resolutions_isolated:
  "isolated tid (Service_page e tid pid)" "isolated tid (Service_igPage e tid pid)"
  "isolated tid (Service_ownerPage e tid hint obj)"
  "isolated tid (Service_ownerIGPage e tid hint obj)"
  unfolding Service_page_def Service_igPage_def Service_ownerPage_def Service_ownerIGPage_def
    prefix_page_def only_page_def Let_def
  by (intro isolated_rules)+

lemma Service_page_Inr:
  "run_state (Service_page e tid pid) w = (Inr p, w') \<Longrightarrow>
   stored_page e (db w) tid p \<and> p_page_id p = pid \<and> db w' = db w"
  by (auto simp: Service_page_def split: if_splits dest: PageByID_stored)

lemma Service_igPage_Inr:
  "run_state (Service_igPage e tid pid) w = (Inr p, w') \<Longrightarrow>
   stored_page e (db w) tid p \<and> p_page_id p = pid \<and> HasInstagram p"
  by (auto simp: Service_igPage_def run_bindE_Inr split: if_splits dest: Service_page_Inr)

lemma prefix_page_Inr:
  assumes "run_state (prefix_page e tid obj) w = (Inr found, w')"
  shows "db w' = db w \<and> (\<forall>p. found = Some p \<longrightarrow> stored_page e (db w) tid p \<and>
    (\<exists>rest. cut (CHR ''_'') obj = Some (p_page_id p, rest)))"
proof -
  have "quiet (prefix_page e tid obj)"
    unfolding prefix_page_def by (intro quietI fdb.rules fem.rules io_intros)
  with assms have "db w' = db w" by (auto dest: quietD)
  with assms show ?thesis
    by (auto simp: prefix_page_def split: option.splits prod.splits sum.splits if_splits
        dest: PageByID_stored)
qed

lemma listed_pages:
  assumes "run_state (ListPages e tid) w = (Inr ps, w')"
  shows "length (filter P ps) = length (filter (\<lambda>r. \<exists>p. scanPage e tid r = Inr p \<and> P p) (pages_of tid (db w)))"
proof -
  have "list_all2 (\<lambda>r p. scanPage e tid r = Inr p) (sort_key pg_name (pages_of tid (db w))) ps"
    using assms by (simp add: ListPages_Inr map_res_Inr)
  then have "length (filter P ps) =
      length (filter (\<lambda>r. \<exists>p. scanPage e tid r = Inr p \<and> P p) (sort_key pg_name (pages_of tid (db w))))"
    by (induction rule: list_all2_induct) auto
  then show ?thesis by (simp add: filter_sort)
qed

text \<open>Which page a call is about: the one it names; for an object without a page, the page whose id
  its id starts with, or the only page there is; on Instagram the only page with an account.\<close>

definition named_page :: "string \<Rightarrow> database \<Rightarrow> page \<Rightarrow> bool" where
  "named_page pid d p \<longleftrightarrow> p_page_id p = pid"

definition named_account :: "string \<Rightarrow> database \<Rightarrow> page \<Rightarrow> bool" where
  "named_account pid d p \<longleftrightarrow> p_page_id p = pid \<and> HasInstagram p"

definition owning_page :: "string \<Rightarrow> string \<Rightarrow> string \<Rightarrow> database \<Rightarrow> page \<Rightarrow> bool" where
  "owning_page tid hint obj d p \<longleftrightarrow>
     (if hint \<noteq> [] then p_page_id p = hint
      else (\<exists>rest. obj = p_page_id p @ ''_'' @ rest) \<or> length (pages_of tid d) = 1)"

definition owning_account :: "machine \<Rightarrow> string \<Rightarrow> string \<Rightarrow> database \<Rightarrow> page \<Rightarrow> bool" where
  "owning_account e tid hint d p \<longleftrightarrow> HasInstagram p \<and>
     (if hint \<noteq> [] then p_page_id p = hint
      else length (filter (\<lambda>r. \<exists>q. scanPage e tid r = Inr q \<and> HasInstagram q) (pages_of tid d)) = 1)"

lemma only_page_Inr:
  assumes "run_state (only_page e tid) w = (Inr p, w')"
  shows "stored_page e (db w) tid p \<and> length (pages_of tid (db w)) = 1"
proof -
  from assms obtain ps w1 where ps: "run_state (ListPages e tid) w = (Inr ps, w1)"
    and one: "length ps = 1" "p = ps ! 0"
    by (auto simp: only_page_def run_bindE_Inr split: if_splits)
  then have "length (pages_of tid (db w)) = 1"
    by (auto simp: ListPages_Inr map_res_Inr dest!: list_all2_lengthD)
  moreover from one have "p \<in> set ps" by (metis nth_mem zero_less_one)
  ultimately show ?thesis using ListPages_stored [OF ps] by simp
qed

lemma Service_ownerPage_Inr:
  assumes "run_state (Service_ownerPage e tid hint obj) w = (Inr p, w')"
  shows "stored_page e (db w) tid p \<and> owning_page tid hint obj (db w) p"
proof (cases "hint = []")
  case False
  with assms show ?thesis
    by (auto simp: Service_ownerPage_def owning_page_def split: if_splits dest: Service_page_Inr)
next
  case True
  with assms obtain found w1 where found: "run_state (prefix_page e tid obj) w = (Inr found, w1)"
    and rest: "run_state (case found of Some p \<Rightarrow> ok p | None \<Rightarrow> only_page e tid) w1 = (Inr p, w')"
    by (auto simp: Service_ownerPage_def run_bindE_Inr split: if_splits)
  from prefix_page_Inr [OF found] rest True show ?thesis
    by (cases found) (auto simp: owning_page_def cut_Some dest!: only_page_Inr)
qed

lemma Service_ownerIGPage_Inr:
  assumes "run_state (Service_ownerIGPage e tid hint obj) w = (Inr p, w')"
  shows "stored_page e (db w) tid p \<and> owning_account e tid hint (db w) p"
proof (cases "hint = []")
  case False
  with assms show ?thesis by (auto simp: Service_ownerIGPage_def owning_account_def dest: Service_igPage_Inr)
next
  case True
  with assms obtain ps w1 where ps: "run_state (ListPages e tid) w = (Inr ps, w1)"
    and one: "length (filter HasInstagram ps) = 1" and p: "p = filter HasInstagram ps ! 0"
    by (auto simp: Service_ownerIGPage_def run_bindE_Inr Let_def split: if_splits)
  then have "p \<in> set (filter HasInstagram ps)" by (metis nth_mem zero_less_one)
  with ListPages_stored [OF ps] listed_pages [OF ps, of HasInstagram] one True show ?thesis
    by (auto simp: owning_account_def)
qed

lemmas resolution_facts = resolutions_same_db resolutions_emit resolutions_isolated quietI

interpretation by_page: page_resolver e tid "Service_page e tid pid" "named_page pid" for e tid pid
  by unfold_locales (auto simp: named_page_def dest: Service_page_Inr intro: resolution_facts)

interpretation by_ig_page: page_resolver e tid "Service_igPage e tid pid" "named_account pid" for e tid pid
  by unfold_locales (auto simp: named_account_def dest: Service_igPage_Inr intro: resolution_facts)

interpretation by_owner: page_resolver e tid "Service_ownerPage e tid hint obj" "owning_page tid hint obj"
  for e tid hint obj
  by unfold_locales (auto dest: Service_ownerPage_Inr intro: resolution_facts)

interpretation by_ig_owner: page_resolver e tid "Service_ownerIGPage e tid hint obj" "owning_account e tid hint"
  for e tid hint obj
  by unfold_locales (auto dest: Service_ownerIGPage_Inr intro: resolution_facts)

end
