(* ===== verification/AppFacts.thy ===== *)
theory AppFacts
  imports Resolver
begin

text \<open>
  What the tools of \<open>internal/app\<close> guarantee, from the contract of the resolutions: each sends
  requests for one stored page of the tenant only and sees no other tenant's pages; and, from the
  contract of the confirmation gate, a tool that writes sends nothing without \<open>confirm\<close>, refuses
  the same inputs either way, and sends the write that its preview announces.
\<close>

section \<open>The tools that read\<close>

lemma for_owner_pure [io_intros]:
  "state_io_rel (for_owner e c tid picks P paths) (fail err)"
  "state_io_rel (for_owner e c tid picks P paths) (ok x)"
  by (auto simp: state_io_rel_def for_owner_def)

lemma for_owner_quiet: "quiet m \<Longrightarrow> state_io_rel (for_owner e c tid picks P paths) m"
  by (rule state_io_relI) (auto simp: for_owner_def dest: quietD)

lemma for_owner_mono:
  assumes "for_owner e c tid picks P paths w w'" "\<And>t r. P t r \<Longrightarrow> Q t r"
  shows "for_owner e c tid picks Q paths w w'"
proof -
  have "goes e c P paths p n rs \<Longrightarrow> goes e c Q paths p n rs" for p n rs
    using assms(2) by (auto simp: goes_def elim: list.pred_mono_strong)
  with assms(1) show ?thesis unfolding for_owner_def by blast
qed

lemma state_for_owner_mono:
  "state_io_rel (for_owner e c tid picks P paths) m \<Longrightarrow> (\<And>t r. P t r \<Longrightarrow> Q t r) \<Longrightarrow>
   state_io_rel (for_owner e c tid picks Q paths) m"
  unfolding state_io_rel_def by (meson for_owner_mono)

lemma for_owner_if:
  "state_io_rel (for_owner e c tid picks P paths) a \<Longrightarrow> state_io_rel (for_owner e c tid picks P paths) b \<Longrightarrow>
   state_io_rel (for_owner e c tid picks P paths) (if d then a else b)"
  by simp

lemmas owner_rules = for_owner_if for_owner_pure by_page.tool_owner by_ig_page.tool_owner
  by_owner.tool_owner by_ig_owner.tool_owner

lemma read_tools_owner:
  "state_io_rel (for_owner e (sv_graph s) tid (named_page (ip_page_id i)) reads
     (\<lambda>p. [p_page_id p @ ''/insights''])) (Service_PageInsights e s tid i)"
  "state_io_rel (for_owner e (sv_graph s) tid (named_page (li_page_id l)) reads
     (\<lambda>p. [p_page_id p @ ''/posts''])) (Service_PagePosts e s tid l)"
  "state_io_rel (for_owner e (sv_graph s) tid (owning_page tid (ci_page_id c) (ci_object_id c)) reads
     (\<lambda>p. [ci_object_id c @ ''/comments''])) (Service_PagePostComments e s tid c)"
  "state_io_rel (for_owner e (sv_graph s) tid (named_page pid) reads
     (\<lambda>p. [p_page_id p, p_page_id p @ ''/ratings''])) (Service_PageRatings e s tid pid n)"
  "state_io_rel (for_owner e (sv_graph s) tid (named_page pid) reads
     (\<lambda>p. [p_page_id p @ ''/scheduled_posts''])) (Service_PageScheduledPosts e s tid pid n)"
  "state_io_rel (for_owner e (sv_graph s) tid (owning_page tid (oi_page_id obj) (oi_object_id obj)) reads
     (\<lambda>p. [oi_object_id obj @ ''/insights''])) (Service_PagePostInsights e s tid obj)"
  "state_io_rel (for_owner e (sv_graph s) tid (owning_account e tid (oi_page_id obj)) reads
     (\<lambda>p. [oi_object_id obj @ ''/insights''])) (Service_IGMediaInsights e s tid obj)"
  "state_io_rel (for_owner e (sv_graph s) tid (named_account (ip_page_id i)) reads
     (\<lambda>p. [p_ig_user_id p @ ''/insights''])) (Service_IGAccountInsights e s tid i)"
  "state_io_rel (for_owner e (sv_graph s) tid (named_account pid) reads
     (\<lambda>p. [p_ig_user_id p @ ''/insights''])) (Service_IGFollowerDemographics e s tid pid k)"
  "state_io_rel (for_owner e (sv_graph s) tid (named_account (li_page_id l)) reads
     (\<lambda>p. [p_ig_user_id p @ ''/media''])) (Service_IGMedia e s tid l)"
  "state_io_rel (for_owner e (sv_graph s) tid (owning_account e tid (ci_page_id c)) reads
     (\<lambda>p. [ci_object_id c @ ''/comments''])) (Service_IGMediaComments e s tid c)"
  "state_io_rel (for_owner e (sv_graph s) tid (named_account pid) reads
     (\<lambda>p. [p_ig_user_id p @ ''/stories''])) (Service_IGStories e s tid pid)"
  unfolding Service_PageInsights_def Service_PagePosts_def Service_PagePostComments_def
    Service_PageRatings_def Service_PageScheduledPosts_def Service_PagePostInsights_def
    Service_IGMediaInsights_def Service_IGAccountInsights_def Service_IGFollowerDemographics_def
    Service_IGMedia_def Service_IGMediaComments_def Service_IGStories_def dateWindow_def
  by (intro owner_rules fdb.rules fem.rules ftr.rules io_intros effects_trace graph_traces)+

lemma local_tools_quiet:
  "quiet (Service_ListPages e tid)" "quiet (Service_PageInsightsMetadata e tid pid)"
  unfolding Service_ListPages_def Service_PageInsightsMetadata_def
  by (intro quietI fdb.rules fem.rules io_intros)+

lemma read_tools_isolated:
  "isolated tid (Service_ListPages e tid)"
  "isolated tid (Service_PageInsightsMetadata e tid pid)"
  "isolated tid (Service_PageInsights e s tid i)"
  "isolated tid (Service_PagePosts e s tid l)"
  "isolated tid (Service_PagePostComments e s tid c)"
  "isolated tid (Service_PageRatings e s tid pid n)"
  "isolated tid (Service_PageScheduledPosts e s tid pid n)"
  "isolated tid (Service_PagePostInsights e s tid obj)"
  "isolated tid (Service_IGMediaInsights e s tid obj)"
  "isolated tid (Service_IGAccountInsights e s tid i)"
  "isolated tid (Service_IGFollowerDemographics e s tid pid k)"
  "isolated tid (Service_IGMedia e s tid l)"
  "isolated tid (Service_IGMediaComments e s tid c)"
  "isolated tid (Service_IGStories e s tid pid)"
  unfolding Service_ListPages_def Service_PageInsightsMetadata_def Service_PageInsights_def
    Service_PagePosts_def Service_PagePostComments_def
    Service_PageRatings_def Service_PageScheduledPosts_def Service_PagePostInsights_def
    Service_IGMediaInsights_def Service_IGAccountInsights_def Service_IGFollowerDemographics_def
    Service_IGMedia_def Service_IGMediaComments_def Service_IGStories_def dateWindow_def
  by (intro isolated_rules by_page.tool_isolated by_ig_page.tool_isolated by_owner.tool_isolated
      by_ig_owner.tool_isolated blind_rules blind_graph by_page.own)+

section \<open>The tools that write\<close>

lemma buildPublishRequest_frames:
  "state_io_rel same_db (buildPublishRequest e i)" "state_io_rel (emits P) (buildPublishRequest e i)"
  "state_io_rel (traces e c paths) (buildPublishRequest e i)" "blind (buildPublishRequest e i)"
  unfolding buildPublishRequest_def Let_def
  by (intro fdb.rules fem.rules ftr.rules blind_rules io_intros effects_trace)+

lemma moderate_frames:
  "state_io_rel same_db (moderate e s p i ig)"
  "state_io_rel (emits (uses (p_page_token p))) (moderate e s p i ig)"
  "state_io_rel (traces e (sv_graph s) [min_comment_id i]) (moderate e s p i ig)" "blind (moderate e s p i ig)"
  unfolding moderate_def Let_def
  by (intro fdb.rules fem.rules ftr.rules blind_rules blind_publish io_intros write_traces)+

lemma write_tools_owner:
  "state_io_rel (for_owner e (sv_graph s) tid (named_page (pin_page_id pin)) uses
     (\<lambda>p. [p_page_id p @ ''/photos'', p_page_id p @ ''/feed''])) (Service_PublishPost e s tid pin)"
  "state_io_rel (for_owner e (sv_graph s) tid (owning_page tid (rin_page_id rin) (rin_comment_id rin)) uses
     (\<lambda>p. [rin_comment_id rin @ ''/comments''])) (Service_ReplyToComment e s tid rin)"
  "state_io_rel (for_owner e (sv_graph s) tid (owning_account e tid (rin_page_id rin)) uses
     (\<lambda>p. [rin_comment_id rin @ ''/replies''])) (Service_IGReplyToComment e s tid rin)"
  "state_io_rel (for_owner e (sv_graph s) tid (named_account (gin_page_id gin)) uses
     (\<lambda>p. [p_ig_user_id p @ ''/media'', p_ig_user_id p @ ''/media_publish''])) (Service_IGPublish e s tid gin)"
  "state_io_rel (for_owner e (sv_graph s) tid (owning_page tid (min_page_id mi) (min_comment_id mi)) uses
     (\<lambda>p. [min_comment_id mi])) (Service_ModerateComment e s tid mi)"
  "state_io_rel (for_owner e (sv_graph s) tid (owning_account e tid (min_page_id mi)) uses
     (\<lambda>p. [min_comment_id mi])) (Service_IGModerateComment e s tid mi)"
  "state_io_rel (for_owner e (sv_graph s) tid (owning_page tid (din_page_id din) (din_post_id din)) uses
     (\<lambda>p. [din_post_id din])) (Service_PageCancelScheduledPost e s tid din)"
  "state_io_rel (for_owner e (sv_graph s) tid (owning_page tid (din_page_id din) (din_post_id din)) uses
     (\<lambda>p. [din_post_id din])) (Service_PageDeletePost e s tid din)"
  unfolding Service_PublishPost_def Service_ReplyToComment_def Service_IGReplyToComment_def
    Service_IGPublish_def Service_ModerateComment_def Service_IGModerateComment_def
    Service_PageCancelScheduledPost_def Service_PageDeletePost_def Let_def
  by (intro owner_rules fdb.rules fem.rules ftr.rules io_intros buildPublishRequest_frames
      moderate_frames write_traces IGPublish_traces)+

lemma write_tools_isolated:
  "isolated tid (Service_PublishPost e s tid pin)"
  "isolated tid (Service_ReplyToComment e s tid rin)"
  "isolated tid (Service_IGReplyToComment e s tid rin)"
  "isolated tid (Service_IGPublish e s tid gin)"
  "isolated tid (Service_ModerateComment e s tid mi)"
  "isolated tid (Service_IGModerateComment e s tid mi)"
  "isolated tid (Service_PageCancelScheduledPost e s tid din)"
  "isolated tid (Service_PageDeletePost e s tid din)"
  unfolding Service_PublishPost_def Service_ReplyToComment_def Service_IGReplyToComment_def
    Service_IGPublish_def Service_ModerateComment_def Service_IGModerateComment_def
    Service_PageCancelScheduledPost_def Service_PageDeletePost_def Let_def
  by (intro isolated_cases isolated_pure by_page.tool_isolated by_ig_page.tool_isolated
      by_owner.tool_isolated by_ig_owner.tool_isolated blind_rules blind_publish
      buildPublishRequest_frames moderate_frames)+

section \<open>The confirmation gate\<close>

text \<open>
  \<open>prep\<close> is what a writing tool does before the gate: it resolves the page and validates the
  input. Then \<open>confirm\<close> decides between the preview \<open>shown\<close> and the write \<open>commit\<close>. \<open>flag\<close> reads
  the preview flag of an output, \<open>content\<close> what the output says would be, or was, written, and
  \<open>sent\<close> relates an output to the requests that write it.
\<close>

text \<open>What the gate of a use case promises, for one output type.\<close>

type_synonym sending = "bool \<Rightarrow> database \<Rightarrow> http_request list \<Rightarrow> http_request list \<Rightarrow> bool"

definition gated ::
  "(bool \<Rightarrow> 'o io) \<Rightarrow> ('o \<Rightarrow> bool) \<Rightarrow> ('o \<Rightarrow> 'c) \<Rightarrow> ('o \<Rightarrow> sending) \<Rightarrow> bool" where
  "gated tool flag content sent \<longleftrightarrow> quiet (tool False) \<and>
     (\<forall>c w out w'. run_state (tool c) w = (Inr out, w') \<longrightarrow> (flag out \<longleftrightarrow> \<not> c)) \<and>
     (\<forall>w err w'. run_state (tool False) w = (Inl err, w') \<longrightarrow> run_state (tool True) w = (Inl err, w')) \<and>
     (\<forall>w shown w1 done w'. run_state (tool False) w = (Inr shown, w1) \<longrightarrow>
        run_state (tool True) w = (Inr done, w') \<longrightarrow> content done = content shown) \<and>
     (\<forall>w shown w1 r w'. run_state (tool False) w = (Inr shown, w1) \<longrightarrow> run_state (tool True) w = (r, w') \<longrightarrow>
        sent shown (\<not> isl r) (db w) (requests w) (requests w'))"

locale confirm_gate =
  fixes tool :: "bool \<Rightarrow> 'o io" and prep :: "'x io" and shown :: "'x \<Rightarrow> 'o"
    and commit :: "'x \<Rightarrow> 'o io" and flag :: "'o \<Rightarrow> bool" and content :: "'o \<Rightarrow> 'c"
    and sent :: "'o \<Rightarrow> sending"
  assumes gate: "tool c = bindE prep (\<lambda>x. if c then commit x else ok (shown x))"
    and prep_quiet: "quiet prep"
    and shown_flag: "flag (shown x)"
    and commit_flag: "run_state (commit x) w = (Inr out, w') \<Longrightarrow> \<not> flag out"
    and commit_content: "run_state (commit x) w = (Inr out, w') \<Longrightarrow> content out = content (shown x)"
    and commit_sends: "run_state prep w = (Inr x, w1) \<Longrightarrow> run_state (commit x) w1 = (r, w') \<Longrightarrow>
      sent (shown x) (\<not> isl r) (db w) (requests w) (requests w')"
begin

lemma unconfirmed_quiet: "quiet (tool False)"
  unfolding gate quiet_def
  by (auto simp: run_bindE split: prod.splits sum.splits dest: quietD [OF prep_quiet])

lemma flag_iff: "run_state (tool c) w = (Inr out, w') \<Longrightarrow> flag out \<longleftrightarrow> \<not> c"
  by (auto simp: gate run_bindE_Inr shown_flag dest: commit_flag split: if_splits)

lemma same_refusal:
  "run_state (tool False) w = (Inl err, w') \<Longrightarrow> run_state (tool True) w = (Inl err, w')"
  by (auto simp: gate run_bindE split: prod.splits sum.splits)

text \<open>What is published is what the preview showed, from the same state of the database.\<close>

lemma published_as_shown:
  assumes "run_state (tool False) w = (Inr out, w1)" "run_state (tool True) w = (Inr done, w')"
  shows "content done = content out"
  using assms by (auto simp: gate run_bindE_Inr dest: commit_content)

text \<open>And what is sent is what the preview announces, whether Meta accepts it or not.\<close>

lemma sent_as_shown:
  assumes "run_state (tool False) w = (Inr out, w1)" "run_state (tool True) w = (r, w')"
  shows "sent out (\<not> isl r) (db w) (requests w) (requests w')"
  using assms by (auto simp: gate run_bindE split: prod.splits sum.splits intro: commit_sends)

lemma is_gated: "gated tool flag content sent"
  unfolding gated_def
proof (intro conjI allI impI)
  show "quiet (tool False)" by (rule unconfirmed_quiet)
next
  fix c w out w'
  assume "run_state (tool c) w = (Inr out, w')"
  then show "flag out \<longleftrightarrow> \<not> c" by (rule flag_iff)
next
  fix w err w'
  assume "run_state (tool False) w = (Inl err, w')"
  then show "run_state (tool True) w = (Inl err, w')" by (rule same_refusal)
next
  fix w shown w1 final w'
  assume "run_state (tool False) w = (Inr shown, w1)" "run_state (tool True) w = (Inr final, w')"
  then show "content final = content shown" by (rule published_as_shown)
next
  fix w shown w1 r w'
  assume "run_state (tool False) w = (Inr shown, w1)" "run_state (tool True) w = (r, w')"
  then show "sent shown (\<not> isl r) (db w) (requests w) (requests w')" by (rule sent_as_shown)
qed

end

lemma commit_cases:
  "run_state (bindE m (\<lambda>x. ok (f x))) w = (Inr out, w') \<Longrightarrow> \<exists>x. out = f x"
  by (auto simp: run_bindE_Inr)

lemma buildPublishRequest_confirm [simp]:
  "buildPublishRequest e (i\<lparr>pin_confirm := c\<rparr>) = buildPublishRequest e i"
  by (simp add: buildPublishRequest_def Let_def)

lemma buildIGPublishRequest_confirm [simp]:
  "buildIGPublishRequest e (i\<lparr>gin_confirm := c\<rparr>) = buildIGPublishRequest e i"
  by (simp add: buildIGPublishRequest_def Let_def)

lemma drafts_confirm [simp]:
  "reply_draft p (i\<lparr>rin_confirm := c\<rparr>) m = reply_draft p i m"
  "removal_draft p (j\<lparr>din_confirm := c\<rparr>) = removal_draft p j"
  by (simp_all add: reply_draft_def removal_draft_def)

text \<open>The content of an output: everything but the preview flag, the notice and what Meta returns.\<close>

definition post_content :: "publish_output \<Rightarrow> publish_output" where
  "post_content o1 = o1\<lparr>pout_preview := False, pout_post_id := [], pout_notice := []\<rparr>"

definition reply_content :: "reply_output \<Rightarrow> reply_output" where
  "reply_content o1 = o1\<lparr>rout_preview := False, rout_reply_id := [], rout_notice := []\<rparr>"

definition ig_content :: "ig_publish_output \<Rightarrow> ig_publish_output" where
  "ig_content o1 = o1\<lparr>gout_preview := False, gout_media_id := [], gout_notice := []\<rparr>"

definition moderate_content :: "moderate_output \<Rightarrow> moderate_output" where
  "moderate_content o1 = o1\<lparr>mout_preview := False, mout_done := False, mout_notice := []\<rparr>"

definition removal_content :: "removal_output \<Rightarrow> removal_output" where
  "removal_content o1 = o1\<lparr>dout_preview := False, dout_done := False, dout_notice := []\<rparr>"

lemmas content_defs = post_content_def reply_content_def ig_content_def moderate_content_def
  removal_content_def

text \<open>
  What a preview announces, as requests to Meta: the node they are posted to and every parameter,
  from the fields of the preview alone, with the token of the stored page that the preview names.
  Of the time of a scheduled post the preview shows the text, so it is any instant with that text.
\<close>

definition announced_post :: "publish_output \<Rightarrow> instant \<Rightarrow> values" where
  "announced_post x t =
     (if pout_kind x = ''photo''
      then (''url'', [pout_photo_url x]) #
        (if pout_message x = [] then [] else [(''caption'', [pout_message x])])
      else (''message'', [pout_message x]) #
        (if pout_link x = [] then [] else [(''link'', [pout_link x])])) @
     (if pout_scheduled_at x = [] then []
      else [(''published'', [''false'']), (''scheduled_publish_time'', [print_int (unix t)])])"

definition post_announced :: "machine \<Rightarrow> meta_client \<Rightarrow> string \<Rightarrow> publish_output \<Rightarrow> sending" where
  "post_announced e c tid x success d rs rs' \<longleftrightarrow> (\<exists>p t. stored_page e d tid p \<and>
     p_page_id p = pout_page_id x \<and> (pout_scheduled_at x \<noteq> [] \<longrightarrow> format_rfc3339 t = pout_scheduled_at x) \<and>
     one_write e c (p_page_token p)
       (pout_page_id x @ (if pout_kind x = ''photo'' then ''/photos'' else ''/feed''))
       (announced_post x t) success rs rs')"

definition reply_announced :: "machine \<Rightarrow> meta_client \<Rightarrow> string \<Rightarrow> string \<Rightarrow> reply_output \<Rightarrow> sending" where
  "reply_announced e c tid edge x success d rs rs' \<longleftrightarrow> (\<exists>p. stored_page e d tid p \<and>
     p_page_id p = rout_page_id x \<and>
     one_write e c (p_page_token p) (rout_comment_id x @ edge) [(''message'', [rout_message x])] success rs rs')"

definition ig_announced :: "machine \<Rightarrow> meta_client \<Rightarrow> string \<Rightarrow> ig_publish_output \<Rightarrow> sending" where
  "ig_announced e c tid x success d rs rs' \<longleftrightarrow> (\<exists>p. stored_page e d tid p \<and>
     p_page_id p = gout_page_id x \<and> p_ig_username p = gout_ig_username x \<and>
     ig_sent e c (p_page_token p) (p_ig_user_id p)
       \<lparr>ig_media_type = gout_media_type x, ig_image_url = gout_image_url x,
        ig_video_url = gout_video_url x, ig_caption = gout_caption x, ig_children = gout_children x\<rparr>
       success rs rs')"

definition moderation_announced :: "machine \<Rightarrow> meta_client \<Rightarrow> string \<Rightarrow> string \<Rightarrow> moderate_output \<Rightarrow> sending" where
  "moderation_announced e c tid field x success d rs rs' \<longleftrightarrow> (\<exists>p. stored_page e d tid p \<and>
     p_page_id p = mout_page_id x \<and>
     one_write e c (p_page_token p) (mout_comment_id x)
       (if mout_action x = ''delete'' then [(''method'', [''delete''])]
        else [(field, [if mout_action x = ''hide'' then ''true'' else ''false''])]) success rs rs')"

definition removal_announced :: "machine \<Rightarrow> meta_client \<Rightarrow> string \<Rightarrow> removal_output \<Rightarrow> sending" where
  "removal_announced e c tid x success d rs rs' \<longleftrightarrow> (\<exists>p. stored_page e d tid p \<and>
     p_page_id p = dout_page_id x \<and>
     one_write e c (p_page_token p) (dout_post_id x) [(''method'', [''delete''])] success rs rs')"

lemma format_rfc3339_ne [simp]: "format_rfc3339 t \<noteq> []"
  by (simp add: format_rfc3339_def Let_def split: prod.splits)

lemma draft_announces:
  "publish_params req = announced_post ((publish_draft p req)\<lparr>pout_preview := b, pout_notice := n\<rparr>) (pp_scheduled_at req)"
  by (simp add: publish_params_def announced_post_def publish_draft_def values_set_def Let_def)

lemma commit_ran:
  "run_state (bindE m (\<lambda>x. ok (f x))) w = (r, w') \<Longrightarrow> \<exists>q. run_state m w = (q, w') \<and> isl q = isl r"
  by (auto simp: run_bindE split: prod.splits sum.splits)

lemma publish_commit_sends:
  assumes prep: "run_state (bindE (Service_page e tid pid) (\<lambda>p. bindE (buildPublishRequest e i) (\<lambda>req. ok (p, req)))) w
      = (Inr x, w1)"
    and commit: "run_state (case x of (p, req) \<Rightarrow>
      bindE (PublishPost e c (p_page_token p) (p_page_id p) req) (\<lambda>postID. ok (f p req postID))) w1 = (r, w')"
  shows "post_announced e c tid (case x of (p, req) \<Rightarrow> (publish_draft p req)\<lparr>pout_preview := b, pout_notice := n\<rparr>)
    (\<not> isl r) (db w) (requests w) (requests w')"
proof -
  obtain p req where x: "x = (p, req)" by (cases x)
  have "quiet (bindE (Service_page e tid pid) (\<lambda>p. bindE (buildPublishRequest e i) (\<lambda>req. ok (p, req))))"
    by (intro quietI fdb.rules fem.rules io_intros buildPublishRequest_frames)
  from quietD [OF this prep] have rs: "requests w1 = requests w" by simp
  have stored: "stored_page e (db w) tid p"
    using prep by (auto simp: x run_bindE_Inr dest: Service_page_Inr)
  obtain q where "run_state (PublishPost e c (p_page_token p) (p_page_id p) req) w1 = (q, w')" "isl q = isl r"
    using commit_ran [OF commit [unfolded x prod.case]] by blast
  from simple_writes(1) [OF this(1)] this(2) stored rs show ?thesis
    unfolding post_announced_def x prod.case draft_announces [where req = req and p = p and b = b and n = n]
    by (intro exI [of _ p] exI [of _ "pp_scheduled_at req"]) (auto simp: publish_draft_def)
qed

interpretation publish_gate: confirm_gate
  "\<lambda>c. Service_PublishPost e s tid (i\<lparr>pin_confirm := c\<rparr>)"
  "bindE (Service_page e tid (pin_page_id i)) (\<lambda>p. bindE (buildPublishRequest e i) (\<lambda>req. ok (p, req)))"
  "\<lambda>(p, req). (publish_draft p req)\<lparr>pout_preview := True, pout_notice := previewNotice\<rparr>"
  "\<lambda>(p, req). bindE (PublishPost e (sv_graph s) (p_page_token p) (p_page_id p) req)
     (\<lambda>postID. ok ((publish_draft p req)\<lparr>pout_post_id := postID\<rparr>))"
  pout_preview post_content "post_announced e (sv_graph s) tid" for e s tid i
proof
  show "Service_PublishPost e s tid (i\<lparr>pin_confirm := c\<rparr>) =
      bindE (bindE (Service_page e tid (pin_page_id i)) (\<lambda>p. bindE (buildPublishRequest e i) (\<lambda>req. ok (p, req))))
        (\<lambda>x. if c then (case x of (p, req) \<Rightarrow>
             bindE (PublishPost e (sv_graph s) (p_page_token p) (p_page_id p) req)
               (\<lambda>postID. ok ((publish_draft p req)\<lparr>pout_post_id := postID\<rparr>)))
           else ok (case x of (p, req) \<Rightarrow>
             (publish_draft p req)\<lparr>pout_preview := True, pout_notice := previewNotice\<rparr>))" for c
    by (cases c) (simp_all add: Service_PublishPost_def bindE_assoc Let_def)
  show "quiet (bindE (Service_page e tid (pin_page_id i))
      (\<lambda>p. bindE (buildPublishRequest e i) (\<lambda>req. ok (p, req))))"
    by (intro quietI fdb.rules fem.rules io_intros buildPublishRequest_frames)
qed (erule (1) publish_commit_sends | (auto simp: publish_draft_def content_defs dest!: commit_cases)[1])+

lemma ig_commit_sends:
  assumes prep: "run_state (bindE (Service_igPage e tid pid)
      (\<lambda>p. bindE (from_res (buildIGPublishRequest e i)) (\<lambda>req. ok (p, req)))) w = (Inr x, w1)"
    and commit: "run_state (case x of (p, req) \<Rightarrow>
      bindE (IGPublish e c (p_page_token p) (p_ig_user_id p) req) (\<lambda>mediaID. ok (f p req mediaID))) w1 = (r, w')"
  shows "ig_announced e c tid (case x of (p, req) \<Rightarrow> (ig_draft p req)\<lparr>gout_preview := b, gout_notice := n\<rparr>)
    (\<not> isl r) (db w) (requests w) (requests w')"
proof -
  obtain p req where x: "x = (p, req)" by (cases x)
  have "quiet (bindE (Service_igPage e tid pid) (\<lambda>p. bindE (from_res (buildIGPublishRequest e i)) (\<lambda>req. ok (p, req))))"
    by (intro quietI fdb.rules fem.rules io_intros)
  from quietD [OF this prep] have rs: "requests w1 = requests w" by simp
  have stored: "stored_page e (db w) tid p"
    using prep by (auto simp: x run_bindE_Inr dest: Service_igPage_Inr)
  obtain q where "run_state (IGPublish e c (p_page_token p) (p_ig_user_id p) req) w1 = (q, w')" "isl q = isl r"
    using commit_ran [OF commit [unfolded x prod.case]] by blast
  from IGPublish_sent [OF this(1)] this(2) stored rs show ?thesis
    unfolding ig_announced_def x prod.case
    by (intro exI [of _ p]; cases req) (auto simp: ig_draft_def)
qed

interpretation ig_publish_gate: confirm_gate
  "\<lambda>c. Service_IGPublish e s tid (i\<lparr>gin_confirm := c\<rparr>)"
  "bindE (Service_igPage e tid (gin_page_id i))
     (\<lambda>p. bindE (from_res (buildIGPublishRequest e i)) (\<lambda>req. ok (p, req)))"
  "\<lambda>(p, req). (ig_draft p req)\<lparr>gout_preview := True, gout_notice := previewNotice\<rparr>"
  "\<lambda>(p, req). bindE (IGPublish e (sv_graph s) (p_page_token p) (p_ig_user_id p) req)
     (\<lambda>mediaID. ok ((ig_draft p req)\<lparr>gout_media_id := mediaID\<rparr>))"
  gout_preview ig_content "ig_announced e (sv_graph s) tid" for e s tid i
proof
  show "Service_IGPublish e s tid (i\<lparr>gin_confirm := c\<rparr>) =
      bindE (bindE (Service_igPage e tid (gin_page_id i))
        (\<lambda>p. bindE (from_res (buildIGPublishRequest e i)) (\<lambda>req. ok (p, req))))
        (\<lambda>x. if c then (case x of (p, req) \<Rightarrow>
             bindE (IGPublish e (sv_graph s) (p_page_token p) (p_ig_user_id p) req)
               (\<lambda>mediaID. ok ((ig_draft p req)\<lparr>gout_media_id := mediaID\<rparr>)))
           else ok (case x of (p, req) \<Rightarrow>
             (ig_draft p req)\<lparr>gout_preview := True, gout_notice := previewNotice\<rparr>))" for c
    by (cases c) (simp_all add: Service_IGPublish_def bindE_assoc Let_def)
  show "quiet (bindE (Service_igPage e tid (gin_page_id i))
      (\<lambda>p. bindE (from_res (buildIGPublishRequest e i)) (\<lambda>req. ok (p, req))))"
    by (intro quietI fdb.rules fem.rules io_intros)
qed (erule (1) ig_commit_sends | (auto simp: ig_draft_def content_defs dest!: commit_cases)[1])+

text \<open>A reply, from the page it is resolved for.\<close>

definition reply_prep :: "page io \<Rightarrow> reply_input \<Rightarrow> (page \<times> string) io" where
  "reply_prep resolve i =
     (let message = trim_space (rin_message i) in
      if message = [] then fail (Msg ''message est obligatoire'')
      else bindE resolve (\<lambda>p. ok (p, message)))"

lemma reply_prep_quiet: "quiet resolve \<Longrightarrow> quiet (reply_prep resolve i)"
  by (auto simp: reply_prep_def quiet_def Let_def run_bindE split: prod.splits sum.splits)
     (metis snd_conv)+

lemma reply_commit_sends:
  assumes prep: "run_state (reply_prep resolve i) w = (Inr x, w1)" and quiet: "quiet resolve"
    and resolved: "\<And>p w2. run_state resolve w = (Inr p, w2) \<Longrightarrow> stored_page e (db w) tid p"
    and writes: "\<And>p m q. run_state (send p m) w1 = (q, w') \<Longrightarrow>
      one_write e c (p_page_token p) (rin_comment_id i @ edge) [(''message'', [m])] (\<not> isl q) (requests w1) (requests w')"
    and commit: "run_state (case x of (p, m) \<Rightarrow> bindE (send p m) (\<lambda>replyID. ok (f p m replyID))) w1 = (r, w')"
  shows "reply_announced e c tid edge (case x of (p, m) \<Rightarrow> (reply_draft p i m)\<lparr>rout_preview := b, rout_notice := n\<rparr>)
    (\<not> isl r) (db w) (requests w) (requests w')"
proof -
  obtain p m where x: "x = (p, m)" by (cases x)
  from quietD [OF reply_prep_quiet [OF quiet] prep] have rs: "requests w1 = requests w" by simp
  have stored: "stored_page e (db w) tid p"
    using prep by (auto simp: x reply_prep_def Let_def run_bindE_Inr split: if_splits dest: resolved)
  obtain q where "run_state (send p m) w1 = (q, w')" "isl q = isl r"
    using commit_ran [OF commit [unfolded x prod.case]] by blast
  from writes [OF this(1)] this(2) stored rs show ?thesis
    unfolding reply_announced_def x prod.case by (intro exI [of _ p]) (auto simp: reply_draft_def)
qed

lemmas reply_sends = reply_commit_sends [OF _ by_owner.looks by_owner.resolved simple_writes(2)]
lemmas ig_reply_sends = reply_commit_sends [OF _ by_ig_owner.looks by_ig_owner.resolved simple_writes(3)]

interpretation reply_gate: confirm_gate
  "\<lambda>c. Service_ReplyToComment e s tid (i\<lparr>rin_confirm := c\<rparr>)"
  "reply_prep (Service_ownerPage e tid (rin_page_id i) (rin_comment_id i)) i"
  "\<lambda>(p, m). (reply_draft p i m)\<lparr>rout_preview := True, rout_notice := previewNotice\<rparr>"
  "\<lambda>(p, m). bindE (ReplyToComment e (sv_graph s) (p_page_token p) (rin_comment_id i) m)
     (\<lambda>replyID. ok ((reply_draft p i m)\<lparr>rout_reply_id := replyID\<rparr>))"
  rout_preview reply_content "reply_announced e (sv_graph s) tid ''/comments''" for e s tid i
proof
  show "Service_ReplyToComment e s tid (i\<lparr>rin_confirm := c\<rparr>) =
      bindE (reply_prep (Service_ownerPage e tid (rin_page_id i) (rin_comment_id i)) i)
        (\<lambda>x. if c then (case x of (p, m) \<Rightarrow>
             bindE (ReplyToComment e (sv_graph s) (p_page_token p) (rin_comment_id i) m)
               (\<lambda>replyID. ok ((reply_draft p i m)\<lparr>rout_reply_id := replyID\<rparr>)))
           else ok (case x of (p, m) \<Rightarrow>
             (reply_draft p i m)\<lparr>rout_preview := True, rout_notice := previewNotice\<rparr>))" for c
    by (cases c) (simp_all add: Service_ReplyToComment_def reply_prep_def bindE_assoc bindE_if Let_def)
  show "quiet (reply_prep (Service_ownerPage e tid (rin_page_id i) (rin_comment_id i)) i)"
    by (rule reply_prep_quiet [OF by_owner.looks])
qed (erule (1) reply_sends | (auto simp: reply_draft_def content_defs dest!: commit_cases)[1])+

interpretation ig_reply_gate: confirm_gate
  "\<lambda>c. Service_IGReplyToComment e s tid (i\<lparr>rin_confirm := c\<rparr>)"
  "reply_prep (Service_ownerIGPage e tid (rin_page_id i) (rin_comment_id i)) i"
  "\<lambda>(p, m). (reply_draft p i m)\<lparr>rout_preview := True, rout_notice := previewNotice\<rparr>"
  "\<lambda>(p, m). bindE (IGReplyToComment e (sv_graph s) (p_page_token p) (rin_comment_id i) m)
     (\<lambda>replyID. ok ((reply_draft p i m)\<lparr>rout_reply_id := replyID\<rparr>))"
  rout_preview reply_content "reply_announced e (sv_graph s) tid ''/replies''" for e s tid i
proof
  show "Service_IGReplyToComment e s tid (i\<lparr>rin_confirm := c\<rparr>) =
      bindE (reply_prep (Service_ownerIGPage e tid (rin_page_id i) (rin_comment_id i)) i)
        (\<lambda>x. if c then (case x of (p, m) \<Rightarrow>
             bindE (IGReplyToComment e (sv_graph s) (p_page_token p) (rin_comment_id i) m)
               (\<lambda>replyID. ok ((reply_draft p i m)\<lparr>rout_reply_id := replyID\<rparr>)))
           else ok (case x of (p, m) \<Rightarrow>
             (reply_draft p i m)\<lparr>rout_preview := True, rout_notice := previewNotice\<rparr>))" for c
    by (cases c) (simp_all add: Service_IGReplyToComment_def reply_prep_def bindE_assoc bindE_if Let_def)
  show "quiet (reply_prep (Service_ownerIGPage e tid (rin_page_id i) (rin_comment_id i)) i)"
    by (rule reply_prep_quiet [OF by_ig_owner.looks])
qed (erule (1) ig_reply_sends | (auto simp: reply_draft_def content_defs dest!: commit_cases)[1])+

text \<open>Moderation: the checks of \<open>moderate\<close> before its gate, and its two outcomes.\<close>

definition moderate_prep :: "page io \<Rightarrow> moderate_input \<Rightarrow> (page \<times> string) io" where
  "moderate_prep resolve i =
     bindE resolve (\<lambda>p.
     if trim_space (min_comment_id i) = [] then fail (Msg ''comment_id est obligatoire'')
     else let action = to_lower (trim_space (min_action i)) in
       if action \<notin> set AllowedModerationActions
       then fail (Msg ''action doit valoir [hide unhide delete]'')
       else ok (p, action))"

definition moderate_draft :: "moderate_input \<Rightarrow> page \<times> string \<Rightarrow> moderate_output" where
  "moderate_draft i = (\<lambda>(p, action).
     \<lparr>mout_preview = False, mout_done = False, mout_comment_id = min_comment_id i,
      mout_action = action, mout_page_id = p_page_id p, mout_page_name = p_name p,
      mout_notice = []\<rparr>)"

definition moderate_shown :: "moderate_input \<Rightarrow> page \<times> string \<Rightarrow> moderate_output" where
  "moderate_shown i x = (moderate_draft i x)\<lparr>mout_preview := True, mout_notice := previewNotice @
     (if snd x = ModerationDelete then '' La suppression est definitive et irreversible.'' else [])\<rparr>"

definition moderate_commit ::
  "machine \<Rightarrow> service \<Rightarrow> moderate_input \<Rightarrow> bool \<Rightarrow> page \<times> string \<Rightarrow> moderate_output io" where
  "moderate_commit e s i ig x =
     bindE (if snd x = ModerationDelete
            then DeleteObject e (sv_graph s) (p_page_token (fst x)) (min_comment_id i)
            else SetCommentHidden e (sv_graph s) (p_page_token (fst x)) (min_comment_id i)
                   (snd x = ModerationHide) ig) (\<lambda>_.
     ok ((moderate_draft i x)\<lparr>mout_done := True\<rparr>))"

lemma moderate_gate_split:
  "bindE resolve (\<lambda>p. moderate e s p (i\<lparr>min_confirm := c\<rparr>) ig) =
   bindE (moderate_prep resolve i)
     (\<lambda>x. if c then moderate_commit e s i ig x else ok (moderate_shown i x))"
proof -
  have "moderate e s p (i\<lparr>min_confirm := c\<rparr>) ig =
      bindE (if trim_space (min_comment_id i) = [] then fail (Msg ''comment_id est obligatoire'')
        else let action = to_lower (trim_space (min_action i)) in
          if action \<notin> set AllowedModerationActions
          then fail (Msg ''action doit valoir [hide unhide delete]'') else ok (p, action))
        (\<lambda>x. if c then moderate_commit e s i ig x else ok (moderate_shown i x))" for p
    by (cases c) (simp_all add: moderate_def moderate_commit_def moderate_shown_def moderate_draft_def
        bindE_if Let_def)
  then show ?thesis by (simp add: moderate_prep_def bindE_assoc)
qed

lemma moderate_prep_quiet: "quiet resolve \<Longrightarrow> quiet (moderate_prep resolve i)"
  by (auto simp: moderate_prep_def quiet_def Let_def run_bindE split: prod.splits sum.splits)
     (metis snd_conv)+

lemmas moderate_gate_defs = moderate_commit_def moderate_shown_def moderate_draft_def content_defs

lemma moderate_commit_sends:
  assumes prep: "run_state (moderate_prep resolve i) w = (Inr x, w1)" and quiet: "quiet resolve"
    and resolved: "\<And>p w2. run_state resolve w = (Inr p, w2) \<Longrightarrow> stored_page e (db w) tid p"
    and commit: "run_state (moderate_commit e s i ig x) w1 = (r, w')"
  shows "moderation_announced e (sv_graph s) tid (if ig then ''hide'' else ''is_hidden'') (moderate_shown i x)
    (\<not> isl r) (db w) (requests w) (requests w')"
proof -
  obtain p action where x: "x = (p, action)" by (cases x)
  from quietD [OF moderate_prep_quiet [OF quiet] prep] have rs: "requests w1 = requests w" by simp
  have stored: "stored_page e (db w) tid p"
    using prep by (auto simp: x moderate_prep_def Let_def run_bindE_Inr split: if_splits dest: resolved)
  obtain q where "isl q = isl r" "run_state (if action = ModerationDelete
       then DeleteObject e (sv_graph s) (p_page_token p) (min_comment_id i)
       else SetCommentHidden e (sv_graph s) (p_page_token p) (min_comment_id i) (action = ModerationHide) ig) w1 = (q, w')"
    using commit_ran [OF commit [unfolded moderate_commit_def x fst_conv snd_conv]] by blast
  then have "one_write e (sv_graph s) (p_page_token p) (min_comment_id i)
       (if action = ''delete'' then [(''method'', [''delete''])]
        else [(if ig then ''hide'' else ''is_hidden'', [if action = ''hide'' then ''true'' else ''false''])])
       (\<not> isl r) (requests w) (requests w')"
    using simple_writes(4,5) [of e "sv_graph s" "p_page_token p"] rs
    by (cases "action = ModerationDelete") (fastforce simp: moderation_defs)+
  with stored show ?thesis
    unfolding moderation_announced_def x by (intro exI [of _ p]) (auto simp: moderate_shown_def moderate_draft_def)
qed

lemmas moderate_sends = moderate_commit_sends [OF _ by_owner.looks by_owner.resolved, where ig = False, simplified]
lemmas ig_moderate_sends = moderate_commit_sends [OF _ by_ig_owner.looks by_ig_owner.resolved, where ig = True, simplified]

interpretation moderate_gate: confirm_gate
  "\<lambda>c. Service_ModerateComment e s tid (i\<lparr>min_confirm := c\<rparr>)"
  "moderate_prep (Service_ownerPage e tid (min_page_id i) (min_comment_id i)) i"
  "moderate_shown i" "moderate_commit e s i False" mout_preview moderate_content
  "moderation_announced e (sv_graph s) tid ''is_hidden''" for e s tid i
  by unfold_locales
     (erule (1) moderate_sends | (auto simp: Service_ModerateComment_def moderate_gate_split moderate_gate_defs
       dest!: commit_cases intro: moderate_prep_quiet by_owner.looks)[1])+

interpretation ig_moderate_gate: confirm_gate
  "\<lambda>c. Service_IGModerateComment e s tid (i\<lparr>min_confirm := c\<rparr>)"
  "moderate_prep (Service_ownerIGPage e tid (min_page_id i) (min_comment_id i)) i"
  "moderate_shown i" "moderate_commit e s i True" mout_preview moderate_content
  "moderation_announced e (sv_graph s) tid ''hide''" for e s tid i
  by unfold_locales
     (erule (1) ig_moderate_sends | (auto simp: Service_IGModerateComment_def moderate_gate_split moderate_gate_defs
       dest!: commit_cases intro: moderate_prep_quiet by_ig_owner.looks)[1])+

text \<open>Cancelling a scheduled post and deleting a post.\<close>

definition removal_prep :: "page io \<Rightarrow> removal_input \<Rightarrow> page io" where
  "removal_prep resolve i =
     (if trim_space (din_post_id i) = [] then fail (Msg ''post_id est obligatoire'') else resolve)"

definition removal_commit :: "machine \<Rightarrow> service \<Rightarrow> removal_input \<Rightarrow> page \<Rightarrow> removal_output io" where
  "removal_commit e s i p =
     bindE (DeleteObject e (sv_graph s) (p_page_token p) (din_post_id i)) (\<lambda>_.
     ok ((removal_draft p i)\<lparr>dout_done := True\<rparr>))"

definition removal_shown :: "string \<Rightarrow> removal_input \<Rightarrow> page \<Rightarrow> removal_output" where
  "removal_shown warning i p = (removal_draft p i)\<lparr>dout_preview := True, dout_notice := previewNotice @ warning\<rparr>"

lemma removal_prep_quiet: "quiet resolve \<Longrightarrow> quiet (removal_prep resolve i)"
  by (simp add: removal_prep_def quiet_def)

lemma removal_gate_split:
  "(if trim_space (din_post_id (i\<lparr>din_confirm := c\<rparr>)) = [] then fail (Msg ''post_id est obligatoire'')
    else bindE resolve (\<lambda>p. let out = removal_draft p (i\<lparr>din_confirm := c\<rparr>) in
      if \<not> din_confirm (i\<lparr>din_confirm := c\<rparr>)
      then ok (out\<lparr>dout_preview := True, dout_notice := previewNotice @ warning\<rparr>)
      else bindE (DeleteObject e (sv_graph s) (p_page_token p) (din_post_id (i\<lparr>din_confirm := c\<rparr>)))
        (\<lambda>_. ok (out\<lparr>dout_done := True\<rparr>)))) =
   bindE (removal_prep resolve i)
     (\<lambda>p. if c then removal_commit e s i p else ok (removal_shown warning i p))"
  by (cases c) (simp_all add: removal_prep_def removal_commit_def removal_shown_def Let_def)

lemmas removal_gate_defs = removal_commit_def removal_shown_def removal_draft_def content_defs

lemma removal_commit_sends:
  assumes prep: "run_state (removal_prep (Service_ownerPage e tid hint obj) i) w = (Inr p, w1)"
    and commit: "run_state (removal_commit e s i p) w1 = (r, w')"
  shows "removal_announced e (sv_graph s) tid (removal_shown warning i p) (\<not> isl r) (db w) (requests w) (requests w')"
proof -
  from quietD [OF removal_prep_quiet [OF by_owner.looks] prep] have rs: "requests w1 = requests w" by simp
  have stored: "stored_page e (db w) tid p"
    using prep by (auto simp: removal_prep_def split: if_splits dest: by_owner.resolved)
  obtain q where "run_state (DeleteObject e (sv_graph s) (p_page_token p) (din_post_id i)) w1 = (q, w')" "isl q = isl r"
    using commit_ran [OF commit [unfolded removal_commit_def]] by blast
  from simple_writes(5) [OF this(1)] this(2) stored rs show ?thesis
    unfolding removal_announced_def
    by (intro exI [of _ p]) (auto simp: removal_shown_def removal_draft_def)
qed

interpretation cancel_gate: confirm_gate
  "\<lambda>c. Service_PageCancelScheduledPost e s tid (i\<lparr>din_confirm := c\<rparr>)"
  "removal_prep (Service_ownerPage e tid (din_page_id i) (din_post_id i)) i"
  "removal_shown '' L'annulation est definitive : la publication programmee sera supprimee, pas mise en pause.'' i"
  "removal_commit e s i" dout_preview removal_content "removal_announced e (sv_graph s) tid" for e s tid i
proof
  show "Service_PageCancelScheduledPost e s tid (i\<lparr>din_confirm := c\<rparr>) =
      bindE (removal_prep (Service_ownerPage e tid (din_page_id i) (din_post_id i)) i)
        (\<lambda>x. if c then removal_commit e s i x else ok (removal_shown
          '' L'annulation est definitive : la publication programmee sera supprimee, pas mise en pause.'' i x))" for c
    unfolding removal_gate_split [symmetric] by (simp add: Service_PageCancelScheduledPost_def)
  show "quiet (removal_prep (Service_ownerPage e tid (din_page_id i) (din_post_id i)) i)"
    by (rule removal_prep_quiet [OF by_owner.looks])
qed (erule (1) removal_commit_sends | (auto simp: removal_gate_defs dest!: commit_cases)[1])+

interpretation delete_gate: confirm_gate
  "\<lambda>c. Service_PageDeletePost e s tid (i\<lparr>din_confirm := c\<rparr>)"
  "removal_prep (Service_ownerPage e tid (din_page_id i) (din_post_id i)) i"
  "removal_shown '' La suppression est definitive : la publication, ses reactions et ses commentaires disparaissent.'' i"
  "removal_commit e s i" dout_preview removal_content "removal_announced e (sv_graph s) tid" for e s tid i
proof
  show "Service_PageDeletePost e s tid (i\<lparr>din_confirm := c\<rparr>) =
      bindE (removal_prep (Service_ownerPage e tid (din_page_id i) (din_post_id i)) i)
        (\<lambda>x. if c then removal_commit e s i x else ok (removal_shown
          '' La suppression est definitive : la publication, ses reactions et ses commentaires disparaissent.'' i x))" for c
    unfolding removal_gate_split [symmetric] by (simp add: Service_PageDeletePost_def)
  show "quiet (removal_prep (Service_ownerPage e tid (din_page_id i) (din_post_id i)) i)"
    by (rule removal_prep_quiet [OF by_owner.looks])
qed (erule (1) removal_commit_sends | (auto simp: removal_gate_defs dest!: commit_cases)[1])+

lemmas use_cases_gated = publish_gate.is_gated ig_publish_gate.is_gated reply_gate.is_gated
  ig_reply_gate.is_gated moderate_gate.is_gated ig_moderate_gate.is_gated cancel_gate.is_gated
  delete_gate.is_gated

end
