(* ===== verification/AppLogin.thy ===== *)
theory AppLogin
  imports AppService StoreFacts AuthServer
begin

text \<open>
  \<open>login.go\<close> and \<open>refresh_tokens.go\<close>: the use cases that write a tenant. A completed Facebook login
  creates or refreshes the tenant and replaces its pages, a deletion request of Meta removes it,
  and a sweep renews the user tokens that are about to expire.
\<close>

section \<open>login.go\<close>

text \<open>A missing whitelist lets everyone in.\<close>

record login_service =
  lg_graph :: meta_client
  lg_allow :: "string \<Rightarrow> bool"

definition NewLoginService :: "meta_client \<Rightarrow> (string \<Rightarrow> bool) option \<Rightarrow> login_service" where
  "NewLoginService meta allow =
     \<lparr>lg_graph = meta, lg_allow = (case allow of None \<Rightarrow> (\<lambda>_. True) | Some f \<Rightarrow> f)\<rparr>"

definition Login_AuthorizeURL :: "login_service \<Rightarrow> string \<Rightarrow> string \<Rightarrow> string" where
  "Login_AuthorizeURL s redirectURI st = AuthorizeURL (lg_graph s) redirectURI st"

record login_result =
  lr_tenant_id :: string
  lr_display_name :: string
  lr_pages :: int

definition expiryFrom :: "instant \<Rightarrow> duration \<Rightarrow> instant" where
  "expiryFrom now lifetime = (if lifetime \<le> 0 then zero_time else time_add now lifetime)"

text \<open>The tenant a login writes: a returning user keeps the id and the creation time.\<close>

definition login_tenant :: "machine \<Rightarrow> meta_user \<Rightarrow> long_lived_token \<Rightarrow> tenant io" where
  "login_tenant e user longLived = do {
     now \<leftarrow> clock_now e;
     fresh \<leftarrow> newTenantID e;
     let t = \<lparr>t_id = fresh, t_meta_user_id = mu_id user, t_display_name = mu_name user,
              t_user_token = ll_token longLived, t_created_at = now, t_updated_at = now,
              t_token_expires_at = expiryFrom now (ll_expires_in longLived)\<rparr>;
     existing \<leftarrow> TenantByMetaUserID e (mu_id user);
     (case existing of
        Inr old \<Rightarrow> ok (t\<lparr>t_id := t_id old, t_created_at := t_created_at old\<rparr>)
      | Inl err \<Rightarrow>
          if errors_is err ErrNotFound then ok t
          else fail (Wrap ''recherche du tenant'' err))
   }"

definition Complete :: "machine \<Rightarrow> login_service \<Rightarrow> string \<Rightarrow> string \<Rightarrow> login_result io" where
  "Complete e s code redirectURI =
     bindE (ExchangeCode e (lg_graph s) code redirectURI) (\<lambda>shortToken.
     bindE (ExchangeLongLivedToken e (lg_graph s) shortToken) (\<lambda>longLived.
     bindE (Me e (lg_graph s) (ll_token longLived)) (\<lambda>user.
     if \<not> lg_allow s (mu_id user) then fail ErrForbiddenUser
     else
       bindE (login_tenant e user longLived) (\<lambda>t.
       bindE (mapE (Wrap ''enregistrement du tenant'') (UpsertTenant e t)) (\<lambda>_.
       bindE (syncPages e (lg_graph s) (t_id t) (ll_token longLived)) (\<lambda>ps.
       ok \<lparr>lr_tenant_id = t_id t, lr_display_name = t_display_name t,
           lr_pages = int (length ps)\<rparr>))))))"

definition Login_SyncPages :: "machine \<Rightarrow> login_service \<Rightarrow> string \<Rightarrow> page list io" where
  "Login_SyncPages e s tid =
     bindE (TenantByID e tid) (\<lambda>t. syncPages e (lg_graph s) (t_id t) (t_user_token t))"

definition DeleteByMetaUserID :: "machine \<Rightarrow> string \<Rightarrow> unit io" where
  "DeleteByMetaUserID e metaUserID = do {
     found \<leftarrow> TenantByMetaUserID e metaUserID;
     (case found of
        Inl err \<Rightarrow>
          if errors_is err ErrNotFound then ok ()
          else fail (Wrap ''recherche du tenant a supprimer'' err)
      | Inr t \<Rightarrow> mapE (Wrap ''suppression du tenant'') (DeleteTenant e (t_id t)))
   }"

definition ConsumeState :: "machine \<Rightarrow> string \<Rightarrow> login_state io" where
  "ConsumeState e st =
     bindE (ConsumeLoginState e st) (\<lambda>login. do {
       now \<leftarrow> clock_now e;
       if \<not> now < ls_expires_at login then fail ErrNotFound else ok login
     })"

section \<open>refresh_tokens.go\<close>

definition DefaultRefreshWindow :: duration where "DefaultRefreshWindow = 14 * 24 * hour"
definition recheckInterval :: duration where "recheckInterval = 7 * 24 * hour"

record refresh_report =
  rp_checked :: nat
  rp_refreshed :: nat
  rp_expired :: "string list"

definition refreshOne :: "machine \<Rightarrow> login_service \<Rightarrow> tenant \<Rightarrow> unit io" where
  "refreshOne e s t = do {
     renewed \<leftarrow> ExchangeLongLivedToken e (lg_graph s) (t_user_token t);
     (case renewed of
        Inl err \<Rightarrow>
          (case AsGraphError err of
             Some ge \<Rightarrow> if IsAuth ge then fail ErrReauthorize else fail err
           | None \<Rightarrow> fail err)
      | Inr longLived \<Rightarrow> do {
          now \<leftarrow> clock_now e;
          mapE (Wrap ''enregistrement du jeton renouvele'')
            (UpsertTenant e (t\<lparr>t_user_token := ll_token longLived, t_updated_at := now,
               t_token_expires_at := expiryFrom now (ll_expires_in longLived)\<rparr>))
        })
   }"

text \<open>
  The loop of the sweep. Like the Go function it returns the report with the error that stopped
  it, if one did: only a cancelled context stops it.
\<close>

fun sweep ::
  "machine \<Rightarrow> login_service \<Rightarrow> tenant list \<Rightarrow> refresh_report \<Rightarrow>
   (world, refresh_report \<times> go_error option) state" where
  "sweep e s [] rep = State_Monad.return (rep, None)"
| "sweep e s (t # ts) rep = do {
     live \<leftarrow> ctx_err e;
     (case live of
        Inl err \<Rightarrow> State_Monad.return (rep, Some err)
      | Inr _ \<Rightarrow> do {
          r \<leftarrow> refreshOne e s t;
          (case r of
             Inr _ \<Rightarrow> sweep e s ts (rep\<lparr>rp_refreshed := rp_refreshed rep + 1\<rparr>)
           | Inl err \<Rightarrow>
               if errors_is err ErrReauthorize
               then sweep e s ts (rep\<lparr>rp_expired := rp_expired rep @ [t_id t]\<rparr>)
               else sweep e s ts (rep\<lparr>rp_expired := rp_expired rep @ [t_id t]\<rparr>))
        })
   }"

definition empty_report :: refresh_report where
  "empty_report = \<lparr>rp_checked = 0, rp_refreshed = 0, rp_expired = []\<rparr>"

definition RefreshExpiringTokens ::
  "machine \<Rightarrow> login_service \<Rightarrow> duration \<Rightarrow> (world, refresh_report \<times> go_error option) state" where
  "RefreshExpiringTokens e s window0 = do {
     let window = (if window0 \<le> 0 then DefaultRefreshWindow else window0);
     now \<leftarrow> clock_now e;
     due \<leftarrow> TenantsDueForTokenRefresh e (time_add now window) (time_add now (- recheckInterval));
     (case due of
        Inl err \<Rightarrow>
          State_Monad.return (empty_report, Some (Wrap ''liste des jetons a renouveler'' err))
      | Inr ts \<Rightarrow> sweep e s ts (empty_report\<lparr>rp_checked := length ts\<rparr>))
   }"

section \<open>Frames\<close>

lemma login_tenant_same_db [io_intros]: "state_io_rel same_db (login_tenant e user ll)"
  unfolding login_tenant_def Let_def by (intro fdb.rules io_intros)

lemmas login_reads_keep [io_intros] = oauth_same_db [THEN same_db_keeps]
  login_tenant_same_db [THEN same_db_keeps]

lemma login_db_ok [io_intros]:
  "state_io_rel (keeps db_ok) (syncPages e c tid token)"
  "state_io_rel (keeps db_ok) (Complete e s code uri)"
  "state_io_rel (keeps db_ok) (Login_SyncPages e s tid)"
  "state_io_rel (keeps db_ok) (DeleteByMetaUserID e mid)"
  "state_io_rel (keeps db_ok) (ConsumeState e st)"
  "state_io_rel (keeps db_ok) (refreshOne e s t)"
  unfolding syncPages_def Complete_def Login_SyncPages_def DeleteByMetaUserID_def ConsumeState_def
    refreshOne_def
  by (intro fke.rules io_intros)+

lemma sweep_db_ok [io_intros]: "state_io_rel (keeps db_ok) (sweep e s ts rep)"
  by (induction ts arbitrary: rep) (auto intro!: fke.rules io_intros split: sum.splits)

lemma refresh_db_ok [io_intros]: "state_io_rel (keeps db_ok) (RefreshExpiringTokens e s d)"
  unfolding RefreshExpiringTokens_def Let_def by (intro fke.rules io_intros)

end
