(* ===== verification/AppStatus.thy ===== *)
theory AppStatus
  imports AppLogin Float64
begin

text \<open>
  \<open>connection_status.go\<close> and \<open>reconnect_url.go\<close>: the diagnostic of a connection and the single use
  link that renews it. The sentence of the summary is a constructor per case, with the numbers it
  mentions.
\<close>

section \<open>Hours as a \<open>float64\<close>\<close>

text \<open>\<open>Duration.Hours\<close>, divided by 24 and truncated.\<close>

definition float_hours :: "duration \<Rightarrow> rat" where
  "float_hours d = round53 (of_int (quot d hour) + round53 (of_int (rem d hour) / of_int hour))"

definition days_in_duration :: "duration \<Rightarrow> int" where
  "days_in_duration d = truncate_rat (round53 (float_hours d / 24))"

section \<open>reconnect_url.go\<close>

definition ReconnectStateTTL :: duration where "ReconnectStateTTL = LoginStateTTL"

definition ReconnectURL :: "machine \<Rightarrow> service \<Rightarrow> string \<Rightarrow> string io" where
  "ReconnectURL e s tid =
     bindE (mapE (Wrap ''generation du state de reconnexion'') (newSecret e)) (\<lambda>st. do {
       now \<leftarrow> clock_now e;
       bindE (mapE (Wrap ''enregistrement du state de reconnexion'')
         (CreateLoginState e
            \<lparr>ls_state = st, ls_request = empty_request,
             ls_expires_at = time_add now ReconnectStateTTL\<rparr>)) (\<lambda>_.
       ok (sv_public_url s @ ''/meta/login?state='' @ query_escape st))
     })"

section \<open>connection_status.go\<close>

datatype status_summary =
    NoSummary
  | ReconnectionNeeded
  | ScopesMissing nat
  | NoPageSynced
  | NoKnownExpiry nat
  | ValidFor nat int

record connection_status =
  cs_display_name :: string
  cs_healthy :: bool
  cs_summary :: status_summary
  cs_token_valid :: bool
  cs_token_expires_at :: string
  cs_days_remaining :: int
  cs_token_reason :: string
  cs_pages :: nat
  cs_pages_with_ig :: nat
  cs_missing_scopes :: "string list"
  cs_reconnect_url :: string

definition fill_expiry :: "instant \<Rightarrow> instant \<Rightarrow> connection_status \<Rightarrow> connection_status" where
  "fill_expiry now expiry c =
     (if is_zero_time expiry then c
      else c\<lparr>cs_token_expires_at := format_rfc3339 expiry,
             cs_days_remaining := days_in_duration (time_sub expiry now)\<rparr>)"

definition fill_scopes ::
  "string list \<Rightarrow> string list \<Rightarrow> connection_status \<Rightarrow> connection_status" where
  "fill_scopes granted required c =
     c\<lparr>cs_missing_scopes := cs_missing_scopes c @
         filter (\<lambda>scope. 0 < length granted \<and> scope \<notin> set granted) required\<rparr>"

definition summary_of :: "connection_status \<Rightarrow> status_summary" where
  "summary_of c =
     (if \<not> cs_token_valid c then ReconnectionNeeded
      else if 0 < length (cs_missing_scopes c) then ScopesMissing (length (cs_missing_scopes c))
      else if cs_pages c = 0 then NoPageSynced
      else if cs_token_expires_at c = [] then NoKnownExpiry (cs_pages c)
      else ValidFor (cs_pages c) (cs_days_remaining c))"

definition fill ::
  "instant \<Rightarrow> instant \<Rightarrow> string list \<Rightarrow> string list \<Rightarrow> connection_status \<Rightarrow> connection_status" where
  "fill now expiry granted required c0 =
     (let c1 = fill_scopes granted required (fill_expiry now expiry c0);
          c2 = c1\<lparr>cs_healthy := cs_token_valid c1 \<and> length (cs_missing_scopes c1) = 0\<rparr> in
      c2\<lparr>cs_summary := summary_of c2\<rparr>)"

definition attachReconnectLink ::
  "machine \<Rightarrow> service \<Rightarrow> string \<Rightarrow> connection_status \<Rightarrow> (world, connection_status) state" where
  "attachReconnectLink e s tid status =
     (if cs_healthy status then State_Monad.return status
      else do {
        link \<leftarrow> ReconnectURL e s tid;
        State_Monad.return (case link of
          Inl _ \<Rightarrow> status
        | Inr l \<Rightarrow> status\<lparr>cs_reconnect_url := l\<rparr>)
      })"

definition first_status :: "tenant \<Rightarrow> page list \<Rightarrow> connection_status" where
  "first_status t ps =
     \<lparr>cs_display_name = t_display_name t, cs_healthy = False, cs_summary = NoSummary,
      cs_token_valid = False, cs_token_expires_at = [], cs_days_remaining = 0,
      cs_token_reason = [], cs_pages = length ps,
      cs_pages_with_ig = length (filter HasInstagram ps), cs_missing_scopes = [],
      cs_reconnect_url = []\<rparr>"

text \<open>The status once Meta was asked, or could not be reached.\<close>

definition checked_status ::
  "service \<Rightarrow> instant \<Rightarrow> tenant \<Rightarrow> page list \<Rightarrow> token_status res \<Rightarrow> connection_status" where
  "checked_status s now t ps debug =
     (case debug of
        Inl _ \<Rightarrow> fill now (t_token_expires_at t) [] (sv_required_scopes s)
          ((first_status t ps)\<lparr>cs_token_valid := False,
             cs_token_reason := ''impossible de joindre Meta pour verifier le jeton''\<rparr>)
      | Inr token \<Rightarrow>
          (let expiry = (if is_zero_time (ts_expires_at token) then t_token_expires_at t
                         else ts_expires_at token) in
           fill now expiry (ts_scopes token) (sv_required_scopes s)
             ((first_status t ps)\<lparr>cs_token_valid := ts_valid token,
                cs_token_reason := ts_reason token\<rparr>)))"

definition ConnectionStatus :: "machine \<Rightarrow> service \<Rightarrow> string \<Rightarrow> connection_status io" where
  "ConnectionStatus e s tid =
     bindE (TenantByID e tid) (\<lambda>t.
     bindE (mapE (Wrap ''liste des pages'') (ListPages e tid)) (\<lambda>ps. do {
       debug \<leftarrow> DebugToken e (sv_graph s) (t_user_token t);
       now \<leftarrow> clock_now e;
       out \<leftarrow> attachReconnectLink e s tid (checked_status s now t ps debug);
       ok out
     }))"

section \<open>Frames\<close>

lemma status_db_ok [io_intros]:
  "state_io_rel (keeps db_ok) (ReconnectURL e s tid)"
  "state_io_rel (keeps db_ok) (attachReconnectLink e s tid c)"
  "state_io_rel (keeps db_ok) (ConnectionStatus e s tid)"
  unfolding ReconnectURL_def attachReconnectLink_def ConnectionStatus_def Let_def
  by (intro fke.rules io_intros)+

lemma ReconnectURL_emits [io_intros]: "state_io_rel (emits P) (ReconnectURL e s tid)"
  unfolding ReconnectURL_def by (intro fem.rules io_intros)

end
