(* ===== verification/MetaHandlers.thy ===== *)
theory MetaHandlers
  imports AppLogin
begin

text \<open>
  \<open>internal/adapters/meta/handlers.go\<close>: the pages and callbacks of the Facebook login. The
  callback consumes the parked login state, completes the login and hands a code to the MCP client;
  the data deletion callback removes a tenant when Meta signs the request.
\<close>

record meta_handlers =
  mh_login :: login_service
  mh_public_url :: string
  mh_redirect_uri :: string
  mh_app_secret :: string

text \<open>
  A rendered page; \<open>http.Error\<close> writes plain text with a final newline. The template of a page
  never fails on the data it is given.
\<close>

definition render :: "int \<Rightarrow> page_data \<Rightarrow> http_resp" where
  "render status p =
     \<lparr>rs_status = status, rs_headers = [(''Content-Type'', ''text/html; charset=utf-8'')],
      rs_body = PageBody p\<rparr>"

definition renderError :: "int \<Rightarrow> string \<Rightarrow> string \<Rightarrow> string \<Rightarrow> http_resp" where
  "renderError status title message detail = render status (ErrorPage title message detail)"

definition http_error :: "int \<Rightarrow> string \<Rightarrow> http_resp" where
  "http_error status message =
     \<lparr>rs_status = status,
      rs_headers = [(''Content-Type'', ''text/plain; charset=utf-8''),
                    (''X-Content-Type-Options'', ''nosniff'')],
      rs_body = TextBody (message @ [CHR 0x0A])\<rparr>"

definition user_message_text :: "user_message \<Rightarrow> string" where
  "user_message_text m =
     (case m of
        UMReauthorize \<Rightarrow> ''autorisation expiree, utilisez reconnect_url''
      | UMQuota \<Rightarrow> ''quota Meta atteint, reessayez dans quelques minutes''
      | UMMeta code text_of \<Rightarrow> ''erreur Meta (code '' @ print_int code @ '') : '' @ text_of)"

definition userDetail :: "go_error \<Rightarrow> string" where
  "userDetail err =
     (case AsGraphError err of
        Some ge \<Rightarrow> user_message_text (UserMessage ge)
      | None \<Rightarrow> [])"

section \<open>The login dialog\<close>

definition LoginHandler :: "meta_handlers \<Rightarrow> http_req \<Rightarrow> http_resp" where
  "LoginHandler h r =
     (let st = values_get (Query r) ''state'' in
      if st = [] then renderError 400 ''Lien incomplet''
        ''Cette adresse doit etre ouverte depuis votre client MCP.'' []
      else redirect (Login_AuthorizeURL (mh_login h) (mh_redirect_uri h) st))"

section \<open>The callback\<close>

definition redirectToClient :: "machine \<Rightarrow> oauth_request \<Rightarrow> (string \<times> string) list \<Rightarrow> http_resp" where
  "redirectToClient e req params =
     (case mc_url_parse e (or_redirect_uri req) of
        None \<Rightarrow> renderError 400 ''Connexion impossible''
          ''L'adresse de retour du client MCP est invalide.'' []
      | Some u \<Rightarrow>
          (let q = foldl (\<lambda>q (k, v). values_set q k v) (parse_query (u_raw_query u)) params;
               q' = (if or_client_state req \<noteq> []
                     then values_set q ''state'' (or_client_state req) else q) in
           redirect (mc_url_string e (u\<lparr>u_raw_query := values_encode q'\<rparr>))))"

definition declined :: "machine \<Rightarrow> oauth_request \<Rightarrow> http_resp" where
  "declined e req =
     (if or_client_id req = []
      then renderError 200 ''Autorisation refusee''
        ''Vous avez refuse l'acces a Facebook, rien n'a ete modifie.'' []
      else redirectToClient e req
        [(''error'', ''access_denied''), (''error_description'', ''autorisation Facebook refusee'')])"

text \<open>The end of a completed login: a page for a reconnection, a code for an MCP client.\<close>

definition finish_login :: "machine \<Rightarrow> oauth_request \<Rightarrow> login_result \<Rightarrow> handler" where
  "finish_login e req result =
     (if or_client_id req = []
      then State_Monad.return
        (render 200 (ReconnectedPage (lr_display_name result) (lr_pages result)))
      else do {
        target \<leftarrow> IssueAuthCode e req (lr_tenant_id result);
        State_Monad.return (case target of
          Inl _ \<Rightarrow> renderError 500 ''Erreur interne'' ''Impossible de finaliser l'autorisation.'' []
        | Inr t \<Rightarrow> redirect t)
      })"

definition login_failed :: "go_error \<Rightarrow> http_resp" where
  "login_failed err =
     (if errors_is err ErrForbiddenUser
      then renderError 403 ''Compte non autorise'' ''ce compte Facebook n'est pas autorise sur ce serveur''
        ''Demandez a l'administrateur d'ajouter votre compte.''
      else renderError 502 ''Connexion impossible'' ''Meta a refuse la demande de connexion.''
        (userDetail err))"

definition state_failed :: "go_error \<Rightarrow> http_resp" where
  "state_failed err =
     (if errors_is err ErrNotFound
      then renderError 400 ''Session expiree''
        ''La demande de connexion a expire ou a deja ete utilisee.''
        ''Relancez la connexion depuis votre client MCP.''
      else renderError 500 ''Erreur interne''
        ''Impossible de retrouver votre demande de connexion.'' [])"

definition CallbackHandler :: "machine \<Rightarrow> meta_handlers \<Rightarrow> http_req \<Rightarrow> handler" where
  "CallbackHandler e h r =
     (let q = Query r; st = values_get q ''state'' in
      if st = [] then State_Monad.return
        (renderError 400 ''Connexion impossible'' ''Le parametre state est absent.'' [])
      else do {
        login \<leftarrow> ConsumeState e st;
        (case login of
           Inl err \<Rightarrow> State_Monad.return (state_failed err)
         | Inr parked \<Rightarrow>
             (let req = ls_request parked; code = values_get q ''code'' in
              if values_get q ''error'' \<noteq> [] then State_Monad.return (declined e req)
              else if code = [] then State_Monad.return
                (renderError 400 ''Connexion impossible''
                  ''Facebook n'a renvoye aucun code d'autorisation.'' [])
              else do {
                done \<leftarrow> Complete e (mh_login h) code (mh_redirect_uri h);
                (case done of
                   Inl err \<Rightarrow> State_Monad.return (login_failed err)
                 | Inr result \<Rightarrow> finish_login e req result)
              }))
      })"

section \<open>Static pages\<close>

definition PrivacyHandler :: "http_req \<Rightarrow> http_resp" where
  "PrivacyHandler r = render 200 PrivacyPage"

definition DeauthorizeHandler :: "http_req \<Rightarrow> http_resp" where
  "DeauthorizeHandler r = render 200 (DeauthorizePage (values_get (Query r) ''code''))"

section \<open>Data deletion\<close>

record signed_payload =
  sg_algorithm :: string
  sg_issued_at :: int
  sg_user_id :: string

definition dec_signed :: "json \<Rightarrow> signed_payload option" where
  "dec_signed j =
     Option.bind (json_fields j) (\<lambda>fs.
     Option.bind (str_field ''algorithm'' fs) (\<lambda>a.
     Option.bind (int_field ''issued_at'' fs) (\<lambda>i.
     Option.bind (str_field ''user_id'' fs) (\<lambda>u.
       Some \<lparr>sg_algorithm = a, sg_issued_at = i, sg_user_id = u\<rparr>))))"

text \<open>
  \<open>EqualFold\<close> against a word without the letter K: upper-casing agrees with it, since the only rune
  outside ASCII that folds to one of its letters is U+017F.
\<close>

definition parseSignedRequest :: "machine \<Rightarrow> meta_handlers \<Rightarrow> string \<Rightarrow> signed_payload res" where
  "parseSignedRequest e h raw =
     (case cut (CHR ''.'') raw of
        None \<Rightarrow> Inl (Msg ''format attendu: signature.payload'')
      | Some (encodedSig, encodedPayload) \<Rightarrow>
          if encodedSig = [] \<or> encodedPayload = []
          then Inl (Msg ''format attendu: signature.payload'')
          else
     (case b64_decode (trim_right_char (CHR ''='') encodedSig) of
        None \<Rightarrow> Inl (Msg ''signature illisible'')
      | Some sig \<Rightarrow>
     (case b64_decode (trim_right_char (CHR ''='') encodedPayload) of
        None \<Rightarrow> Inl (Msg ''payload illisible'')
      | Some rawPayload \<Rightarrow>
          if sig \<noteq> mc_hmac e (mh_app_secret h) encodedPayload
          then Inl (Msg ''signature invalide'')
          else
     (case Option.bind (json_parse rawPayload) dec_signed of
        None \<Rightarrow> Inl (Msg ''payload JSON invalide'')
      | Some payload \<Rightarrow>
          if sg_algorithm payload \<noteq> [] \<and> to_upper (sg_algorithm payload) \<noteq> ''HMAC-SHA256''
          then Inl (Msg ''algorithme non supporte'')
          else Inr payload))))"

definition confirmationCode :: "machine \<Rightarrow> (world, string) state" where
  "confirmationCode e = do {
     r \<leftarrow> rand_read e 8;
     State_Monad.return (hex_encode
       (case r of Inl _ \<Rightarrow> replicate 8 (CHR 0x00) | Inr bs \<Rightarrow> bs))
   }"

definition deletion_response :: "meta_handlers \<Rightarrow> string \<Rightarrow> http_resp" where
  "deletion_response h code =
     \<lparr>rs_status = 200,
      rs_headers = [(''Content-Type'', ''application/json''), (''Cache-Control'', ''no-store'')],
      rs_body = JsonBody (JObj
        [(''url'', JStr (mh_public_url h @ ''/meta/deauthorize?code='' @ query_escape code)),
         (''confirmation_code'', JStr code)])\<rparr>"

definition DataDeletionHandler :: "machine \<Rightarrow> meta_handlers \<Rightarrow> http_req \<Rightarrow> handler" where
  "DataDeletionHandler e h r =
     (case ParseForm r of
        None \<Rightarrow> State_Monad.return (http_error 400 ''requete illisible'')
      | Some form \<Rightarrow>
     (case parseSignedRequest e h (values_get form ''signed_request'') of
        Inl err \<Rightarrow> State_Monad.return (http_error 400 ''signed_request invalide'')
      | Inr payload \<Rightarrow>
          if sg_user_id payload = []
          then State_Monad.return (http_error 400 ''signed_request sans user_id'')
          else do {
            deleted \<leftarrow> DeleteByMetaUserID e (sg_user_id payload);
            (case deleted of
               Inl _ \<Rightarrow> State_Monad.return (http_error 500 ''suppression impossible'')
             | Inr _ \<Rightarrow> do {
                 code \<leftarrow> confirmationCode e;
                 State_Monad.return (deletion_response h code)
               })
          }))"

section \<open>Frames\<close>

lemma IssueAuthCode_db_ok [io_intros]: "state_io_rel (keeps db_ok) (IssueAuthCode e req tid)"
  unfolding IssueAuthCode_def by (intro fke.rules io_intros)

lemma meta_handlers_db_ok [io_intros]:
  "state_io_rel (keeps db_ok) (finish_login e req result)"
  "state_io_rel (keeps db_ok) (CallbackHandler e h r)"
  "state_io_rel (keeps db_ok) (confirmationCode e)"
  "state_io_rel (keeps db_ok) (DataDeletionHandler e h r)"
  unfolding finish_login_def CallbackHandler_def confirmationCode_def DataDeletionHandler_def Let_def
  by (intro fke.rules io_intros)+

end
