(* ===== verification/McpServer.thy ===== *)
theory McpServer
  imports AppFacts AppStatus MetaHandlers
begin

text \<open>
  \<open>internal/adapters/mcpserver\<close>: the MCP tools and resources over the use cases. A call carries the
  token information that the SDK's bearer middleware got from \<open>verifier\<close>; the tenant is read from it
  and never from an argument. The SDK itself (transport, schema validation, session handling) is
  not modelled: a \<open>tool_call\<close> is a call with its arguments decoded, and a \<open>tool_output\<close> is the value a
  tool hands to \<open>jsonResult\<close>; theory \<open>McpJson\<close> has the JSON of both. The
  argument struct of a tool has the fields of the input it is copied into, so one record stands for
  both.
\<close>

section \<open>server.go and http.go\<close>

record token_info =
  ti_user_id :: string
  ti_expiration :: instant

definition errSessionUnauthenticated :: go_error where
  "errSessionUnauthenticated = Msg ''session non authentifiee''"

definition tenantID :: "token_info option \<Rightarrow> string res" where
  "tenantID session =
     (case session of
        None \<Rightarrow> Inl errSessionUnauthenticated
      | Some info \<Rightarrow>
          if ti_user_id info = [] then Inl errSessionUnauthenticated else Inr (ti_user_id info))"

text \<open>The resolver the program wires in, and the SDK verifier around it.\<close>

definition resolve_tenant :: "machine \<Rightarrow> options \<Rightarrow> string \<Rightarrow> (string \<times> instant) io" where
  "resolve_tenant e opts token =
     bindE (VerifyAccessToken e opts token) (\<lambda>c. ok (TenantID c, Expiry c))"

definition verifier :: "(string \<Rightarrow> (string \<times> instant) io) \<Rightarrow> string \<Rightarrow> token_info io" where
  "verifier resolve token = do {
     r \<leftarrow> resolve token;
     (case r of
        Inl _ \<Rightarrow> fail (Wrap ''jeton d'acces invalide ou expire'' ErrInvalidToken)
      | Inr (tid, expiry) \<Rightarrow> ok \<lparr>ti_user_id = tid, ti_expiration = expiry\<rparr>)
   }"

definition toolError :: "go_error \<Rightarrow> go_error" where
  "toolError err =
     (case AsGraphError err of
        Some ge \<Rightarrow> Msg (user_message_text (UserMessage ge))
      | None \<Rightarrow>
          if errors_is err ErrUnknownPage \<or> errors_is err ErrNoInstagram \<or> errors_is err ErrReauthorize
          then err
          else if errors_is err ErrNotFound then ErrUnknownPage
          else err)"

record annotations =
  an_read_only :: bool
  an_destructive :: bool
  an_idempotent :: bool
  an_open_world :: bool

definition writing :: annotations where
  "writing =
     \<lparr>an_read_only = False, an_destructive = False, an_idempotent = False, an_open_world = True\<rparr>"
definition moderating :: annotations where
  "moderating =
     \<lparr>an_read_only = False, an_destructive = True, an_idempotent = False, an_open_world = True\<rparr>"
definition readOnly :: annotations where
  "readOnly =
     \<lparr>an_read_only = True, an_destructive = False, an_idempotent = False, an_open_world = True\<rparr>"

text \<open>The shape of every handler: the tenant, the use case, the error, the result.\<close>

definition run_tool ::
  "token_info option \<Rightarrow> (string \<Rightarrow> 'a io) \<Rightarrow> ('a \<Rightarrow> 'b) \<Rightarrow> 'b io" where
  "run_tool session f out =
     bindE (from_res (tenantID session)) (\<lambda>tid.
     bindE (mapE toolError (f tid)) (\<lambda>v. ok (out v)))"

section \<open>The tools\<close>

datatype tool_output =
    OutPages "page_view list"
  | OutInsights insight_set
  | OutMetadata "insight_meta list"
  | OutPosts "post list"
  | OutComments "comment list"
  | OutRatings page_ratings
  | OutBreakdowns "breakdown list"
  | OutMedia "media list"
  | OutURL string
  | OutStatus connection_status
  | OutScheduled "scheduled_post list"
  | OutPublished publish_output
  | OutReply reply_output
  | OutIGPublished ig_publish_output
  | OutModerated moderate_output
  | OutRemoved removal_output
  | OutCanceled removal_output

datatype tool_call =
    CallListPages
  | CallSyncPages
  | CallPageInsights insights_input
  | CallPageInsightsMetadata string
  | CallPagePosts listing_input
  | CallPagePostComments comments_input
  | CallPageRatings string int
  | CallIGAccountInsights insights_input
  | CallIGFollowerDemographics string string
  | CallIGMedia listing_input
  | CallIGMediaComments comments_input
  | CallReconnectURL
  | CallConnectionStatus
  | CallPagePostInsights object_input
  | CallIGMediaInsights object_input
  | CallIGStories string
  | CallPageScheduledPosts string int
  | CallPagePublishPost publish_input
  | CallPageReplyComment reply_input
  | CallIGPublish ig_publish_input
  | CallIGReplyComment reply_input
  | CallPageModerateComment moderate_input
  | CallIGModerateComment moderate_input
  | CallPageDeletePost removal_input
  | CallPageCancelScheduledPost removal_input

text \<open>\<open>tools_read.go\<close>\<close>

definition toolListPages ::
  "machine \<Rightarrow> service \<Rightarrow> token_info option \<Rightarrow> tool_output io" where
  "toolListPages e s session = run_tool session (\<lambda>tid. Service_ListPages e tid) OutPages"

definition toolSyncPages ::
  "machine \<Rightarrow> service \<Rightarrow> token_info option \<Rightarrow> tool_output io" where
  "toolSyncPages e s session = run_tool session (\<lambda>tid. Service_SyncPages e s tid) OutPages"

definition toolPageInsights ::
  "machine \<Rightarrow> service \<Rightarrow> token_info option \<Rightarrow> insights_input \<Rightarrow> tool_output io" where
  "toolPageInsights e s session a = run_tool session (\<lambda>tid. Service_PageInsights e s tid a) OutInsights"

definition toolPageInsightsMetadata ::
  "machine \<Rightarrow> service \<Rightarrow> token_info option \<Rightarrow> string \<Rightarrow> tool_output io" where
  "toolPageInsightsMetadata e s session a = run_tool session (\<lambda>tid. Service_PageInsightsMetadata e tid a) OutMetadata"

definition toolPagePosts ::
  "machine \<Rightarrow> service \<Rightarrow> token_info option \<Rightarrow> listing_input \<Rightarrow> tool_output io" where
  "toolPagePosts e s session a = run_tool session (\<lambda>tid. Service_PagePosts e s tid a) OutPosts"

definition toolPagePostComments ::
  "machine \<Rightarrow> service \<Rightarrow> token_info option \<Rightarrow> comments_input \<Rightarrow> tool_output io" where
  "toolPagePostComments e s session a = run_tool session (\<lambda>tid. Service_PagePostComments e s tid a) OutComments"

definition toolPageRatings ::
  "machine \<Rightarrow> service \<Rightarrow> token_info option \<Rightarrow> string \<Rightarrow> int \<Rightarrow> tool_output io" where
  "toolPageRatings e s session a b = run_tool session (\<lambda>tid. Service_PageRatings e s tid a b) OutRatings"

definition toolIGAccountInsights ::
  "machine \<Rightarrow> service \<Rightarrow> token_info option \<Rightarrow> insights_input \<Rightarrow> tool_output io" where
  "toolIGAccountInsights e s session a = run_tool session (\<lambda>tid. Service_IGAccountInsights e s tid a) OutInsights"

definition toolIGFollowerDemographics ::
  "machine \<Rightarrow> service \<Rightarrow> token_info option \<Rightarrow> string \<Rightarrow> string \<Rightarrow> tool_output io" where
  "toolIGFollowerDemographics e s session a b = run_tool session (\<lambda>tid. Service_IGFollowerDemographics e s tid a b) OutBreakdowns"

definition toolIGMedia ::
  "machine \<Rightarrow> service \<Rightarrow> token_info option \<Rightarrow> listing_input \<Rightarrow> tool_output io" where
  "toolIGMedia e s session a = run_tool session (\<lambda>tid. Service_IGMedia e s tid a) OutMedia"

definition toolIGMediaComments ::
  "machine \<Rightarrow> service \<Rightarrow> token_info option \<Rightarrow> comments_input \<Rightarrow> tool_output io" where
  "toolIGMediaComments e s session a = run_tool session (\<lambda>tid. Service_IGMediaComments e s tid a) OutComments"

definition toolReconnectURL ::
  "machine \<Rightarrow> service \<Rightarrow> token_info option \<Rightarrow> tool_output io" where
  "toolReconnectURL e s session = run_tool session (\<lambda>tid. ReconnectURL e s tid) OutURL"

text \<open>\<open>tools_insights.go\<close>\<close>

definition toolConnectionStatus ::
  "machine \<Rightarrow> service \<Rightarrow> token_info option \<Rightarrow> tool_output io" where
  "toolConnectionStatus e s session = run_tool session (\<lambda>tid. ConnectionStatus e s tid) OutStatus"

definition toolPagePostInsights ::
  "machine \<Rightarrow> service \<Rightarrow> token_info option \<Rightarrow> object_input \<Rightarrow> tool_output io" where
  "toolPagePostInsights e s session a = run_tool session (\<lambda>tid. Service_PagePostInsights e s tid a) OutInsights"

definition toolIGMediaInsights ::
  "machine \<Rightarrow> service \<Rightarrow> token_info option \<Rightarrow> object_input \<Rightarrow> tool_output io" where
  "toolIGMediaInsights e s session a = run_tool session (\<lambda>tid. Service_IGMediaInsights e s tid a) OutInsights"

definition toolIGStories ::
  "machine \<Rightarrow> service \<Rightarrow> token_info option \<Rightarrow> string \<Rightarrow> tool_output io" where
  "toolIGStories e s session a = run_tool session (\<lambda>tid. Service_IGStories e s tid a) OutMedia"

definition toolPageScheduledPosts ::
  "machine \<Rightarrow> service \<Rightarrow> token_info option \<Rightarrow> string \<Rightarrow> int \<Rightarrow> tool_output io" where
  "toolPageScheduledPosts e s session a b = run_tool session (\<lambda>tid. Service_PageScheduledPosts e s tid a b) OutScheduled"

text \<open>\<open>tools_write.go\<close>\<close>

definition toolPagePublishPost ::
  "machine \<Rightarrow> service \<Rightarrow> token_info option \<Rightarrow> publish_input \<Rightarrow> tool_output io" where
  "toolPagePublishPost e s session a = run_tool session (\<lambda>tid. Service_PublishPost e s tid a) OutPublished"

definition toolPageReplyComment ::
  "machine \<Rightarrow> service \<Rightarrow> token_info option \<Rightarrow> reply_input \<Rightarrow> tool_output io" where
  "toolPageReplyComment e s session a = run_tool session (\<lambda>tid. Service_ReplyToComment e s tid a) OutReply"

definition toolIGPublish ::
  "machine \<Rightarrow> service \<Rightarrow> token_info option \<Rightarrow> ig_publish_input \<Rightarrow> tool_output io" where
  "toolIGPublish e s session a = run_tool session (\<lambda>tid. Service_IGPublish e s tid a) OutIGPublished"

definition toolIGReplyComment ::
  "machine \<Rightarrow> service \<Rightarrow> token_info option \<Rightarrow> reply_input \<Rightarrow> tool_output io" where
  "toolIGReplyComment e s session a = run_tool session (\<lambda>tid. Service_IGReplyToComment e s tid a) OutReply"

definition toolPageModerateComment ::
  "machine \<Rightarrow> service \<Rightarrow> token_info option \<Rightarrow> moderate_input \<Rightarrow> tool_output io" where
  "toolPageModerateComment e s session a = run_tool session (\<lambda>tid. Service_ModerateComment e s tid a) OutModerated"

definition toolIGModerateComment ::
  "machine \<Rightarrow> service \<Rightarrow> token_info option \<Rightarrow> moderate_input \<Rightarrow> tool_output io" where
  "toolIGModerateComment e s session a = run_tool session (\<lambda>tid. Service_IGModerateComment e s tid a) OutModerated"

definition toolPageDeletePost ::
  "machine \<Rightarrow> service \<Rightarrow> token_info option \<Rightarrow> removal_input \<Rightarrow> tool_output io" where
  "toolPageDeletePost e s session a = run_tool session (\<lambda>tid. Service_PageDeletePost e s tid a) OutRemoved"

definition toolPageCancelScheduledPost ::
  "machine \<Rightarrow> service \<Rightarrow> token_info option \<Rightarrow> removal_input \<Rightarrow> tool_output io" where
  "toolPageCancelScheduledPost e s session a = run_tool session (\<lambda>tid. Service_PageCancelScheduledPost e s tid a) OutCanceled"

section \<open>Registration\<close>

text \<open>A registered tool: its name, its annotations and its handler. Each registration function
  gives the tools it adds, for the calls they answer.\<close>

record tool =
  tl_name :: string
  tl_annotations :: annotations
  tl_handler :: "machine \<Rightarrow> service \<Rightarrow> token_info option \<Rightarrow> tool_output io"

text \<open>\<open>tools_read.go\<close>\<close>

fun registerReadTools :: "tool_call \<Rightarrow> tool option" where
  "registerReadTools CallListPages =
     Some \<lparr>tl_name = ''list_pages'', tl_annotations = readOnly, tl_handler = toolListPages\<rparr>"
| "registerReadTools CallSyncPages =
     Some \<lparr>tl_name = ''sync_pages'', tl_annotations = readOnly, tl_handler = toolSyncPages\<rparr>"
| "registerReadTools (CallPageInsights a) =
     Some \<lparr>tl_name = ''page_insights'', tl_annotations = readOnly, tl_handler = (\<lambda>e s session. toolPageInsights e s session a)\<rparr>"
| "registerReadTools (CallPageInsightsMetadata a) =
     Some \<lparr>tl_name = ''page_insights_metadata'', tl_annotations = readOnly, tl_handler = (\<lambda>e s session. toolPageInsightsMetadata e s session a)\<rparr>"
| "registerReadTools (CallPagePosts a) =
     Some \<lparr>tl_name = ''page_posts'', tl_annotations = readOnly, tl_handler = (\<lambda>e s session. toolPagePosts e s session a)\<rparr>"
| "registerReadTools (CallPagePostComments a) =
     Some \<lparr>tl_name = ''page_post_comments'', tl_annotations = readOnly, tl_handler = (\<lambda>e s session. toolPagePostComments e s session a)\<rparr>"
| "registerReadTools (CallPageRatings a b) =
     Some \<lparr>tl_name = ''page_ratings'', tl_annotations = readOnly, tl_handler = (\<lambda>e s session. toolPageRatings e s session a b)\<rparr>"
| "registerReadTools (CallIGAccountInsights a) =
     Some \<lparr>tl_name = ''ig_account_insights'', tl_annotations = readOnly, tl_handler = (\<lambda>e s session. toolIGAccountInsights e s session a)\<rparr>"
| "registerReadTools (CallIGFollowerDemographics a b) =
     Some \<lparr>tl_name = ''ig_follower_demographics'', tl_annotations = readOnly, tl_handler = (\<lambda>e s session. toolIGFollowerDemographics e s session a b)\<rparr>"
| "registerReadTools (CallIGMedia a) =
     Some \<lparr>tl_name = ''ig_media'', tl_annotations = readOnly, tl_handler = (\<lambda>e s session. toolIGMedia e s session a)\<rparr>"
| "registerReadTools (CallIGMediaComments a) =
     Some \<lparr>tl_name = ''ig_media_comments'', tl_annotations = readOnly, tl_handler = (\<lambda>e s session. toolIGMediaComments e s session a)\<rparr>"
| "registerReadTools CallReconnectURL =
     Some \<lparr>tl_name = ''reconnect_url'', tl_annotations = readOnly, tl_handler = toolReconnectURL\<rparr>"
| "registerReadTools _ = None"

text \<open>\<open>tools_insights.go\<close>\<close>

fun registerDetailTools :: "tool_call \<Rightarrow> tool option" where
  "registerDetailTools CallConnectionStatus =
     Some \<lparr>tl_name = ''connection_status'', tl_annotations = readOnly, tl_handler = toolConnectionStatus\<rparr>"
| "registerDetailTools (CallPagePostInsights a) =
     Some \<lparr>tl_name = ''page_post_insights'', tl_annotations = readOnly, tl_handler = (\<lambda>e s session. toolPagePostInsights e s session a)\<rparr>"
| "registerDetailTools (CallIGMediaInsights a) =
     Some \<lparr>tl_name = ''ig_media_insights'', tl_annotations = readOnly, tl_handler = (\<lambda>e s session. toolIGMediaInsights e s session a)\<rparr>"
| "registerDetailTools (CallIGStories a) =
     Some \<lparr>tl_name = ''ig_stories'', tl_annotations = readOnly, tl_handler = (\<lambda>e s session. toolIGStories e s session a)\<rparr>"
| "registerDetailTools (CallPageScheduledPosts a b) =
     Some \<lparr>tl_name = ''page_scheduled_posts'', tl_annotations = readOnly, tl_handler = (\<lambda>e s session. toolPageScheduledPosts e s session a b)\<rparr>"
| "registerDetailTools _ = None"

text \<open>\<open>tools_write.go\<close>: the tools that create content.\<close>

fun registerWriteTools :: "tool_call \<Rightarrow> tool option" where
  "registerWriteTools (CallPagePublishPost a) =
     Some \<lparr>tl_name = ''page_publish_post'', tl_annotations = writing, tl_handler = (\<lambda>e s session. toolPagePublishPost e s session a)\<rparr>"
| "registerWriteTools (CallPageReplyComment a) =
     Some \<lparr>tl_name = ''page_reply_comment'', tl_annotations = writing, tl_handler = (\<lambda>e s session. toolPageReplyComment e s session a)\<rparr>"
| "registerWriteTools (CallIGPublish a) =
     Some \<lparr>tl_name = ''ig_publish'', tl_annotations = writing, tl_handler = (\<lambda>e s session. toolIGPublish e s session a)\<rparr>"
| "registerWriteTools (CallIGReplyComment a) =
     Some \<lparr>tl_name = ''ig_reply_comment'', tl_annotations = writing, tl_handler = (\<lambda>e s session. toolIGReplyComment e s session a)\<rparr>"
| "registerWriteTools _ = None"

text \<open>\<open>tools_write.go\<close>: the tools that hide or remove content.\<close>

fun registerModerationTools :: "tool_call \<Rightarrow> tool option" where
  "registerModerationTools (CallPageModerateComment a) =
     Some \<lparr>tl_name = ''page_moderate_comment'', tl_annotations = moderating, tl_handler = (\<lambda>e s session. toolPageModerateComment e s session a)\<rparr>"
| "registerModerationTools (CallIGModerateComment a) =
     Some \<lparr>tl_name = ''ig_moderate_comment'', tl_annotations = moderating, tl_handler = (\<lambda>e s session. toolIGModerateComment e s session a)\<rparr>"
| "registerModerationTools (CallPageDeletePost a) =
     Some \<lparr>tl_name = ''page_delete_post'', tl_annotations = moderating, tl_handler = (\<lambda>e s session. toolPageDeletePost e s session a)\<rparr>"
| "registerModerationTools (CallPageCancelScheduledPost a) =
     Some \<lparr>tl_name = ''page_cancel_scheduled_post'', tl_annotations = moderating, tl_handler = (\<lambda>e s session. toolPageCancelScheduledPost e s session a)\<rparr>"
| "registerModerationTools _ = None"

text \<open>The server knows the tools of the four groups; the SDK refuses any other name.\<close>

fun first_tool :: "tool option list \<Rightarrow> tool option" where
  "first_tool [] = None"
| "first_tool (Some t # ts) = Some t"
| "first_tool (None # ts) = first_tool ts"

definition New :: "tool_call \<Rightarrow> tool option" where
  "New c = first_tool
     [registerReadTools c, registerDetailTools c, registerWriteTools c, registerModerationTools c]"

definition call_tool :: "machine \<Rightarrow> service \<Rightarrow> token_info option \<Rightarrow> tool_call \<Rightarrow> tool_output io" where
  "call_tool e s session c =
     (case New c of
        None \<Rightarrow> fail (Msg ''unknown tool'')
      | Some t \<Rightarrow> tl_handler t e s session)"

definition tool_annotations :: "tool_call \<Rightarrow> annotations option" where
  "tool_annotations c = map_option tl_annotations (New c)"

definition read_only_tool :: "tool_call \<Rightarrow> bool" where
  "read_only_tool c = (case tool_annotations c of None \<Rightarrow> False | Some a \<Rightarrow> an_read_only a)"

section \<open>resources.go and prompts.go\<close>

text \<open>The resources read the tenant the same way, from their own request type.\<close>

definition resourceTenantID :: "token_info option \<Rightarrow> string res" where
  "resourceTenantID session =
     (case session of
        None \<Rightarrow> Inl errSessionUnauthenticated
      | Some info \<Rightarrow>
          if ti_user_id info = [] then Inl errSessionUnauthenticated else Inr (ti_user_id info))"

definition readPages :: "machine \<Rightarrow> token_info option \<Rightarrow> tool_output io" where
  "readPages e session =
     bindE (from_res (resourceTenantID session)) (\<lambda>tid.
     bindE (mapE toolError (Service_ListPages e tid)) (\<lambda>pages. ok (OutPages pages)))"

definition readConnection :: "machine \<Rightarrow> service \<Rightarrow> token_info option \<Rightarrow> tool_output io" where
  "readConnection e s session =
     bindE (from_res (resourceTenantID session)) (\<lambda>tid.
     bindE (mapE toolError (ConnectionStatus e s tid)) (\<lambda>status. ok (OutStatus status)))"

text \<open>The argument of a prompt, or its fallback.\<close>

definition argOr :: "(string \<rightharpoonup> string) option \<Rightarrow> string \<Rightarrow> string \<Rightarrow> string" where
  "argOr params name fallback =
     (case params of
        None \<Rightarrow> fallback
      | Some args \<Rightarrow>
          (case args name of
             None \<Rightarrow> fallback
           | Some v \<Rightarrow> if v \<noteq> [] then v else fallback))"

section \<open>What each call runs\<close>

lemma registered [simp]: "New c \<noteq> None"
  by (cases c) (simp_all add: New_def)

lemma call_tool_registered: "New c = Some t \<Longrightarrow> call_tool e s session c = tl_handler t e s session"
  by (simp add: call_tool_def)

lemmas tool_defs = call_tool_def tool_annotations_def read_only_tool_def New_def toolListPages_def toolSyncPages_def toolPageInsights_def
  toolPageInsightsMetadata_def toolPagePosts_def toolPagePostComments_def toolPageRatings_def
  toolIGAccountInsights_def toolIGFollowerDemographics_def toolIGMedia_def
  toolIGMediaComments_def toolReconnectURL_def toolConnectionStatus_def toolPagePostInsights_def
  toolIGMediaInsights_def toolIGStories_def toolPageScheduledPosts_def toolPagePublishPost_def
  toolPageReplyComment_def toolIGPublish_def toolIGReplyComment_def toolPageModerateComment_def
  toolIGModerateComment_def toolPageDeletePost_def toolPageCancelScheduledPost_def

end
