(* ===== verification/MetaProps.thy ===== *)
theory MetaProps
  imports MetaFacts Example
begin

text \<open>
  What the Graph client guarantees, with concrete runs: retries, bounds of the loops, the fallback
  of the insights and the order of an Instagram publication.
\<close>

definition ex_client :: meta_client where
  "ex_client =
     \<lparr>gc_graph_base = ''https://g'', gc_dialog_base = ''https://d'', gc_version = ''v1'',
      gc_app_id = ''app'', gc_app_secret = ''sec'', gc_scopes = ''a,b'', gc_retry_delay = second\<rparr>"

lemma ex_endpoint: "prefix ''https://'' (endpoint ex_client path)"
  by (simp add: endpoint_def ex_client_def)

text \<open>How a call runs when the next canned answer is a success.\<close>

lemma ex_call:
  assumes "length (requests w) < length answers" "answers ! length (requests w) = ex_ok body"
    and "prefix ''https://'' url"
  shows "run_state (call (ex_machine answers) c m url token params) w =
    (Inr body, w\<lparr>requests := requests w @ [the_request (ex_machine answers) c m url token params]\<rparr>)"
proof -
  let ?r = "the_request (ex_machine answers) c m url token params"
  have "prefix ''https://'' (wire_url ?r)"
    using assms(3) by (auto simp: wire_url_def the_request_def split: http_method.splits)
  then have "mc_url_parse (ex_machine answers) (wire_url ?r) \<noteq> None"
    by (simp add: ex_machine_def ex_url_parse_def)
  moreover have "mc_meta (ex_machine answers) (requests w) ?r = Answer 200 body []"
    using assms(1,2) by (simp add: ex_machine_def ex_meta_def ex_ok_def)
  ultimately show ?thesis by (simp add: run_call run_callOnce rate_limited_def Let_def)
qed

lemma ex_post:
  assumes "length (requests w) < length answers" "answers ! length (requests w) = ex_ok body"
    and "Option.bind (json_parse body) dec = Some x"
  shows "run_state (post (ex_machine answers) ex_client token path params dec) w =
    (Inr x, w\<lparr>requests := requests w @
       [the_request (ex_machine answers) ex_client POST (endpoint ex_client path) token params]\<rparr>)"
  using ex_call [OF assms(1,2) ex_endpoint] assms(3) by (simp add: post_def run_bindE decodeInto_def)

lemma ex_get:
  assumes "length (requests w) < length answers" "answers ! length (requests w) = ex_ok body"
    and "Option.bind (json_parse body) dec = Some x"
  shows "run_state (get (ex_machine answers) ex_client token path params dec) w =
    (Inr x, w\<lparr>requests := requests w @
       [the_request (ex_machine answers) ex_client GET (endpoint ex_client path) token params]\<rparr>)"
  using ex_call [OF assms(1,2) ex_endpoint] assms(3) by (simp add: get_def run_bindE decodeInto_def)

definition ex_id_body :: "string \<Rightarrow> string" where
  "ex_id_body i = print_json (JObj [(''id'', JStr i)])"

lemma ex_id_bodies:
  "Option.bind (json_parse (ex_id_body ''c1'')) dec_id = Some (''c1'', [])"
  "Option.bind (json_parse (ex_id_body ''m1'')) dec_id = Some (''m1'', [])"
  by (simp_all add: ex_id_body_def dec_id_def json_reading del: print_json.simps)

text \<open>C17: a call to Meta sends its request at most twice. It sends it a second time only after an
  answer that says rate limit, after one wait of the delay that answer asked for, and then returns
  whatever the second answer says; any other failure is returned as it is. A call whose address is
  malformed sends nothing.\<close>

theorem call_retries_once:
  assumes "run_state (call e c m url token params) w = (res, w')"
  shows "let r = the_request e c m url token params in
    requests w' = requests w \<and> sleeps w' = sleeps w \<and> mc_url_parse e (wire_url r) = None \<or>
    requests w' = requests w @ [r] \<and> sleeps w' = sleeps w \<and>
      res = outcome r (mc_meta e (requests w) r) \<and> rate_limited res = None \<or>
    (\<exists>ge. rate_limited (outcome r (mc_meta e (requests w) r)) = Some ge \<and>
       sleeps w' = sleeps w @ [retry_delay c ge] \<and>
       (requests w' = requests w @ [r] \<and> res = Inl ErrContext \<or>
        requests w' = requests w @ [r, r] \<and> res = outcome r (mc_meta e (requests w @ [r]) r)))"
  unfolding Let_def by (rule call_requests [OF assms])

definition ex_busy :: machine where
  "ex_busy = ex_machine [Answer 429 ''busy'' ''7'', Answer 200 ''fine'' []]"

theorem call_retries_once_witness:
  "length (requests (snd (run_state (call ex_busy ex_client GET ''https://g/x'' [] []) (ex_world ex_db)))) \<in> {0, 1, 2}"
proof -
  let ?r = "run_state (call ex_busy ex_client GET ''https://g/x'' [] []) (ex_world ex_db)"
  show ?thesis
    using call_retries_once [of ex_busy ex_client GET "''https://g/x''" "[]" "[]" "ex_world ex_db"
        "fst ?r" "snd ?r"]
    by (auto simp: Let_def)
qed

text \<open>C18: reading a list follows Meta's links for at most fifty further pages, whatever Meta
  answers, and never returns more items than the limit asked for.\<close>

theorem collect_bounded:
  assumes "run_state (collect e c token path params limit) w = (res, w')"
  shows "length (requests w') \<le> length (requests w) + 2 * (50 + 1) \<and>
    (\<forall>xs. res = Inr xs \<and> 0 < limit \<longrightarrow> int (length xs) \<le> limit)"
  using sends_leD [OF collect_sends assms] collect_length assms by (auto simp: maxPages_def)

theorem collect_bounded_witness:
  "length (requests (snd (run_state (collect (ex_machine []) ex_client ''tok'' ''me'' [] 5) (ex_world ex_db)))) \<le> 102"
  using collect_bounded [OF prod.collapse [symmetric], of "ex_machine []" ex_client "''tok''" "''me''" "[]" 5
      "ex_world ex_db"] by simp

text \<open>C19: reading insights loses no metric silently. Either the batch was read whole; or the error
  is not about an unsupported metric and reaches the caller; or the batch was refused as
  unsupported and every metric was asked for on its own, each being either in the answer or, if
  Meta refused it too, in the list of rejected metrics, which keeps the order asked for.\<close>

theorem insights_account_for_every_metric:
  assumes "run_state (insightsWithFallback e c token path base ms) w = (res, w')" "ms \<noteq> []"
  shows "(\<exists>got. res = Inr got \<and> is_rejected got = [] \<and>
      run_state (insights e c token path base ms) w = (Inr got, w')) \<or>
    (\<exists>err. res = Inl err \<and> \<not> unsupported err) \<or>
    (\<exists>got err w1. res = Inr got \<and> unsupported err \<and>
      run_state (insights e c token path base ms) w = (Inl err, w1) \<and>
      split_metrics e c token path base w1 ms (is_insights got) (is_rejected got) w' \<and>
      subseq (is_rejected got) ms)"
  using assms by (rule fallback_result) (blast dest: split_rejected)+

definition ex_unsupported :: http_answer where
  "ex_unsupported = Answer 400
     (print_json (JObj [(''error'', JObj [(''message'', JStr ''no''), (''code'', JNum 100)])])) []"

theorem insights_account_for_every_metric_witness:
  "let r = fst (run_state (insightsWithFallback (ex_machine []) ex_client ''tok'' ''p/insights'' [] [''a''])
     (ex_world ex_db)) in \<exists>x. r = x \<and> (case x of Inr got \<Rightarrow> subseq (is_rejected got) [''a''] | Inl err \<Rightarrow> \<not> unsupported err)"
  using insights_account_for_every_metric [OF prod.collapse [symmetric], of "[''a'']" "ex_machine []"
      ex_client "''tok''" "''p/insights''" "[]" "ex_world ex_db"]
  by (auto simp: Let_def split: sum.splits)

text \<open>C20: an Instagram publication only succeeds after Meta reported the container finished: at
  some earlier point of the requests of this call the last answer was a successful FINISHED
  status of the very container that is then published.\<close>

theorem publish_after_finished:
  assumes "run_state (IGPublish e c token ig req) w = (Inr mid, w')"
  shows "\<exists>cid w1 w2 pid. run_state (createIGContainer e c token ig req) w = (Inr cid, w1) \<and>
    run_state (waitForIGContainer e c token cid) w1 = (Inr (), w2) \<and> seen_finished e c token cid w2 \<and>
    run_state (post e c token (ig @ ''/media_publish'') [(''creation_id'', [cid])] dec_id) w2 =
      (Inr (mid, pid), w') \<and> mid \<noteq> []"
  using assms
  by (auto simp: IGPublish_def run_bindE_Inr waitForIGContainer_def split: prod.splits if_splits
      dest: wait_container_Inr)

definition ex_finished :: string where
  "ex_finished = print_json (JObj [(''status_code'', JStr ''FINISHED'')])"

lemma ex_finished_body: "Option.bind (json_parse ex_finished) dec_status = Some (''FINISHED'', [])"
  by (simp add: ex_finished_def dec_status_def json_reading del: print_json.simps)

definition ex_image :: ig_publish_request where
  "ex_image = \<lparr>ig_media_type = IGMediaTypeImage, ig_image_url = ''https://i/1.jpg'', ig_video_url = [],
     ig_caption = ''hi'', ig_children = []\<rparr>"

definition ex_publish_machine :: machine where
  "ex_publish_machine = ex_machine [ex_ok (ex_id_body ''c1''), ex_ok ex_finished, ex_ok (ex_id_body ''m1'')]"

lemma maxPollAttempts_Suc: "maxPollAttempts = Suc 29"
  by (simp add: maxPollAttempts_def)

lemmas wait_first = wait_container.simps(2) [of 29, folded maxPollAttempts_Suc]

lemma ex_publish:
  "fst (run_state (IGPublish ex_publish_machine ex_client ''tok'' ''ig1'' ex_image) (ex_world ex_db)) = Inr ''m1''"
  by (simp add: IGPublish_def createIGContainer_def container_params_def waitForIGContainer_def
      ex_publish_machine_def run_bindE run_mapE ex_image_def media_type_defs wait_first
      ex_post [OF _ _ ex_id_bodies(1)] ex_post [OF _ _ ex_id_bodies(2)] ex_get [OF _ _ ex_finished_body] Let_def)

theorem publish_after_finished_witness:
  "\<exists>cid w2. seen_finished ex_publish_machine ex_client ''tok'' cid w2"
proof -
  let ?r = "run_state (IGPublish ex_publish_machine ex_client ''tok'' ''ig1'' ex_image) (ex_world ex_db)"
  have "?r = (Inr ''m1'', snd ?r)" using ex_publish by (cases ?r) simp
  from publish_after_finished [OF this] show ?thesis by blast
qed

text \<open>C21: an Instagram publication sends a bounded number of requests: at most two for each
  carousel item, the container and the publication, and at most two for each of thirty polls.\<close>

theorem publish_bounded:
  assumes "run_state (IGPublish e c token ig req) w = (res, w')"
  shows "length (requests w') \<le> length (requests w) + 2 * (length (ig_children req) + 30 + 2)"
  using sends_leD [OF IGPublish_sends assms] by (simp add: maxPollAttempts_def)

theorem publish_bounded_witness:
  "length (requests (snd (run_state (IGPublish ex_publish_machine ex_client ''tok'' ''ig1'' ex_image)
     (ex_world ex_db)))) \<le> 64"
  using publish_bounded [OF prod.collapse [symmetric], of ex_publish_machine ex_client "''tok''" "''ig1''"
      ex_image "ex_world ex_db"] by (simp add: ex_image_def)

end
