(* ===== verification/LoginProps.thy ===== *)
theory LoginProps
  imports AppLogin MetaProps StoreProps
begin

text \<open>
  What a login and the renewal sweep guarantee: who gets a tenant, what a completed login leaves in
  the database, and that the sweep accounts for every tenant and touches nothing but tokens.
\<close>

section \<open>Lemmas\<close>

lemma login_tenant_Inr:
  assumes "run_state (login_tenant e user ll) w = (Inr t, w')"
  shows "t_meta_user_id t = mu_id user \<and> t_display_name t = mu_name user \<and>
    t_user_token t = ll_token ll \<and> db w' = db w \<and>
    (\<forall>old. find (\<lambda>r. tr_meta_user_id r = mu_id user) (tenants (db w)) = Some old \<longrightarrow> t_id t = tr_id old)"
proof -
  have d: "db w' = db w" using fdb.frameD [OF login_tenant_same_db assms] by (simp add: same_db_def)
  obtain fresh w1 where id: "run_state (newTenantID e) (w\<lparr>n_clock := Suc (n_clock w)\<rparr>) = (fresh, w1)"
    by (cases "run_state (newTenantID e) (w\<lparr>n_clock := Suc (n_clock w)\<rparr>)")
  have d1: "db w1 = db w"
    using fdb.frameD [OF newTenantID_frames(1) id] by (simp add: same_db_def)
  obtain q w2 where q: "run_state (TenantByMetaUserID e (mu_id user)) w1 = (q, w2)"
    by (cases "run_state (TenantByMetaUserID e (mu_id user)) w1")
  show ?thesis
  proof (cases q)
    case (Inr old)
    with q obtain r where "find (\<lambda>r. tr_meta_user_id r = mu_id user) (tenants (db w)) = Some r"
      and "scanTenant e r = Inr old" by (auto simp: TenantByMetaUserID_def tenantBy_Inr d1)
    with assms id q Inr d show ?thesis
      by (auto simp: login_tenant_def Let_def run_clock_now scanTenant_Inr)
  next
    case (Inl err)
    from assms id q Inl have nf: "errors_is err ErrNotFound"
      by (auto simp: login_tenant_def Let_def run_clock_now split: if_splits)
    have "find (\<lambda>r. tr_meta_user_id r = mu_id user) (tenants (db w)) = None"
    proof (rule ccontr)
      assume "find (\<lambda>r. tr_meta_user_id r = mu_id user) (tenants (db w)) \<noteq> None"
      with q Inl have "\<not> errors_is err ErrNotFound"
        by (auto simp: TenantByMetaUserID_def tenantBy_def run_bindE run_stmt select_first_def d1
            scanTenant_def split: option.splits if_splits sum.splits dest!: ciph.dec_err)
      with nf show False by simp
    qed
    with assms id q Inl nf d show ?thesis
      by (auto simp: login_tenant_def Let_def run_clock_now split: if_splits)
  qed
qed

lemma syncPages_cases:
  assumes "run_state (syncPages e c tid token) w = (res, w')"
  shows "db w' = db w \<and> (\<exists>err. res = Inl err) \<or>
    (\<exists>ps rows. res = Inr ps \<and> length rows = length ps \<and> (\<forall>r \<in> set rows. pg_tenant_id r = tid) \<and>
       db w' = (db w)\<lparr>pages := filter (\<lambda>r. pg_tenant_id r \<noteq> tid) (pages (db w)) @ rows\<rparr>)"
proof -
  obtain q w1 where q: "run_state (Accounts e c token) w = (q, w1)"
    by (cases "run_state (Accounts e c token) w")
  have d1: "db w1 = db w" using fdb.frameD [OF oauth_same_db(5) q] by (simp add: same_db_def)
  show ?thesis
  proof (cases q)
    case (Inl err)
    with assms q d1 show ?thesis by (auto simp: syncPages_def run_bindE)
  next
    case (Inr ps)
    obtain u w2 where u: "run_state (ReplacePages e tid ps) w1 = (u, w2)"
      by (cases "run_state (ReplacePages e tid ps) w1")
    show ?thesis
    proof (cases u)
      case (Inl err)
      then have "db w2 = db w1" using u unfolding ReplacePages_def by (auto dest: in_tx_Inl)
      with Inl assms q \<open>q = Inr ps\<close> u d1 show ?thesis by (auto simp: syncPages_def run_bindE run_mapE)
    next
      case (Inr x)
      from ReplacePages_Inr [OF u [unfolded Inr]] d1 obtain encs where len: "length encs = length ps"
        and d2: "db w2 = (db w)\<lparr>pages := filter (\<lambda>r. pg_tenant_id r \<noteq> tid) (pages (db w)) @
               map (\<lambda>(p, enc). page_record tid p enc) (zip ps encs)\<rparr>" by auto
      let ?rows = "map (\<lambda>(p, enc). page_record tid p enc) (zip ps encs)"
      have "length ?rows = length ps" "\<forall>r \<in> set ?rows. pg_tenant_id r = tid"
        using len by (auto simp: page_record_def)
      moreover have "res = Inr ps" "w' = w2"
        using assms q \<open>q = Inr ps\<close> u Inr by (auto simp: syncPages_def run_bindE run_mapE)
      ultimately show ?thesis using d2 by blast
    qed
  qed
qed

lemma upsert_others:
  "upsert_tenant r d = Some (u, d') \<Longrightarrow> tr_meta_user_id x \<noteq> tr_meta_user_id r \<Longrightarrow>
   x \<in> set (tenants d') \<longleftrightarrow> x \<in> set (tenants d)"
  by (auto simp: upsert_tenant_def merge_tenant_def image_iff split: if_splits)

lemma upsert_tables:
  "upsert_tenant r d = Some (u, d') \<Longrightarrow> \<exists>ts. d' = d\<lparr>tenants := ts\<rparr>"
  by (auto simp: upsert_tenant_def split: if_splits)

text \<open>An operation that changes the database or succeeds got past every read before the change.\<close>

lemma past_read:
  assumes "run_state (bindE m f) w = (res, w')" "state_io_rel same_db m" "db w' \<noteq> db w \<or> \<not> isl res"
  obtains x w1 where "run_state m w = (Inr x, w1)" "db w1 = db w" "run_state (f x) w1 = (res, w')"
proof -
  obtain q w1 where q: "run_state m w = (q, w1)" by (cases "run_state m w")
  have d: "db w1 = db w" using fdb.frameD [OF assms(2) q] by (simp add: same_db_def)
  with assms q that show thesis by (cases q) (auto simp: run_bindE)
qed

text \<open>What registering the identified user does to the database.\<close>

definition registered ::
  "machine \<Rightarrow> meta_user \<Rightarrow> string \<Rightarrow> database \<Rightarrow> login_result res \<Rightarrow> database \<Rightarrow> bool" where
  "registered e user token d res d' \<longleftrightarrow> (\<exists>t enc d1.
     t_meta_user_id t = mu_id user \<and> t_display_name t = mu_name user \<and>
     (\<forall>old. find (\<lambda>r. tr_meta_user_id r = mu_id user) (tenants d) = Some old \<longrightarrow> t_id t = tr_id old) \<and>
     (cipher_ok e \<longrightarrow> Decrypt e enc = Inr token) \<and>
     upsert_tenant (tenant_record t enc) d = Some ((), d1) \<and>
     (d' = d1 \<and> (\<exists>err. res = Inl err) \<or>
      (\<exists>rows. (\<forall>r \<in> set rows. pg_tenant_id r = t_id t) \<and>
         d' = d1\<lparr>pages := filter (\<lambda>r. pg_tenant_id r \<noteq> t_id t) (pages d1) @ rows\<rparr> \<and>
         res = Inr \<lparr>lr_tenant_id = t_id t, lr_display_name = mu_name user,
                     lr_pages = int (length rows)\<rparr>)))"

lemma register_effect:
  assumes "run_state
      (bindE (login_tenant e user ll) (\<lambda>t.
       bindE (mapE (Wrap ''enregistrement du tenant'') (UpsertTenant e t)) (\<lambda>_.
       bindE (syncPages e c (t_id t) (ll_token ll)) (\<lambda>ps.
       ok \<lparr>lr_tenant_id = t_id t, lr_display_name = t_display_name t, lr_pages = int (length ps)\<rparr>)))) w
    = (res, w')" and changed: "db w' \<noteq> db w \<or> \<not> isl res"
  shows "registered e user (ll_token ll) (db w) res (db w')"
proof -
  from past_read [OF assms(1) login_tenant_same_db changed] obtain t w1
    where t: "run_state (login_tenant e user ll) w = (Inr t, w1)" and d1: "db w1 = db w"
      and rest: "run_state (bindE (mapE (Wrap ''enregistrement du tenant'') (UpsertTenant e t)) (\<lambda>_.
        bindE (syncPages e c (t_id t) (ll_token ll)) (\<lambda>ps.
        ok \<lparr>lr_tenant_id = t_id t, lr_display_name = t_display_name t, lr_pages = int (length ps)\<rparr>))) w1
        = (res, w')" .
  note facts = login_tenant_Inr [OF t]
  obtain q w2 where up: "run_state (UpsertTenant e t) w1 = (q, w2)" by (cases "run_state (UpsertTenant e t) w1")
  have "q = Inr ()" using up rest changed d1
    by (cases q) (auto simp: run_bindE run_mapE dest: UpsertTenant_Inl)
  with up have up: "run_state (UpsertTenant e t) w1 = (Inr (), w2)" by simp
  from UpsertTenant_Inr [OF up] obtain enc w0 where enc: "run_state (Encrypt e (t_user_token t)) w1 = (Inr enc, w0)"
    and ins: "upsert_tenant (tenant_record t enc) (db w) = Some ((), db w2)" by (metis d1)
  have dec: "cipher_ok e \<longrightarrow> Decrypt e enc = Inr (ll_token ll)" using ciph.enc_dec [OF _ enc] facts by simp
  obtain s w3 where sync: "run_state (syncPages e c (t_id t) (ll_token ll)) w2 = (s, w3)"
    by (cases "run_state (syncPages e c (t_id t) (ll_token ll)) w2")
  from rest up sync have res: "res = map_sum id (\<lambda>ps. \<lparr>lr_tenant_id = t_id t,
      lr_display_name = t_display_name t, lr_pages = int (length ps)\<rparr>) s" and w3: "w' = w3"
    by (auto simp: run_bindE run_mapE split: sum.splits)
  show ?thesis
    unfolding registered_def
    by (rule exI [of _ t], rule exI [of _ enc], rule exI [of _ "db w2"])
       (use syncPages_cases [OF sync] facts dec ins res w3 in auto)
qed

text \<open>A login only succeeds, or changes the database, for a user the whitelist admits: the one Meta
  names for the long-lived token that the code of the callback was exchanged for.\<close>

definition identified ::
  "machine \<Rightarrow> meta_client \<Rightarrow> string \<Rightarrow> string \<Rightarrow> world \<Rightarrow> string \<Rightarrow> meta_user \<Rightarrow> world \<Rightarrow> bool" where
  "identified e c code uri w token user w' \<longleftrightarrow> (\<exists>short ll w1 w2.
     run_state (ExchangeCode e c code uri) w = (Inr short, w1) \<and>
     run_state (ExchangeLongLivedToken e c short) w1 = (Inr ll, w2) \<and> ll_token ll = token \<and>
     run_state (Me e c token) w2 = (Inr user, w'))"

lemma Complete_identified:
  assumes "run_state (Complete e s code uri) w = (res, w')" and changed: "db w' \<noteq> db w \<or> \<not> isl res"
  shows "\<exists>user token w1. identified e (lg_graph s) code uri w token user w1 \<and>
    lg_allow s (mu_id user) \<and> registered e user token (db w) res (db w')"
proof -
  from past_read [OF assms(1) [unfolded Complete_def] oauth_same_db(1) changed] obtain short w1
    where x1: "run_state (ExchangeCode e (lg_graph s) code uri) w = (Inr short, w1)"
      and d1: "db w1 = db w" and r1: "run_state
      (bindE (ExchangeLongLivedToken e (lg_graph s) short) (\<lambda>longLived.
       bindE (Me e (lg_graph s) (ll_token longLived)) (\<lambda>user.
       if \<not> lg_allow s (mu_id user) then fail ErrForbiddenUser
       else
         bindE (login_tenant e user longLived) (\<lambda>t.
         bindE (mapE (Wrap ''enregistrement du tenant'') (UpsertTenant e t)) (\<lambda>_.
         bindE (syncPages e (lg_graph s) (t_id t) (ll_token longLived)) (\<lambda>ps.
         ok \<lparr>lr_tenant_id = t_id t, lr_display_name = t_display_name t, lr_pages = int (length ps)\<rparr>)))))) w1
      = (res, w')" .
  from changed d1 have "db w' \<noteq> db w1 \<or> \<not> isl res" by simp
  from past_read [OF r1 oauth_same_db(2) this] obtain ll w2
    where x2: "run_state (ExchangeLongLivedToken e (lg_graph s) short) w1 = (Inr ll, w2)"
      and d2: "db w2 = db w1" and r2: "run_state
      (bindE (Me e (lg_graph s) (ll_token ll)) (\<lambda>user.
       if \<not> lg_allow s (mu_id user) then fail ErrForbiddenUser
       else
         bindE (login_tenant e user ll) (\<lambda>t.
         bindE (mapE (Wrap ''enregistrement du tenant'') (UpsertTenant e t)) (\<lambda>_.
         bindE (syncPages e (lg_graph s) (t_id t) (ll_token ll)) (\<lambda>ps.
         ok \<lparr>lr_tenant_id = t_id t, lr_display_name = t_display_name t, lr_pages = int (length ps)\<rparr>))))) w2
      = (res, w')" .
  from changed d1 d2 have "db w' \<noteq> db w2 \<or> \<not> isl res" by simp
  from past_read [OF r2 oauth_same_db(4) this] obtain user w3
    where me: "run_state (Me e (lg_graph s) (ll_token ll)) w2 = (Inr user, w3)" and d3: "db w3 = db w2"
      and r3: "run_state (if \<not> lg_allow s (mu_id user) then fail ErrForbiddenUser
       else
         bindE (login_tenant e user ll) (\<lambda>t.
         bindE (mapE (Wrap ''enregistrement du tenant'') (UpsertTenant e t)) (\<lambda>_.
         bindE (syncPages e (lg_graph s) (t_id t) (ll_token ll)) (\<lambda>ps.
         ok \<lparr>lr_tenant_id = t_id t, lr_display_name = t_display_name t, lr_pages = int (length ps)\<rparr>)))) w3
      = (res, w')" .
  have allow: "lg_allow s (mu_id user)"
  proof (rule ccontr)
    assume "\<not> lg_allow s (mu_id user)"
    with r3 have "db w' = db w3 \<and> isl res" by auto
    with changed d1 d2 d3 show False by simp
  qed
  with r3 changed d1 d2 d3 have "registered e user (ll_token ll) (db w3) res (db w')"
    by (intro register_effect) simp_all
  moreover have "identified e (lg_graph s) code uri w (ll_token ll) user w3"
    using x1 x2 me unfolding identified_def by blast
  ultimately show ?thesis using allow d1 d2 d3 by metis
qed

lemma Complete_admitted:
  assumes "run_state (Complete e s code uri) w = (res, w')" "db w' \<noteq> db w \<or> \<not> isl res"
  shows "\<exists>user token w1 w2. run_state (Me e (lg_graph s) token) w1 = (Inr user, w2) \<and>
    lg_allow s (mu_id user) \<and> registered e user token (db w) res (db w')"
  using Complete_identified [OF assms] unfolding identified_def by blast

lemma registered_frame:
  assumes "registered e user token d res d'"
  shows "d' = d\<lparr>tenants := tenants d', pages := pages d'\<rparr>"
    and "tr_meta_user_id x \<noteq> mu_id user \<Longrightarrow> x \<in> set (tenants d') \<longleftrightarrow> x \<in> set (tenants d)"
proof -
  from assms obtain t enc d1 where meta: "t_meta_user_id t = mu_id user"
    and up: "upsert_tenant (tenant_record t enc) d = Some ((), d1)"
    and d': "d' = d1 \<or> (\<exists>ps. d' = d1\<lparr>pages := ps\<rparr>)"
    unfolding registered_def by blast
  from upsert_tables [OF up] d' show "d' = d\<lparr>tenants := tenants d', pages := pages d'\<rparr>" by auto
  show "x \<in> set (tenants d') \<longleftrightarrow> x \<in> set (tenants d)" if "tr_meta_user_id x \<noteq> mu_id user"
    using upsert_others [OF up] that meta d' by (auto simp: tenant_record_def)
qed

text \<open>The one row of the user, and the pages of everybody else.\<close>

lemma registered_row:
  assumes "registered e user token d res d'"
  obtains row where "find (\<lambda>x. tr_meta_user_id x = mu_id user) (tenants d') = Some row"
    and "filter (\<lambda>g. pg_tenant_id g \<noteq> tr_id row) (pages d') = filter (\<lambda>g. pg_tenant_id g \<noteq> tr_id row) (pages d)"
proof -
  from assms obtain t enc d1 where meta: "t_meta_user_id t = mu_id user"
    and known: "\<forall>old. find (\<lambda>r. tr_meta_user_id r = mu_id user) (tenants d) = Some old \<longrightarrow> t_id t = tr_id old"
    and up: "upsert_tenant (tenant_record t enc) d = Some ((), d1)"
    and d': "d' = d1 \<or> (\<exists>rows. (\<forall>r \<in> set rows. pg_tenant_id r = t_id t) \<and>
         d' = d1\<lparr>pages := filter (\<lambda>r. pg_tenant_id r \<noteq> t_id t) (pages d1) @ rows\<rparr>)"
    unfolding registered_def by blast
  let ?row = "upserted (tenant_record t enc) d"
  have found: "find (\<lambda>x. tr_meta_user_id x = mu_id user) (tenants d') = Some ?row"
    using upsert_tenant_find [OF up] meta d' by (auto simp: tenant_record_def)
  have "tr_id ?row = t_id t"
    using known meta
    by (auto simp: upserted_def tenant_record_def merge_tenant_def split: option.splits dest: find_SomeD)
  moreover have "pages d1 = pages d" using upsert_tables [OF up] by auto
  ultimately have "filter (\<lambda>g. pg_tenant_id g \<noteq> tr_id ?row) (pages d') = filter (\<lambda>g. pg_tenant_id g \<noteq> tr_id ?row) (pages d)"
    using d' by (auto simp: filter_empty_conv)
  with found show thesis by (rule that)
qed

lemma registered_Inr:
  assumes "registered e user token d (Inr r) d'"
  shows "\<exists>row. find (\<lambda>x. tr_meta_user_id x = mu_id user) (tenants d') = Some row \<and>
    tr_id row = lr_tenant_id r \<and> (cipher_ok e \<longrightarrow> Decrypt e (tr_user_token_enc row) = Inr token) \<and>
    (\<forall>old. find (\<lambda>x. tr_meta_user_id x = mu_id user) (tenants d) = Some old \<longrightarrow>
       tr_id row = tr_id old \<and> tr_created_at row = tr_created_at old)"
    and "lr_pages r = int (length (pages_of (lr_tenant_id r) d'))"
    and "tid \<noteq> lr_tenant_id r \<Longrightarrow> pages_of tid d' = pages_of tid d"
proof -
  from assms obtain t enc d1 where meta: "t_meta_user_id t = mu_id user"
    and known: "\<forall>old. find (\<lambda>r. tr_meta_user_id r = mu_id user) (tenants d) = Some old \<longrightarrow> t_id t = tr_id old"
    and dec: "cipher_ok e \<longrightarrow> Decrypt e enc = Inr token"
    and up: "upsert_tenant (tenant_record t enc) d = Some ((), d1)"
    and outcome: "d' = d1 \<and> (\<exists>err. Inr r = Inl err) \<or>
      (\<exists>rows. (\<forall>r \<in> set rows. pg_tenant_id r = t_id t) \<and>
         d' = d1\<lparr>pages := filter (\<lambda>r. pg_tenant_id r \<noteq> t_id t) (pages d1) @ rows\<rparr> \<and>
         Inr r = Inr \<lparr>lr_tenant_id = t_id t, lr_display_name = mu_name user,
                     lr_pages = int (length rows)\<rparr>)"
    unfolding registered_def by blast
  from outcome obtain rows where rows: "\<forall>r \<in> set rows. pg_tenant_id r = t_id t"
    and d': "d' = d1\<lparr>pages := filter (\<lambda>r. pg_tenant_id r \<noteq> t_id t) (pages d1) @ rows\<rparr>"
    and r: "lr_tenant_id r = t_id t" "lr_pages r = int (length rows)" by auto
  let ?find = "find (\<lambda>x. tr_meta_user_id x = mu_id user)"
  have found: "?find (tenants d') = Some (upserted (tenant_record t enc) d)"
    using upsert_tenant_find [OF up] meta by (simp add: d' tenant_record_def)
  have "tr_id (upserted (tenant_record t enc) d) = t_id t \<and>
      tr_user_token_enc (upserted (tenant_record t enc) d) = enc \<and>
      (\<forall>old. ?find (tenants d) = Some old \<longrightarrow>
         tr_created_at (upserted (tenant_record t enc) d) = tr_created_at old)"
    using known meta
    by (auto simp: upserted_def tenant_record_def merge_tenant_def split: option.splits dest: find_SomeD)
  with found dec known r(1)
  show "\<exists>row. ?find (tenants d') = Some row \<and>
      tr_id row = lr_tenant_id r \<and> (cipher_ok e \<longrightarrow> Decrypt e (tr_user_token_enc row) = Inr token) \<and>
      (\<forall>old. ?find (tenants d) = Some old \<longrightarrow>
         tr_id row = tr_id old \<and> tr_created_at row = tr_created_at old)"
    by auto
  have "filter (\<lambda>r. pg_tenant_id r = t_id t) rows = rows" using rows by (simp add: filter_id_conv)
  moreover have "filter (\<lambda>r. pg_tenant_id r = t_id t) (filter (\<lambda>r. pg_tenant_id r \<noteq> t_id t) (pages d1)) = []"
    by (simp add: filter_empty_conv)
  ultimately show "lr_pages r = int (length (pages_of (lr_tenant_id r) d'))"
    using r by (simp add: pages_of_def d')
  have "filter (\<lambda>r. pg_tenant_id r = tid) rows = []" if "tid \<noteq> t_id t"
    using rows that by (auto simp: filter_empty_conv)
  moreover have "pages d1 = pages d" using upsert_tables [OF up] by auto
  ultimately show "pages_of tid d' = pages_of tid d" if "tid \<noteq> lr_tenant_id r"
    using that r(1) by (auto simp: pages_of_def d' filter_filter intro!: filter_cong)
qed

section \<open>A concrete login\<close>

lemma maxPages_Suc: "maxPages = Suc 49"
  by (simp add: maxPages_def)

lemmas collect_first = collect_from.simps(2) [of _ _ _ 49, folded maxPages_Suc]

lemma ex_collect:
  assumes "length (requests w) < length answers" "answers ! length (requests w) = ex_ok body"
    and "Option.bind (json_parse body) dec_page = Some (items, [])"
  shows "run_state (collect (ex_machine answers) ex_client token loc params 0) w =
    (Inr items, w\<lparr>requests := requests w @
       [the_request (ex_machine answers) ex_client GET (endpoint ex_client loc) token params]\<rparr>)"
  using ex_call [OF assms(1,2) ex_endpoint] assms(3)
  by (simp add: collect_def run_bindE collect_first)

definition ex_account :: json where
  "ex_account = JObj [(''id'', JStr ''p2''), (''name'', JStr ''New''), (''access_token'', JStr ''pt2'')]"

definition ex_short_body :: string where
  "ex_short_body = print_json (JObj [(''access_token'', JStr ''short'')])"
definition ex_long_body :: string where
  "ex_long_body = print_json (JObj [(''access_token'', JStr ''long''), (''expires_in'', JNum 9)])"
definition ex_user_body :: string where
  "ex_user_body = print_json (JObj [(''id'', JStr ''u1''), (''name'', JStr ''Ann'')])"
definition ex_accounts_body :: string where
  "ex_accounts_body = print_json (JObj [(''data'', JArr [ex_account])])"

lemma ex_short_decoded: "Option.bind (json_parse ex_short_body) dec_token_response = Some (''short'', 0)"
  by (simp add: ex_short_body_def dec_token_response_def json_reading del: print_json.simps)

lemma ex_long_decoded: "Option.bind (json_parse ex_long_body) dec_token_response = Some (''long'', 9)"
  by (simp add: ex_long_body_def dec_token_response_def json_reading del: print_json.simps)

lemma ex_user_decoded:
  "Option.bind (json_parse ex_user_body) dec_user = Some \<lparr>mu_id = ''u1'', mu_name = ''Ann''\<rparr>"
  by (simp add: ex_user_body_def dec_user_def json_reading del: print_json.simps)

lemma ex_accounts_decoded: "Option.bind (json_parse ex_accounts_body) dec_page = Some ([ex_account], [])"
  by (simp add: ex_accounts_body_def ex_account_def dec_page_def json_reading del: print_json.simps)

lemma ex_account_decoded:
  "dec_account ex_account = Some \<lparr>ai_id = ''p2'', ai_name = ''New'', ai_token = ''pt2'',
     ai_ig_id = [], ai_ig_username = []\<rparr>"
  by (simp add: ex_account_def dec_account_def json_reading)

definition ex_login_machine :: machine where
  "ex_login_machine =
     ex_machine [ex_ok ex_short_body, ex_ok ex_long_body, ex_ok ex_user_body, ex_ok ex_accounts_body]"

definition ex_login :: login_service where
  "ex_login = NewLoginService ex_client (Some (\<lambda>u. u = ''u1''))"

lemma ex_scan_tenant:
  "scanTenant (ex_machine answers) ex_tenant_row = Inr
     \<lparr>t_id = ''t1'', t_meta_user_id = ''u1'', t_display_name = ''Ann'', t_user_token = ''usertok'',
      t_created_at = from_unix 100, t_updated_at = from_unix 100,
      t_token_expires_at = from_unix 1700100000\<rparr>"
  by (simp add: scanTenant_Inr ex_tenant_row_def Decrypt_Inr ex_seal_row_def ex_seal_def nonce_size_def
      overhead_def timeOrZero_def ex_machine_def ex_open_def)

lemma ex_tenant_meta: "tr_meta_user_id ex_tenant_row = ''u1''" "tr_id ex_tenant_row = ''t1''"
  by (simp_all add: ex_tenant_row_def)

definition ex_login_run :: "login_result res \<times> world" where
  "ex_login_run = run_state (Complete ex_login_machine ex_login ''code'' ''https://s/cb'') (ex_world ex_db)"

lemma ex_Complete:
  "fst ex_login_run = Inr \<lparr>lr_tenant_id = ''t1'', lr_display_name = ''Ann'', lr_pages = 1\<rparr>"
  "map pg_page_id (pages (db (snd ex_login_run))) = [''p2'']"
  by (simp_all add: ex_login_run_def Complete_def ExchangeCode_def ExchangeLongLivedToken_def Me_def ex_login_def
      NewLoginService_def ex_login_machine_def run_bindE run_mapE
      ex_get [OF _ _ ex_short_decoded] ex_get [OF _ _ ex_long_decoded]
      ex_get [OF _ _ ex_user_decoded] login_tenant_def newTenantID_def run_simps Let_def
      TenantByMetaUserID_def tenantBy_def select_first_def ex_db_def ex_scan_tenant ex_tenant_meta
      UpsertTenant_def Encrypt_def upsert_tenant_def tenant_record_def merge_tenant_def
      syncPages_def Accounts_def ex_collect [OF _ _ ex_accounts_decoded] decode_items_def
      ex_account_decoded account_page_def ReplacePages_def in_tx_def delete_pages_of_def insertPage_def
      insert_page_def page_record_def ex_page_row_def empty_db_def)

lemma ex_login_split:
  "run_state (Complete ex_login_machine ex_login ''code'' ''https://s/cb'') (ex_world ex_db) =
   (Inr \<lparr>lr_tenant_id = ''t1'', lr_display_name = ''Ann'', lr_pages = 1\<rparr>, snd ex_login_run)"
  using ex_Complete(1) by (cases ex_login_run) (simp add: ex_login_run_def)

section \<open>The login\<close>

text \<open>C29: a Facebook login changes the database only for a user the whitelist admits, the one Meta
  names for the token that the code of this login was exchanged for, and only in what belongs to
  that user. Whatever the outcome, the user has one tenant afterwards; every row of another tenant,
  every page of another tenant, in its place, and the OAuth tables are untouched.\<close>

theorem login_admits_only_allowed:
  assumes "run_state (Complete e s code uri) w = (res, w')" "db w' \<noteq> db w"
  shows "\<exists>user token w1 row. identified e (lg_graph s) code uri w token user w1 \<and>
    lg_allow s (mu_id user) \<and>
    db w' = (db w)\<lparr>tenants := tenants (db w'), pages := pages (db w')\<rparr> \<and>
    (\<forall>x. tr_meta_user_id x \<noteq> mu_id user \<longrightarrow> (x \<in> set (tenants (db w')) \<longleftrightarrow> x \<in> set (tenants (db w)))) \<and>
    find (\<lambda>x. tr_meta_user_id x = mu_id user) (tenants (db w')) = Some row \<and>
    filter (\<lambda>g. pg_tenant_id g \<noteq> tr_id row) (pages (db w')) =
      filter (\<lambda>g. pg_tenant_id g \<noteq> tr_id row) (pages (db w))"
proof -
  from Complete_identified [OF assms(1)] assms(2) obtain user token w1
    where who: "identified e (lg_graph s) code uri w token user w1"
      and allow: "lg_allow s (mu_id user)"
      and reg: "registered e user token (db w) res (db w')" by blast
  have f1: "db w' = (db w)\<lparr>tenants := tenants (db w'), pages := pages (db w')\<rparr>"
    by (rule registered_frame(1) [OF reg])
  have f2: "\<forall>x. tr_meta_user_id x \<noteq> mu_id user \<longrightarrow> (x \<in> set (tenants (db w')) \<longleftrightarrow> x \<in> set (tenants (db w)))"
    using registered_frame(2) [OF reg] by (intro allI impI)
  from registered_row [OF reg] obtain row
    where "find (\<lambda>x. tr_meta_user_id x = mu_id user) (tenants (db w')) = Some row"
      "filter (\<lambda>g. pg_tenant_id g \<noteq> tr_id row) (pages (db w')) =
         filter (\<lambda>g. pg_tenant_id g \<noteq> tr_id row) (pages (db w))" .
  with who allow f1 f2 show ?thesis by (intro exI conjI)
qed

theorem login_admits_only_allowed_witness:
  "\<exists>user :: meta_user. lg_allow ex_login (mu_id user) \<and>
     (\<forall>x. tr_meta_user_id x \<noteq> mu_id user \<longrightarrow>
        (x \<in> set (tenants (db (snd ex_login_run))) \<longleftrightarrow> x \<in> set (tenants ex_db)))"
proof -
  have "db (snd ex_login_run) \<noteq> db (ex_world ex_db)"
    using ex_Complete(2) by (auto simp: ex_defs ex_page_row_def)
  from login_admits_only_allowed [OF ex_login_split this] show ?thesis by auto
qed

text \<open>C30: after a completed login the result names the one tenant of this Meta user, who keeps the
  id and creation time of an earlier login; its stored token opens to the token for which Meta
  named that user, the number of pages reported is the number stored, and no other tenant's pages changed.\<close>

theorem login_result:
  assumes "run_state (Complete e s code uri) w = (Inr r, w')" "cipher_ok e"
  shows "\<exists>(user :: meta_user) token row w1 w2. lg_allow s (mu_id user) \<and>
    run_state (Me e (lg_graph s) token) w1 = (Inr user, w2) \<and>
    find (\<lambda>x. tr_meta_user_id x = mu_id user) (tenants (db w')) = Some row \<and>
    tr_id row = lr_tenant_id r \<and> Decrypt e (tr_user_token_enc row) = Inr token \<and>
    (\<forall>old. find (\<lambda>x. tr_meta_user_id x = mu_id user) (tenants (db w)) = Some old \<longrightarrow>
       tr_id row = tr_id old \<and> tr_created_at row = tr_created_at old) \<and>
    lr_pages r = int (length (pages_of (lr_tenant_id r) (db w'))) \<and>
    (\<forall>tid. tid \<noteq> lr_tenant_id r \<longrightarrow> pages_of tid (db w') = pages_of tid (db w))"
proof -
  from Complete_admitted [OF assms(1)] obtain user token w1 w2
    where me: "run_state (Me e (lg_graph s) token) w1 = (Inr user, w2)"
      and allow: "lg_allow s (mu_id user)" and reg: "registered e user token (db w) (Inr r) (db w')" by auto
  from registered_Inr(1) [OF reg] assms(2) obtain row
    where row: "find (\<lambda>x. tr_meta_user_id x = mu_id user) (tenants (db w')) = Some row"
      "tr_id row = lr_tenant_id r" "Decrypt e (tr_user_token_enc row) = Inr token"
      "\<forall>old. find (\<lambda>x. tr_meta_user_id x = mu_id user) (tenants (db w)) = Some old \<longrightarrow>
         tr_id row = tr_id old \<and> tr_created_at row = tr_created_at old" by blast
  have "\<forall>tid. tid \<noteq> lr_tenant_id r \<longrightarrow> pages_of tid (db w') = pages_of tid (db w)"
    using registered_Inr(3) [OF reg] by (intro allI impI)
  with me allow row registered_Inr(2) [OF reg] show ?thesis by (intro exI [of _ user] exI conjI)
qed

theorem login_result_witness:
  "\<exists>row. find (\<lambda>x. tr_id x = ''t1'') (tenants (db (snd ex_login_run))) = Some row \<and>
     length (pages_of ''t1'' (db (snd ex_login_run))) = 1"
proof -
  from login_result [OF ex_login_split] obtain row where
    "row \<in> set (tenants (db (snd ex_login_run)))" "tr_id row = ''t1''"
    "length (pages_of ''t1'' (db (snd ex_login_run))) = 1"
    by (auto simp: ex_login_machine_def ex_cipher_ok dest: find_SomeD)
  then show ?thesis by (cases "find (\<lambda>x. tr_id x = ''t1'') (tenants (db (snd ex_login_run)))")
      (auto simp: find_None_iff)
qed

section \<open>The renewal sweep\<close>

text \<open>A renewal of \<open>t\<close>: Meta exchanges the token of \<open>t\<close>, and the row of the tenant takes the new one,
  sealed, with its deadline from the moment of the answer.\<close>

definition renews :: "machine \<Rightarrow> login_service \<Rightarrow> tenant \<Rightarrow> world \<Rightarrow> world \<Rightarrow> bool" where
  "renews e s t w w' \<longleftrightarrow> (\<exists>ll w1 enc. run_state (ExchangeLongLivedToken e (lg_graph s) (t_user_token t)) w = (Inr ll, w1) \<and>
     (cipher_ok e \<longrightarrow> Decrypt e enc = Inr (ll_token ll)) \<and>
     (let now = mc_clock e (n_clock w1) in
      upsert_tenant (tenant_record (t\<lparr>t_user_token := ll_token ll, t_updated_at := now,
          t_token_expires_at := expiryFrom now (ll_expires_in ll)\<rparr>) enc) (db w) = Some ((), db w')))"

lemma refreshOne_exchanged:
  assumes "run_state (refreshOne e s t) w = (res, w')"
    and "run_state (ExchangeLongLivedToken e (lg_graph s) (t_user_token t)) w = (Inr ll, w1)"
  obtains q where "run_state (UpsertTenant e (t\<lparr>t_user_token := ll_token ll, t_updated_at := mc_clock e (n_clock w1),
        t_token_expires_at := expiryFrom (mc_clock e (n_clock w1)) (ll_expires_in ll)\<rparr>))
      (w1\<lparr>n_clock := Suc (n_clock w1)\<rparr>) = (q, w')" "isl q = isl res"
  using assms by (auto simp: refreshOne_def run_clock_now run_mapE split: prod.splits sum.splits)

lemma refreshOne_failed:
  assumes "run_state (refreshOne e s t) w = (Inl err, w')"
  shows "db w' = db w"
proof -
  obtain q w1 where q: "run_state (ExchangeLongLivedToken e (lg_graph s) (t_user_token t)) w = (q, w1)"
    by (cases "run_state (ExchangeLongLivedToken e (lg_graph s) (t_user_token t)) w")
  have d1: "db w1 = db w" using fdb.frameD [OF oauth_same_db(2) q] by (simp add: same_db_def)
  show ?thesis
  proof (cases q)
    case (Inl e1)
    with assms q d1 show ?thesis by (auto simp: refreshOne_def split: option.splits if_splits)
  next
    case (Inr ll)
    from q have q': "run_state (ExchangeLongLivedToken e (lg_graph s) (t_user_token t)) w = (Inr ll, w1)"
      by (simp only: Inr)
    show ?thesis
      by (rule refreshOne_exchanged [OF assms q']) (use d1 in \<open>auto simp: isl_def dest: UpsertTenant_Inl\<close>)
  qed
qed

lemma refreshOne_renews:
  assumes "run_state (refreshOne e s t) w = (Inr u, w')"
  shows "renews e s t w w'"
proof -
  obtain q w1 where q: "run_state (ExchangeLongLivedToken e (lg_graph s) (t_user_token t)) w = (q, w1)"
    by (cases "run_state (ExchangeLongLivedToken e (lg_graph s) (t_user_token t)) w")
  have d1: "db w1 = db w" using fdb.frameD [OF oauth_same_db(2) q] by (simp add: same_db_def)
  from assms q obtain ll where ll: "q = Inr ll"
    by (cases q) (auto simp: refreshOne_def split: option.splits if_splits)
  let ?now = "mc_clock e (n_clock w1)"
  let ?t = "t\<lparr>t_user_token := ll_token ll, t_updated_at := ?now, t_token_expires_at := expiryFrom ?now (ll_expires_in ll)\<rparr>"
  obtain x where x: "run_state (UpsertTenant e ?t) (w1\<lparr>n_clock := Suc (n_clock w1)\<rparr>) = (x, w')" "\<not> isl x"
    using refreshOne_exchanged [OF assms q [unfolded ll]] by auto
  then have "x = Inr ()" by (cases x) auto
  with x(1) obtain enc w2
    where enc: "run_state (Encrypt e (t_user_token ?t)) (w1\<lparr>n_clock := Suc (n_clock w1)\<rparr>) = (Inr enc, w2)"
      and up: "upsert_tenant (tenant_record ?t enc) (db (w1\<lparr>n_clock := Suc (n_clock w1)\<rparr>)) = Some ((), db w')"
    by (auto elim: UpsertTenant_Inr)
  have "cipher_ok e \<longrightarrow> Decrypt e enc = Inr (ll_token ll)"
    using ciph.enc_dec [OF _ enc] by simp
  with q up show ?thesis unfolding ll renews_def by (auto simp: Let_def d1)
qed

lemma refreshOne_cases:
  assumes "run_state (refreshOne e s t) w = (res, w')"
  shows "db w' = db w \<or> (\<exists>t' enc. t_id t' = t_id t \<and> t_meta_user_id t' = t_meta_user_id t \<and>
    t_display_name t' = t_display_name t \<and> upsert_tenant (tenant_record t' enc) (db w) = Some ((), db w'))"
proof (cases res)
  case (Inl err)
  with assms refreshOne_failed show ?thesis by blast
next
  case (Inr u)
  from refreshOne_renews [OF assms [unfolded Inr]] obtain ll :: long_lived_token and now enc where
    "upsert_tenant (tenant_record (t\<lparr>t_user_token := ll_token ll, t_updated_at := now,
       t_token_expires_at := expiryFrom now (ll_expires_in ll)\<rparr>) enc) (db w) = Some ((), db w')"
    unfolding renews_def Let_def by blast
  then show ?thesis
    by (intro disjI2 exI [of _ "t\<lparr>t_user_token := ll_token ll, t_updated_at := now,
       t_token_expires_at := expiryFrom now (ll_expires_in ll)\<rparr>"] exI [of _ enc]) simp
qed

text \<open>A row after the sweep: as it was, or due and with another token, deadline and date.\<close>

definition renewed :: "(tenant_row \<Rightarrow> bool) \<Rightarrow> tenant_row \<Rightarrow> tenant_row \<Rightarrow> bool" where
  "renewed due old new \<longleftrightarrow> new = old \<or> due old \<and> (\<exists>enc u x. new =
     old\<lparr>tr_user_token_enc := enc, tr_updated_at := u, tr_user_token_expires_at := x\<rparr>)"

lemma renewed_keys: "renewed due old new \<Longrightarrow> tr_id new = tr_id old \<and>
    tr_meta_user_id new = tr_meta_user_id old \<and> tr_display_name new = tr_display_name old"
  by (auto simp: renewed_def)

definition swept :: "(tenant_row \<Rightarrow> bool) \<Rightarrow> database \<Rightarrow> database \<Rightarrow> bool" where
  "swept due d d' \<longleftrightarrow> list_all2 (renewed due) (tenants d) (tenants d') \<and>
     d' = d\<lparr>tenants := tenants d'\<rparr>"

lemma renewed_key_lists:
  "list_all2 (renewed due) xs ys \<Longrightarrow>
   map tr_id ys = map tr_id xs \<and> map tr_meta_user_id ys = map tr_meta_user_id xs"
  by (induction xs ys rule: list_all2_induct) (auto dest: renewed_keys)

lemma swept_upsert:
  assumes "swept due d0 d" "distinct (map tr_meta_user_id (tenants d0))"
    and r: "r \<in> set (tenants d0)" "due r"
    and t: "t_meta_user_id t = tr_meta_user_id r" "t_display_name t = tr_display_name r"
    and up: "upsert_tenant (tenant_record t enc) d = Some ((), d')"
  shows "swept due d0 d'"
proof -
  have all: "list_all2 (renewed due) (tenants d0) (tenants d)" and d: "d = d0\<lparr>tenants := tenants d\<rparr>"
    using assms(1) by (auto simp: swept_def)
  have "\<exists>x \<in> set (tenants d). tr_meta_user_id x = tr_meta_user_id r"
    using renewed_key_lists [OF all] r(1) by (metis (no_types, lifting) image_iff image_set)
  then have d': "d' = d\<lparr>tenants := map (merge_tenant (tenant_record t enc)) (tenants d)\<rparr>"
    using up t by (auto simp: upsert_tenant_def tenant_record_def list_ex_iff split: if_splits)
  have "renewed due old (merge_tenant (tenant_record t enc) new)"
    if old: "old \<in> set (tenants d0)" and rn: "renewed due old new" for old new
  proof (cases "tr_meta_user_id new = tr_meta_user_id r")
    case False
    then show ?thesis using rn t by (simp add: merge_tenant_def tenant_record_def)
  next
    case True
    then have "tr_meta_user_id old = tr_meta_user_id r" using renewed_keys [OF rn] by simp
    with assms(2) old r(1) have "old = r" by (auto simp: distinct_map dest: inj_onD)
    with rn have "new = r \<or> (\<exists>a b c. new =
        r\<lparr>tr_user_token_enc := a, tr_updated_at := b, tr_user_token_expires_at := c\<rparr>)"
      by (simp add: renewed_def) blast
    then have "merge_tenant (tenant_record t enc) new = r\<lparr>tr_user_token_enc := enc,
        tr_updated_at := unix (t_updated_at t),
        tr_user_token_expires_at := unixOrZero (t_token_expires_at t)\<rparr>"
      using t by (auto simp: merge_tenant_def tenant_record_def)
    then have "\<exists>a b c. merge_tenant (tenant_record t enc) new =
        r\<lparr>tr_user_token_enc := a, tr_updated_at := b, tr_user_token_expires_at := c\<rparr>"
      by (intro exI)
    then show ?thesis unfolding renewed_def \<open>old = r\<close> using r(2) by (intro disjI2 conjI)
  qed
  with all have "list_all2 (renewed due) (tenants d0) (map (merge_tenant (tenant_record t enc)) (tenants d))"
    by (auto simp: list_all2_map2 list_all2_conv_all_nth)
  moreover from d obtain ts where "d = d0\<lparr>tenants := ts\<rparr>" ..
  ultimately show ?thesis by (simp add: swept_def d')
qed

lemma sweep_swept:
  assumes "run_state (sweep e s ts rep) w = (out, w')"
    and "distinct (map tr_meta_user_id (tenants d0))" "swept due d0 (db w)"
    and "\<forall>t \<in> set ts. \<exists>r \<in> set (tenants d0). due r \<and>
           t_meta_user_id t = tr_meta_user_id r \<and> t_display_name t = tr_display_name r"
  shows "swept due d0 (db w')"
  using assms
proof (induction ts arbitrary: rep w)
  case (Cons t ts)
  show ?case
  proof (cases "mc_ctx_done e (n_ctx w)")
    case True
    with Cons.prems show ?thesis by (auto simp: run_ctx_err)
  next
    case False
    let ?w = "w\<lparr>n_ctx := Suc (n_ctx w)\<rparr>"
    obtain r w1 where r: "run_state (refreshOne e s t) ?w = (r, w1)"
      by (cases "run_state (refreshOne e s t) ?w")
    from Cons.prems False r obtain rep' where rest: "run_state (sweep e s ts rep') w1 = (out, w')"
      by (auto simp: run_ctx_err split: sum.splits if_splits)
    have "swept due d0 (db w1)"
      using refreshOne_cases [OF r] Cons.prems(2-4) by (auto intro: swept_upsert)
    from Cons.IH [OF rest Cons.prems(2) this] Cons.prems(4) show ?thesis by simp
  qed
qed simp

text \<open>The renewals of a sweep, tenant after tenant: each one is looked at with the context alive, and
  is either renewed or reported. Nothing a renewal answers ends the sweep.\<close>

inductive renewals ::
  "machine \<Rightarrow> login_service \<Rightarrow> world \<Rightarrow> tenant list \<Rightarrow> nat \<Rightarrow> string list \<Rightarrow> world \<Rightarrow> bool" for e s where
  renewals_Nil: "renewals e s w [] 0 [] w"
| renewals_done: "\<not> mc_ctx_done e (n_ctx w) \<Longrightarrow>
    run_state (refreshOne e s t) (w\<lparr>n_ctx := Suc (n_ctx w)\<rparr>) = (Inr u, w1) \<Longrightarrow>
    renews e s t (w\<lparr>n_ctx := Suc (n_ctx w)\<rparr>) w1 \<Longrightarrow>
    renewals e s w1 ts n ids w' \<Longrightarrow> renewals e s w (t # ts) (Suc n) ids w'"
| renewals_failed: "\<not> mc_ctx_done e (n_ctx w) \<Longrightarrow>
    run_state (refreshOne e s t) (w\<lparr>n_ctx := Suc (n_ctx w)\<rparr>) = (Inl err, w1) \<Longrightarrow> db w1 = db w \<Longrightarrow>
    renewals e s w1 ts n ids w' \<Longrightarrow> renewals e s w (t # ts) n (t_id t # ids) w'"

lemma renewals_count: "renewals e s w ts n ids w' \<Longrightarrow> n + length ids = length ts"
  by (induction rule: renewals.induct) auto

text \<open>Where a sweep ends: at the end of its list, or at a cancelled context.\<close>

definition sweep_ends :: "machine \<Rightarrow> tenant list \<Rightarrow> world \<Rightarrow> go_error option \<Rightarrow> world \<Rightarrow> bool" where
  "sweep_ends e rest w stop w' \<longleftrightarrow>
     rest = [] \<and> stop = None \<and> w' = w \<or>
     rest \<noteq> [] \<and> stop = Some ErrContext \<and> mc_ctx_done e (n_ctx w) \<and> w' = w\<lparr>n_ctx := Suc (n_ctx w)\<rparr>"

lemma sweep_renewals:
  assumes "run_state (sweep e s ts rep) w = ((rep', stop), w')"
  shows "\<exists>seen rest n ids w1. ts = seen @ rest \<and> renewals e s w seen n ids w1 \<and>
    rep' = rep\<lparr>rp_refreshed := rp_refreshed rep + n, rp_expired := rp_expired rep @ ids\<rparr> \<and>
    sweep_ends e rest w1 stop w'"
  using assms
proof (induction ts arbitrary: rep w)
  case Nil
  then show ?case by (auto simp: sweep_ends_def intro!: exI [of _ "[]"] exI [of _ 0] renewals_Nil)
next
  case (Cons t ts)
  show ?case
  proof (cases "mc_ctx_done e (n_ctx w)")
    case True
    with Cons.prems show ?thesis
      by (intro exI [of _ "[]"] exI [of _ "t # ts"] exI [of _ 0] exI [of _ w])
         (auto simp: run_ctx_err sweep_ends_def intro: renewals_Nil)
  next
    case False
    let ?w = "w\<lparr>n_ctx := Suc (n_ctx w)\<rparr>"
    obtain r w1 where r: "run_state (refreshOne e s t) ?w = (r, w1)"
      by (cases "run_state (refreshOne e s t) ?w")
    show ?thesis
    proof (cases r)
      case (Inr x)
      with Cons.prems False r have
        "run_state (sweep e s ts (rep\<lparr>rp_refreshed := rp_refreshed rep + 1\<rparr>)) w1 = ((rep', stop), w')"
        by (auto simp: run_ctx_err)
      from Cons.IH [OF this] obtain seen rest n ids w2 where tail: "ts = seen @ rest"
        "renewals e s w1 seen n ids w2" "sweep_ends e rest w2 stop w'"
        "rep' = rep\<lparr>rp_refreshed := rp_refreshed rep + Suc n, rp_expired := rp_expired rep @ ids\<rparr>"
        by auto
      from renewals_done [OF False r [unfolded Inr] refreshOne_renews [OF r [unfolded Inr]] tail(2)] tail show ?thesis
        by (intro exI [of _ "t # seen"] exI [of _ rest] exI [of _ "Suc n"] exI) auto
    next
      case (Inl err)
      with Cons.prems False r have
        "run_state (sweep e s ts (rep\<lparr>rp_expired := rp_expired rep @ [t_id t]\<rparr>)) w1 = ((rep', stop), w')"
        by (auto simp: run_ctx_err split: if_splits)
      from Cons.IH [OF this] obtain seen rest n ids w2 where tail: "ts = seen @ rest"
        "renewals e s w1 seen n ids w2" "sweep_ends e rest w2 stop w'"
        "rep' = rep\<lparr>rp_refreshed := rp_refreshed rep + n, rp_expired := rp_expired rep @ t_id t # ids\<rparr>"
        by auto
      from renewals_failed [OF False r [unfolded Inl] refreshOne_failed [OF r [unfolded Inl], simplified] tail(2)] tail show ?thesis
        by (intro exI [of _ "t # seen"] exI [of _ rest] exI [of _ n] exI [of _ "t_id t # ids"] exI) auto
    qed
  qed
qed

lemma TenantsDue_Inr:
  "run_state (TenantsDueForTokenRefresh e a b) w = (Inr ts, w') \<longleftrightarrow>
     \<not> mc_sql_fails e (n_sql w) \<and> w' = w\<lparr>n_sql := Suc (n_sql w)\<rparr> \<and>
     map_res (scanTenant e) (sort_key tr_user_token_expires_at
       (filter (due_for_refresh (unix a) (unix b)) (tenants (db w)))) = Inr ts"
  by (auto simp: TenantsDueForTokenRefresh_def run_bindE run_stmt select_all_def)

text \<open>The thresholds of a sweep that starts at an instant.\<close>

definition due_at :: "instant \<Rightarrow> duration \<Rightarrow> tenant_row \<Rightarrow> bool" where
  "due_at now window =
     due_for_refresh (unix (time_add now (if window \<le> 0 then DefaultRefreshWindow else window)))
       (unix (time_add now (- recheckInterval)))"

text \<open>The list a sweep works through, read when it starts.\<close>

definition due_list :: "machine \<Rightarrow> duration \<Rightarrow> world \<Rightarrow> tenant list res \<times> world" where
  "due_list e window w =
     (let now = mc_clock e (n_clock w) in
      run_state (TenantsDueForTokenRefresh e
        (time_add now (if window \<le> 0 then DefaultRefreshWindow else window))
        (time_add now (- recheckInterval))) (w\<lparr>n_clock := Suc (n_clock w)\<rparr>))"

lemma due_list_same_db: "due_list e window w = (r, w1) \<Longrightarrow> db w1 = db w"
  using fdb.frameD [OF store_reads(3)] by (fastforce simp: due_list_def Let_def same_db_def)

lemma due_list_Inr:
  "due_list e window w = (Inr ts, w1) \<Longrightarrow> map_res (scanTenant e) (sort_key tr_user_token_expires_at
     (filter (due_at (mc_clock e (n_clock w)) window) (tenants (db w)))) = Inr ts"
  by (simp add: due_list_def Let_def TenantsDue_Inr due_at_def)

lemma refresh_cases:
  assumes "run_state (RefreshExpiringTokens e s window) w = ((rep, stop), w')"
  obtains err where "due_list e window w = (Inl err, w')" "rep = empty_report"
      "stop = Some (Wrap ''liste des jetons a renouveler'' err)"
  | ts w1 where "due_list e window w = (Inr ts, w1)"
      "run_state (sweep e s ts (empty_report\<lparr>rp_checked := length ts\<rparr>)) w1 = ((rep, stop), w')"
  using assms
  by (cases "due_list e window w"; cases "fst (due_list e window w)")
     (auto simp: RefreshExpiringTokens_def run_clock_now Let_def due_list_def)

text \<open>C31: the renewal sweep accounts for every tenant that is due. If the list of those cannot be
  read the sweep does nothing and says so. Otherwise it goes through the list in order. Each tenant is
  either renewed and counted (Meta exchanged the token stored for it, and its row took the new one,
  sealed, with its deadline) or reported by its id with no row changed, whatever its renewal failed
  with; and the sweep only stops before the end at a tenant for which the context is found
  cancelled. So a failed renewal never stops it, and when it comes to the end the renewed and the
  reported tenants are all that were due.\<close>

theorem sweep_accounts_for_every_tenant:
  assumes "run_state (RefreshExpiringTokens e s window) w = ((rep, stop), w')"
  shows "(\<exists>err. due_list e window w = (Inl err, w') \<and> rep = empty_report \<and>
      stop = Some (Wrap ''liste des jetons a renouveler'' err) \<and> db w' = db w) \<or>
    (\<exists>seen rest n ids w1 w2. due_list e window w = (Inr (seen @ rest), w1) \<and>
      renewals e s w1 seen n ids w2 \<and> sweep_ends e rest w2 stop w' \<and>
      rep = \<lparr>rp_checked = length (seen @ rest), rp_refreshed = n, rp_expired = ids\<rparr> \<and>
      n + length ids = length seen \<and>
      length (seen @ rest) = length (filter (due_at (mc_clock e (n_clock w)) window) (tenants (db w))))"
  using assms
proof (cases rule: refresh_cases)
  case (1 err)
  then show ?thesis using due_list_same_db by blast
next
  case (2 ts w1)
  have "length ts = length (filter (due_at (mc_clock e (n_clock w)) window) (tenants (db w)))"
    using due_list_Inr [OF 2(1)] by (auto simp: map_res_Inr dest: list_all2_lengthD)
  moreover from sweep_renewals [OF 2(2)] obtain seen rest n ids w2 where "ts = seen @ rest"
    "renewals e s w1 seen n ids w2" "sweep_ends e rest w2 stop w'"
    "rep = \<lparr>rp_checked = length ts, rp_refreshed = n, rp_expired = ids\<rparr>"
    by (auto simp: empty_report_def)
  ultimately show ?thesis using 2(1) renewals_count by blast
qed

definition ex_sweep_run :: "(refresh_report \<times> go_error option) \<times> world" where
  "ex_sweep_run = run_state (RefreshExpiringTokens (ex_machine [ex_ok ex_long_body]) ex_login 0) (ex_world ex_db)"

lemma ex_sweep: "fst ex_sweep_run = (\<lparr>rp_checked = 1, rp_refreshed = 1, rp_expired = []\<rparr>, None)"
  by (simp add: ex_sweep_run_def RefreshExpiringTokens_def TenantsDueForTokenRefresh_def run_simps
      select_all_def due_for_refresh_def ex_db_def empty_db_def ex_scan_tenant Let_def
      time_add_def DefaultRefreshWindow_def recheckInterval_def unix_def from_unix_def second_def
      minute_def hour_def ex_tenant_row_def [THEN arg_cong [where f = tr_user_token_expires_at]]
      empty_report_def refreshOne_def
      ExchangeLongLivedToken_def ex_login_def NewLoginService_def ex_get [OF _ _ ex_long_decoded]
      UpsertTenant_def Encrypt_def upsert_tenant_def ex_tenant_meta tenant_record_def)

lemma ex_sweep_split:
  "run_state (RefreshExpiringTokens (ex_machine [ex_ok ex_long_body]) ex_login 0) (ex_world ex_db) =
   ((\<lparr>rp_checked = 1, rp_refreshed = 1, rp_expired = []\<rparr>, None), snd ex_sweep_run)"
  using ex_sweep by (cases ex_sweep_run) (simp add: ex_sweep_run_def)

theorem sweep_accounts_for_every_tenant_witness:
  "\<exists>t w1 w2. due_list (ex_machine [ex_ok ex_long_body]) 0 (ex_world ex_db) = (Inr [t], w1) \<and>
     renewals (ex_machine [ex_ok ex_long_body]) ex_login w1 [t] 1 [] w2 \<and>
     length (filter (due_at (mc_clock (ex_machine [ex_ok ex_long_body]) 0) 0) (tenants ex_db)) = 1"
  using sweep_accounts_for_every_tenant [OF ex_sweep_split]
proof (elim disjE exE conjE)
  fix seen rest n ids w1 w2
  assume run: "due_list (ex_machine [ex_ok ex_long_body]) 0 (ex_world ex_db) = (Inr (seen @ rest), w1)"
      "renewals (ex_machine [ex_ok ex_long_body]) ex_login w1 seen n ids w2"
    and rep: "\<lparr>rp_checked = 1, rp_refreshed = 1, rp_expired = []\<rparr> =
         \<lparr>rp_checked = length (seen @ rest), rp_refreshed = n, rp_expired = ids\<rparr>"
      "n + length ids = length seen"
      "length (seen @ rest) = length (filter (due_at
         (mc_clock (ex_machine [ex_ok ex_long_body]) (n_clock (ex_world ex_db))) 0) (tenants (db (ex_world ex_db))))"
  from rep(1,2) have n: "n = 1" "ids = []" "length seen = 1" "length (seen @ rest) = 1"
    by (metis refresh_report.ext_inject One_nat_def add.right_neutral list.size(3))+
  then have "length rest = 0" by simp
  with n(3) obtain t where "seen = [t]" "rest = []" by (cases seen) auto
  with run n rep(3) show ?thesis by (auto simp: ex_world_def)
qed simp

lemma refresh_swept:
  assumes "run_state (RefreshExpiringTokens e s window) w = ((rep, stop), w')" "db_ok (db w)"
  shows "swept (due_at (mc_clock e (n_clock w)) window) (db w) (db w')"
proof -
  let ?due = "due_at (mc_clock e (n_clock w)) window"
  have same: "swept ?due (db w) (db w)"
    by (simp add: swept_def renewed_def list_all2_same)
  show ?thesis
    using assms(1)
  proof (cases rule: refresh_cases)
    case (2 ts w1)
    note ts = due_list_Inr [OF 2(1)] and d1 = due_list_same_db [OF 2(1)] and run = 2(2)
    have "\<forall>t \<in> set ts. \<exists>r \<in> set (tenants (db w)). ?due r \<and>
        t_meta_user_id t = tr_meta_user_id r \<and> t_display_name t = tr_display_name r"
      by (auto dest!: map_res_preimage [OF ts] simp: scanTenant_Inr)
    with sweep_swept [OF run, of "db w" ?due] assms(2) same d1 show ?thesis
      by (simp add: db_ok_def)
  qed (use same due_list_same_db in simp)
qed

text \<open>C32: the sweep deletes nothing and touches nothing but tokens. Every tenant is still there in
  its place; one that was not due is unchanged, one that was keeps its id, Meta user, name and
  creation time; pages, clients, codes, refresh tokens and login states are as they were.\<close>

theorem sweep_touches_tokens_only:
  assumes "run_state (RefreshExpiringTokens e s window) w = ((rep, stop), w')" "db_ok (db w)"
  shows "list_all2 (renewed (due_at (mc_clock e (n_clock w)) window)) (tenants (db w)) (tenants (db w')) \<and>
    db w' = (db w)\<lparr>tenants := tenants (db w')\<rparr>"
  using refresh_swept [OF assms] by (simp add: swept_def)

theorem sweep_touches_tokens_only_witness: "pages (db (snd ex_sweep_run)) = [ex_page_row ''p1'']"
proof -
  have "db_ok (db (ex_world ex_db))" by (simp add: ex_db_ok)
  from sweep_touches_tokens_only [OF ex_sweep_split this]
  have "db (snd ex_sweep_run) = ex_db\<lparr>tenants := tenants (db (snd ex_sweep_run))\<rparr>" by simp
  then have "pages (db (snd ex_sweep_run)) = pages ex_db" by (metis database.select_convs(2) database.surjective database.update_convs(1))
  then show ?thesis by (simp add: ex_defs)
qed

end
