(* ===== verification/StatusProps.thy ===== *)
theory StatusProps
  imports AppStatus LoginProps
begin

text \<open>
  What the diagnostic of a connection says, and what the reconnection link leaves behind.
\<close>

lemma ReconnectURL_cases:
  assumes "run_state (ReconnectURL e s tid) w = (res, w')"
  shows "(\<exists>err. res = Inl err) \<and> db w' = db w \<or>
    (\<exists>row. res = Inr (sv_public_url s @ ''/meta/login?state='' @ query_escape (lr_state row)) \<and>
       lr_oauth_request row = print_json (request_json empty_request) \<and>
       db w' = (db w)\<lparr>login_states := login_states (db w) @ [row]\<rparr>)"
proof (cases "mc_rand e (n_rand w) 32")
  case None
  with assms show ?thesis
    by (auto simp: ReconnectURL_def newSecret_eq run_bindE run_mapE run_randomSecret)
next
  case (Some bs)
  let ?row = "\<lparr>lr_state = b64_encode bs, lr_oauth_request = print_json (request_json empty_request),
      lr_expires_at = unix (time_add (mc_clock e (n_clock w)) ReconnectStateTTL)\<rparr>"
  from assms Some have "(\<exists>err. res = Inl err) \<and> db w' = db w \<or>
      res = Inr (sv_public_url s @ ''/meta/login?state='' @ query_escape (lr_state ?row)) \<and>
      db w' = (db w)\<lparr>login_states := login_states (db w) @ [?row]\<rparr>"
    by (auto simp: ReconnectURL_def newSecret_eq run_bindE run_mapE run_randomSecret run_clock_now
        CreateLoginState_def run_sql insert_state_def split: if_splits)
  then show ?thesis
  proof
    assume "res = Inr (sv_public_url s @ ''/meta/login?state='' @ query_escape (lr_state ?row)) \<and>
      db w' = (db w)\<lparr>login_states := login_states (db w) @ [?row]\<rparr>"
    then show ?thesis by (intro disjI2 exI [of _ ?row]) simp
  qed simp
qed

text \<open>What a link left behind, or nothing.\<close>

definition link_parked :: "service \<Rightarrow> database \<Rightarrow> connection_status \<Rightarrow> database \<Rightarrow> bool" where
  "link_parked s d c d' \<longleftrightarrow>
     cs_reconnect_url c = [] \<and> d' = d \<or>
     (\<exists>row. cs_reconnect_url c = sv_public_url s @ ''/meta/login?state='' @ query_escape (lr_state row) \<and>
        lr_oauth_request row = print_json (request_json empty_request) \<and>
        d' = d\<lparr>login_states := login_states d @ [row]\<rparr>)"

lemma attach_cases:
  assumes "run_state (attachReconnectLink e s tid c) w = (c', w')" "cs_reconnect_url c = []"
  shows "\<exists>u. c' = c\<lparr>cs_reconnect_url := u\<rparr> \<and> link_parked s (db w) c' (db w') \<and>
    (cs_healthy c \<longrightarrow> u = [] \<and> db w' = db w)"
proof (cases "cs_healthy c")
  case True
  with assms have "c' = c" "w' = w" by (auto simp: attachReconnectLink_def)
  with assms(2) show ?thesis
    by (intro exI [of _ "[]"]) (simp add: link_parked_def)
next
  case False
  obtain q w1 where q: "run_state (ReconnectURL e s tid) w = (q, w1)"
    by (cases "run_state (ReconnectURL e s tid) w")
  have c': "c' = (case q of Inl _ \<Rightarrow> c | Inr l \<Rightarrow> c\<lparr>cs_reconnect_url := l\<rparr>)" and w': "w' = w1"
    using assms False q by (auto simp: attachReconnectLink_def)
  from ReconnectURL_cases [OF q] show ?thesis
  proof (elim disjE exE conjE)
    fix err assume "q = Inl err" "db w1 = db w"
    with c' w' assms(2) False show ?thesis
      by (intro exI [of _ "[]"]) (simp add: link_parked_def)
  next
    fix row assume "q = Inr (sv_public_url s @ ''/meta/login?state='' @ query_escape (lr_state row))"
      "lr_oauth_request row = print_json (request_json empty_request)"
      "db w1 = (db w)\<lparr>login_states := login_states (db w) @ [row]\<rparr>"
    with c' w' False show ?thesis by (auto simp: link_parked_def)
  qed
qed

lemma attach_emits: "state_io_rel (emits P) (attachReconnectLink e s tid c)"
  unfolding attachReconnectLink_def by (intro fem.rules io_intros)

text \<open>The fields \<open>fill\<close> computes.\<close>

lemma fill_facts:
  "cs_healthy (fill now x granted required c) \<longleftrightarrow>
     cs_token_valid c \<and> cs_missing_scopes (fill now x granted required c) = []"
  "cs_summary (fill now x granted required c) = summary_of (fill now x granted required c)"
  "cs_token_valid (fill now x granted required c) = cs_token_valid c"
  "cs_missing_scopes (fill now x granted required c) =
     cs_missing_scopes c @ (if granted = [] then [] else filter (\<lambda>r. r \<notin> set granted) required)"
  "cs_pages (fill now x granted required c) = cs_pages c"
  "cs_reconnect_url (fill now x granted required c) = cs_reconnect_url c"
  by (auto simp: fill_def Let_def fill_scopes_def fill_expiry_def summary_of_def)

lemma summary_link [simp]: "summary_of (c\<lparr>cs_reconnect_url := u\<rparr>) = summary_of c"
  by (simp add: summary_of_def)

text \<open>What the status says once the diagnostic of Meta is known.\<close>

definition status_says :: "token_status res \<Rightarrow> service \<Rightarrow> connection_status \<Rightarrow> bool" where
  "status_says debug s c \<longleftrightarrow>
     (cs_token_valid c \<longleftrightarrow> (\<exists>t. debug = Inr t \<and> ts_valid t)) \<and>
     cs_missing_scopes c = (case debug of Inl _ \<Rightarrow> []
       | Inr t \<Rightarrow> if ts_scopes t = [] then [] else filter (\<lambda>r. r \<notin> set (ts_scopes t)) (sv_required_scopes s)) \<and>
     (cs_healthy c \<longleftrightarrow> cs_token_valid c \<and> cs_missing_scopes c = []) \<and>
     cs_summary c = summary_of c"

lemma checked_status_says: "status_says debug s (checked_status s now t ps debug)"
  by (cases debug) (auto simp: checked_status_def Let_def status_says_def fill_facts first_status_def)

lemma checked_status_url [simp]: "cs_reconnect_url (checked_status s now t ps debug) = []"
  by (cases debug) (auto simp: checked_status_def Let_def fill_facts first_status_def)

text \<open>The diagnostic reads the tenant's row and its pages, two statements, and then asks Meta.\<close>

lemma ConnectionStatus_Inr:
  assumes "run_state (ConnectionStatus e s tid) w = (Inr c, w')"
  obtains row and t :: tenant and w2 debug
  where "find (\<lambda>r. tr_id r = tid) (tenants (db w)) = Some row" "scanTenant e row = Inr t"
    and "run_state (DebugToken e (sv_graph s) (t_user_token t)) (w\<lparr>n_sql := n_sql w + 2\<rparr>) = (debug, w2)"
    and "requests w' = requests w2"
    and "status_says debug s c" "link_parked s (db w) c (db w')"
    and "cs_healthy c \<Longrightarrow> db w' = db w"
proof -
  from assms obtain t w1 ps w2 where t: "run_state (TenantByID e tid) w = (Inr t, w1)"
    and ps: "run_state (ListPages e tid) w1 = (Inr ps, w2)"
    and rest: "run_state (do {
       debug \<leftarrow> DebugToken e (sv_graph s) (t_user_token t);
       now \<leftarrow> clock_now e;
       out \<leftarrow> attachReconnectLink e s tid (checked_status s now t ps debug);
       ok out
     }) w2 = (Inr c :: connection_status res, w')"
    unfolding ConnectionStatus_def run_bindE_Inr run_mapE_Inr by (elim exE conjE) (rule that)
  obtain debug w3 where dbg: "run_state (DebugToken e (sv_graph s) (t_user_token t)) w2 = (debug, w3)"
    by (cases "run_state (DebugToken e (sv_graph s) (t_user_token t)) w2")
  with rest have link: "run_state (attachReconnectLink e s tid (checked_status s (mc_clock e (n_clock w3)) t ps debug))
      (w3\<lparr>n_clock := Suc (n_clock w3)\<rparr>) = (c, w')"
    by (auto simp: run_clock_now split: prod.splits)
  obtain row where row: "find (\<lambda>r. tr_id r = tid) (tenants (db w)) = Some row" "scanTenant e row = Inr t"
    and w2: "w2 = w\<lparr>n_sql := n_sql w + 2\<rparr>"
    using t ps by (auto simp: TenantByID_def tenantBy_Inr ListPages_Inr)
  have d3: "db w3 = db w" using fdb.frameD [OF oauth_same_db(3) dbg] w2 by (simp add: same_db_def)
  let ?c = "checked_status s (mc_clock e (n_clock w3)) t ps debug"
  have sent: "requests w' = requests w3"
    using emits_none [OF attach_emits [of _ e s tid ?c], of "w3\<lparr>n_clock := Suc (n_clock w3)\<rparr>"] link by simp
  from attach_cases [OF link] d3 obtain u where c: "c = ?c\<lparr>cs_reconnect_url := u\<rparr>"
    and parked: "link_parked s (db w) c (db w')" and healthy: "cs_healthy ?c \<longrightarrow> u = [] \<and> db w' = db w"
    by auto
  have "status_says debug s c"
    using checked_status_says [of debug s "mc_clock e (n_clock w3)" t ps] by (auto simp: c status_says_def)
  with that [OF row dbg [unfolded w2]] sent parked healthy show thesis by (simp add: c)
qed

text \<open>C33: the diagnostic of a tenant is about that tenant. It opens the token stored in the tenant's
  row, asks Meta about this very token and sends nothing else; the connection is reported healthy
  exactly when that answer confirms the token and every required scope is among the granted ones,
  or Meta lists none, and no answer at all counts as not confirmed. A healthy report writes
  nothing; any other one parks at most one login state, with an empty OAuth request, and the link
  it shows is the link for that state.\<close>

theorem connection_status_sound:
  assumes "run_state (ConnectionStatus e s tid) w = (Inr c, w')"
  shows "\<exists>row (t :: tenant) w2 debug. find (\<lambda>r. tr_id r = tid) (tenants (db w)) = Some row \<and>
    Decrypt e (tr_user_token_enc row) = Inr (t_user_token t) \<and>
    run_state (DebugToken e (sv_graph s) (t_user_token t)) (w\<lparr>n_sql := n_sql w + 2\<rparr>) = (debug, w2) \<and>
    requests w' = requests w2 \<and>
    (cs_healthy c \<longleftrightarrow> (\<exists>token. debug = Inr token \<and> ts_valid token \<and>
       (ts_scopes token \<noteq> [] \<longrightarrow> set (sv_required_scopes s) \<subseteq> set (ts_scopes token)))) \<and>
    (cs_healthy c \<longrightarrow> db w' = db w) \<and> link_parked s (db w) c (db w')"
proof -
  obtain row and t :: tenant and w2 debug where row: "find (\<lambda>r. tr_id r = tid) (tenants (db w)) = Some row" "scanTenant e row = Inr t"
      and dbg: "run_state (DebugToken e (sv_graph s) (t_user_token t)) (w\<lparr>n_sql := n_sql w + 2\<rparr>) = (debug, w2)"
      and sent: "requests w' = requests w2"
      and says: "status_says debug s c" and parked: "link_parked s (db w) c (db w')"
      and healthy: "cs_healthy c \<longrightarrow> db w' = db w"
    by (rule ConnectionStatus_Inr [OF assms]) (rule that, auto)
  have "cs_healthy c \<longleftrightarrow> (\<exists>token. debug = Inr token \<and> ts_valid token \<and>
       (ts_scopes token \<noteq> [] \<longrightarrow> set (sv_required_scopes s) \<subseteq> set (ts_scopes token)))"
    using says by (cases debug) (auto simp: status_says_def filter_empty_conv)
  moreover have "Decrypt e (tr_user_token_enc row) = Inr (t_user_token t)"
    using row(2) by (simp add: scanTenant_Inr)
  ultimately show ?thesis using row(1) dbg sent parked healthy by (intro exI conjI)
qed

definition ex_service :: service where
  "ex_service = NewService ex_client ''https://s'' [''a'', ''b'']"

definition ex_debug_body :: string where
  "ex_debug_body = print_json (JObj [(''data'', JObj [(''is_valid'', JBool True),
     (''scopes'', JArr [JStr ''a''])])])"

lemma ex_debug_decoded: "Option.bind (json_parse ex_debug_body) dec_debug =
    Some \<lparr>ts_valid = True, ts_expires_at = zero_time, ts_data_access_expires_at = zero_time,
      ts_scopes = [''a''], ts_reason = []\<rparr>"
  by (simp add: ex_debug_body_def dec_debug_def json_reading del: print_json.simps)

lemma ex_scan_page:
  "scanPage (ex_machine answers) ''t1'' (ex_page_row pid) = Inr
     \<lparr>p_tenant_id = ''t1'', p_page_id = pid, p_name = ''Shop'', p_ig_user_id = ''ig1'',
      p_ig_username = ''shop'', p_page_token = ''pagetok'', p_synced_at = from_unix 100\<rparr>"
  by (simp add: scanPage_Inr ex_page_row_def Decrypt_Inr ex_seal_row_def ex_seal_def nonce_size_def
      overhead_def null_string_def ex_machine_def ex_open_def)

lemma ex_page_keys: "pg_tenant_id (ex_page_row pid) = ''t1''" "pg_page_id (ex_page_row pid) = pid"
  by (simp_all add: ex_page_row_def)

definition ex_status_run :: "connection_status res \<times> world" where
  "ex_status_run =
     run_state (ConnectionStatus (ex_machine [ex_ok ex_debug_body]) ex_service ''t1'') (ex_world ex_db)"

lemma ex_status: "\<exists>c. fst ex_status_run = Inr c \<and> \<not> cs_healthy c"
  by (simp add: ex_status_run_def ConnectionStatus_def run_simps TenantByID_def tenantBy_def
      select_first_def ListPages_def select_all_def ex_db_def empty_db_def ex_scan_tenant ex_tenant_meta
      ex_scan_page ex_page_keys DebugToken_def ex_service_def NewService_def
      ex_get [OF _ _ ex_debug_decoded] attachReconnectLink_def fill_facts checked_status_def
      first_status_def ReconnectURL_def newSecret_eq CreateLoginState_def insert_state_def
      Let_def split: sum.splits)

theorem connection_status_sound_witness:
  "\<exists>c debug. fst ex_status_run = Inr c \<and> \<not> cs_healthy c \<and>
     fst (run_state (DebugToken (ex_machine [ex_ok ex_debug_body]) (sv_graph ex_service) ''usertok'')
       ((ex_world ex_db)\<lparr>n_sql := 2\<rparr>)) = debug \<and>
     link_parked ex_service ex_db c (db (snd ex_status_run))"
proof -
  obtain c where c: "fst ex_status_run = Inr c" "\<not> cs_healthy c" using ex_status by blast
  then have "run_state (ConnectionStatus (ex_machine [ex_ok ex_debug_body]) ex_service ''t1'') (ex_world ex_db)
      = (Inr c, snd ex_status_run)" by (cases ex_status_run) (simp add: ex_status_run_def)
  from connection_status_sound [OF this] c show ?thesis by auto
qed

end
