(* ===== verification/HandlersProps.thy ===== *)
theory HandlersProps
  imports MetaHandlers LoginProps
begin

text \<open>
  What the callbacks of Meta guarantee: an authorization code is only issued for the request parked
  under the presented state, once, to an admitted user; and data is only deleted when Meta signed
  the request, for exactly the tenant it names.
\<close>

section \<open>Lemmas\<close>

text \<open>The code a login ends with: bound to the request that was parked.\<close>

definition code_for :: "oauth_request \<Rightarrow> string \<Rightarrow> code_row \<Rightarrow> bool" where
  "code_for req tid row \<longleftrightarrow> co_client_id row = or_client_id req \<and> co_tenant_id row = tid \<and>
     co_redirect_uri row = or_redirect_uri req \<and> co_code_challenge row = or_code_challenge req \<and>
     null_string (co_resource row) = or_resource req"

lemma IssueAuthCode_cases:
  assumes "run_state (IssueAuthCode e req tid) w = (res, w')"
  shows "db w' = db w \<or> (\<exists>row. code_for req tid row \<and>
    db w' = (db w)\<lparr>oauth_codes := oauth_codes (db w) @ [row]\<rparr>)"
proof (cases "mc_rand e (n_rand w) 32")
  case None
  with assms show ?thesis by (auto simp: IssueAuthCode_def run_bindE run_randomSecret)
next
  case (Some bs)
  let ?row = "\<lparr>co_code = b64_encode bs, co_client_id = or_client_id req, co_tenant_id = tid,
      co_redirect_uri = or_redirect_uri req, co_code_challenge = or_code_challenge req,
      co_resource = nullable (or_resource req),
      co_expires_at = unix (time_add (mc_clock e (n_clock w)) AuthCodeTTL)\<rparr>"
  have "db w' = db w \<or> db w' = (db w)\<lparr>oauth_codes := oauth_codes (db w) @ [?row]\<rparr>"
    using assms Some
    by (auto simp: IssueAuthCode_def run_bindE run_randomSecret run_clock_now CreateAuthCode_def
        run_mapE run_sql insert_code_def split: if_splits)
  moreover have "code_for req tid ?row" by (simp add: code_for_def)
  ultimately show ?thesis by blast
qed

lemma ConsumeState_cases:
  assumes "run_state (ConsumeState e st) w = (res, w')"
  shows "db w' = db w \<and> isl res \<or>
    (db w' = (db w)\<lparr>login_states := filter (\<lambda>r. lr_state r \<noteq> st) (login_states (db w))\<rparr> \<and>
     (\<forall>parked. res = Inr parked \<longrightarrow> (\<exists>row \<in> set (login_states (db w)). lr_state row = st \<and>
        Option.bind (json_parse (lr_oauth_request row)) dec_request = Some (ls_request parked) \<and>
        mc_clock e (n_clock w) < from_unix (lr_expires_at row))))"
  using assms
  by (auto simp: ConsumeState_def ConsumeLoginState_def run_bindE run_mapE run_sql delete_state_def
      run_clock_now split: if_splits option.splits dest!: find_SomeD)

lemma Complete_codes:
  assumes "run_state (Complete e s code uri) w = (res, w')"
  shows "oauth_codes (db w') = oauth_codes (db w) \<and> login_states (db w') = login_states (db w) \<and>
    oauth_clients (db w') = oauth_clients (db w)"
proof (cases "db w' = db w")
  case False
  with Complete_admitted [OF assms] obtain user token
    where "registered e user token (db w) res (db w')" by blast
  from registered_frame(1) [OF this] obtain ts ps where "db w' = (db w)\<lparr>tenants := ts, pages := ps\<rparr>" ..
  then show ?thesis by simp
qed simp

lemma Complete_tenant:
  assumes "run_state (Complete e s code uri) w = (Inr r, w')"
  shows "\<exists>row \<in> set (tenants (db w')). tr_id row = lr_tenant_id r \<and> lg_allow s (tr_meta_user_id row)"
proof -
  from Complete_admitted [OF assms] obtain user :: meta_user and token
    where "lg_allow s (mu_id user)" and reg: "registered e user token (db w) (Inr r) (db w')" by auto
  with registered_Inr(1) [OF reg] show ?thesis by (auto dest!: find_SomeD)
qed

text \<open>What the callback leaves behind once it consumed a parked state.\<close>

definition login_finished :: "login_service \<Rightarrow> oauth_request \<Rightarrow> database \<Rightarrow> database \<Rightarrow> bool" where
  "login_finished s req d d' \<longleftrightarrow> login_states d' = login_states d \<and>
     oauth_clients d' = oauth_clients d \<and>
     (oauth_codes d' = oauth_codes d \<or>
      (\<exists>row trow. oauth_codes d' = oauth_codes d @ [row] \<and> or_client_id req \<noteq> [] \<and>
         trow \<in> set (tenants d') \<and> lg_allow s (tr_meta_user_id trow) \<and> code_for req (tr_id trow) row))"

lemma callback_tail:
  assumes "run_state (do {
      done \<leftarrow> Complete e s code uri;
      (case done of Inl err \<Rightarrow> State_Monad.return (login_failed err)
                  | Inr result \<Rightarrow> finish_login e req result)}) w = (resp, w')"
  shows "login_finished s req (db w) (db w')"
proof -
  obtain q w1 where q: "run_state (Complete e s code uri) w = (q, w1)"
    by (cases "run_state (Complete e s code uri) w")
  note kept = Complete_codes [OF q]
  show ?thesis
  proof (cases q)
    case (Inl err)
    with assms q kept show ?thesis by (auto simp: login_finished_def)
  next
    case (Inr result)
    from Complete_tenant [OF q [unfolded Inr]] obtain trow
      where trow: "trow \<in> set (tenants (db w1))" "tr_id trow = lr_tenant_id result"
        "lg_allow s (tr_meta_user_id trow)" by blast
    from assms q Inr have fin: "run_state (finish_login e req result) w1 = (resp, w')" by simp
    show ?thesis
    proof (cases "or_client_id req = []")
      case True
      with fin kept show ?thesis by (auto simp: finish_login_def login_finished_def)
    next
      case False
      obtain t w2 where t: "run_state (IssueAuthCode e req (lr_tenant_id result)) w1 = (t, w2)"
        by (cases "run_state (IssueAuthCode e req (lr_tenant_id result)) w1")
      with fin False have "w' = w2" by (auto simp: finish_login_def)
      with IssueAuthCode_cases [OF t] kept trow(1,3) False show ?thesis
        unfolding trow(2) [symmetric] by (fastforce simp: login_finished_def)
    qed
  qed
qed

section \<open>The callback\<close>

text \<open>C34: an authorization code appears only when the browser came back from Facebook with a state
  parked by the authorization endpoint that has not expired. The state is gone afterwards, the code
  is bound to the client, redirect URI, challenge and resource of the parked request, and its tenant
  is stored and belongs to a Meta user the whitelist admits. At most one code is issued.\<close>

theorem callback_code_sound:
  assumes "run_state (CallbackHandler e h r) w = (resp, w')" "oauth_codes (db w') \<noteq> oauth_codes (db w)"
  shows "\<exists>lrow req row trow.
    lrow \<in> set (login_states (db w)) \<and> lr_state lrow = values_get (Query r) ''state'' \<and>
    mc_clock e (n_clock w) < from_unix (lr_expires_at lrow) \<and>
    Option.bind (json_parse (lr_oauth_request lrow)) dec_request = Some req \<and> or_client_id req \<noteq> [] \<and>
    login_states (db w') = filter (\<lambda>x. lr_state x \<noteq> lr_state lrow) (login_states (db w)) \<and>
    oauth_codes (db w') = oauth_codes (db w) @ [row] \<and>
    trow \<in> set (tenants (db w')) \<and> lg_allow (mh_login h) (tr_meta_user_id trow) \<and>
    code_for req (tr_id trow) row"
proof -
  let ?st = "values_get (Query r) ''state''"
  obtain q w1 where q: "run_state (ConsumeState e ?st) w = (q, w1)"
    by (cases "run_state (ConsumeState e ?st) w")
  from assms have st: "?st \<noteq> []" by (auto simp: CallbackHandler_def Let_def)
  note consumed = ConsumeState_cases [OF q]
  from consumed have same: "oauth_codes (db w1) = oauth_codes (db w)" by auto
  from assms st q same obtain parked where parked: "q = Inr parked"
    by (cases q) (auto simp: CallbackHandler_def Let_def)
  with assms st q same have "values_get (Query r) ''error'' = []" "values_get (Query r) ''code'' \<noteq> []"
    by (auto simp: CallbackHandler_def Let_def split: if_splits)
  with assms(1) st q parked have "run_state (do {
      done \<leftarrow> Complete e (mh_login h) (values_get (Query r) ''code'') (mh_redirect_uri h);
      (case done of Inl err \<Rightarrow> State_Monad.return (login_failed err)
                  | Inr result \<Rightarrow> finish_login e (ls_request parked) result)}) w1 = (resp, w')"
    by (simp add: CallbackHandler_def Let_def)
  from callback_tail [OF this] assms(2) same consumed parked show ?thesis
    by (fastforce simp: login_finished_def)
qed

definition ex_handlers :: meta_handlers where
  "ex_handlers = \<lparr>mh_login = ex_login, mh_public_url = ''https://s'',
     mh_redirect_uri = ''https://s/cb'', mh_app_secret = ''sec''\<rparr>"

definition ex_parked_request :: oauth_request where
  "ex_parked_request = \<lparr>or_client_id = ''cl'', or_redirect_uri = ''https://app/cb'',
     or_code_challenge = ''ch'', or_client_state = [], or_resource = []\<rparr>"

definition ex_login_row :: login_row where
  "ex_login_row = \<lparr>lr_state = ''s'', lr_oauth_request = print_json (request_json ex_parked_request),
     lr_expires_at = 1700000600\<rparr>"

lemma ex_login_row_request:
  "Option.bind (json_parse (lr_oauth_request ex_login_row)) dec_request = Some ex_parked_request"
  by (simp add: ex_login_row_def ex_parked_request_def reread_request to_utf8_id utf8_valid_ascii
      del: print_json.simps)

definition ex_callback :: http_req where
  "ex_callback = \<lparr>rq_method = ''GET'', rq_path = ''/meta/callback'', rq_raw_query = ''state=s&code=c'',
     rq_is_form = False, rq_body = [], rq_cut = False\<rparr>"

lemma ex_callback_query: "Query ex_callback = [(''state'', [''s'']), (''code'', [''c''])]"
  by code_simp

lemma ex_callback_get:
  "values_get (Query ex_callback) ''state'' = ''s''" "values_get (Query ex_callback) ''code'' = ''c''"
  "values_get (Query ex_callback) ''error'' = []"
  by (simp_all add: ex_callback_query values_get_def values_all_def)

definition ex_callback_run :: "http_resp \<times> world" where
  "ex_callback_run = run_state (CallbackHandler ex_login_machine ex_handlers ex_callback)
     (ex_world (ex_db\<lparr>login_states := [ex_login_row]\<rparr>))"

lemma ex_callback_code: "length (oauth_codes (db (snd ex_callback_run))) = 1"
  by (simp add: ex_callback_run_def CallbackHandler_def ex_callback_get ConsumeState_def
      ConsumeLoginState_def delete_state_def ex_login_row_request
      ex_login_row_def [THEN arg_cong [where f = lr_state]]
      ex_login_row_def [THEN arg_cong [where f = lr_expires_at]] ex_handlers_def
      Complete_def ExchangeCode_def ExchangeLongLivedToken_def Me_def ex_login_def
      NewLoginService_def ex_login_machine_def run_bindE run_mapE
      ex_get [OF _ _ ex_short_decoded] ex_get [OF _ _ ex_long_decoded]
      ex_get [OF _ _ ex_user_decoded] login_tenant_def newTenantID_def run_simps Let_def
      TenantByMetaUserID_def tenantBy_def select_first_def ex_db_def ex_scan_tenant ex_tenant_meta
      UpsertTenant_def Encrypt_def upsert_tenant_def tenant_record_def merge_tenant_def
      syncPages_def Accounts_def ex_collect [OF _ _ ex_accounts_decoded] decode_items_def
      ex_account_decoded account_page_def ReplacePages_def in_tx_def delete_pages_of_def insertPage_def
      insert_page_def page_record_def ex_page_row_def empty_db_def finish_login_def
      IssueAuthCode_def CreateAuthCode_def insert_code_def ex_parked_request_def)

theorem callback_code_sound_witness:
  "\<exists>row. oauth_codes (db (snd ex_callback_run)) = [row] \<and> co_client_id row = ''cl'' \<and>
     login_states (db (snd ex_callback_run)) = []"
proof -
  let ?w = "ex_world (ex_db\<lparr>login_states := [ex_login_row]\<rparr>)"
  have run: "run_state (CallbackHandler ex_login_machine ex_handlers ex_callback) ?w =
      (fst ex_callback_run, snd ex_callback_run)" by (simp add: ex_callback_run_def)
  have "oauth_codes (db (snd ex_callback_run)) \<noteq> oauth_codes (db ?w)"
    using ex_callback_code by (auto simp: ex_defs)
  from callback_code_sound [OF run this] obtain req row tid where
    "Option.bind (json_parse (lr_oauth_request ex_login_row)) dec_request = Some req"
    "oauth_codes (db (snd ex_callback_run)) = [row]" "code_for req tid row"
    "login_states (db (snd ex_callback_run)) = []"
    by (auto simp: ex_defs)
  then show ?thesis by (auto simp: ex_login_row_request code_for_def ex_parked_request_def)
qed

section \<open>Data deletion\<close>

lemma DeleteByMetaUserID_cases:
  assumes "run_state (DeleteByMetaUserID e mid) w = (res, w')"
  shows "db w' = db w \<and> (\<forall>u. res = Inr u \<longrightarrow> \<not> list_ex (\<lambda>r. tr_meta_user_id r = mid) (tenants (db w))) \<or>
    (\<exists>row u. res = Inr u \<and> find (\<lambda>r. tr_meta_user_id r = mid) (tenants (db w)) = Some row \<and>
       run_state (DeleteTenant e (tr_id row)) (w\<lparr>n_sql := Suc (n_sql w)\<rparr>) = (Inr u, w'))"
proof -
  obtain q w1 where q: "run_state (TenantByMetaUserID e mid) w = (q, w1)"
    by (cases "run_state (TenantByMetaUserID e mid) w")
  have d1: "db w1 = db w" using fdb.frameD [OF store_reads(2) q] by (simp add: same_db_def)
  show ?thesis
  proof (cases q)
    case (Inl err)
    have "\<not> list_ex (\<lambda>r. tr_meta_user_id r = mid) (tenants (db w))" if "errors_is err ErrNotFound"
      using q Inl that
      by (auto simp: TenantByMetaUserID_def tenantBy_def run_bindE run_stmt select_first_def
          scanTenant_def list_ex_iff find_None_iff split: option.splits if_splits sum.splits
          dest!: ciph.dec_err)
    with assms q Inl d1 show ?thesis by (auto simp: DeleteByMetaUserID_def split: if_splits)
  next
    case (Inr t)
    with q obtain row where row: "find (\<lambda>r. tr_meta_user_id r = mid) (tenants (db w)) = Some row"
      and t: "t_id t = tr_id row" and w1: "w1 = w\<lparr>n_sql := Suc (n_sql w)\<rparr>"
      by (auto simp: TenantByMetaUserID_def tenantBy_Inr scanTenant_Inr)
    obtain u w2 where u: "run_state (DeleteTenant e (tr_id row)) w1 = (u, w2)"
      by (cases "run_state (DeleteTenant e (tr_id row)) w1")
    have "db w2 = db w1" if "u = Inl err" for err
      using u that unfolding DeleteTenant_def by (auto dest: in_tx_Inl)
    with assms q Inr t u row w1 show ?thesis
      by (cases u) (auto simp: DeleteByMetaUserID_def run_mapE)
  qed
qed

text \<open>The signed request of a deletion: signed with the application secret over the very payload
  that is then read.\<close>

definition signed_by_meta :: "machine \<Rightarrow> meta_handlers \<Rightarrow> string \<Rightarrow> signed_payload \<Rightarrow> bool" where
  "signed_by_meta e h raw payload \<longleftrightarrow> (\<exists>s p bytes. raw = s @ ''.'' @ p \<and>
     b64_decode (trim_right_char (CHR ''='') s) = Some (mc_hmac e (mh_app_secret h) p) \<and>
     b64_decode (trim_right_char (CHR ''='') p) = Some bytes \<and>
     Option.bind (json_parse bytes) dec_signed = Some payload)"

lemma parseSignedRequest_Inr:
  "parseSignedRequest e h raw = Inr payload \<Longrightarrow> signed_by_meta e h raw payload"
  by (auto simp: parseSignedRequest_def signed_by_meta_def cut_Some split: option.splits if_splits) blast+

text \<open>C35: data is deleted only on a request Meta signed with the application secret, and then the
  rows removed are exactly those of the one tenant whose Meta user the signed payload names. A
  forged or unsigned request, and one for an unknown user, change nothing.\<close>

theorem deletion_only_when_signed:
  assumes "run_state (DataDeletionHandler e h r) w = (resp, w')" "db w' \<noteq> db w"
  shows "\<exists>form payload row. ParseForm r = Some form \<and>
    signed_by_meta e h (values_get form ''signed_request'') payload \<and>
    row \<in> set (tenants (db w)) \<and> tr_meta_user_id row = sg_user_id payload \<and>
    db w' = (db w)
      \<lparr>tenants := filter (\<lambda>x. tr_id x \<noteq> tr_id row) (tenants (db w)),
       pages := filter (\<lambda>x. pg_tenant_id x \<noteq> tr_id row) (pages (db w)),
       oauth_codes := filter (\<lambda>x. co_tenant_id x \<noteq> tr_id row) (oauth_codes (db w)),
       oauth_refresh_tokens := filter (\<lambda>x. rr_tenant_id x \<noteq> tr_id row) (oauth_refresh_tokens (db w))\<rparr>"
proof -
  from assms obtain form payload where form: "ParseForm r = Some form"
    and payload: "parseSignedRequest e h (values_get form ''signed_request'') = Inr payload"
    and user: "sg_user_id payload \<noteq> []"
    by (auto simp: DataDeletionHandler_def split: option.splits sum.splits if_splits)
  obtain q w1 where q: "run_state (DeleteByMetaUserID e (sg_user_id payload)) w = (q, w1)"
    by (cases "run_state (DeleteByMetaUserID e (sg_user_id payload)) w")
  from assms(1) form payload user q have d: "db w' = db w1"
    by (auto simp: DataDeletionHandler_def confirmationCode_def run_rand_read split: sum.splits)
  from DeleteByMetaUserID_cases [OF q] assms(2) d obtain row u
    where row: "find (\<lambda>r. tr_meta_user_id r = sg_user_id payload) (tenants (db w)) = Some row"
      and del: "run_state (DeleteTenant e (tr_id row)) (w\<lparr>n_sql := Suc (n_sql w)\<rparr>) = (Inr u, w1)"
    by auto
  from DeleteTenant_Inr [OF del] form parseSignedRequest_Inr [OF payload] row d show ?thesis
    by (auto dest!: find_SomeD)
qed

lemma b64_encode_no_pad: "CHR ''='' \<notin> set (b64_encode s)"
proof
  assume "CHR ''='' \<in> set (b64_encode s)"
  moreover obtain vs where "those (map b64_val (b64_encode s)) = Some vs" using b64_values by blast
  ultimately have "b64_val (CHR ''='') \<in> set (map Some vs)"
    unfolding those_Some_iff by (metis image_eqI list.set_map)
  then show False by (auto simp: b64_val_def)
qed
lemma trim_b64: "trim_right_char (CHR ''='') (b64_encode s) = b64_encode s"
proof -
  have "dropWhile (\<lambda>x. x = CHR ''='') (rev (b64_encode s)) = rev (b64_encode s)"
   using b64_encode_no_pad [of s] by (cases "rev (b64_encode s)") (auto simp: rev_eq_Cons_iff) 
  then show ?thesis by (simp add: trim_right_char_def)
qed

lemma ex_digest_nonempty: "ex_digest m \<noteq> []"
  by (cases m) (simp_all add: ex_digest_def)

definition ex_signed :: string where
  "ex_signed = (let p = b64_encode (print_json (JObj [(''user_id'', JStr ''u1'')])) in
     b64_encode (ex_digest (''sec'' @ p)) @ ''.'' @ p)"

definition ex_deletion :: http_req where
  "ex_deletion = \<lparr>rq_method = ''POST'', rq_path = ''/meta/data-deletion'', rq_raw_query = [],
     rq_is_form = True, rq_body = encode_pair (''signed_request'', ex_signed), rq_cut = False\<rparr>"

lemma ex_deletion_form: "ParseForm ex_deletion = Some [(''signed_request'', [ex_signed])]"
proof -
  let ?p = "encode_pair (''signed_request'', ex_signed)"
  have "split_on (CHR ''&'') ?p = [?p]"
    using split_on_join [of "[?p]" "CHR ''&''"] encode_pair_no_amp by simp
  moreover have "split_on (CHR ''&'') [] = [[]]" by simp
  ultimately have "query_ok ?p" "query_ok []"
    by (simp_all add: query_ok_def parse_encode_pair)
  moreover have "parse_query ?p = [(''signed_request'', [ex_signed])]"
    using parse_join_pairs [of "[(''signed_request'', ex_signed)]"]
    by (simp add: add_pair_def values_add_def values_all_def)
  ultimately show ?thesis by (simp add: ParseForm_def ex_deletion_def)
qed

lemma ex_deletion_signed:
  "parseSignedRequest (ex_machine []) ex_handlers ex_signed =
     Inr \<lparr>sg_algorithm = [], sg_issued_at = 0, sg_user_id = ''u1''\<rparr>"
proof -
  have "print_json (JObj fs) \<noteq> []" for fs by simp
  then show ?thesis
    by (simp add: parseSignedRequest_def ex_signed_def Let_def cut_append b64_encode_no_dot trim_b64
        b64_roundtrip ex_machine_def ex_handlers_def ex_digest_nonempty dec_signed_def json_reading
        del: print_json.simps)
qed

definition ex_deletion_run :: "http_resp \<times> world" where
  "ex_deletion_run = run_state (DataDeletionHandler (ex_machine []) ex_handlers ex_deletion) (ex_world ex_db)"

lemma ex_deletion_effect: "tenants (db (snd ex_deletion_run)) = []"
  by (simp add: ex_deletion_run_def DataDeletionHandler_def ex_deletion_form values_get_def values_all_def
      ex_deletion_signed DeleteByMetaUserID_def TenantByMetaUserID_def tenantBy_def select_first_def
      run_simps ex_db_def empty_db_def ex_scan_tenant ex_tenant_meta DeleteTenant_def in_tx_def
      delete_tokens_of_def delete_codes_of_def delete_pages_of_def delete_tenant_def
      confirmationCode_def Let_def)

theorem deletion_only_when_signed_witness: "pages (db (snd ex_deletion_run)) = []"
proof -
  have run: "run_state (DataDeletionHandler (ex_machine []) ex_handlers ex_deletion) (ex_world ex_db) =
      (fst ex_deletion_run, snd ex_deletion_run)" by (simp add: ex_deletion_run_def)
  have "db (snd ex_deletion_run) \<noteq> db (ex_world ex_db)"
    using ex_deletion_effect by (auto simp: ex_defs)
  from deletion_only_when_signed [OF run this] show ?thesis
    by (auto simp: ex_db_def ex_tenant_meta ex_page_row_def)
qed

end
