(* ===== verification/McpProps.thy ===== *)
theory McpProps
  imports McpServer StatusProps HandlersProps
begin

text \<open>
  What the MCP tools guarantee to a tenant and to Meta: a call acts on the page it names, with the
  token stored for it and at the nodes its tool is for; no call depends on other tenants; a read-only
  tool only reads; a writing tool sends nothing without confirmation, and then what its preview
  announced.
\<close>

section \<open>Lemmas\<close>

lemma run_tool_state:
  "snd (run_state (run_tool (Some info) f out) w) =
     (if ti_user_id info = [] then w else snd (run_state (f (ti_user_id info)) w))"
  by (simp add: run_tool_def tenantID_def run_bindE run_mapE split: prod.splits sum.splits)

lemma io_relD: "state_io_rel R m \<Longrightarrow> run_state m w = (r, w') \<Longrightarrow> R w w'"
  by (auto simp: state_io_rel_def dest: spec [of _ w])

lemma run_tool_rel:
  assumes "\<And>tid. state_io_rel (R tid) (f tid)" "\<And>tid v. R tid v v"
  shows "state_io_rel (R (ti_user_id info)) (run_tool (Some info) f out)"
proof
  fix w r w'
  assume run: "run_state (run_tool (Some info) f out) w = (r, w')"
  obtain q w1 where q: "run_state (f (ti_user_id info)) w = (q, w1)"
    by (cases "run_state (f (ti_user_id info)) w")
  have "w' = (if ti_user_id info = [] then w else w1)"
    using run_tool_state [of info f out w] run q by simp
  then show "R (ti_user_id info) w w'"
    using io_relD [OF assms(1) q] assms(2) by simp
qed

lemma run_tool_owner:
  "(\<And>tid. state_io_rel (for_owner e c tid (picks tid) P paths) (f tid)) \<Longrightarrow>
   state_io_rel (for_owner e c (ti_user_id info) (picks (ti_user_id info)) P paths) (run_tool (Some info) f out)"
  by (rule run_tool_rel [where R = "\<lambda>tid. for_owner e c tid (picks tid) P paths"]) (simp_all add: for_owner_def)

lemma run_tool_isolated:
  assumes "\<And>tid. isolated tid (f tid)"
  shows "isolated (ti_user_id info) (run_tool (Some info) f out)"
proof (cases "ti_user_id info = []")
  case True
  then show ?thesis
    by (auto simp: run_tool_def tenantID_def from_res_def bindE_def intro: isolated_pure)
next
  case False
  then have "run_tool (Some info) f out =
      bindE (mapE toolError (f (ti_user_id info))) (\<lambda>v. ok (out v))"
    by (simp add: run_tool_def tenantID_def from_res_def bindE_def)
  then show ?thesis
    using assms by (auto intro!: isolated_bindE isolated_mapE isolated_pure)
qed

lemma owner_same_db: "state_io_rel (for_owner e c tid picks P paths) m \<Longrightarrow> state_io_rel same_db m"
  by (auto simp: state_io_rel_def for_owner_def same_db_def)

lemma quiet_same_db: "quiet m \<Longrightarrow> state_io_rel same_db m"
  by (rule state_io_relI) (auto simp: same_db_def dest: quietD)

lemmas tools_same_db = read_tools_owner [THEN owner_same_db] write_tools_owner [THEN owner_same_db]
  local_tools_quiet [THEN quiet_same_db]

lemma reads_are_uses:
  "state_io_rel (for_owner e c tid picks reads paths) m \<Longrightarrow> state_io_rel (for_owner e c tid picks uses paths) m"
  by (erule state_for_owner_mono) (simp add: reads_def uses_def)

section \<open>What a call is about\<close>

text \<open>The tools that work on the pages of the tenant: all but the three about the connection.\<close>

fun about_pages :: "tool_call \<Rightarrow> bool" where
  "about_pages CallSyncPages = False"
| "about_pages CallReconnectURL = False"
| "about_pages CallConnectionStatus = False"
| "about_pages _ = True"

text \<open>The page a call acts for: the one it names, or the owner of the object it names.\<close>

fun call_page :: "machine \<Rightarrow> string \<Rightarrow> tool_call \<Rightarrow> database \<Rightarrow> page \<Rightarrow> bool" where
  "call_page e tid (CallPageInsights a) = named_page (ip_page_id a)"
| "call_page e tid (CallPagePosts a) = named_page (li_page_id a)"
| "call_page e tid (CallPageRatings pid n) = named_page pid"
| "call_page e tid (CallPageScheduledPosts pid n) = named_page pid"
| "call_page e tid (CallPagePublishPost a) = named_page (pin_page_id a)"
| "call_page e tid (CallPagePostComments a) = owning_page tid (ci_page_id a) (ci_object_id a)"
| "call_page e tid (CallPagePostInsights a) = owning_page tid (oi_page_id a) (oi_object_id a)"
| "call_page e tid (CallPageReplyComment a) = owning_page tid (rin_page_id a) (rin_comment_id a)"
| "call_page e tid (CallPageModerateComment a) = owning_page tid (min_page_id a) (min_comment_id a)"
| "call_page e tid (CallPageDeletePost a) = owning_page tid (din_page_id a) (din_post_id a)"
| "call_page e tid (CallPageCancelScheduledPost a) = owning_page tid (din_page_id a) (din_post_id a)"
| "call_page e tid (CallIGAccountInsights a) = named_account (ip_page_id a)"
| "call_page e tid (CallIGFollowerDemographics pid k) = named_account pid"
| "call_page e tid (CallIGMedia a) = named_account (li_page_id a)"
| "call_page e tid (CallIGStories pid) = named_account pid"
| "call_page e tid (CallIGPublish a) = named_account (gin_page_id a)"
| "call_page e tid (CallIGMediaInsights a) = owning_account e tid (oi_page_id a)"
| "call_page e tid (CallIGMediaComments a) = owning_account e tid (ci_page_id a)"
| "call_page e tid (CallIGReplyComment a) = owning_account e tid (rin_page_id a)"
| "call_page e tid (CallIGModerateComment a) = owning_account e tid (min_page_id a)"
| "call_page e tid _ = (\<lambda>d p. False)"

text \<open>The nodes of the Graph API a call addresses, for its page.\<close>

fun call_paths :: "tool_call \<Rightarrow> page \<Rightarrow> string list" where
  "call_paths (CallPageInsights a) = (\<lambda>p. [p_page_id p @ ''/insights''])"
| "call_paths (CallPagePosts a) = (\<lambda>p. [p_page_id p @ ''/posts''])"
| "call_paths (CallPageRatings pid n) = (\<lambda>p. [p_page_id p, p_page_id p @ ''/ratings''])"
| "call_paths (CallPageScheduledPosts pid n) = (\<lambda>p. [p_page_id p @ ''/scheduled_posts''])"
| "call_paths (CallPagePublishPost a) = (\<lambda>p. [p_page_id p @ ''/photos'', p_page_id p @ ''/feed''])"
| "call_paths (CallPagePostComments a) = (\<lambda>p. [ci_object_id a @ ''/comments''])"
| "call_paths (CallPagePostInsights a) = (\<lambda>p. [oi_object_id a @ ''/insights''])"
| "call_paths (CallPageReplyComment a) = (\<lambda>p. [rin_comment_id a @ ''/comments''])"
| "call_paths (CallPageModerateComment a) = (\<lambda>p. [min_comment_id a])"
| "call_paths (CallPageDeletePost a) = (\<lambda>p. [din_post_id a])"
| "call_paths (CallPageCancelScheduledPost a) = (\<lambda>p. [din_post_id a])"
| "call_paths (CallIGAccountInsights a) = (\<lambda>p. [p_ig_user_id p @ ''/insights''])"
| "call_paths (CallIGFollowerDemographics pid k) = (\<lambda>p. [p_ig_user_id p @ ''/insights''])"
| "call_paths (CallIGMedia a) = (\<lambda>p. [p_ig_user_id p @ ''/media''])"
| "call_paths (CallIGStories pid) = (\<lambda>p. [p_ig_user_id p @ ''/stories''])"
| "call_paths (CallIGPublish a) = (\<lambda>p. [p_ig_user_id p @ ''/media'', p_ig_user_id p @ ''/media_publish''])"
| "call_paths (CallIGMediaInsights a) = (\<lambda>p. [oi_object_id a @ ''/insights''])"
| "call_paths (CallIGMediaComments a) = (\<lambda>p. [ci_object_id a @ ''/comments''])"
| "call_paths (CallIGReplyComment a) = (\<lambda>p. [rin_comment_id a @ ''/replies''])"
| "call_paths (CallIGModerateComment a) = (\<lambda>p. [min_comment_id a])"
| "call_paths _ = (\<lambda>p. [])"

lemma call_tool_owner:
  "about_pages c \<Longrightarrow>
   state_io_rel (for_owner e (sv_graph s) (ti_user_id info) (call_page e (ti_user_id info) c) uses (call_paths c))
     (call_tool e s (Some info) c)"
  by (cases c)
     (simp_all add: tool_defs run_tool_owner [where picks = "\<lambda>tid. named_page p" for p]
       run_tool_owner [where picks = "\<lambda>tid. named_account p" for p]
       run_tool_owner [where picks = "\<lambda>tid. owning_page tid p q" for p q]
       run_tool_owner [where picks = "\<lambda>tid. owning_account e tid p" for p]
       run_tool_owner [where picks = "\<lambda>tid d p. False"]
       read_tools_owner [THEN reads_are_uses] write_tools_owner
       local_tools_quiet [THEN for_owner_quiet])

section \<open>The tools about the connection see one tenant only\<close>

lemma blind_login:
  "blind (Accounts e c tok)" "blind (DebugToken e c tok)" "blind (newSecret e)"
  unfolding Accounts_def DebugToken_def newSecret_def
  by (intro blind_rules blind_client)+

lemma TenantByID_id:
  fixes t :: tenant
  assumes "run_state (TenantByID e tid) w = (Inr t, w')"
  shows "t_id t = tid"
  using assms by (auto simp: TenantByID_def tenantBy_Inr scanTenant_Inr find_Some_iff)

lemma ReconnectURL_isolated: "isolated tid (ReconnectURL e s tid)"
  unfolding ReconnectURL_def
  by (intro isolated_rules blind_isolated [OF blind_login(3)] blind_isolated [OF blind_effects(1)])

lemma connection_tools_isolated:
  "isolated tid (Service_SyncPages e s tid)" "isolated tid (ConnectionStatus e s tid)"
proof -
  show "isolated tid (Service_SyncPages e s tid)"
    unfolding Service_SyncPages_def syncPages_def
    by (intro isolated_bindE_of [OF isolated_store(1)])
       (auto dest!: TenantByID_id intro!: isolated_rules blind_isolated [OF blind_login(1)])
  show "isolated tid (ConnectionStatus e s tid)"
    unfolding ConnectionStatus_def attachReconnectLink_def
    by (intro isolated_rules ReconnectURL_isolated blind_isolated [OF blind_login(2)]
        blind_isolated [OF blind_effects(1)] blind_isolated [OF blind_return(1)])
qed

lemma call_tool_isolated: "isolated (ti_user_id info) (call_tool e s (Some info) c)"
  by (cases c)
     (simp_all add: tool_defs run_tool_isolated read_tools_isolated write_tools_isolated
       ReconnectURL_isolated connection_tools_isolated)

section \<open>Reading\<close>

lemma owner_emits:
  assumes "state_io_rel (for_owner e c tid picks P paths) m" "\<And>t r. P t r \<Longrightarrow> Q r"
  shows "state_io_rel (emits Q) m"
proof
  fix w r w'
  assume "run_state m w = (r, w')"
  from io_relD [OF assms(1) this] have own: "for_owner e c tid picks P paths w w'" .
  then obtain new where new: "requests w' = requests w @ new" by (auto simp: for_owner_def prefix_def)
  from own have "list_all Q new"
    unfolding for_owner_def goes_def new using assms(2) by (auto simp: list_all_iff)
  then show "emits Q w w'" by (auto simp: emits_def new)
qed

lemma read_owner_gets:
  "state_io_rel (for_owner e c tid picks reads paths) m \<Longrightarrow> state_io_rel (emits is_get) m"
  by (erule owner_emits) (simp add: reads_def)

lemma quiet_emits: "quiet m \<Longrightarrow> state_io_rel (emits P) m"
  by (rule state_io_relI) (auto simp: emits_def dest: quietD)

lemma connection_tools_get:
  "state_io_rel (emits is_get) (Service_SyncPages e s tid)"
  "state_io_rel (emits is_get) (ConnectionStatus e s tid)"
  unfolding Service_SyncPages_def syncPages_def Accounts_def ConnectionStatus_def DebugToken_def
    attachReconnectLink_def
  by (intro fem.rules io_intros reads_get [OF client_reads(1)] reads_get [OF client_reads(3)])+

text \<open>A tool registered as read-only sends nothing but GET requests, whatever Meta answers.\<close>

lemma read_only_emits:
  assumes "read_only_tool c"
  shows "state_io_rel (emits is_get) (call_tool e s session c)"
proof -
  have lift: "state_io_rel (emits is_get) (run_tool session f out)"
    if "\<And>tid. state_io_rel (emits is_get) (f tid)" for f :: "string \<Rightarrow> 'z io" and out
    unfolding run_tool_def by (intro fem.rules that)
  show ?thesis
    using assms
    by (cases c)
       (simp_all add: tool_defs writing_def moderating_def readOnly_def lift read_tools_owner [THEN read_owner_gets]
         local_tools_quiet [THEN quiet_emits] connection_tools_get ReconnectURL_emits)
qed

section \<open>Tenants\<close>

text \<open>C22: a tool call about pages acts for one page at most, a page stored for the tenant of the
  bearer token: the page the call names or, for a call about an object, the page it names, the page
  whose id begins the id of the object, or the only candidate the tenant has. Every request the call
  sends to Meta carries the token of that page or is a next page link that Meta handed out, and is
  addressed to the node of that page (or of its Instagram account, or of the object the client
  named) that the tool is for, unless it follows an answer Meta gave to this very call: the next
  page of a list, or the state of a container it created. If the tool is read-only, all of them are
  GET. No row changes. The id of an object is passed on as the client gave it: what the token of
  that page may do to it is up to Meta.\<close>

theorem tools_act_on_own_page:
  assumes "about_pages c" "run_state (call_tool e s (Some info) c) w = (res, w')"
  shows "db w' = db w \<and> (\<exists>new. requests w' = requests w @ new \<and> (new = [] \<or>
    (\<exists>p. stored_page e (db w) (ti_user_id info) p \<and> call_page e (ti_user_id info) c (db w) p \<and>
       list_all (uses (p_page_token p)) new \<and> (read_only_tool c \<longrightarrow> list_all is_get new) \<and>
       reaches_only e (sv_graph s) (call_paths c p) (length (requests w)) (requests w'))))"
proof -
  have own: "for_owner e (sv_graph s) (ti_user_id info) (call_page e (ti_user_id info) c) uses (call_paths c) w w'"
    by (rule io_relD [OF call_tool_owner [OF assms(1)] assms(2)])
  then obtain new where new: "requests w' = requests w @ new" by (auto simp: for_owner_def prefix_def)
  have "list_all is_get new" if "read_only_tool c"
    using io_relD [OF read_only_emits [OF that] assms(2)] by (auto simp: emits_def new)
  with own show ?thesis by (auto simp: for_owner_def goes_def new)
qed

text \<open>C23: no tool call depends on, or changes, the data of other tenants. Take any database with the
  same rows of the tenant of the bearer token, the same pages of it and the same parked logins,
  which belong to no tenant, and anything else for all other rows. There the call gives the same
  answer, sends the same requests and takes the same readings of clock and random source, and it
  leaves the same rows of that tenant and the same parked logins; and on both databases
  it leaves all other rows (other tenants, their pages, the clients, codes, tokens and pending
  authorizations) as they were.\<close>

theorem tools_isolated:
  assumes "run_state (call_tool e s (Some info) c) w = (res, w')"
    and "own_rows (ti_user_id info) d = own_rows (ti_user_id info) (db w)"
  shows "(\<exists>d'. run_state (call_tool e s (Some info) c) (w\<lparr>db := d\<rparr>) = (res, w'\<lparr>db := d'\<rparr>) \<and>
      own_rows (ti_user_id info) d' = own_rows (ti_user_id info) (db w') \<and>
      other_rows (ti_user_id info) d' = other_rows (ti_user_id info) d) \<and>
    other_rows (ti_user_id info) (db w') = other_rows (ti_user_id info) (db w)"
proof -
  let ?t = "ti_user_id info"
  obtain d' where d': "run_state (call_tool e s (Some info) c) (w\<lparr>db := d\<rparr>) = (res, w'\<lparr>db := d'\<rparr>)"
    "agrees ?t d d' (db w')"
    by (rule isolatedE [OF call_tool_isolated assms])
  obtain d0 where "run_state (call_tool e s (Some info) c) (w\<lparr>db := db w\<rparr>) = (res, w'\<lparr>db := d0\<rparr>)"
    "agrees ?t (db w) d0 (db w')"
    by (rule isolatedE [OF call_tool_isolated assms(1) refl])
  with assms(1) have "other_rows ?t (db w') = other_rows ?t (db w)"
    by (auto simp: agrees_def) (metis world.select_convs(1) world.surjective world.update_convs(1))
  with d' show ?thesis by (auto simp: agrees_def)
qed

section \<open>Writing\<close>

text \<open>The confirmation of a call, and the call with another one.\<close>

fun confirmed :: "tool_call \<Rightarrow> bool" where
  "confirmed (CallPagePublishPost a) = pin_confirm a"
| "confirmed (CallPageReplyComment a) = rin_confirm a"
| "confirmed (CallIGPublish a) = gin_confirm a"
| "confirmed (CallIGReplyComment a) = rin_confirm a"
| "confirmed (CallPageModerateComment a) = min_confirm a"
| "confirmed (CallIGModerateComment a) = min_confirm a"
| "confirmed (CallPageDeletePost a) = din_confirm a"
| "confirmed (CallPageCancelScheduledPost a) = din_confirm a"
| "confirmed _ = False"

fun with_confirm :: "bool \<Rightarrow> tool_call \<Rightarrow> tool_call" where
  "with_confirm b (CallPagePublishPost a) = CallPagePublishPost (a\<lparr>pin_confirm := b\<rparr>)"
| "with_confirm b (CallPageReplyComment a) = CallPageReplyComment (a\<lparr>rin_confirm := b\<rparr>)"
| "with_confirm b (CallIGPublish a) = CallIGPublish (a\<lparr>gin_confirm := b\<rparr>)"
| "with_confirm b (CallIGReplyComment a) = CallIGReplyComment (a\<lparr>rin_confirm := b\<rparr>)"
| "with_confirm b (CallPageModerateComment a) = CallPageModerateComment (a\<lparr>min_confirm := b\<rparr>)"
| "with_confirm b (CallIGModerateComment a) = CallIGModerateComment (a\<lparr>min_confirm := b\<rparr>)"
| "with_confirm b (CallPageDeletePost a) = CallPageDeletePost (a\<lparr>din_confirm := b\<rparr>)"
| "with_confirm b (CallPageCancelScheduledPost a) = CallPageCancelScheduledPost (a\<lparr>din_confirm := b\<rparr>)"
| "with_confirm b c = c"

lemma with_confirm_same: "with_confirm (confirmed c) c = c"
  by (cases c) simp_all

text \<open>Whether an output is a preview, and what it says would be, or was, written.\<close>

fun is_preview :: "tool_output \<Rightarrow> bool" where
  "is_preview (OutPublished x) = pout_preview x"
| "is_preview (OutReply x) = rout_preview x"
| "is_preview (OutIGPublished x) = gout_preview x"
| "is_preview (OutModerated x) = mout_preview x"
| "is_preview (OutRemoved x) = dout_preview x"
| "is_preview (OutCanceled x) = dout_preview x"
| "is_preview _ = False"

fun out_content :: "tool_output \<Rightarrow> tool_output" where
  "out_content (OutPublished x) = OutPublished (post_content x)"
| "out_content (OutReply x) = OutReply (reply_content x)"
| "out_content (OutIGPublished x) = OutIGPublished (ig_content x)"
| "out_content (OutModerated x) = OutModerated (moderate_content x)"
| "out_content (OutRemoved x) = OutRemoved (removal_content x)"
| "out_content (OutCanceled x) = OutCanceled (removal_content x)"
| "out_content x = x"

text \<open>The five promises of a gate, one at a time.\<close>

lemma gated_quiet: "gated tool flag content sent \<Longrightarrow> quiet (tool False)"
  by (simp add: gated_def)

lemma gated_flag:
  "gated tool flag content sent \<Longrightarrow> run_state (tool c) w = (Inr out, w') \<Longrightarrow> flag out \<longleftrightarrow> \<not> c"
  unfolding gated_def by blast

lemma gated_refusal:
  "gated tool flag content sent \<Longrightarrow> run_state (tool False) w = (Inl err, w') \<Longrightarrow>
   run_state (tool True) w = (Inl err, w')"
  unfolding gated_def by blast

lemma gated_content:
  "gated tool flag content sent \<Longrightarrow> run_state (tool False) w = (Inr p, w1) \<Longrightarrow>
   run_state (tool True) w = (Inr d, w') \<Longrightarrow> content d = content p"
  unfolding gated_def by blast

lemma gated_sent:
  "gated tool flag content sent \<Longrightarrow> run_state (tool False) w = (Inr p, w1) \<Longrightarrow>
   run_state (tool True) w = (r, w') \<Longrightarrow> sent p (\<not> isl r) (db w) (requests w) (requests w')"
  unfolding gated_def by blast

text \<open>
  What the preview of a call announces, for the tenant \<open>tid\<close>. Replies and hidden comments have
  other names on Instagram than on a page.
\<close>

fun reply_edge :: "tool_call \<Rightarrow> string" where
  "reply_edge (CallIGReplyComment a) = ''/replies''"
| "reply_edge _ = ''/comments''"

fun hidden_field :: "tool_call \<Rightarrow> string" where
  "hidden_field (CallIGModerateComment a) = ''hide''"
| "hidden_field _ = ''is_hidden''"

definition announced :: "machine \<Rightarrow> meta_client \<Rightarrow> string \<Rightarrow> tool_call \<Rightarrow> tool_output \<Rightarrow> sending" where
  "announced e c tid tc out =
     (case out of
        OutPublished x \<Rightarrow> post_announced e c tid x
      | OutReply x \<Rightarrow> reply_announced e c tid (reply_edge tc) x
      | OutIGPublished x \<Rightarrow> ig_announced e c tid x
      | OutModerated x \<Rightarrow> moderation_announced e c tid (hidden_field tc) x
      | OutRemoved x \<Rightarrow> removal_announced e c tid x
      | OutCanceled x \<Rightarrow> removal_announced e c tid x
      | _ \<Rightarrow> (\<lambda>success d rs rs'. False))"

text \<open>The gate of a use case is the gate of the tool over it.\<close>

lemma quiet_tail: "quiet m \<Longrightarrow> quiet (bindE (mapE g m) (\<lambda>v. ok (h v)))"
  by (simp add: quiet_def run_bindE run_mapE split: prod.splits sum.splits) (metis snd_conv)

lemma run_tool_gated:
  assumes "\<And>tid. gated (\<lambda>b. f b tid) flag content (sent tid)"
    and "\<And>x. is_preview (out x) = flag x"
    and "\<And>tid x. tenantID session = Inr tid \<Longrightarrow> tool_sent (out x) = sent tid x"
    and "\<And>x y. content x = content y \<Longrightarrow> out_content (out x) = out_content (out y)"
  shows "gated (\<lambda>b. run_tool session (f b) out) is_preview out_content tool_sent"
proof (cases "tenantID session")
  case (Inl err)
  then show ?thesis by (simp add: gated_def run_tool_def from_res_def bindE_def quiet_def)
next
  case (Inr tid)
  then have tool: "run_tool session (f b) out = bindE (mapE toolError (f b tid)) (\<lambda>v. ok (out v))" for b
    by (simp add: run_tool_def from_res_def bindE_def)
  note gate = assms(1) [of tid]
  show ?thesis
    unfolding gated_def tool
  proof (intro conjI allI impI)
    show "quiet (bindE (mapE toolError (f False tid)) (\<lambda>v. ok (out v)))"
      by (rule quiet_tail) (use gated_quiet [OF gate] in simp)
  next
    fix c w o1 w'
    assume "run_state (bindE (mapE toolError (f c tid)) (\<lambda>v. ok (out v))) w = (Inr o1, w')"
    then obtain v where "o1 = out v" "run_state (f c tid) w = (Inr v, w')"
      by (auto simp: run_bindE run_mapE split: prod.splits sum.splits)
    then show "is_preview o1 \<longleftrightarrow> \<not> c"
      using gated_flag [OF gate, of c w v w'] assms(2) by simp
  next
    fix w err w'
    assume "run_state (bindE (mapE toolError (f False tid)) (\<lambda>v. ok (out v))) w = (Inl err, w')"
    then obtain e1 where "err = toolError e1" "run_state (f False tid) w = (Inl e1, w')"
      by (auto simp: run_bindE run_mapE split: prod.splits sum.splits)
    then show "run_state (bindE (mapE toolError (f True tid)) (\<lambda>v. ok (out v))) w = (Inl err, w')"
      using gated_refusal [OF gate, of w e1 w'] by (simp add: run_bindE run_mapE)
  next
    fix w o1 w1 o2 w'
    assume runs: "run_state (bindE (mapE toolError (f False tid)) (\<lambda>v. ok (out v))) w = (Inr o1, w1)"
      "run_state (bindE (mapE toolError (f True tid)) (\<lambda>v. ok (out v))) w = (Inr o2, w')"
    from runs(1) obtain v1 where v1: "o1 = out v1" "run_state (f False tid) w = (Inr v1, w1)"
      by (auto simp: run_bindE run_mapE split: prod.splits sum.splits)
    from runs(2) obtain v2 where v2: "o2 = out v2" "run_state (f True tid) w = (Inr v2, w')"
      by (auto simp: run_bindE run_mapE split: prod.splits sum.splits)
    show "out_content o2 = out_content o1"
      unfolding v1(1) v2(1) by (rule assms(4)) (rule gated_content [OF gate v1(2) v2(2)])
  next
    fix w o1 w1 r w'
    assume runs: "run_state (bindE (mapE toolError (f False tid)) (\<lambda>v. ok (out v))) w = (Inr o1, w1)"
      "run_state (bindE (mapE toolError (f True tid)) (\<lambda>v. ok (out v))) w = (r, w')"
    from runs(1) obtain v1 where v1: "o1 = out v1" "run_state (f False tid) w = (Inr v1, w1)"
      by (auto simp: run_bindE run_mapE split: prod.splits sum.splits)
    from runs(2) obtain q where q: "run_state (f True tid) w = (q, w')" "isl q = isl r"
      by (auto simp: run_bindE run_mapE split: prod.splits sum.splits)
    show "tool_sent o1 (\<not> isl r) (db w) (requests w) (requests w')"
      using gated_sent [OF gate v1(2) q(1)] assms(3) [OF Inr] by (simp add: v1(1) q(2))
  qed
qed

text \<open>Every tool but the read-only ones goes through the gate.\<close>

definition tool_announced :: "machine \<Rightarrow> service \<Rightarrow> token_info option \<Rightarrow> tool_call \<Rightarrow> tool_output \<Rightarrow> sending" where
  "tool_announced e s session tc out success d rs rs' \<longleftrightarrow>
     (\<exists>info. session = Some info \<and> announced e (sv_graph s) (ti_user_id info) tc out success d rs rs')"

lemma tool_announced_of:
  "tenantID session = Inr tid \<Longrightarrow> tool_announced e s session tc out = announced e (sv_graph s) tid tc out"
  by (auto simp: tool_announced_def fun_eq_iff tenantID_def split: option.splits if_splits)

lemma writing_tools_gated:
  "\<not> read_only_tool c \<Longrightarrow>
   gated (\<lambda>b. call_tool e s session (with_confirm b c)) is_preview out_content (tool_announced e s session c)"
  by (cases c)
     (auto simp: tool_defs readOnly_def tool_announced_of announced_def intro!: run_tool_gated [OF use_cases_gated(1)]
       run_tool_gated [OF use_cases_gated(2)] run_tool_gated [OF use_cases_gated(3)] run_tool_gated [OF use_cases_gated(4)]
       run_tool_gated [OF use_cases_gated(5)] run_tool_gated [OF use_cases_gated(6)] run_tool_gated [OF use_cases_gated(7)]
       run_tool_gated [OF use_cases_gated(8)])

text \<open>A tool that is not read-only sends nothing and changes no row without confirm.\<close>

lemma unconfirmed_call_quiet:
  assumes "\<not> read_only_tool c" "\<not> confirmed c"
  shows "quiet (call_tool e s session c)"
  using gated_quiet [OF writing_tools_gated [OF assms(1)]] with_confirm_same [of c] assms(2) by simp

text \<open>C28: confirming a call sends to Meta what its preview showed, and nothing else is written. From
  one state, the call without confirm and the same call with it refuse the same inputs with the
  same error. If the first answers a preview, then every POST of the second is the one this
  preview announces: with the token of the stored page that the preview names, to the node and
  with exactly the parameters (message, link, photo, schedule, caption, media, hidden flag or
  deletion) that the fields of the preview give; for Instagram, the containers of the previewed
  media and the publication of the container so created. If the second succeeds, Meta has
  answered that request, and the two outputs agree on everything but the preview flag, the notice
  and what Meta returned.\<close>

theorem confirmed_write_is_the_preview:
  assumes "\<not> read_only_tool c"
    and "run_state (call_tool e s session (with_confirm False c)) w = (shown, w1)"
    and "run_state (call_tool e s session (with_confirm True c)) w = (done, w')"
  shows "(\<forall>err. shown = Inl err \<longrightarrow> done = Inl err \<and> w' = w1) \<and>
    (\<forall>p. shown = Inr p \<longrightarrow> (\<exists>info. session = Some info \<and>
       announced e (sv_graph s) (ti_user_id info) c p (\<not> isl done) (db w) (requests w) (requests w'))) \<and>
    (\<forall>p d. shown = Inr p \<longrightarrow> done = Inr d \<longrightarrow>
      is_preview p \<and> \<not> is_preview d \<and> out_content d = out_content p)"
proof -
  note gate = writing_tools_gated [OF assms(1), of e s session]
  have "done = Inl err \<and> w' = w1" if "shown = Inl err" for err
    using gated_refusal [OF gate, of w err w1] assms(2,3) that by simp
  moreover have "\<exists>info. session = Some info \<and>
      announced e (sv_graph s) (ti_user_id info) c p (\<not> isl done) (db w) (requests w) (requests w')"
    if "shown = Inr p" for p
    using gated_sent [OF gate assms(2) [unfolded that] assms(3)] by (simp add: tool_announced_def)
  moreover have "is_preview p \<and> \<not> is_preview d \<and> out_content d = out_content p"
    if "shown = Inr p" "done = Inr d" for p d
    using gated_flag [OF gate, of False w p w1] gated_flag [OF gate, of True w d w']
      gated_content [OF gate, of w p w1 d w'] assms(2,3) that by simp
  ultimately show ?thesis by blast
qed

section \<open>Witnesses\<close>

text \<open>A tenant that publishes one post, first without and then with \<open>confirm\<close>.\<close>

definition ex_session :: "token_info option" where
  "ex_session = Some \<lparr>ti_user_id = ''t1'', ti_expiration = from_unix 1700000500\<rparr>"

definition ex_publish :: "bool \<Rightarrow> tool_call" where
  "ex_publish b = CallPagePublishPost
     \<lparr>pin_page_id = ''p1'', pin_message = ''hi'', pin_link = [], pin_photo_url = [],
      pin_scheduled_at = [], pin_confirm = b\<rparr>"

definition ex_publish_run :: "bool \<Rightarrow> tool_output res \<times> world" where
  "ex_publish_run b =
     run_state (call_tool (ex_machine [ex_ok (ex_id_body ''c1'')]) ex_service ex_session (ex_publish b))
       (ex_world ex_db)"

definition ex_post_output :: publish_output where
  "ex_post_output =
     \<lparr>pout_preview = False, pout_post_id = [], pout_page_id = ''p1'', pout_page_name = ''Shop'',
      pout_kind = ''feed'', pout_message = ''hi'', pout_link = [], pout_photo_url = [],
      pout_scheduled_at = [], pout_notice = []\<rparr>"

lemma ex_publish_kinds:
  "about_pages (ex_publish b)" "\<not> read_only_tool (ex_publish b)"
  "confirmed (ex_publish b) = b" "with_confirm b' (ex_publish b) = ex_publish b'"
  by (simp_all add: ex_publish_def writing_def read_only_tool_def tool_annotations_def New_def)

lemma ex_trims: "trim_space ''hi'' = ''hi''" "trim_space ''p1'' = ''p1''" "trim_space [] = []"
  by code_simp+

lemmas ex_publish_simps = ex_publish_run_def ex_publish_def ex_session_def tool_defs run_tool_def
  tenantID_def run_bindE run_mapE Service_PublishPost_def Service_page_def PageByID_def run_simps
  select_first_def ex_db_def empty_db_def ex_page_keys ex_scan_page buildPublishRequest_def
  ex_trims publish_draft_def ex_post_output_def IsPhoto_def IsScheduled_def is_zero_time_def Let_def

lemma ex_preview:
  "fst (ex_publish_run False) =
     Inr (OutPublished (ex_post_output\<lparr>pout_preview := True, pout_notice := previewNotice\<rparr>))"
  by (simp add: ex_publish_simps)

lemma ex_published:
  "fst (ex_publish_run True) = Inr (OutPublished (ex_post_output\<lparr>pout_post_id := ''c1''\<rparr>))"
  by (simp add: ex_publish_simps PublishPost_def ex_service_def NewService_def
      ex_post [OF _ _ ex_id_bodies(1)])

lemma ex_publish_runs:
  "run_state (call_tool (ex_machine [ex_ok (ex_id_body ''c1'')]) ex_service ex_session (ex_publish b))
     (ex_world ex_db) = (fst (ex_publish_run b), snd (ex_publish_run b))"
  by (simp add: ex_publish_run_def)

text \<open>The confirmed call sends one request, to the feed of the page it names.\<close>

theorem tools_act_on_own_page_witness:
  "db (snd (ex_publish_run True)) = ex_db \<and> (\<exists>new. requests (snd (ex_publish_run True)) = new \<and> (new = [] \<or>
    (\<exists>p. stored_page (ex_machine [ex_ok (ex_id_body ''c1'')]) ex_db ''t1'' p \<and> p_page_id p = ''p1'' \<and>
       list_all (uses (p_page_token p)) new \<and>
       reaches_only (ex_machine [ex_ok (ex_id_body ''c1'')]) (sv_graph ex_service) [''p1/photos'', ''p1/feed''] 0 new)))"
  using tools_act_on_own_page [OF ex_publish_kinds(1) ex_publish_runs [of True, unfolded ex_session_def]]
  by (auto simp: ex_publish_def named_page_def)

text \<open>The same database with a page of a tenant \<open>t2\<close>.\<close>

definition ex_shared_db :: database where
  "ex_shared_db = ex_db\<lparr>pages := pages ex_db @ [(ex_page_row ''p9'')\<lparr>pg_tenant_id := ''t2''\<rparr>]\<rparr>"

theorem tools_isolated_witness:
  "fst (run_state (call_tool (ex_machine [ex_ok (ex_id_body ''c1'')]) ex_service ex_session (ex_publish True))
     ((ex_world ex_db)\<lparr>db := ex_shared_db\<rparr>)) = fst (ex_publish_run True)"
  using tools_isolated [OF ex_publish_runs [of True, unfolded ex_session_def], of ex_shared_db]
  by (auto simp: ex_session_def own_rows_def pages_of_def ex_shared_db_def ex_db_def ex_page_row_def)

theorem confirmed_write_is_the_preview_witness:
  "\<exists>p d. fst (ex_publish_run False) = Inr p \<and> fst (ex_publish_run True) = Inr d \<and>
     is_preview p \<and> \<not> is_preview d \<and> out_content d = out_content p \<and>
     announced (ex_machine [ex_ok (ex_id_body ''c1'')]) (sv_graph ex_service) ''t1'' (ex_publish True) p
       True ex_db [] (requests (snd (ex_publish_run True)))"
proof -
  have runs: "run_state (call_tool (ex_machine [ex_ok (ex_id_body ''c1'')]) ex_service ex_session
      (with_confirm b (ex_publish True))) (ex_world ex_db) = (fst (ex_publish_run b), snd (ex_publish_run b))" for b
    using ex_publish_runs [of b] by (simp add: ex_publish_kinds)
  show ?thesis
    using confirmed_write_is_the_preview [OF ex_publish_kinds(2) runs [of False] runs [of True]]
    by (auto simp: ex_preview ex_published ex_session_def)
qed

end
