(* ===== verification/Router.thy ===== *)
theory Router
  imports MetaHandlers
begin

text \<open>
  \<open>internal/adapters/httpserver\<close>: the router that mounts every handler, the limits around it, the
  loopback relay, and the icon of \<open>web/embed.go\<close>. The first section is \<open>http.ServeMux\<close> on patterns
  without wildcards. The panic guard and the access log do not change a response: a handler of the
  model has no panic to recover from, and the log is not modelled.
\<close>

section \<open>http.ServeMux\<close>

definition path_unescape :: "string \<Rightarrow> string" where
  "path_unescape s =
     (case query_unescape (concat (map (\<lambda>c. if c = CHR ''+'' then ''%2B'' else [c]) s)) of
        None \<Rightarrow> s
      | Some t \<Rightarrow> t)"

definition path_escape_char :: "char \<Rightarrow> string" where
  "path_escape_char c =
     (if unreserved c \<or> c \<in> set ''$&+,/:;=@'' then [c]
      else [CHR ''%'', upper_hex (of_char c div 16), upper_hex (of_char c mod 16)])"

definition path_escape :: "string \<Rightarrow> string" where
  "path_escape s = concat (map path_escape_char s)"

text \<open>\<open>path.Clean\<close> on a rooted path, and what the mux makes of it.\<close>

definition clean_step :: "string list \<Rightarrow> string \<Rightarrow> string list" where
  "clean_step done seg =
     (if seg = [] \<or> seg = ''.'' then done
      else if seg = ''..'' then butlast done else done @ [seg])"

definition path_clean :: "string \<Rightarrow> string" where
  "path_clean p = ''/'' @ join ''/'' (foldl clean_step [] (split_on (CHR ''/'') p))"

definition cleanPath :: "string \<Rightarrow> string" where
  "cleanPath p =
     (if p = [] then ''/''
      else let q = (if hd p = CHR ''/'' then p else CHR ''/'' # p); np = path_clean q in
           if last q = CHR ''/'' \<and> np \<noteq> ''/'' then np @ ''/'' else np)"

record route =
  rt_method :: "string option"
  rt_path :: string
  rt_handler :: "http_req \<Rightarrow> handler"

text \<open>A pattern for GET also takes HEAD; segments are compared unescaped.\<close>

definition method_matches :: "string option \<Rightarrow> string \<Rightarrow> bool" where
  "method_matches m method =
     (case m of
        None \<Rightarrow> True
      | Some x \<Rightarrow> x = method \<or> x = ''GET'' \<and> method = ''HEAD'')"

definition path_matches :: "string \<Rightarrow> string \<Rightarrow> bool" where
  "path_matches pattern p \<longleftrightarrow>
     map path_unescape (split_on (CHR ''/'') p) = split_on (CHR ''/'') pattern"

definition allowed_methods :: "route list \<Rightarrow> string \<Rightarrow> string list" where
  "allowed_methods rts p = concat (map (\<lambda>t. case rt_method t of
       None \<Rightarrow> []
     | Some m \<Rightarrow> if m = ''GET'' then [''GET'', ''HEAD''] else [m])
     (filter (\<lambda>t. path_matches (rt_path t) p) rts))"

definition mux_redirect :: "machine \<Rightarrow> http_req \<Rightarrow> string \<Rightarrow> http_resp" where
  "mux_redirect e r p =
     \<lparr>rs_status = 307,
      rs_headers = [(''Location'', mc_url_string e
        \<lparr>u_scheme = [], u_host = [], u_hostname = [], u_fragment = [],
         u_raw_query = rq_raw_query r, u_rest = p\<rparr>)],
      rs_body = NoBody\<rparr>"

definition serve_mux :: "machine \<Rightarrow> route list \<Rightarrow> http_req \<Rightarrow> handler" where
  "serve_mux e rts r =
     (let p = (if rq_method r = ''CONNECT'' then rq_path r else cleanPath (rq_path r)) in
      if p \<noteq> rq_path r then State_Monad.return (mux_redirect e r p)
      else case find (\<lambda>t. path_matches (rt_path t) p \<and> method_matches (rt_method t) (rq_method r)) rts of
        Some t \<Rightarrow> rt_handler t r
      | None \<Rightarrow>
          State_Monad.return
            (if allowed_methods rts p = [] then http_error 404 ''404 page not found''
             else with_headers [(''Allow'', join '', '' (allowed_methods rts p))]
               (http_error 405 ''Method Not Allowed'')))"

section \<open>router.go\<close>

definition maxBodyBytes :: nat where "maxBodyBytes = 2 ^ 20"

record handlers =
  hd_protected_resource_metadata :: "(http_req \<Rightarrow> handler) option"
  hd_auth_server_metadata :: "(http_req \<Rightarrow> handler) option"
  hd_register :: "(http_req \<Rightarrow> handler) option"
  hd_authorize :: "(http_req \<Rightarrow> handler) option"
  hd_token :: "(http_req \<Rightarrow> handler) option"
  hd_meta_login :: "(http_req \<Rightarrow> handler) option"
  hd_meta_callback :: "(http_req \<Rightarrow> handler) option"
  hd_meta_data_deletion :: "(http_req \<Rightarrow> handler) option"
  hd_meta_deauthorize :: "(http_req \<Rightarrow> handler) option"
  hd_privacy :: "(http_req \<Rightarrow> handler) option"
  hd_icon :: "(http_req \<Rightarrow> handler) option"
  hd_mcp :: "(http_req \<Rightarrow> handler) option"
  hd_loopback_relay :: "(http_req \<Rightarrow> handler) option"
  hd_health :: "unit io option"

definition mount :: "string \<Rightarrow> string \<Rightarrow> (http_req \<Rightarrow> handler) option \<Rightarrow> route list" where
  "mount method p h =
     (case h of
        None \<Rightarrow> []
      | Some f \<Rightarrow> [\<lparr>rt_method = Some method, rt_path = p, rt_handler = f\<rparr>])"

definition healthHandler :: "unit io option \<Rightarrow> http_req \<Rightarrow> handler" where
  "healthHandler check r = do {
     healthy \<leftarrow> (case check of
       None \<Rightarrow> State_Monad.return True
     | Some c \<Rightarrow> State_Monad.bind c (\<lambda>res. State_Monad.return (case res of Inl _ \<Rightarrow> False | Inr _ \<Rightarrow> True)));
     State_Monad.return (if healthy then writeJSON 200 (JObj [(''status'', JStr ''ok'')])
                         else writeJSON 503 (JObj [(''status'', JStr ''error'')]))
   }"

definition routes :: "handlers \<Rightarrow> route list" where
  "routes h =
     [\<lparr>rt_method = Some ''GET'', rt_path = ''/healthz'', rt_handler = healthHandler (hd_health h)\<rparr>] @
     mount ''GET'' ''/.well-known/oauth-protected-resource'' (hd_protected_resource_metadata h) @
     mount ''GET'' ''/.well-known/oauth-protected-resource/mcp'' (hd_protected_resource_metadata h) @
     mount ''GET'' ''/.well-known/oauth-authorization-server'' (hd_auth_server_metadata h) @
     mount ''GET'' ''/.well-known/oauth-authorization-server/mcp'' (hd_auth_server_metadata h) @
     mount ''POST'' ''/oauth/register'' (hd_register h) @
     mount ''GET'' ''/oauth/authorize'' (hd_authorize h) @
     mount ''POST'' ''/oauth/token'' (hd_token h) @
     mount ''GET'' ''/meta/login'' (hd_meta_login h) @
     mount ''GET'' ''/meta/callback'' (hd_meta_callback h) @
     mount ''POST'' ''/meta/data-deletion'' (hd_meta_data_deletion h) @
     mount ''GET'' ''/meta/deauthorize'' (hd_meta_deauthorize h) @
     mount ''GET'' ''/privacy'' (hd_privacy h) @
     mount ''GET'' ''/icon.png'' (hd_icon h) @
     mount ''GET'' ''/relay/callback'' (hd_loopback_relay h) @
     (case hd_mcp h of
        None \<Rightarrow> []
      | Some f \<Rightarrow> [\<lparr>rt_method = None, rt_path = ''/mcp'', rt_handler = f\<rparr>])"

definition isSensitivePath :: "string \<Rightarrow> bool" where
  "isSensitivePath p \<longleftrightarrow> prefix ''/oauth/'' p \<or> prefix ''/meta/'' p \<or> prefix ''/mcp'' p"

text \<open>The body of the request stops at the limit; what a handler sets replaces the cache headers.\<close>

definition limited :: "http_req \<Rightarrow> http_req" where
  "limited r =
     (if length (rq_body r) \<le> maxBodyBytes then r
      else r\<lparr>rq_body := take maxBodyBytes (rq_body r), rq_cut := True\<rparr>)"

definition withLimits :: "(http_req \<Rightarrow> handler) \<Rightarrow> http_req \<Rightarrow> handler" where
  "withLimits next_handler r = do {
     resp \<leftarrow> next_handler (limited r);
     State_Monad.return
       (if isSensitivePath (path_unescape (rq_path r))
        then resp\<lparr>rs_headers := rs_headers resp @
               [(''Cache-Control'', ''no-store''), (''Pragma'', ''no-cache'')]\<rparr>
        else resp)
   }"

definition New_router :: "machine \<Rightarrow> handlers \<Rightarrow> http_req \<Rightarrow> handler" where
  "New_router e h = withLimits (serve_mux e (routes h))"

section \<open>relay.go and the icon\<close>

text \<open>The destination is fixed: only the query comes from the request.\<close>

definition relay_path :: "string \<Rightarrow> string" where
  "relay_path p =
     (let q = (if p = [] then ''/callback'' else p) in
      if prefix ''/'' q then q else ''/'' @ q)"

definition LoopbackRelayHandler :: "int \<Rightarrow> string \<Rightarrow> http_req \<Rightarrow> http_resp" where
  "LoopbackRelayHandler port p r =
     redirect (''http://127.0.0.1:'' @ print_int port @ path_escape (relay_path p) @
       (if rq_raw_query r = [] then [] else CHR ''?'' # rq_raw_query r))"

definition IconHandler :: "string \<Rightarrow> http_req \<Rightarrow> http_resp" where
  "IconHandler icon r =
     \<lparr>rs_status = 200,
      rs_headers = [(''Content-Type'', ''image/png''),
        (''Cache-Control'', ''public, max-age=86400, immutable'')],
      rs_body = TextBody icon\<rparr>"

section \<open>Dispatch\<close>

text \<open>A request reaches one mounted handler, or the router answers it alone.\<close>

lemma serve_mux_cases:
  assumes "run_state (serve_mux e rts r) w = (resp, w')"
  obtains t where "t \<in> set rts" "path_matches (rt_path t) (rq_path r)"
      "method_matches (rt_method t) (rq_method r)" "run_state (rt_handler t r) w = (resp, w')"
  | "w' = w"
  using assms
  by (auto simp: serve_mux_def Let_def dest!: find_SomeD split: if_splits option.splits)

lemma New_router_cases:
  assumes "run_state (New_router e h r) w = (resp, w')"
  obtains t resp' where "t \<in> set (routes h)" "path_matches (rt_path t) (rq_path r)"
      "method_matches (rt_method t) (rq_method r)" "run_state (rt_handler t (limited r)) w = (resp', w')"
  | "w' = w"
proof -
  from assms obtain resp' where "run_state (serve_mux e (routes h) (limited r)) w = (resp', w')"
    by (auto simp: New_router_def withLimits_def split: prod.splits)
  moreover have "rq_path (limited r) = rq_path r" "rq_method (limited r) = rq_method r"
    by (simp_all add: limited_def)
  ultimately show thesis using that by (metis serve_mux_cases)
qed

end
