(* ===== verification/Config.thy ===== *)
theory Config
  imports World Float64
begin

text \<open>
  \<open>internal/config\<close>: the configuration is read from the environment, a function from names to
  values where an unset name reads as the empty string, and checked once; the server starts on a
  valid one or not at all. The first sections hold what the code uses of \<open>strconv\<close>, \<open>time\<close> and
  \<open>encoding/base64\<close>.
\<close>

section \<open>Numbers\<close>

text \<open>\<open>strconv.Atoi\<close>: an optional sign, at least one digit, and the range of an \<open>int\<close>.\<close>

definition Atoi :: "string \<Rightarrow> int option" where
  "Atoi s =
     (let neg = (s \<noteq> [] \<and> hd s = CHR ''-'');
          ds = (if s \<noteq> [] \<and> hd s \<in> {CHR ''-'', CHR ''+''} then tl s else s) in
      if ds = [] \<or> \<not> list_all is_digit ds then None
      else let n = (if neg then - int (digits_val ds) else int (digits_val ds)) in
           if min64 \<le> n \<and> n \<le> max64 then Some n else None)"

section \<open>Durations\<close>

text \<open>
  \<open>time.ParseDuration\<close>: a sign, then numbers with a unit. The whole part of a number and the sum are
  checked against \<open>2 ^ 63\<close>, in unsigned 64 bit arithmetic that wraps; digits of a fraction beyond that bound are dropped; a fraction is scaled in
  \<open>float64\<close> and truncated.
\<close>

definition two63 :: int where "two63 = 2 ^ 63"

fun leadingInt :: "int \<Rightarrow> string \<Rightarrow> (int \<times> string) option" where
  "leadingInt x [] = Some (x, [])"
| "leadingInt x (c # s) =
     (if \<not> is_digit c then Some (x, c # s)
      else if two63 div 10 < x then None
      else let y = x * 10 + (of_char c - 48) in
           if two63 < y then None else leadingInt y s)"

fun leadingFraction :: "int \<Rightarrow> rat \<Rightarrow> bool \<Rightarrow> string \<Rightarrow> int \<times> rat \<times> string" where
  "leadingFraction x scale full [] = (x, scale, [])"
| "leadingFraction x scale full (c # s) =
     (if \<not> is_digit c then (x, scale, c # s)
      else if full \<or> (two63 - 1) div 10 < x then leadingFraction x scale True s
      else let y = x * 10 + (of_char c - 48) in
           if two63 < y then leadingFraction x scale True s
           else leadingFraction y (round53 (scale * 10)) False s)"

definition unit_of :: "string \<Rightarrow> int option" where
  "unit_of u = map_of
     [(''ns'', 1), (''us'', 1000), ([CHR 0xC2, CHR 0xB5, CHR ''s''], 1000),
      ([CHR 0xCE, CHR 0xBC, CHR ''s''], 1000), (''ms'', 1000000), (''s'', second), (''m'', minute),
      (''h'', hour)] u"

definition unit_char :: "char \<Rightarrow> bool" where
  "unit_char c \<longleftrightarrow> c \<noteq> CHR ''.'' \<and> \<not> is_digit c"

text \<open>One number with its unit, in nanoseconds, and the text behind it.\<close>

definition duration_item :: "string \<Rightarrow> (int \<times> string) option" where
  "duration_item s =
     (if s = [] \<or> \<not> (hd s = CHR ''.'' \<or> is_digit (hd s)) then None
      else Option.bind (leadingInt 0 s) (\<lambda>(v, s1).
        let pre = (length s1 \<noteq> length s);
            dot = (s1 \<noteq> [] \<and> hd s1 = CHR ''.'');
            (f, scale, s2) = (if dot then leadingFraction 0 1 False (tl s1) else (0, 1, s1));
            post = (dot \<and> length s2 \<noteq> length (tl s1));
            u = takeWhile unit_char s2 in
        if \<not> pre \<and> \<not> post then None
        else if u = [] then None
        else Option.bind (unit_of u) (\<lambda>unit.
          if two63 div unit < v then None
          else let n = v * unit +
                 (if 0 < f then \<lfloor>round53 (round53 (of_int f) * round53 (of_int unit / scale))\<rfloor> else 0) in
               if two63 < n then None else Some (n, dropWhile unit_char s2))))"

text \<open>Each item takes text, so the length bounds the number of items.\<close>

fun duration_items :: "nat \<Rightarrow> int \<Rightarrow> string \<Rightarrow> int option" where
  "duration_items n d [] = Some d"
| "duration_items 0 d (c # s) = None"
| "duration_items (Suc n) d (c # s) =
     Option.bind (duration_item (c # s)) (\<lambda>(v, r).
       let sum = (d + v) mod 2 ^ 64 in
       if two63 < sum then None else duration_items n sum r)"

definition ParseDuration :: "string \<Rightarrow> duration option" where
  "ParseDuration s =
     (let neg = (s \<noteq> [] \<and> hd s = CHR ''-'');
          r = (if s \<noteq> [] \<and> hd s \<in> {CHR ''-'', CHR ''+''} then tl s else s) in
      if r = ''0'' then Some 0
      else if r = [] then None
      else Option.bind (duration_items (length r) 0 r) (\<lambda>d.
        if neg then Some (- d) else if two63 - 1 < d then None else Some d))"

section \<open>The four alphabets of base64\<close>

definition b64_value :: "bool \<Rightarrow> char \<Rightarrow> nat option" where
  "b64_value url c =
     (if c = (if url then CHR ''-'' else CHR ''+'') then Some 62
      else if c = (if url then CHR ''_'' else CHR ''/'') then Some 63
      else if c \<in> {CHR ''-'', CHR ''_''} then None
      else b64_val c)"

text \<open>With padding the characters come in fours, the last of which may end in one or two \<^verbatim>\<open>=\<close>.\<close>

definition unpad :: "string \<Rightarrow> string option" where
  "unpad s =
     (if length s mod 4 \<noteq> 0 then None
      else if take 2 (rev s) = ''=='' then Some (take (length s - 2) s)
      else if take 1 (rev s) = ''='' then Some (take (length s - 1) s)
      else Some s)"

definition DecodeString :: "bool \<Rightarrow> bool \<Rightarrow> string \<Rightarrow> string option" where
  "DecodeString url padded s =
     (let t = filter (\<lambda>c. \<not> is_newline c) s in
      Option.bind (if padded then unpad t else Some t) (\<lambda>body.
      Option.bind (those (map (b64_value url) body)) b64_groups))"

section \<open>Names and defaults\<close>

definition EnvPublicURL :: string where "EnvPublicURL = ''PUBLIC_URL''"
definition EnvListenAddr :: string where "EnvListenAddr = ''LISTEN_ADDR''"
definition EnvDBPath :: string where "EnvDBPath = ''DB_PATH''"
definition EnvTokenCipherKey :: string where "EnvTokenCipherKey = ''TOKEN_CIPHER_KEY''"
definition EnvJWTSigningKey :: string where "EnvJWTSigningKey = ''JWT_SIGNING_KEY''"
definition EnvMetaAppID :: string where "EnvMetaAppID = ''META_APP_ID''"
definition EnvMetaAppSecret :: string where "EnvMetaAppSecret = ''META_APP_SECRET''"
definition EnvMetaGraphVersion :: string where "EnvMetaGraphVersion = ''META_GRAPH_VERSION''"
definition EnvMetaScopes :: string where "EnvMetaScopes = ''META_SCOPES''"
definition EnvAccessTokenTTL :: string where "EnvAccessTokenTTL = ''ACCESS_TOKEN_TTL''"
definition EnvRefreshTokenTTL :: string where "EnvRefreshTokenTTL = ''REFRESH_TOKEN_TTL''"
definition EnvLogFormat :: string where "EnvLogFormat = ''LOG_FORMAT''"
definition EnvAllowedMetaUserIDs :: string where "EnvAllowedMetaUserIDs = ''ALLOWED_META_USER_IDS''"
definition EnvRelayPort :: string where "EnvRelayPort = ''LOOPBACK_RELAY_PORT''"
definition EnvGraphBaseURL :: string where "EnvGraphBaseURL = ''META_GRAPH_BASE_URL''"
definition EnvDialogBaseURL :: string where "EnvDialogBaseURL = ''META_DIALOG_BASE_URL''"

definition defaultListenAddr :: string where "defaultListenAddr = '':8080''"
definition defaultDBPath :: string where "defaultDBPath = ''/data/metasocial.db''"
definition defaultGraphVersion :: string where "defaultGraphVersion = ''v26.0''"
definition defaultAccessTokenTTL :: duration where "defaultAccessTokenTTL = hour"
definition defaultRefreshTokenTTL :: duration where "defaultRefreshTokenTTL = 720 * hour"
definition defaultLogFormat :: string where "defaultLogFormat = ''json''"

definition DefaultMetaScopes :: string where
  "DefaultMetaScopes = ''pages_show_list,pages_read_engagement,pages_manage_posts,'' @
     ''pages_read_user_content,pages_manage_engagement,read_insights,instagram_basic,'' @
     ''instagram_manage_insights,instagram_content_publish,instagram_manage_comments,'' @
     ''business_management''"

definition cipherKeyLen :: nat where "cipherKeyLen = 32"
definition minSigningKeyLen :: nat where "minSigningKeyLen = 32"

section \<open>The configuration\<close>

text \<open>The map of allowed users is a set; the nil map of an empty list is the empty set.\<close>

record config =
  cf_public_url :: string
  cf_listen_addr :: string
  cf_db_path :: string
  cf_cipher_key :: string
  cf_signing_key :: string
  cf_app_id :: string
  cf_app_secret :: string
  cf_graph_version :: string
  cf_scopes :: string
  cf_access_ttl :: duration
  cf_refresh_ttl :: duration
  cf_log_format :: string
  cf_graph_base :: string
  cf_dialog_base :: string
  cf_relay_port :: int
  cf_allowed :: "string set"

datatype config_error =
    Missing string
  | Unreadable string
  | NotHTTPS string
  | NoHost
  | QueryOrFragment
  | NotBase64 string
  | WrongSize string nat nat
  | TooShort string nat nat
  | BadPort
  | BadDuration string
  | NotPositive string
  | BadLogFormat string
  | BadVersion string

type_synonym 'a checked = "config_error + 'a"
type_synonym environment = "string \<Rightarrow> string"

definition MCPResourceURL :: "config \<Rightarrow> string" where
  "MCPResourceURL c = cf_public_url c @ ''/mcp''"

definition MetaRedirectURI :: "config \<Rightarrow> string" where
  "MetaRedirectURI c = cf_public_url c @ ''/meta/callback''"

definition ResourceMetadataURL :: "config \<Rightarrow> string" where
  "ResourceMetadataURL c = cf_public_url c @ ''/.well-known/oauth-protected-resource''"

text \<open>The parts of a list separated by commas, trimmed, without the empty ones.\<close>

definition csv_parts :: "string \<Rightarrow> string list" where
  "csv_parts raw = filter (\<lambda>p. p \<noteq> []) (map trim_space (split_on (CHR '','') raw))"

definition ScopeList :: "config \<Rightarrow> string list" where
  "ScopeList c = csv_parts (cf_scopes c)"

definition parseCSVSet :: "string \<Rightarrow> string set" where
  "parseCSVSet raw = set (csv_parts raw)"

definition IsMetaUserAllowed :: "config \<Rightarrow> string \<Rightarrow> bool" where
  "IsMetaUserAllowed c user = (if cf_allowed c = {} then True else user \<in> cf_allowed c)"

section \<open>Reading one value\<close>

definition env :: "environment \<Rightarrow> string \<Rightarrow> string \<Rightarrow> string" where
  "env getenv name def =
     (let v = trim_space (getenv name) in if v \<noteq> [] then v else def)"

definition parsePublicURL :: "machine \<Rightarrow> string \<Rightarrow> string checked" where
  "parsePublicURL e value =
     (let trimmed = trim_space value; raw = trim_right_char (CHR ''/'') trimmed in
      if trimmed = [] then Inl (Missing EnvPublicURL)
      else case mc_url_parse e raw of
        None \<Rightarrow> Inl (Unreadable EnvPublicURL)
      | Some u \<Rightarrow>
          if u_scheme u \<noteq> ''https'' then Inl (NotHTTPS (u_scheme u))
          else if u_host u = [] then Inl NoHost
          else if u_raw_query u \<noteq> [] \<or> u_fragment u \<noteq> [] then Inl QueryOrFragment
          else Inr raw)"

fun first_some :: "'a option list \<Rightarrow> 'a option" where
  "first_some [] = None"
| "first_some (Some x # xs) = Some x"
| "first_some (None # xs) = first_some xs"

definition decodeBase64 :: "string \<Rightarrow> string option" where
  "decodeBase64 raw = first_some
     [DecodeString False True raw, DecodeString False False raw,
      DecodeString True True raw, DecodeString True False raw]"

definition decodeKey :: "environment \<Rightarrow> string \<Rightarrow> nat \<Rightarrow> bool \<Rightarrow> string checked" where
  "decodeKey getenv name n exact =
     (let raw = trim_space (getenv name) in
      if raw = [] then Inl (Missing name)
      else case decodeBase64 raw of
        None \<Rightarrow> Inl (NotBase64 name)
      | Some key \<Rightarrow>
          if exact \<and> length key \<noteq> n then Inl (WrongSize name n (length key))
          else if \<not> exact \<and> length key < n then Inl (TooShort name n (length key))
          else Inr key)"

definition parseDuration :: "environment \<Rightarrow> string \<Rightarrow> duration \<Rightarrow> duration checked" where
  "parseDuration getenv name def =
     (let raw = trim_space (getenv name) in
      if raw = [] then Inr def
      else case ParseDuration raw of
        None \<Rightarrow> Inl (BadDuration name)
      | Some d \<Rightarrow> if d \<le> 0 then Inl (NotPositive name) else Inr d)"

text \<open>The relay port, 0 when none is set.\<close>

definition relay_port :: "environment \<Rightarrow> int checked" where
  "relay_port getenv =
     (let raw = trim_space (getenv EnvRelayPort) in
      if raw = [] then Inr 0
      else case Atoi raw of
        None \<Rightarrow> Inl BadPort
      | Some port \<Rightarrow> if port < 1 \<or> 65535 < port then Inl BadPort else Inr port)"

section \<open>Load\<close>

text \<open>What is read without a check, before the rest.\<close>

definition raw_config :: "environment \<Rightarrow> config" where
  "raw_config getenv =
     \<lparr>cf_public_url = [],
      cf_listen_addr = env getenv EnvListenAddr defaultListenAddr,
      cf_db_path = env getenv EnvDBPath defaultDBPath,
      cf_cipher_key = [], cf_signing_key = [],
      cf_app_id = trim_space (getenv EnvMetaAppID),
      cf_app_secret = trim_space (getenv EnvMetaAppSecret),
      cf_graph_version = env getenv EnvMetaGraphVersion defaultGraphVersion,
      cf_scopes = env getenv EnvMetaScopes DefaultMetaScopes,
      cf_access_ttl = 0, cf_refresh_ttl = 0,
      cf_log_format = env getenv EnvLogFormat defaultLogFormat,
      cf_graph_base = trim_right_char (CHR ''/'') (getenv EnvGraphBaseURL),
      cf_dialog_base = trim_right_char (CHR ''/'') (getenv EnvDialogBaseURL),
      cf_relay_port = 0,
      cf_allowed = parseCSVSet (getenv EnvAllowedMetaUserIDs)\<rparr>"

fun and_then :: "'e + 'a \<Rightarrow> ('a \<Rightarrow> 'e + 'b) \<Rightarrow> 'e + 'b" where
  "and_then (Inl err) f = Inl err"
| "and_then (Inr x) f = f x"

lemma and_then_Inr: "and_then r f = Inr y \<longleftrightarrow> (\<exists>x. r = Inr x \<and> f x = Inr y)"
  by (cases r) auto

definition Load :: "machine \<Rightarrow> environment \<Rightarrow> config checked" where
  "Load e getenv =
     (let cfg = raw_config getenv in
      and_then (parsePublicURL e (getenv EnvPublicURL)) (\<lambda>publicURL.
      if cf_app_id cfg = [] then Inl (Missing EnvMetaAppID)
      else if cf_app_secret cfg = [] then Inl (Missing EnvMetaAppSecret)
      else
        and_then (decodeKey getenv EnvTokenCipherKey cipherKeyLen True) (\<lambda>cipherKey.
        and_then (decodeKey getenv EnvJWTSigningKey minSigningKeyLen False) (\<lambda>signingKey.
        and_then (relay_port getenv) (\<lambda>port.
        and_then (parseDuration getenv EnvAccessTokenTTL defaultAccessTokenTTL) (\<lambda>accessTTL.
        and_then (parseDuration getenv EnvRefreshTokenTTL defaultRefreshTokenTTL) (\<lambda>refreshTTL.
        if cf_log_format cfg \<notin> {''json'', ''text''} then Inl (BadLogFormat (cf_log_format cfg))
        else if \<not> prefix ''v'' (cf_graph_version cfg) then Inl (BadVersion (cf_graph_version cfg))
        else Inr (cfg\<lparr>cf_public_url := publicURL, cf_cipher_key := cipherKey,
          cf_signing_key := signingKey, cf_relay_port := port, cf_access_ttl := accessTTL,
          cf_refresh_ttl := refreshTTL\<rparr>))))))))"

section \<open>What the readers accept\<close>

lemma duration_items_nonneg: "0 \<le> d \<Longrightarrow> duration_items n d s = Some x \<Longrightarrow> 0 \<le> x"
proof (induction n d s rule: duration_items.induct)
  case (3 n d c s)
  then show ?case
    by (auto simp: Let_def bind_eq_Some_conv split: prod.splits if_splits)
qed auto

lemma ParseDuration_le: "ParseDuration s = Some d \<Longrightarrow> d \<le> max64"
  by (auto simp: ParseDuration_def Let_def two63_def max64_def bind_eq_Some_conv
      dest: duration_items_nonneg [rotated] split: if_splits)

lemma parseDuration_Inr:
  assumes "parseDuration getenv name def = Inr d" "0 < def" "def \<le> max64"
  shows "0 < d \<and> d \<le> max64"
  using assms by (auto simp: parseDuration_def Let_def dest: ParseDuration_le
      split: if_splits option.splits)

lemma trim_right_char_last: "trim_right_char c s \<noteq> [] \<Longrightarrow> last (trim_right_char c s) \<noteq> c"
  unfolding trim_right_char_def
  by (metis (mono_tags, lifting) hd_dropWhile last_rev rev_is_Nil_conv)

lemma parsePublicURL_Inr:
  "parsePublicURL e value = Inr url \<Longrightarrow>
   \<exists>u. mc_url_parse e url = Some u \<and> u_scheme u = ''https'' \<and> u_host u \<noteq> [] \<and>
     u_raw_query u = [] \<and> u_fragment u = [] \<and> (url \<noteq> [] \<longrightarrow> last url \<noteq> CHR ''/'')"
  by (auto simp: parsePublicURL_def Let_def trim_right_char_last split: option.splits if_splits)

lemma decodeKey_Inr:
  "decodeKey getenv name n exact = Inr key \<Longrightarrow>
   if exact then length key = n else n \<le> length key"
  by (auto simp: decodeKey_def Let_def split: option.splits if_splits)

lemma relay_port_Inr: "relay_port getenv = Inr port \<Longrightarrow> 0 \<le> port \<and> port \<le> 65535"
  by (auto simp: relay_port_def Let_def split: option.splits if_splits)

lemma allowed_listed:
  "IsMetaUserAllowed (raw_config getenv\<lparr>cf_public_url := a, cf_cipher_key := b, cf_signing_key := c,
     cf_relay_port := d, cf_access_ttl := g, cf_refresh_ttl := h\<rparr>) user \<longleftrightarrow>
   csv_parts (getenv EnvAllowedMetaUserIDs) = [] \<or>
   user \<in> set (csv_parts (getenv EnvAllowedMetaUserIDs))"
  by (simp add: IsMetaUserAllowed_def raw_config_def parseCSVSet_def)

lemmas Load_parts = parsePublicURL_Inr decodeKey_Inr relay_port_Inr parseDuration_Inr

end
