(* ===== verification/Program.thy ===== *)
theory Program
  imports Router McpServer Config
begin

text \<open>
  \<open>cmd/metasocial-mcp/main.go\<close>: how the program is put together from its configuration, and what
  it does while it runs. The database file, the signals and the network listener are outside: the
  store arrives opened, how the serving ends is left open, and \<open>/mcp\<close> is served by the MCP SDK,
  whose calls into the program are steps of their own.
\<close>

section \<open>Wiring\<close>

definition New_cipher :: "string \<Rightarrow> unit res" where
  "New_cipher key =
     (if length key \<noteq> 32 then Inl (Msg ''la cle de chiffrement doit faire 32 octets'') else Inr ())"

record program =
  pr_config :: config
  pr_auth :: options
  pr_login :: login_service
  pr_meta :: meta_handlers
  pr_service :: service

definition auth_options :: "config \<Rightarrow> options" where
  "auth_options cfg = default_login_path
     \<lparr>o_issuer = cf_public_url cfg, o_resource = MCPResourceURL cfg,
      o_signing_key = cf_signing_key cfg, o_login_path = ''/meta/login'',
      o_access_ttl = cf_access_ttl cfg, o_refresh_ttl = cf_refresh_ttl cfg\<rparr>"

definition graph_client :: "config \<Rightarrow> meta_client" where
  "graph_client cfg = NewClient
     \<lparr>gc_graph_base = cf_graph_base cfg, gc_dialog_base = cf_dialog_base cfg,
      gc_version = cf_graph_version cfg, gc_app_id = cf_app_id cfg,
      gc_app_secret = cf_app_secret cfg, gc_scopes = cf_scopes cfg, gc_retry_delay = 0\<rparr>"

definition wire :: "config \<Rightarrow> program" where
  "wire cfg =
     (let login = NewLoginService (graph_client cfg) (Some (IsMetaUserAllowed cfg)) in
      \<lparr>pr_config = cfg,
       pr_auth = auth_options cfg,
       pr_login = login,
       pr_meta = \<lparr>mh_login = login, mh_public_url = cf_public_url cfg,
         mh_redirect_uri = MetaRedirectURI cfg, mh_app_secret = cf_app_secret cfg\<rparr>,
       pr_service = NewService (graph_client cfg) (cf_public_url cfg) (ScopeList cfg)\<rparr>)"

definition relayHandler :: "config \<Rightarrow> (http_req \<Rightarrow> handler) option" where
  "relayHandler cfg =
     (if cf_relay_port cfg = 0 then None
      else Some (\<lambda>r. State_Monad.return (LoopbackRelayHandler (cf_relay_port cfg) ''/callback'' r)))"

text \<open>The mounted handlers; \<open>mcp\<close> is the endpoint the SDK serves, \<open>icon\<close> the embedded file.\<close>

definition mounted ::
  "machine \<Rightarrow> program \<Rightarrow> string \<Rightarrow> (http_req \<Rightarrow> handler) option \<Rightarrow> handlers" where
  "mounted e p icon mcp =
     \<lparr>hd_protected_resource_metadata =
        Some (\<lambda>r. State_Monad.return (ProtectedResourceMetadataHandler (pr_auth p) r)),
      hd_auth_server_metadata =
        Some (\<lambda>r. State_Monad.return (AuthServerMetadataHandler (pr_auth p) r)),
      hd_register = Some (RegisterHandler e),
      hd_authorize = Some (AuthorizeHandler e (pr_auth p)),
      hd_token = Some (TokenHandler e (pr_auth p)),
      hd_meta_login = Some (\<lambda>r. State_Monad.return (LoginHandler (pr_meta p) r)),
      hd_meta_callback = Some (CallbackHandler e (pr_meta p)),
      hd_meta_data_deletion = Some (DataDeletionHandler e (pr_meta p)),
      hd_meta_deauthorize = Some (\<lambda>r. State_Monad.return (DeauthorizeHandler r)),
      hd_privacy = Some (\<lambda>r. State_Monad.return (PrivacyHandler r)),
      hd_icon = Some (\<lambda>r. State_Monad.return (IconHandler icon r)),
      hd_mcp = mcp,
      hd_loopback_relay = relayHandler (pr_config p),
      hd_health = Some (Ping e)\<rparr>"

section \<open>Start\<close>

datatype start_error =
    BadConfig config_error
  | BadCipher go_error
  | NoStore go_error
  | NoPurge go_error

text \<open>
  \<open>run\<close> up to the listener. \<open>opened\<close> is what \<open>sqlite.New\<close> gave for the database file, whose tables
  are those of the world.
\<close>

definition start :: "machine \<Rightarrow> environment \<Rightarrow> unit res \<Rightarrow> (world, start_error + program) state" where
  "start e getenv opened =
     (case Load e getenv of
        Inl err \<Rightarrow> State_Monad.return (Inl (BadConfig err))
      | Inr cfg \<Rightarrow>
     (case New_cipher (cf_cipher_key cfg) of
        Inl err \<Rightarrow> State_Monad.return (Inl (BadCipher err))
      | Inr _ \<Rightarrow>
     (case opened of
        Inl err \<Rightarrow> State_Monad.return (Inl (NoStore err))
      | Inr _ \<Rightarrow> do {
          now \<leftarrow> clock_now e;
          purged \<leftarrow> PurgeExpired e now;
          State_Monad.return (case purged of
            Inl err \<Rightarrow> Inl (NoPurge err)
          | Inr _ \<Rightarrow> Inr (wire cfg))
        })))"

section \<open>The background loops\<close>

text \<open>
  One turn of \<open>purgeLoop\<close> and one of \<open>refreshLoop\<close>, which gives the tenants it warns of. The loops
  take the number of ticks that come before the context is cancelled.
\<close>

definition purge_turn :: "machine \<Rightarrow> (world, unit) state" where
  "purge_turn e = do {
     now \<leftarrow> clock_now e;
     _ \<leftarrow> PurgeExpired e now;
     State_Monad.return ()
   }"

definition refresh_turn :: "machine \<Rightarrow> program \<Rightarrow> (world, string list) state" where
  "refresh_turn e p = do {
     (report, err) \<leftarrow> RefreshExpiringTokens e (pr_login p) DefaultRefreshWindow;
     State_Monad.return (if err \<noteq> None \<or> rp_checked report = 0 then [] else rp_expired report)
   }"

fun each_tick :: "nat \<Rightarrow> (world, 'a) state \<Rightarrow> (world, unit) state" where
  "each_tick 0 turn = State_Monad.return ()"
| "each_tick (Suc n) turn = do { _ \<leftarrow> turn; each_tick n turn }"

definition purgeLoop :: "machine \<Rightarrow> nat \<Rightarrow> (world, unit) state" where
  "purgeLoop e ticks = each_tick ticks (purge_turn e)"

definition refreshLoop :: "machine \<Rightarrow> program \<Rightarrow> nat \<Rightarrow> (world, unit) state" where
  "refreshLoop e p ticks = do { _ \<leftarrow> refresh_turn e p; each_tick ticks (refresh_turn e p) }"

section \<open>The running server\<close>

text \<open>
  What the server does, one whole handler at a time: it answers a request, the SDK has a bearer
  token verified and calls a tool or reads a resource for the session it got, or a loop turns.
  The single connection of the store orders the statements of concurrent handlers; interleavings
  of their statements are the subject of theory \<open>StoreTrace\<close>.
\<close>

inductive server_step :: "machine \<Rightarrow> program \<Rightarrow> string \<Rightarrow> world \<Rightarrow> world \<Rightarrow> bool"
  for e :: machine and p :: program and icon :: string where
  request: "run_state (New_router e (mounted e p icon None) r) w = (resp, w') \<Longrightarrow>
    server_step e p icon w w'"
| bearer: "run_state (verifier (resolve_tenant e (pr_auth p)) token) w = (info, w') \<Longrightarrow>
    server_step e p icon w w'"
| tool: "run_state (call_tool e (pr_service p) session c) w = (out, w') \<Longrightarrow>
    server_step e p icon w w'"
| pages_resource: "run_state (readPages e session) w = (out, w') \<Longrightarrow> server_step e p icon w w'"
| connection_resource: "run_state (readConnection e (pr_service p) session) w = (out, w') \<Longrightarrow>
    server_step e p icon w w'"
| purge: "run_state (purge_turn e) w = (u, w') \<Longrightarrow> server_step e p icon w w'"
| refresh: "run_state (refresh_turn e p) w = (u, w') \<Longrightarrow> server_step e p icon w w'"

definition server_runs :: "machine \<Rightarrow> program \<Rightarrow> string \<Rightarrow> world \<Rightarrow> world \<Rightarrow> bool" where
  "server_runs e p icon = (server_step e p icon)\<^sup>*\<^sup>*"

inductive_cases server_stepE: "server_step e p icon w w'"

text \<open>
  The whole of \<open>run\<close>: it fails to start, or serves until the listener fails or a stop is asked for,
  after which the shutdown completes within \<open>shutdownGrace\<close> or does not. Which of these happens is up
  to the network and the signals.
\<close>

datatype run_error =
    StartFailed start_error
  | ListenFailed
  | ShutdownFailed

inductive run :: "machine \<Rightarrow> environment \<Rightarrow> unit res \<Rightarrow> string \<Rightarrow> world \<Rightarrow> run_error + unit \<Rightarrow> world \<Rightarrow> bool"
  for e :: machine and getenv :: environment and opened :: "unit res" and icon :: string and w0 :: world
  where
  not_started: "run_state (start e getenv opened) w0 = (Inl err, w) \<Longrightarrow>
    run e getenv opened icon w0 (Inl (StartFailed err)) w"
| listen: "run_state (start e getenv opened) w0 = (Inr p, w) \<Longrightarrow> server_runs e p icon w w' \<Longrightarrow>
    run e getenv opened icon w0 (Inl ListenFailed) w'"
| shutdown: "run_state (start e getenv opened) w0 = (Inr p, w) \<Longrightarrow> server_runs e p icon w w' \<Longrightarrow>
    res \<in> {Inr (), Inl ShutdownFailed} \<Longrightarrow> run e getenv opened icon w0 res w'"

text \<open>The exit status of \<open>main\<close>.\<close>

fun exit_status :: "run_error + unit \<Rightarrow> nat" where
  "exit_status (Inl err) = 1"
| "exit_status (Inr ()) = 0"

text \<open>The loops are made of these steps.\<close>

lemma each_tick_runs:
  "(\<And>v u v'. run_state turn v = (u, v') \<Longrightarrow> server_step e p icon v v') \<Longrightarrow>
   server_runs e p icon w (snd (run_state (each_tick n turn) w))"
proof (induction n arbitrary: w)
  case (Suc n)
  obtain u v where turn: "run_state turn w = (u, v)" by (cases "run_state turn w")
  from Suc.prems [OF turn] Suc.IH [of v, OF Suc.prems] show ?case
    by (simp add: turn server_runs_def converse_rtranclp_into_rtranclp)
qed (simp add: server_runs_def)

lemma loops_run:
  "server_runs e p icon w (snd (run_state (purgeLoop e n) w))"
  "server_runs e p icon w (snd (run_state (refreshLoop e p n) w))"
  using each_tick_runs [of "purge_turn e", OF server_step.purge]
    each_tick_runs [of "refresh_turn e p" e p icon w "Suc n", OF server_step.refresh]
  by (simp_all add: purgeLoop_def refreshLoop_def)

section \<open>What every step keeps\<close>

lemma keepsD: "state_io_rel (keeps I) m \<Longrightarrow> run_state m w = (r, w') \<Longrightarrow> I (db w) \<Longrightarrow> I (db w')"
  by (auto simp: state_io_rel_def keeps_def dest: spec [of _ w])

lemma keepsI: "(\<And>w r w'. run_state m w = (r, w') \<Longrightarrow> I (db w) \<Longrightarrow> I (db w')) \<Longrightarrow> state_io_rel (keeps I) m"
  by (rule state_io_relI) (auto simp: keeps_def)

lemma healthHandler_keeps: "state_io_rel (keeps I) (healthHandler (Some (Ping e)) r)"
  unfolding healthHandler_def option.case by (intro fke.rules io_intros)

text \<open>A predicate of the tables that every mounted handler, every tool and both loops keep is kept by
  any history of the server.\<close>

locale kept_by_server =
  fixes e :: machine and p :: program and icon :: string and I :: "database \<Rightarrow> bool"
  assumes handler_keeps:
      "t \<in> set (routes (mounted e p icon None)) \<Longrightarrow> state_io_rel (keeps I) (rt_handler t r)"
    and bearer_keeps: "state_io_rel (keeps I) (verifier (resolve_tenant e (pr_auth p)) token)"
    and tool_keeps: "state_io_rel (keeps I) (call_tool e (pr_service p) session c)"
    and pages_keeps: "state_io_rel (keeps I) (readPages e session)"
    and connection_keeps: "state_io_rel (keeps I) (readConnection e (pr_service p) session)"
    and purge_keeps: "state_io_rel (keeps I) (purge_turn e)"
    and refresh_keeps: "state_io_rel (keeps I) (refresh_turn e p)"
begin

lemma step_keeps:
  assumes "server_step e p icon w w'" "I (db w)"
  shows "I (db w')"
  using assms(1)
proof (cases rule: server_step.cases)
  case (request r resp)
  from request show ?thesis
  proof (cases rule: New_router_cases)
    case (1 t resp')
    from keepsD [OF handler_keeps [OF 1(1)] 1(4)] assms(2) show ?thesis by simp
  qed (use assms(2) in simp)
qed (use assms(2) in \<open>blast dest: keepsD [OF bearer_keeps] keepsD [OF tool_keeps] keepsD [OF pages_keeps]
      keepsD [OF connection_keeps] keepsD [OF purge_keeps] keepsD [OF refresh_keeps]\<close>)+

lemma runs_keep: "server_runs e p icon w w' \<Longrightarrow> I (db w) \<Longrightarrow> I (db w')"
  unfolding server_runs_def by (induction rule: rtranclp_induct) (auto dest: step_keeps)

end

end
