(* ===== verification/Ideal.thy ===== *)
theory Ideal
  imports Main
begin

text \<open>
  The abstract specification of the authorization service: who has an account, which codes are
  outstanding and which refresh tokens are live, and the only ways they change. Nothing of HTTP,
  SQL, hashing or time is left. The running server refines it (theory \<open>ServerFacts\<close>), so what holds
  of every reachable ideal state holds of the server's tables.
\<close>

text \<open>An account pairs a tenant with its Meta user; a credential belongs to a tenant and a client.\<close>

type_synonym credential = "string \<times> string \<times> string"

record ideal =
  id_accounts :: "(string \<times> string) set"
  id_codes :: "credential set"
  id_tokens :: "credential set"

definition of_tenant :: "string \<Rightarrow> credential \<Rightarrow> bool" where
  "of_tenant t c \<longleftrightarrow> fst (snd c) = t"

inductive ideal_step :: "(string \<Rightarrow> bool) \<Rightarrow> ideal \<Rightarrow> ideal \<Rightarrow> bool" for allow :: "string \<Rightarrow> bool" where
  open_account: "allow u \<Longrightarrow> \<forall>(t', u') \<in> id_accounts s. t' \<noteq> t \<and> u' \<noteq> u \<Longrightarrow>
    ideal_step allow s (s\<lparr>id_accounts := insert (t, u) (id_accounts s)\<rparr>)"
| issue_code: "(t, u) \<in> id_accounts s \<Longrightarrow>
    ideal_step allow s (s\<lparr>id_codes := insert (c, t, cl) (id_codes s)\<rparr>)"
| exchange: "(c, t, cl) \<in> id_codes s \<Longrightarrow>
    ideal_step allow s (s\<lparr>id_codes := id_codes s - {(c, t, cl)},
      id_tokens := insert (h, t, cl) (id_tokens s)\<rparr>)"
| rotate: "(h, t, cl) \<in> id_tokens s \<Longrightarrow>
    ideal_step allow s (s\<lparr>id_tokens := insert (h', t, cl) (id_tokens s - {(h, t, cl)})\<rparr>)"
| expire: "cs \<subseteq> id_codes s \<Longrightarrow> ks \<subseteq> id_tokens s \<Longrightarrow>
    ideal_step allow s (s\<lparr>id_codes := cs, id_tokens := ks\<rparr>)"
| close_account: "ideal_step allow s
    (s\<lparr>id_accounts := {a \<in> id_accounts s. fst a \<noteq> t},
       id_codes := {c \<in> id_codes s. \<not> of_tenant t c},
       id_tokens := {k \<in> id_tokens s. \<not> of_tenant t k}\<rparr>)"

definition ideal_runs :: "(string \<Rightarrow> bool) \<Rightarrow> ideal \<Rightarrow> ideal \<Rightarrow> bool" where
  "ideal_runs allow = (ideal_step allow)\<^sup>*\<^sup>*"

lemma ideal_runs_refl [simp]: "ideal_runs allow s s"
  by (simp add: ideal_runs_def)

lemma ideal_runs_trans: "ideal_runs allow s t \<Longrightarrow> ideal_runs allow t u \<Longrightarrow> ideal_runs allow s u"
  by (simp add: ideal_runs_def)

lemma ideal_runs_step: "ideal_step allow s t \<Longrightarrow> ideal_runs allow s t"
  by (simp add: ideal_runs_def)

text \<open>
  The invariant of the ideal service: tenants and admitted users correspond one to one, and every
  credential belongs to a tenant with an account.
\<close>

definition ideal_ok :: "(string \<Rightarrow> bool) \<Rightarrow> ideal \<Rightarrow> bool" where
  "ideal_ok allow s \<longleftrightarrow>
     (\<forall>(t, u) \<in> id_accounts s. allow u) \<and>
     inj_on fst (id_accounts s) \<and> inj_on snd (id_accounts s) \<and>
     (\<forall>c \<in> id_codes s \<union> id_tokens s. fst (snd c) \<in> fst ` id_accounts s)"

lemma ideal_ok_owner:
  "ideal_ok allow s \<Longrightarrow> (c, t, cl) \<in> id_codes s \<union> id_tokens s \<Longrightarrow> t \<in> fst ` id_accounts s"
  unfolding ideal_ok_def by (metis fst_conv snd_conv)

lemma closed_accounts: "fst ` {a \<in> A. fst a \<noteq> t} = fst ` A - {t}"
  by force

lemma ideal_step_ok: "ideal_step allow s s' \<Longrightarrow> ideal_ok allow s \<Longrightarrow> ideal_ok allow s'"
proof (induction rule: ideal_step.induct)
  case (open_account u s t)
  then show ?case by (auto simp: ideal_ok_def inj_on_def)
next
  case (issue_code t u s c cl)
  then have "t \<in> fst ` id_accounts s" by force
  with issue_code show ?case by (auto simp: ideal_ok_def)
next
  case (exchange c t cl s h)
  then have "t \<in> fst ` id_accounts s" by (auto dest: ideal_ok_owner)
  with exchange show ?case by (auto simp: ideal_ok_def)
next
  case (rotate h t cl s h')
  then have "t \<in> fst ` id_accounts s" by (auto dest: ideal_ok_owner)
  with rotate show ?case by (auto simp: ideal_ok_def)
next
  case (expire cs s ks)
  then show ?case by (auto simp: ideal_ok_def)
next
  case (close_account s t)
  then show ?case
    by (simp add: ideal_ok_def closed_accounts of_tenant_def inj_on_def) blast
qed

lemma ideal_runs_ok: "ideal_runs allow s s' \<Longrightarrow> ideal_ok allow s \<Longrightarrow> ideal_ok allow s'"
  unfolding ideal_runs_def by (induction rule: rtranclp_induct) (auto dest: ideal_step_ok)

text \<open>Runs that only forget, and the combinations the server makes.\<close>

lemma ideal_expire:
  "id_accounts s' = id_accounts s \<Longrightarrow> id_codes s' \<subseteq> id_codes s \<Longrightarrow> id_tokens s' \<subseteq> id_tokens s \<Longrightarrow>
   ideal_runs allow s s'"
  using ideal_step.expire [of "id_codes s'" s "id_tokens s'" allow]
  by (cases s, cases s') (simp add: ideal_runs_step)

lemma ideal_exchange:
  assumes "(c, t, cl) \<in> id_codes s" "id_accounts s' = id_accounts s"
    and "id_codes s' \<subseteq> id_codes s - {(c, t, cl)}" "id_tokens s' \<subseteq> insert (h, t, cl) (id_tokens s)"
  shows "ideal_runs allow s s'"
  using assms
  by (auto intro!: ideal_runs_trans [OF ideal_runs_step [OF exchange [OF assms(1), of allow h]]]
      ideal_expire)

lemma ideal_rotate:
  assumes "(h, t, cl) \<in> id_tokens s" "id_accounts s' = id_accounts s"
    and "id_codes s' \<subseteq> id_codes s" "id_tokens s' \<subseteq> insert (h', t, cl) (id_tokens s - {(h, t, cl)})"
  shows "ideal_runs allow s s'"
  using assms
  by (auto intro!: ideal_runs_trans [OF ideal_runs_step [OF rotate [OF assms(1), of allow h']]]
      ideal_expire)

end
