(* ===== verification/ServerFacts.thy ===== *)
theory ServerFacts
  imports Program HandlersProps McpProps AuthProps Ideal
begin

text \<open>
  The running server refines the ideal authorization service of theory \<open>Ideal\<close>. \<open>ideal_of\<close> reads the
  ideal state off the tables; \<open>served\<close> says that it is reachable from a given one. One lemma per
  operation that writes shows that its effect is a run of the ideal service; the handlers, the
  tools and the loops follow from them.
\<close>

definition account_of :: "tenant_row \<Rightarrow> string \<times> string" where
  "account_of r = (tr_id r, tr_meta_user_id r)"

definition code_of :: "code_row \<Rightarrow> credential" where
  "code_of r = (co_code r, co_tenant_id r, co_client_id r)"

definition token_of :: "refresh_row \<Rightarrow> credential" where
  "token_of r = (rr_token_hash r, rr_tenant_id r, rr_client_id r)"

definition ideal_of :: "database \<Rightarrow> ideal" where
  "ideal_of d =
     \<lparr>id_accounts = account_of ` set (tenants d),
      id_codes = code_of ` set (oauth_codes d),
      id_tokens = token_of ` {r \<in> set (oauth_refresh_tokens d). \<not> rr_revoked r}\<rparr>"

definition served :: "(string \<Rightarrow> bool) \<Rightarrow> ideal \<Rightarrow> database \<Rightarrow> bool" where
  "served allow s0 d \<longleftrightarrow> ideal_runs allow s0 (ideal_of d)"

lemma served_trans:
  "served allow s0 d \<Longrightarrow> ideal_runs allow (ideal_of d) (ideal_of d') \<Longrightarrow> served allow s0 d'"
  unfolding served_def by (rule ideal_runs_trans)

text \<open>The other tables are not part of the ideal state.\<close>

lemma served_others [simp]:
  "served allow s0 (d\<lparr>oauth_clients := cs\<rparr>) = served allow s0 d"
  "served allow s0 (d\<lparr>login_states := ls\<rparr>) = served allow s0 d"
  "served allow s0 (d\<lparr>pages := ps\<rparr>) = served allow s0 d"
  by (simp_all add: served_def ideal_of_def)

text \<open>Removing credentials.\<close>

lemma served_fewer:
  assumes "served allow s0 d" "tenants d' = tenants d"
    and "set (oauth_codes d') \<subseteq> set (oauth_codes d)"
    and "{r \<in> set (oauth_refresh_tokens d'). \<not> rr_revoked r} \<subseteq> set (oauth_refresh_tokens d)"
  shows "served allow s0 d'"
  using assms by (intro served_trans [OF assms(1)] ideal_expire) (auto simp: ideal_of_def)

lemma served_filter:
  "served allow s0 d \<Longrightarrow> served allow s0 (d\<lparr>oauth_codes := filter P (oauth_codes d)\<rparr>)"
  "served allow s0 d \<Longrightarrow> served allow s0 (d\<lparr>oauth_refresh_tokens := filter Q (oauth_refresh_tokens d)\<rparr>)"
  by (rule served_fewer; auto)+

lemma served_rotated: "served allow s0 d \<Longrightarrow> served allow s0 (rotated h now d)"
  by (rule served_fewer) (auto simp: rotated_def)

lemma served_drop_code: "served allow s0 d \<Longrightarrow> served allow s0 (drop_code code d)"
  by (rule served_fewer) (auto simp: drop_code_def)

section \<open>The authorization server\<close>

text \<open>An exchanged code, and a rotated token.\<close>

lemma served_exchange:
  assumes "served allow s0 d" "r \<in> set (oauth_codes d)"
  shows "served allow s0 (add_refresh (refresh_record e secret (co_client_id r) (co_tenant_id r) t)
    (drop_code (co_code r) d))"
  using assms
  by (intro served_trans [OF assms(1)] ideal_exchange [of "co_code r" "co_tenant_id r" "co_client_id r"
      _ _ "hashToken e secret"])
     (auto simp: ideal_of_def code_of_def token_of_def drop_code_def add_refresh_def refresh_record_def)

lemma served_rotate:
  assumes "served allow s0 d" "r \<in> set (oauth_refresh_tokens d)" "token_usable h now r"
    and unique: "distinct (map rr_token_hash (oauth_refresh_tokens d))"
  shows "served allow s0 (add_refresh (refresh_record e secret (rr_client_id r) (rr_tenant_id r) t)
    (rotated h now d))"
proof -
  have r: "rr_token_hash r = h" "\<not> rr_revoked r" "now < rr_expires_at r"
    using assms(3) by (auto simp: token_usable_def)
  have "rr_token_hash x \<noteq> h"
    if "x \<in> set (oauth_refresh_tokens d)" "\<not> rr_revoked x" "\<not> token_usable h now x" for x
  proof
    assume "rr_token_hash x = h"
    with unique that(1) assms(2) r(1) have "x = r" by (auto simp: distinct_map dest: inj_onD)
    with assms(3) that(3) show False by simp
  qed
  then have "{x \<in> set (oauth_refresh_tokens (rotated h now d)). \<not> rr_revoked x}
      \<subseteq> {x \<in> set (oauth_refresh_tokens d). \<not> rr_revoked x \<and> rr_token_hash x \<noteq> h}"
    by (auto simp: rotated_def split: if_splits)
  then have "id_tokens (ideal_of (rotated h now d)) \<subseteq> id_tokens (ideal_of d) - {token_of r}"
    using r(1) by (auto simp: ideal_of_def token_of_def)
  moreover have "token_of r \<in> id_tokens (ideal_of d)"
    using assms(2) r(2) by (simp add: ideal_of_def)
  ultimately show ?thesis
    using r(1)
    by (intro served_trans [OF assms(1)] ideal_rotate [of h "rr_tenant_id r" "rr_client_id r" _ _ "hashToken e secret"])
       (auto simp: ideal_of_def token_of_def add_refresh_def refresh_record_def rotated_def)
qed

lemma code_grant_served:
  assumes "run_state (grantAuthorizationCode e opts form) w = (resp, w')" "served allow s0 (db w)"
  shows "served allow s0 (db w')"
proof (cases "rs_status resp = 200")
  case True
  from grant_code_200 [OF assms(1) True] obtain r secret t where "r \<in> set (oauth_codes (db w))"
    and "db w' = add_refresh (refresh_record e secret (co_client_id r) (co_tenant_id r) t)
       (drop_code (co_code r) (db w))" by metis
  with served_exchange [OF assms(2)] show ?thesis by simp
next
  case False
  from grant_code_refused [OF assms(1) False] assms(2) show ?thesis
    by (auto intro: served_drop_code)
qed

text \<open>What a refresh grant leaves behind, whatever it answers.\<close>

lemma refresh_grant_cases:
  assumes "run_state (grantRefreshToken e opts form) w = (resp, w')"
  defines "h \<equiv> hashToken e (values_get form ''refresh_token'')" and "now \<equiv> unix (mc_clock e (n_clock w))"
  shows "db w' = db w \<or> db w' = rotated h now (db w) \<or>
    (\<exists>r \<in> set (oauth_refresh_tokens (db w)). token_usable h now r \<and> (\<exists>secret t.
       db w' = add_refresh (refresh_record e secret (rr_client_id r) (rr_tenant_id r) t) (rotated h now (db w))))"
proof -
  let ?w0 = "w\<lparr>n_clock := Suc (n_clock w)\<rparr>"
  obtain c w1 where c: "run_state (RotateRefreshToken e h (mc_clock e (n_clock w))) ?w0 = (c, w1)"
    by (cases "run_state (RotateRefreshToken e h (mc_clock e (n_clock w))) ?w0")
  show ?thesis
  proof (cases c)
    case (Inl err)
    with RotateRefreshToken_Inl [OF c [unfolded Inl]] assms c show ?thesis
      by (auto simp: grantRefreshToken_def Let_def run_clock_now split: if_splits)
  next
    case (Inr rt)
    from c [unfolded Inr] obtain r where r: "r \<in> set (oauth_refresh_tokens (db w))" "token_usable h now r"
      and rt: "rt = scanToken r" and w1: "db w1 = rotated h now (db w)"
      by (auto simp: RotateRefreshToken_Inr rotated_def now_def dest: find_SomeD)
    have "db w' = db w \<or> db w' = db w1 \<or>
        run_state (issueTokens e opts (rr_tenant_id r) (rr_client_id r)) w1 = (resp, w')"
      using assms(1) c Inr rt
      by (auto simp: grantRefreshToken_def Let_def run_clock_now scanToken_def h_def split: if_splits)
    with issueTokens_result [of e opts "rr_tenant_id r" "rr_client_id r" w1 resp w'] r w1
    show ?thesis by metis
  qed
qed

lemma refresh_grant_served:
  assumes "run_state (grantRefreshToken e opts form) w = (resp, w')" "served allow s0 (db w)"
    and "distinct (map rr_token_hash (oauth_refresh_tokens (db w)))"
  shows "served allow s0 (db w')"
  using refresh_grant_cases [OF assms(1)] assms(2,3) by (auto intro: served_rotated served_rotate)

lemma TokenHandler_served:
  assumes "run_state (TokenHandler e opts r) w = (resp, w')" "served allow s0 (db w)" "db_ok (db w)"
  shows "served allow s0 (db w')"
proof -
  have "distinct (map rr_token_hash (oauth_refresh_tokens (db w)))"
    using assms(3) by (simp add: db_ok_def)
  with assms(1,2) show ?thesis
    by (auto simp: TokenHandler_def Let_def split: if_splits option.splits prod.splits
        dest: code_grant_served refresh_grant_served)
qed

lemma AuthorizeHandler_served:
  assumes "run_state (AuthorizeHandler e opts r) w = (resp, w')" "served allow s0 (db w)"
  shows "served allow s0 (db w')"
  using AuthorizeHandler_result [OF assms(1)] assms(2) by auto

lemma RegisterHandler_served:
  assumes "run_state (RegisterHandler e r) w = (resp, w')" "served allow s0 (db w)"
  shows "served allow s0 (db w')"
  using RegisterHandler_result [OF assms(1)] assms(2) by auto

section \<open>Logins, deletions and the sweep\<close>

lemma upsert_served:
  assumes "upsert_tenant r d = Some (u, d')" "allow (tr_meta_user_id r)" "served allow s0 d"
  shows "served allow s0 d'"
proof -
  consider "d' = d\<lparr>tenants := map (merge_tenant r) (tenants d)\<rparr>"
    | "d' = d\<lparr>tenants := tenants d @ [r]\<rparr>"
      "\<forall>x \<in> set (tenants d). tr_id x \<noteq> tr_id r \<and> tr_meta_user_id x \<noteq> tr_meta_user_id r"
    using assms(1) by (auto simp: upsert_tenant_def list_ex_iff split: if_splits)
  then show ?thesis
  proof cases
    case 1
    then have "ideal_of d' = ideal_of d"
      by (simp add: ideal_of_def account_of_def image_image)
    with assms(3) show ?thesis by (simp add: served_def)
  next
    case 2
    have "ideal_of d' = (ideal_of d)\<lparr>id_accounts :=
        insert (tr_id r, tr_meta_user_id r) (id_accounts (ideal_of d))\<rparr>"
      by (simp add: 2(1) ideal_of_def account_of_def)
    moreover have "ideal_step allow (ideal_of d) \<dots>"
      by (rule open_account) (use 2(2) assms(2) in \<open>auto simp: ideal_of_def account_of_def\<close>)
    ultimately have "ideal_runs allow (ideal_of d) (ideal_of d')" by (simp add: ideal_runs_step)
    then show ?thesis by (rule served_trans [OF assms(3)])
  qed
qed

lemma registered_served:
  assumes "registered e user token d res d'" "allow (mu_id user)" "served allow s0 d"
  shows "served allow s0 d'"
proof -
  from assms(1) obtain t enc d1 where t: "t_meta_user_id t = mu_id user"
    and up: "upsert_tenant (tenant_record t enc) d = Some ((), d1)"
    and d': "d' = d1 \<or> (\<exists>ps. d' = d1\<lparr>pages := ps\<rparr>)"
    unfolding registered_def by blast
  have "served allow s0 d1"
    using upsert_served [OF up] assms(2,3) t by (simp add: tenant_record_def)
  with d' show ?thesis by auto
qed

lemma Complete_served:
  assumes "run_state (Complete e s code uri) w = (res, w')" "served (lg_allow s) s0 (db w)"
  shows "served (lg_allow s) s0 (db w')"
proof (cases "db w' = db w")
  case False
  with Complete_admitted [OF assms(1)] obtain user :: meta_user and token
    where "lg_allow s (mu_id user)" "registered e user token (db w) res (db w')" by blast
  with assms(2) show ?thesis by (blast intro: registered_served)
qed (use assms(2) in simp)

lemma served_add_code:
  assumes "served allow s0 d" "row \<in> set (tenants d)" "co_tenant_id c = tr_id row"
  shows "served allow s0 (d\<lparr>oauth_codes := oauth_codes d @ [c]\<rparr>)"
proof (rule served_trans [OF assms(1)], rule ideal_runs_step)
  have "(tr_id row, tr_meta_user_id row) \<in> id_accounts (ideal_of d)"
    using assms(2) by (auto simp: ideal_of_def account_of_def)
  from issue_code [OF this, of allow "co_code c" "co_client_id c"] assms(3)
  show "ideal_step allow (ideal_of d) (ideal_of (d\<lparr>oauth_codes := oauth_codes d @ [c]\<rparr>))"
    by (simp add: ideal_of_def code_of_def)
qed

lemma finish_login_served:
  assumes "run_state (finish_login e req result) w = (resp, w')" "served allow s0 (db w)"
    and "tr_id row = lr_tenant_id result" "row \<in> set (tenants (db w))"
  shows "served allow s0 (db w')"
proof (cases "or_client_id req = []")
  case True
  with assms show ?thesis by (auto simp: finish_login_def)
next
  case False
  obtain t w1 where t: "run_state (IssueAuthCode e req (lr_tenant_id result)) w = (t, w1)"
    by (cases "run_state (IssueAuthCode e req (lr_tenant_id result)) w")
  with assms(1) False have "w' = w1" by (auto simp: finish_login_def)
  with IssueAuthCode_cases [OF t] assms(2) show ?thesis
    by (auto simp: code_for_def assms(3) [symmetric] intro: served_add_code [OF assms(2,4)])
qed

lemma CallbackHandler_served:
  assumes "run_state (CallbackHandler e h r) w = (resp, w')" "served (lg_allow (mh_login h)) s0 (db w)"
  shows "served (lg_allow (mh_login h)) s0 (db w')"
proof -
  let ?I = "served (lg_allow (mh_login h)) s0" and ?st = "values_get (Query r) ''state''"
    and ?code = "values_get (Query r) ''code''"
  obtain q w1 where q: "run_state (ConsumeState e ?st) w = (q, w1)"
    by (cases "run_state (ConsumeState e ?st) w")
  have w1: "?I (db w1)" using ConsumeState_cases [OF q] assms(2) by auto
  obtain c w2 where c: "run_state (Complete e (mh_login h) ?code (mh_redirect_uri h)) w1 = (c, w2)"
    by (cases "run_state (Complete e (mh_login h) ?code (mh_redirect_uri h)) w1")
  have w2: "?I (db w2)" by (rule Complete_served [OF c w1])
  have fin: "?I (db w')" if run: "run_state (finish_login e req result) w2 = (resp, w')"
    and res: "c = Inr result" for req result
  proof -
    from Complete_tenant [OF c [unfolded res]] obtain row where
      "row \<in> set (tenants (db w2))" "tr_id row = lr_tenant_id result" by blast
    with run w2 show ?thesis by (auto intro: finish_login_served)
  qed
  show ?thesis
    using assms q c w1 w2
    by (auto simp: CallbackHandler_def Let_def split: if_splits sum.splits dest: fin)
qed

lemma of_tenant_keys [simp]:
  "of_tenant t (code_of c) \<longleftrightarrow> co_tenant_id c = t" "of_tenant t (token_of k) \<longleftrightarrow> rr_tenant_id k = t"
  "fst (account_of x) = tr_id x"
  by (simp_all add: of_tenant_def code_of_def token_of_def account_of_def)

lemma DeleteTenant_served:
  assumes "run_state (DeleteTenant e tid) w = (Inr u, w')" "served allow s0 (db w)"
  shows "served allow s0 (db w')"
proof (rule served_trans [OF assms(2)], rule ideal_runs_step)
  have "ideal_of (db w') = (ideal_of (db w))
      \<lparr>id_accounts := {a \<in> id_accounts (ideal_of (db w)). fst a \<noteq> tid},
       id_codes := {c \<in> id_codes (ideal_of (db w)). \<not> of_tenant tid c},
       id_tokens := {k \<in> id_tokens (ideal_of (db w)). \<not> of_tenant tid k}\<rparr>"
    unfolding DeleteTenant_Inr [OF assms(1)]
    by (simp add: ideal_of_def, intro conjI; auto)
  then show "ideal_step allow (ideal_of (db w)) (ideal_of (db w'))" by (simp add: close_account)
qed

lemma DataDeletionHandler_served:
  assumes "run_state (DataDeletionHandler e h r) w = (resp, w')" "served allow s0 (db w)"
  shows "served allow s0 (db w')"
proof -
  have "served allow s0 (db w1)" if "run_state (DeleteByMetaUserID e mid) w = (q, w1)" for mid q w1
    using DeleteByMetaUserID_cases [OF that] assms(2) by (auto dest: DeleteTenant_served)
  with assms show ?thesis
    by (auto simp: DataDeletionHandler_def confirmationCode_def run_rand_read
        split: option.splits sum.splits if_splits prod.splits)
qed

lemma PurgeExpired_served: "state_io_rel (keeps (served allow s0)) (PurgeExpired e now)"
proof -
  have "state_io_rel (keeps (served allow s0)) (sql e (q n))"
    if "q \<in> set [purge_codes, purge_states, purge_tokens]" for q n
    by (rule sql_keeps)
       (use that in \<open>auto simp: purge_codes_def purge_states_def purge_tokens_def intro: served_filter\<close>)
  then show ?thesis
    unfolding PurgeExpired_def by (auto intro!: fke.io_bindE fke.io_ok fke.io_mapE)
qed

lemma renewed_accounts: "list_all2 (renewed due) xs ys \<Longrightarrow> map account_of ys = map account_of xs"
  by (induction xs ys rule: list_all2_induct) (auto dest: renewed_keys simp: account_of_def)

lemma swept_served:
  assumes "swept due d d'" "served allow s0 d"
  shows "served allow s0 d'"
proof -
  from assms(1) have all: "list_all2 (renewed due) (tenants d) (tenants d')"
    and d': "d' = d\<lparr>tenants := tenants d'\<rparr>" by (auto simp: swept_def)
  from renewed_accounts [OF all] have "account_of ` set (tenants d') = account_of ` set (tenants d)"
    by (metis list.set_map)
  moreover from d' obtain ts where "d' = d\<lparr>tenants := ts\<rparr>" ..
  ultimately have "ideal_of d' = ideal_of d" by (simp add: ideal_of_def)
  with assms(2) show ?thesis by (simp add: served_def)
qed

section \<open>The tools\<close>

lemma pages_stmts_served:
  "insert_page r d = Some (u, d') \<Longrightarrow> served allow s0 d \<Longrightarrow> served allow s0 d'"
  "delete_pages_of tid d = Some (u, d') \<Longrightarrow> served allow s0 d \<Longrightarrow> served allow s0 d'"
  "insert_state l d = Some (u, d') \<Longrightarrow> served allow s0 d \<Longrightarrow> served allow s0 d'"
  by (auto simp: stmt_defs split: if_splits)

lemma store_served [io_intros]:
  "state_io_rel (keeps (served allow s0)) (ReplacePages e i ps)"
  "state_io_rel (keeps (served allow s0)) (CreateLoginState e st)"
  unfolding method_defs
  by (intro keeps_rules; (erule pages_stmts_served)?; assumption)+

lemma connection_tools_served [io_intros]:
  "state_io_rel (keeps (served allow s0)) (syncPages e c tid token)"
  "state_io_rel (keeps (served allow s0)) (ReconnectURL e s tid)"
  "state_io_rel (keeps (served allow s0)) (attachReconnectLink e s tid c')"
  unfolding syncPages_def ReconnectURL_def attachReconnectLink_def Let_def
  by (intro fke.rules io_intros)+

lemma connection_tools_keep:
  "state_io_rel (keeps (served allow s0)) (Service_SyncPages e s tid)"
  "state_io_rel (keeps (served allow s0)) (ConnectionStatus e s tid)"
  "state_io_rel (keeps db_ok) (Service_SyncPages e s tid)"
  unfolding Service_SyncPages_def ConnectionStatus_def
  by (intro fke.rules io_intros)+

lemma run_tool_keeps:
  "(\<And>tid. state_io_rel (keeps I) (f tid)) \<Longrightarrow> state_io_rel (keeps I) (run_tool session f out)"
  unfolding run_tool_def by (intro fke.rules)

lemma call_tool_keeps:
  assumes "\<And>tid. state_io_rel (keeps I) (Service_SyncPages e s tid)"
    and "\<And>tid. state_io_rel (keeps I) (ReconnectURL e s tid)"
    and "\<And>tid. state_io_rel (keeps I) (ConnectionStatus e s tid)"
  shows "state_io_rel (keeps I) (call_tool e s session c)"
  by (cases c)
     (simp_all add: tool_defs run_tool_keeps assms tools_same_db [THEN same_db_keeps])

lemma readPages_keeps: "state_io_rel (keeps I) (readPages e session)"
  unfolding readPages_def by (intro fke.rules tools_same_db [THEN same_db_keeps])

lemma readConnection_keeps:
  "(\<And>tid. state_io_rel (keeps I) (ConnectionStatus e s tid)) \<Longrightarrow>
   state_io_rel (keeps I) (readConnection e s session)"
  unfolding readConnection_def by (intro fke.rules)

lemma verifier_keeps: "state_io_rel (keeps I) (verifier (resolve_tenant e opts) token)"
  unfolding verifier_def resolve_tenant_def VerifyAccessToken_def Let_def
  by (intro fke.rules io_intros)

section \<open>A step of the server\<close>

definition safe :: "(string \<Rightarrow> bool) \<Rightarrow> ideal \<Rightarrow> database \<Rightarrow> bool" where
  "safe allow s0 d \<longleftrightarrow> db_ok d \<and> served allow s0 d"

lemma safe_keeps:
  "state_io_rel (keeps db_ok) m \<Longrightarrow> state_io_rel (keeps (served allow s0)) m \<Longrightarrow>
   state_io_rel (keeps (safe allow s0)) m"
  by (simp add: state_io_rel_def keeps_def safe_def)

lemma handlers_served:
  "state_io_rel (keeps (served allow s0)) (RegisterHandler e r)"
  "state_io_rel (keeps (served allow s0)) (AuthorizeHandler e opts r)"
  "state_io_rel (keeps (served (lg_allow (mh_login h)) s0)) (CallbackHandler e h r)"
  "state_io_rel (keeps (served allow s0)) (DataDeletionHandler e h r)"
  by (rule keepsI, erule (1) RegisterHandler_served AuthorizeHandler_served
      CallbackHandler_served DataDeletionHandler_served)+

lemma TokenHandler_safe: "state_io_rel (keeps (safe allow s0)) (TokenHandler e opts r)"
proof (rule keepsI)
  fix w resp w'
  assume run: "run_state (TokenHandler e opts r) w = (resp, w')" and ok: "safe allow s0 (db w)"
  with keepsD [OF auth_keeps_db_ok(4) run] TokenHandler_served [OF run] show "safe allow s0 (db w')"
    by (simp add: safe_def)
qed

text \<open>The whitelist the wired program admits users by.\<close>

lemma wire_allow:
  "lg_allow (mh_login (pr_meta (wire cfg))) = IsMetaUserAllowed cfg"
  "lg_allow (pr_login (wire cfg)) = IsMetaUserAllowed cfg"
  by (simp_all add: wire_def NewLoginService_def Let_def)

lemma mounted_safe:
  assumes "t \<in> set (routes (mounted e (wire cfg) icon None))"
  shows "state_io_rel (keeps (safe (IsMetaUserAllowed cfg) s0)) (rt_handler t r)"
proof -
  note safe = safe_keeps [OF auth_keeps_db_ok(6) handlers_served(1)]
    safe_keeps [OF auth_keeps_db_ok(5) handlers_served(2)]
    TokenHandler_safe
    safe_keeps [OF meta_handlers_db_ok(2) handlers_served(3) [of "pr_meta (wire cfg)", unfolded wire_allow]]
    safe_keeps [OF meta_handlers_db_ok(4) handlers_served(4)]
    healthHandler_keeps fke.io_return
  show ?thesis
    using assms
    by (auto simp: routes_def mount_def mounted_def relayHandler_def safe split: if_splits)
qed

lemma loops_safe:
  "state_io_rel (keeps (safe allow s0)) (purge_turn e)"
  "state_io_rel (keeps (safe (IsMetaUserAllowed cfg) s0)) (refresh_turn e (wire cfg))"
proof -
  show "state_io_rel (keeps (safe allow s0)) (purge_turn e)"
    unfolding purge_turn_def
    by (intro fke.rules io_intros safe_keeps PurgeExpired_db_ok PurgeExpired_served)
  show "state_io_rel (keeps (safe (IsMetaUserAllowed cfg) s0)) (refresh_turn e (wire cfg))"
  proof (rule keepsI)
    fix w r w'
    assume run: "run_state (refresh_turn e (wire cfg)) w = (r, w')"
      and ok: "safe (IsMetaUserAllowed cfg) s0 (db w)"
    obtain rep stop where sweep:
      "run_state (RefreshExpiringTokens e (pr_login (wire cfg)) DefaultRefreshWindow) w = ((rep, stop), w')"
      using run by (auto simp: refresh_turn_def split: prod.splits)
    from keepsD [OF refresh_db_ok sweep] ok have "db_ok (db w')" by (simp add: safe_def)
    moreover have "served (IsMetaUserAllowed cfg) s0 (db w')"
      using refresh_swept [OF sweep] ok by (auto simp: safe_def intro: swept_served)
    ultimately show "safe (IsMetaUserAllowed cfg) s0 (db w')" by (simp add: safe_def)
  qed
qed

interpretation saf: kept_by_server e "wire cfg" icon "safe (IsMetaUserAllowed cfg) s0"
  for e cfg icon s0
proof
  fix session
  show "state_io_rel (keeps (safe (IsMetaUserAllowed cfg) s0))
      (call_tool e (pr_service (wire cfg)) session c)" for c
    by (intro call_tool_keeps safe_keeps connection_tools_keep connection_tools_served status_db_ok)
  show "state_io_rel (keeps (safe (IsMetaUserAllowed cfg) s0))
      (readConnection e (pr_service (wire cfg)) session)"
    by (intro readConnection_keeps safe_keeps connection_tools_keep status_db_ok)
qed (simp_all add: mounted_safe loops_safe verifier_keeps readPages_keeps)

end
