(* ===== verification/Provenance.thy ===== *)
theory Provenance
  imports ServerFacts StatusProps
begin

text \<open>
  Where an authorization code comes from. \<open>provenance\<close> says of the tables that every parked request of
  a client and every code carries a redirect URI registered for that client and a PKCE challenge;
  every step of the server keeps it. A parked request goes through its JSON text, in which invalid
  UTF-8 is replaced: the identifiers and URIs of a registered client are valid, so they come back as
  they were.
\<close>

definition bound_to :: "database \<Rightarrow> string \<Rightarrow> string \<Rightarrow> string \<Rightarrow> bool" where
  "bound_to d cid uri challenge \<longleftrightarrow> registered_uri d cid uri \<and> challenge \<noteq> []"

definition parked_ok :: "database \<Rightarrow> login_row \<Rightarrow> bool" where
  "parked_ok d l \<longleftrightarrow> (\<forall>req. Option.bind (json_parse (lr_oauth_request l)) dec_request = Some req \<longrightarrow>
     or_client_id req \<noteq> [] \<longrightarrow>
     bound_to d (or_client_id req) (or_redirect_uri req) (or_code_challenge req))"

definition client_ok :: "client_row \<Rightarrow> bool" where
  "client_ok r \<longleftrightarrow> utf8_valid (cr_client_id r) \<and>
     (\<forall>uris. decode_strings (cr_redirect_uris r) = Some uris \<longrightarrow> list_all utf8_valid uris)"

definition code_ok :: "database \<Rightarrow> code_row \<Rightarrow> bool" where
  "code_ok d c \<longleftrightarrow> bound_to d (co_client_id c) (co_redirect_uri c) (co_code_challenge c)"

definition provenance :: "database \<Rightarrow> bool" where
  "provenance d \<longleftrightarrow> (\<forall>r \<in> set (oauth_clients d). client_ok r) \<and>
     (\<forall>l \<in> set (login_states d). parked_ok d l) \<and> (\<forall>c \<in> set (oauth_codes d). code_ok d c)"

section \<open>What an update needs\<close>

lemma bound_to_mono:
  "set (oauth_clients d) \<subseteq> set (oauth_clients d') \<Longrightarrow> bound_to d cid uri ch \<Longrightarrow> bound_to d' cid uri ch"
  by (auto simp: bound_to_def registered_uri_def list_ex_iff)

lemma bound_to_clients: "oauth_clients d' = oauth_clients d \<Longrightarrow> bound_to d' = bound_to d"
  by (intro ext) (simp add: bound_to_def registered_uri_def)

lemma rows_mono:
  assumes "set (oauth_clients d) \<subseteq> set (oauth_clients d')"
  shows "parked_ok d l \<Longrightarrow> parked_ok d' l" "code_ok d c \<Longrightarrow> code_ok d' c"
  using bound_to_mono [OF assms] by (auto simp: parked_ok_def code_ok_def)

lemma provenance_update:
  assumes "provenance d" "set (oauth_clients d) \<subseteq> set (oauth_clients d')"
    and "\<And>r. r \<in> set (oauth_clients d') - set (oauth_clients d) \<Longrightarrow> client_ok r"
    and "\<And>l. l \<in> set (login_states d') - set (login_states d) \<Longrightarrow> parked_ok d' l"
    and "\<And>c. c \<in> set (oauth_codes d') - set (oauth_codes d) \<Longrightarrow> code_ok d' c"
  shows "provenance d'"
  using assms rows_mono [OF assms(2)] unfolding provenance_def by blast

lemma provenance_fewer:
  assumes "provenance d" "oauth_clients d' = oauth_clients d"
    and "set (login_states d') \<subseteq> set (login_states d)" "set (oauth_codes d') \<subseteq> set (oauth_codes d)"
  shows "provenance d'"
  using assms by (intro provenance_update [OF assms(1)]) auto

lemma provenance_filter:
  "provenance d \<Longrightarrow> provenance (d\<lparr>oauth_codes := filter P (oauth_codes d)\<rparr>)"
  "provenance d \<Longrightarrow> provenance (d\<lparr>login_states := filter Q (login_states d)\<rparr>)"
  by (erule provenance_fewer; auto)+

lemma provenance_others [simp]:
  "provenance (d\<lparr>tenants := ts\<rparr>) = provenance d" "provenance (d\<lparr>pages := ps\<rparr>) = provenance d"
  "provenance (d\<lparr>oauth_refresh_tokens := ks\<rparr>) = provenance d"
  by (simp_all add: provenance_def parked_ok_def code_ok_def bound_to_def registered_uri_def)

section \<open>Registered addresses\<close>

lemma registered_valid:
  assumes "provenance d" "registered_uri d cid uri"
  shows "utf8_valid cid" "utf8_valid uri"
  using assms by (auto simp: provenance_def client_ok_def registered_uri_def list_ex_iff list_all_iff
      split: option.splits)

section \<open>The handlers\<close>

lemma RegisterHandler_provenance: "state_io_rel (keeps provenance) (RegisterHandler e r)"
proof (rule keepsI)
  fix w resp w'
  assume run: "run_state (RegisterHandler e r) w = (resp, w')" and ok: "provenance (db w)"
  consider "db w' = db w" | uris client where "\<exists>bs. c_id client = b64_encode bs"
      "db w' = (db w)\<lparr>oauth_clients := oauth_clients (db w) @
         [\<lparr>cr_client_id = c_id client, cr_client_name = c_name client,
           cr_redirect_uris = print_json (JArr (map JStr uris)),
           cr_created_at = unix (c_created_at (client :: oauth_client))\<rparr>]\<rparr>"
    using RegisterHandler_result [OF run] by blast
  then show "provenance (db w')"
  proof cases
    case 2
    then show ?thesis
      by (intro provenance_update [OF ok])
        (auto simp: client_ok_def utf8_valid_b64 reread_uris list_all_iff utf8_valid_to_utf8
          simp del: print_json.simps)
  qed (simp add: ok)
qed

lemma parked_row:
  assumes "lr_oauth_request row = print_json (request_json q)"
    and "or_client_id q \<noteq> [] \<Longrightarrow> bound_to d (to_utf8 (or_client_id q)) (to_utf8 (or_redirect_uri q))
      (or_code_challenge q)"
  shows "parked_ok d row"
  using assms by (auto simp: parked_ok_def reread_request bound_to_def simp del: print_json.simps)

lemma park_provenance:
  assumes "provenance d" "lr_oauth_request row = print_json (request_json q)"
    and "or_client_id q \<noteq> [] \<Longrightarrow> registered_uri d (or_client_id q) (or_redirect_uri q) \<and>
      or_code_challenge q \<noteq> []"
  shows "provenance (d\<lparr>login_states := login_states d @ [row]\<rparr>)"
proof (rule provenance_update [OF assms(1)])
  have "parked_ok (d\<lparr>login_states := login_states d @ [row]\<rparr>) row"
  proof (rule parked_row [OF assms(2)])
    assume "or_client_id q \<noteq> []"
    with assms(3) have reg: "registered_uri d (or_client_id q) (or_redirect_uri q)"
      and ch: "or_code_challenge q \<noteq> []" by auto
    have "bound_to (d\<lparr>login_states := login_states d @ [row]\<rparr>) = bound_to d"
      by (rule bound_to_clients) simp
    with registered_valid [OF assms(1) reg] reg ch
    show "bound_to (d\<lparr>login_states := login_states d @ [row]\<rparr>) (to_utf8 (or_client_id q))
        (to_utf8 (or_redirect_uri q)) (or_code_challenge q)"
      by (simp add: to_utf8_id) (simp add: bound_to_def)
  qed
  then show "parked_ok (d\<lparr>login_states := login_states d @ [row]\<rparr>) l"
    if "l \<in> set (login_states (d\<lparr>login_states := login_states d @ [row]\<rparr>)) - set (login_states d)" for l
    using that by auto
qed auto

lemma AuthorizeHandler_provenance: "state_io_rel (keeps provenance) (AuthorizeHandler e opts r)"
proof (rule keepsI)
  fix w resp w'
  assume run: "run_state (AuthorizeHandler e opts r) w = (resp, w')" and ok: "provenance (db w)"
  consider "db w' = db w" | row q where "lr_oauth_request row = print_json (request_json q)"
      "db w' = (db w)\<lparr>login_states := login_states (db w) @ [row]\<rparr>"
      "registered_uri (db w) (or_client_id q) (or_redirect_uri q)" "or_code_challenge q \<noteq> []"
    using AuthorizeHandler_result [OF run]
    by (elim disjE exE conjE; simp del: print_json.simps)
  then show "provenance (db w')"
    by cases (auto simp: ok intro: park_provenance [OF ok])
qed

lemma CallbackHandler_provenance: "state_io_rel (keeps provenance) (CallbackHandler e h r)"
proof (rule keepsI)
  fix w resp w'
  assume run: "run_state (CallbackHandler e h r) w = (resp, w')" and ok: "provenance (db w)"
  let ?st = "values_get (Query r) ''state''"
  obtain q w1 where q: "run_state (ConsumeState e ?st) w = (q, w1)"
    by (cases "run_state (ConsumeState e ?st) w")
  have w1: "provenance (db w1)"
    using ConsumeState_cases [OF q] by (auto intro: provenance_fewer [OF ok] simp: ok)
  have tail: "provenance (db w')"
    if run2: "run_state (do {
        done \<leftarrow> Complete e (mh_login h) (values_get (Query r) ''code'') (mh_redirect_uri h);
        (case done of Inl err \<Rightarrow> State_Monad.return (login_failed err)
                    | Inr result \<Rightarrow> finish_login e (ls_request parked) result)}) w1 = (resp, w')"
      and parked: "q = Inr parked" for parked
  proof -
    let ?req = "ls_request parked"
    obtain row where "row \<in> set (login_states (db w))"
      "Option.bind (json_parse (lr_oauth_request row)) dec_request = Some ?req"
      using ConsumeState_cases [OF q] parked by auto
    with ok have req: "or_client_id ?req \<noteq> [] \<Longrightarrow>
        bound_to (db w) (or_client_id ?req) (or_redirect_uri ?req) (or_code_challenge ?req)"
      by (auto simp: provenance_def parked_ok_def)
    have same: "oauth_clients (db w1) = oauth_clients (db w)"
      using ConsumeState_cases [OF q] by auto
    note fin = callback_tail [OF run2, unfolded login_finished_def]
    show ?thesis
    proof (rule provenance_update [OF w1])
      show "code_ok (db w') c" if "c \<in> set (oauth_codes (db w')) - set (oauth_codes (db w1))" for c
        using that fin req bound_to_clients [of "db w'" "db w"] same
        by (auto simp: code_ok_def code_for_def)
    qed (use fin in auto)
  qed
  show "provenance (db w')"
  proof (cases q)
    case (Inl err)
    with run q w1 ok show ?thesis by (auto simp: CallbackHandler_def Let_def split: if_splits)
  next
    case (Inr parked)
    with run q w1 ok tail [of parked] show ?thesis
      by (auto simp: CallbackHandler_def Let_def split: if_splits)
  qed
qed

text \<open>The grants and a deletion only remove codes and parked logins.\<close>

lemma grants_shrink:
  assumes "run_state (TokenHandler e opts r) w = (resp, w')"
  shows "oauth_clients (db w') = oauth_clients (db w) \<and> login_states (db w') = login_states (db w) \<and>
    set (oauth_codes (db w')) \<subseteq> set (oauth_codes (db w))"
proof -
  have code: ?thesis if run: "run_state (grantAuthorizationCode e opts form) w = (resp', w')" for form resp'
  proof (cases "rs_status resp' = 200")
    case True
    with run show ?thesis
      by (rule grant_code_200) (auto simp: add_refresh_def drop_code_def)
  next
    case False
    from grant_code_refused [OF run this] show ?thesis by (auto simp: drop_code_def)
  qed
  have refresh: ?thesis if "run_state (grantRefreshToken e opts form) w = (resp', w')" for form resp'
    using refresh_grant_cases [OF that] by (auto simp: add_refresh_def rotated_def)
  show ?thesis
    using assms
    by (auto simp: TokenHandler_def Let_def split: if_splits option.splits prod.splits
        dest: code refresh)
qed

lemma TokenHandler_provenance: "state_io_rel (keeps provenance) (TokenHandler e opts r)"
proof (rule keepsI)
  fix w resp w'
  assume run: "run_state (TokenHandler e opts r) w = (resp, w')" and ok: "provenance (db w)"
  from grants_shrink [OF run] show "provenance (db w')" by (intro provenance_fewer [OF ok]) auto
qed

lemma DataDeletionHandler_provenance: "state_io_rel (keeps provenance) (DataDeletionHandler e h r)"
proof (rule keepsI)
  fix w resp w'
  assume run: "run_state (DataDeletionHandler e h r) w = (resp, w')" and ok: "provenance (db w)"
  have "provenance (db w1)" if "run_state (DeleteByMetaUserID e mid) w = (q, w1)" for mid q w1
    using DeleteByMetaUserID_cases [OF that] ok
    by (auto dest!: DeleteTenant_Inr intro: provenance_fewer [OF ok])
  with run ok show "provenance (db w')"
    by (auto simp: DataDeletionHandler_def confirmationCode_def run_rand_read
        split: option.splits sum.splits if_splits prod.splits)
qed

section \<open>The tools and the loops\<close>

lemma ReconnectURL_provenance: "state_io_rel (keeps provenance) (ReconnectURL e s tid)"
proof (rule keepsI)
  fix w res w'
  assume run: "run_state (ReconnectURL e s tid) w = (res, w')" and ok: "provenance (db w)"
  show "provenance (db w')"
    using ReconnectURL_cases [OF run] ok
    by (auto simp: empty_request_def simp del: print_json.simps intro!: park_provenance [OF ok])
qed

lemma pages_stmts_provenance:
  "insert_page r d = Some (u, d') \<Longrightarrow> provenance d \<Longrightarrow> provenance d'"
  "delete_pages_of tid d = Some (u, d') \<Longrightarrow> provenance d \<Longrightarrow> provenance d'"
  by (auto simp: stmt_defs split: if_splits)

lemma ReplacePages_provenance: "state_io_rel (keeps provenance) (ReplacePages e i ps)"
  unfolding method_defs
  by (intro keeps_rules; (erule pages_stmts_provenance)?; assumption)

lemma connection_tools_provenance:
  "state_io_rel (keeps provenance) (Service_SyncPages e s tid)"
  "state_io_rel (keeps provenance) (ConnectionStatus e s tid)"
  unfolding Service_SyncPages_def ConnectionStatus_def syncPages_def attachReconnectLink_def Let_def
  by (intro fke.rules io_intros ReplacePages_provenance ReconnectURL_provenance)+

lemma PurgeExpired_provenance: "state_io_rel (keeps provenance) (PurgeExpired e now)"
proof -
  have "state_io_rel (keeps provenance) (sql e (q n))"
    if "q \<in> set [purge_codes, purge_states, purge_tokens]" for q n
    by (rule sql_keeps)
      (use that in \<open>auto simp: purge_codes_def purge_states_def purge_tokens_def intro: provenance_filter\<close>)
  then show ?thesis
    unfolding PurgeExpired_def by (auto intro!: fke.io_bindE fke.io_ok fke.io_mapE)
qed

text \<open>Together with the keys of the tables, which the sweep relies on.\<close>

definition traced :: "database \<Rightarrow> bool" where
  "traced d \<longleftrightarrow> db_ok d \<and> provenance d"

lemma traced_keeps:
  "state_io_rel (keeps db_ok) m \<Longrightarrow> state_io_rel (keeps provenance) m \<Longrightarrow> state_io_rel (keeps traced) m"
  by (simp add: state_io_rel_def keeps_def traced_def)

lemma loops_traced:
  "state_io_rel (keeps traced) (purge_turn e)"
  "state_io_rel (keeps traced) (refresh_turn e p)"
proof -
  show "state_io_rel (keeps traced) (purge_turn e)"
    unfolding purge_turn_def
    by (intro fke.rules io_intros traced_keeps PurgeExpired_db_ok PurgeExpired_provenance)
  show "state_io_rel (keeps traced) (refresh_turn e p)"
  proof (rule keepsI)
    fix w r w'
    assume run: "run_state (refresh_turn e p) w = (r, w')" and ok: "traced (db w)"
    then obtain rep stop where
      sweep: "run_state (RefreshExpiringTokens e (pr_login p) DefaultRefreshWindow) w = ((rep, stop), w')"
      by (auto simp: refresh_turn_def split: prod.splits)
    from keepsD [OF refresh_db_ok sweep] ok have "db_ok (db w')" by (simp add: traced_def)
    moreover from refresh_swept [OF sweep] ok obtain ts where "db w' = (db w)\<lparr>tenants := ts\<rparr>"
      by (auto simp: swept_def traced_def)
    ultimately show "traced (db w')" using ok by (simp add: traced_def)
  qed
qed

lemma mounted_traced:
  assumes "t \<in> set (routes (mounted e p icon None))"
  shows "state_io_rel (keeps traced) (rt_handler t r)"
proof -
  note handlers = traced_keeps [OF auth_keeps_db_ok(6) RegisterHandler_provenance]
    traced_keeps [OF auth_keeps_db_ok(5) AuthorizeHandler_provenance]
    traced_keeps [OF auth_keeps_db_ok(4) TokenHandler_provenance]
    traced_keeps [OF meta_handlers_db_ok(2) CallbackHandler_provenance]
    traced_keeps [OF meta_handlers_db_ok(4) DataDeletionHandler_provenance]
    healthHandler_keeps fke.io_return
  show ?thesis
    using assms by (auto simp: routes_def mount_def mounted_def relayHandler_def handlers split: if_splits)
qed

interpretation prov: kept_by_server e p icon traced for e p icon
proof
  fix session
  show "state_io_rel (keeps traced) (call_tool e (pr_service p) session c)" for c
    by (intro call_tool_keeps traced_keeps connection_tools_keep connection_tools_provenance
        ReconnectURL_provenance status_db_ok)
  show "state_io_rel (keeps traced) (readConnection e (pr_service p) session)"
    by (intro readConnection_keeps traced_keeps connection_tools_provenance status_db_ok)
qed (simp_all add: mounted_traced loops_traced verifier_keeps readPages_keeps)

end
