(* ===== verification/ServerProps.thy ===== *)
theory ServerProps
  imports Provenance
begin

text \<open>
  What the program guarantees as a whole: the configuration it starts on, the tables over any
  history of the running server, a login that ends in a working session, a deletion that ends it,
  and the router in front.
\<close>

section \<open>The configuration\<close>

text \<open>C38: the server only starts on a configuration it can serve. The public URL parses as https with
  a host, no query and no fragment, and ends in no slash; the cipher key has exactly 32 bytes, so
  the cipher accepts it, and the signing key at least 32; the application id and secret are set;
  both lifetimes are positive; the relay port is a port, or 0 for none; the whitelist admits
  exactly the listed users, or everyone when the list is empty.\<close>

theorem config_sound:
  assumes "Load e getenv = Inr cfg"
  shows "(\<exists>u. mc_url_parse e (cf_public_url cfg) = Some u \<and> u_scheme u = ''https'' \<and>
      u_host u \<noteq> [] \<and> u_raw_query u = [] \<and> u_fragment u = []) \<and>
    (cf_public_url cfg \<noteq> [] \<longrightarrow> last (cf_public_url cfg) \<noteq> CHR ''/'') \<and>
    length (cf_cipher_key cfg) = 32 \<and> New_cipher (cf_cipher_key cfg) = Inr () \<and>
    32 \<le> length (cf_signing_key cfg) \<and> cf_app_id cfg \<noteq> [] \<and> cf_app_secret cfg \<noteq> [] \<and>
    0 < cf_access_ttl cfg \<and> cf_access_ttl cfg \<le> max64 \<and>
    0 < cf_refresh_ttl cfg \<and> cf_refresh_ttl cfg \<le> max64 \<and>
    0 \<le> cf_relay_port cfg \<and> cf_relay_port cfg \<le> 65535 \<and>
    (\<forall>user. IsMetaUserAllowed cfg user \<longleftrightarrow>
       csv_parts (getenv EnvAllowedMetaUserIDs) = [] \<or>
       user \<in> set (csv_parts (getenv EnvAllowedMetaUserIDs)))"
proof -
  from assms obtain url ck sk port ta tr where
    url: "parsePublicURL e (getenv EnvPublicURL) = Inr url"
    and ck: "decodeKey getenv EnvTokenCipherKey cipherKeyLen True = Inr ck"
    and sk: "decodeKey getenv EnvJWTSigningKey minSigningKeyLen False = Inr sk"
    and port: "relay_port getenv = Inr port"
    and ta: "parseDuration getenv EnvAccessTokenTTL defaultAccessTokenTTL = Inr ta"
    and tr: "parseDuration getenv EnvRefreshTokenTTL defaultRefreshTokenTTL = Inr tr"
    and app: "cf_app_id (raw_config getenv) \<noteq> []" "cf_app_secret (raw_config getenv) \<noteq> []"
    and cfg: "cfg = raw_config getenv\<lparr>cf_public_url := url, cf_cipher_key := ck,
      cf_signing_key := sk, cf_relay_port := port, cf_access_ttl := ta, cf_refresh_ttl := tr\<rparr>"
    by (auto simp: Load_def Let_def and_then_Inr split: if_splits)
  have "0 < defaultAccessTokenTTL" "defaultAccessTokenTTL \<le> max64"
    "0 < defaultRefreshTokenTTL" "defaultRefreshTokenTTL \<le> max64" by code_simp+
  note ttl = parseDuration_Inr [OF ta this(1,2)] parseDuration_Inr [OF tr this(3,4)]
  have keys: "length ck = 32" "32 \<le> length sk"
    using decodeKey_Inr [OF ck] decodeKey_Inr [OF sk] by (simp_all add: cipherKeyLen_def minSigningKeyLen_def)
  show ?thesis
    using parsePublicURL_Inr [OF url] keys relay_port_Inr [OF port] ttl app
    unfolding cfg by (auto simp: allowed_listed New_cipher_def)
qed

lemma Load_cipher: "Load e getenv = Inr cfg \<Longrightarrow> New_cipher (cf_cipher_key cfg) = Inr ()"
  by (auto simp: Load_def Let_def and_then_Inr New_cipher_def cipherKeyLen_def
      dest!: decodeKey_Inr split: if_splits)

lemma Load_allowed:
  "Load e getenv = Inr cfg \<Longrightarrow> IsMetaUserAllowed cfg user \<longleftrightarrow>
     csv_parts (getenv EnvAllowedMetaUserIDs) = [] \<or>
     user \<in> set (csv_parts (getenv EnvAllowedMetaUserIDs))"
  by (auto simp: Load_def Let_def and_then_Inr allowed_listed split: if_splits)

text \<open>An environment the server starts on: two keys of 32 bytes, and one admitted user.\<close>

definition ex_key :: string where
  "ex_key = concat (replicate 10 ''QUFB'') @ ''QUE=''"

definition ex_env :: environment where
  "ex_env name =
     (if name = EnvPublicURL then ''https://s''
      else if name \<in> {EnvTokenCipherKey, EnvJWTSigningKey} then ex_key
      else if name = EnvMetaAppID then ''1''
      else if name = EnvMetaAppSecret then ''sec''
      else if name = EnvAllowedMetaUserIDs then ''u1''
      else [])"

definition ex_config :: config where
  "ex_config = projr (Load (ex_machine []) ex_env)"

lemma ex_load: "Load (ex_machine []) ex_env = Inr ex_config"
proof -
  have "isl (Load (ex_machine []) ex_env) = False" by code_simp
  then show ?thesis by (simp add: ex_config_def)
qed

theorem config_sound_witness: "length (cf_cipher_key ex_config) = 32 \<and> 0 < cf_access_ttl ex_config"
  using config_sound [OF ex_load] by simp

section \<open>The running server\<close>

lemma start_cases:
  assumes "run_state (start e getenv opened) w = (Inr p, w')"
  obtains cfg w1 where "Load e getenv = Inr cfg" "p = wire cfg"
    "run_state (PurgeExpired e (mc_clock e (n_clock w))) (w\<lparr>n_clock := Suc (n_clock w)\<rparr>) = (Inr (), w')"
  using assms
  by (auto simp: start_def run_clock_now split: sum.splits prod.splits)

lemma start_safe:
  assumes "run_state (start e getenv opened) w = (Inr p, w')" "safe allow s0 (db w)"
  shows "safe allow s0 (db w')"
proof -
  from assms(1) obtain now where purge:
    "run_state (PurgeExpired e now) (w\<lparr>n_clock := Suc (n_clock w)\<rparr>) = (Inr (), w')"
    by (rule start_cases)
  have "state_io_rel (keeps (safe allow s0)) (PurgeExpired e now)"
    by (intro safe_keeps PurgeExpired_db_ok PurgeExpired_served)
  from keepsD [OF this purge] assms(2) show ?thesis by simp
qed

lemma started_runs_safe:
  assumes "run_state (start e getenv opened) w0 = (Inr p, w)" "db_ok (db w0)"
    and "server_runs e p icon w w'"
  shows "safe (IsMetaUserAllowed (pr_config p)) (ideal_of (db w0)) (db w')"
proof -
  from assms(1) obtain cfg where p: "p = wire cfg" by (rule start_cases)
  have "pr_config p = cfg" by (simp add: p wire_def Let_def)
  moreover have "safe (IsMetaUserAllowed cfg) (ideal_of (db w0)) (db w0)"
    using assms(2) by (simp add: safe_def served_def)
  ultimately show ?thesis
    using start_safe [OF assms(1)] saf.runs_keep [of e cfg icon w w'] assms(3) by (simp add: p)
qed

text \<open>C1: the server refines the ideal authorization service. Once the program started on an
  environment, any history of the requests it answers, the tools it runs and the turns of its loops
  is, on the accounts, the outstanding codes and the live refresh tokens in its tables, a run of the
  abstract service: accounts are only opened for admitted users and close with all their
  credentials, a code is only issued for an account, a token only comes from exchanging a code or
  rotating a token of the same tenant and client, which is gone afterwards, and anything else only
  forgets credentials.\<close>

theorem server_refines_ideal:
  assumes "run_state (start e getenv opened) w0 = (Inr p, w)" "db_ok (db w0)"
    and "server_runs e p icon w w'"
  shows "ideal_runs (IsMetaUserAllowed (pr_config p)) (ideal_of (db w0)) (ideal_of (db w'))"
  using started_runs_safe [OF assms] by (simp add: safe_def served_def)

text \<open>The server started on that environment, with one user, one client and one code in its tables, and
  one request.\<close>

definition ex_start_db :: database where
  "ex_start_db = ex_db\<lparr>oauth_clients := [ex_client_row], oauth_codes := [ex_code_row]\<rparr>"

lemma ex_start_ok: "db_ok ex_start_db"
  using ex_db_ok by (simp add: db_ok_def ex_start_db_def)

definition ex_started :: "(start_error + program) \<times> world" where
  "ex_started = run_state (start (ex_machine []) ex_env (Inr ())) (ex_world ex_start_db)"

lemma ex_started_run:
  "run_state (start (ex_machine []) ex_env (Inr ())) (ex_world ex_start_db) =
     (Inr (wire ex_config), snd ex_started)"
proof -
  have "New_cipher (cf_cipher_key ex_config) = Inr ()" by (rule Load_cipher [OF ex_load])
  then have "fst ex_started = Inr (wire ex_config)"
    by (simp add: ex_started_def start_def ex_load run_simps PurgeExpired_def in_tx_def run_sql
        purge_codes_def purge_states_def purge_tokens_def)
  then show ?thesis by (metis ex_started_def prod.collapse)
qed

definition ex_icon_request :: http_req where
  "ex_icon_request = \<lparr>rq_method = ''GET'', rq_path = ''/icon.png'', rq_raw_query = [],
     rq_is_form = False, rq_body = [], rq_cut = False\<rparr>"

definition ex_served :: world where
  "ex_served = snd (run_state (New_router (ex_machine []) (mounted (ex_machine []) (wire ex_config) [] None)
     ex_icon_request) (snd ex_started))"

lemma ex_server_runs: "server_runs (ex_machine []) (wire ex_config) [] (snd ex_started) ex_served"
proof -
  have "server_step (ex_machine []) (wire ex_config) [] (snd ex_started) ex_served"
    unfolding ex_served_def by (rule server_step.request) (rule prod.collapse [symmetric])
  then show ?thesis by (auto simp: server_runs_def)
qed

theorem server_refines_ideal_witness:
  "ideal_runs (IsMetaUserAllowed ex_config) (ideal_of ex_start_db) (ideal_of (db ex_served))"
  using server_refines_ideal [OF ex_started_run _ ex_server_runs] ex_start_ok
  by (simp add: wire_def Let_def)

lemma ideal_ok_tables:
  assumes "ideal_ok allow (ideal_of d)"
  shows "(\<forall>t \<in> set (tenants d). allow (tr_meta_user_id t)) \<and>
    (\<forall>c \<in> set (oauth_codes d). co_tenant_id c \<in> tr_id ` set (tenants d)) \<and>
    (\<forall>k \<in> set (oauth_refresh_tokens d). \<not> rr_revoked k \<longrightarrow> rr_tenant_id k \<in> tr_id ` set (tenants d))"
proof -
  have ids: "fst ` id_accounts (ideal_of d) = tr_id ` set (tenants d)"
    by (simp add: ideal_of_def image_image)
  have "co_tenant_id c \<in> tr_id ` set (tenants d)" if "c \<in> set (oauth_codes d)" for c
    using ideal_ok_owner [OF assms, of "co_code c" "co_tenant_id c" "co_client_id c"] that ids
    by (auto simp: ideal_of_def code_of_def)
  moreover have "rr_tenant_id k \<in> tr_id ` set (tenants d)"
    if "k \<in> set (oauth_refresh_tokens d)" "\<not> rr_revoked k" for k
    using ideal_ok_owner [OF assms, of "rr_token_hash k" "rr_tenant_id k" "rr_client_id k"] that ids
    by (auto simp: ideal_of_def token_of_def)
  moreover have "allow (tr_meta_user_id t)" if "t \<in> set (tenants d)" for t
    using assms that by (auto simp: ideal_ok_def ideal_of_def account_of_def)
  ultimately show ?thesis by blast
qed

text \<open>C2: over the same histories, from an empty database or one that already satisfies it: the keys
  of every table are unique and every page belongs to a tenant; every tenant is of a Meta user the
  whitelist of the environment admits; and every authorization code and live refresh token belongs
  to a stored tenant.\<close>

theorem server_invariant:
  assumes "run_state (start e getenv opened) w0 = (Inr p, w)" "db_ok (db w0)"
    and "ideal_ok (IsMetaUserAllowed (pr_config p)) (ideal_of (db w0))"
    and "server_runs e p icon w w'"
  shows "db_ok (db w') \<and>
    (\<forall>t \<in> set (tenants (db w')). IsMetaUserAllowed (pr_config p) (tr_meta_user_id t)) \<and>
    (\<forall>c \<in> set (oauth_codes (db w')). co_tenant_id c \<in> tr_id ` set (tenants (db w'))) \<and>
    (\<forall>k \<in> set (oauth_refresh_tokens (db w')). \<not> rr_revoked k \<longrightarrow> rr_tenant_id k \<in> tr_id ` set (tenants (db w')))"
proof -
  note ok = started_runs_safe [OF assms(1,2,4)]
  then have "ideal_ok (IsMetaUserAllowed (pr_config p)) (ideal_of (db w'))"
    using ideal_runs_ok assms(3) by (auto simp: safe_def served_def)
  from ideal_ok_tables [OF this] ok show ?thesis by (simp add: safe_def)
qed

theorem server_invariant_witness:
  "db_ok (db ex_served) \<and> tr_meta_user_id ` set (tenants (db ex_served)) \<subseteq> {''u1''}"
proof -
  have only: "IsMetaUserAllowed ex_config user \<longleftrightarrow> user = ''u1''" for user
  proof -
    have "csv_parts (ex_env EnvAllowedMetaUserIDs) = [''u1'']" by code_simp
    with Load_allowed [OF ex_load] show ?thesis by simp
  qed
  have "db_ok (db (ex_world ex_start_db))" using ex_start_ok by simp
  moreover have "ideal_ok (IsMetaUserAllowed ex_config) (ideal_of (db (ex_world ex_start_db)))"
    using only by (simp add: ideal_ok_def ideal_of_def ex_start_db_def ex_defs ex_code_row_def
      account_of_def code_of_def)
  ultimately show ?thesis
    using server_invariant [OF ex_started_run _ _ ex_server_runs] only by (auto simp: wire_def Let_def)
qed

section \<open>Where codes come from\<close>

lemma started_runs_traced:
  assumes "run_state (start e getenv opened) w0 = (Inr p, w)" "traced (db w0)" "server_runs e p icon w w'"
  shows "traced (db w')"
proof -
  from assms(1) obtain now where purge:
    "run_state (PurgeExpired e now) (w0\<lparr>n_clock := Suc (n_clock w0)\<rparr>) = (Inr (), w)"
    by (rule start_cases)
  have "state_io_rel (keeps traced) (PurgeExpired e now)"
    by (intro traced_keeps PurgeExpired_db_ok PurgeExpired_provenance)
  from keepsD [OF this purge] assms(2) have "traced (db w)" by simp
  with prov.runs_keep [OF assms(3)] show ?thesis .
qed

text \<open>However the program ends, the tables it leaves in the file are sound; a program that stops
  cleanly was started on a configuration that passed every check.\<close>

lemma run_leaves_sound_tables:
  assumes "run e getenv opened icon w0 res w'" "traced (db w0)"
  shows "traced (db w')" and "exit_status res = 0 \<Longrightarrow> \<exists>cfg. Load e getenv = Inr cfg"
proof -
  show "traced (db w')"
    using assms(1)
  proof (cases rule: run.cases)
    case (not_started err)
    show ?thesis
    proof (cases "db w' = db w0")
      case False
      then obtain now err' where purge:
        "run_state (PurgeExpired e now) (w0\<lparr>n_clock := Suc (n_clock w0)\<rparr>) = (err', w')"
        using not_started(2)
        by (auto simp: start_def run_clock_now split: sum.splits prod.splits)
      have "state_io_rel (keeps traced) (PurgeExpired e now)"
        by (intro traced_keeps PurgeExpired_db_ok PurgeExpired_provenance)
      from keepsD [OF this purge] assms(2) show ?thesis by simp
    qed (use assms(2) in simp)
  qed (use started_runs_traced assms(2) in blast)+
  show "\<exists>cfg. Load e getenv = Inr cfg" if "exit_status res = 0"
    using assms(1)
  proof (cases rule: run.cases)
    case (shutdown p w)
    then show ?thesis by (auto simp: start_def split: sum.splits)
  qed (use that in auto)
qed

text \<open>C3: no code is ever issued for an address its client did not register. Over the same histories,
  from an empty database or one that already satisfies it, every authorization code in the tables
  is bound to a redirect URI registered for its client and to a PKCE challenge, and so is every
  parked request of a client, the reconnection links aside; the challenge is what an exchange is
  then checked against.\<close>

theorem codes_for_registered_uris:
  assumes "run_state (start e getenv opened) w0 = (Inr p, w)" "db_ok (db w0)" "provenance (db w0)"
    and "server_runs e p icon w w'"
  shows "(\<forall>c \<in> set (oauth_codes (db w')).
      registered_uri (db w') (co_client_id c) (co_redirect_uri c) \<and> co_code_challenge c \<noteq> []) \<and>
    (\<forall>l \<in> set (login_states (db w')). \<forall>req.
      Option.bind (json_parse (lr_oauth_request l)) dec_request = Some req \<longrightarrow> or_client_id req \<noteq> [] \<longrightarrow>
      registered_uri (db w') (or_client_id req) (or_redirect_uri req) \<and> or_code_challenge req \<noteq> [])"
proof -
  have "provenance (db w')"
    using started_runs_traced [OF assms(1) _ assms(4)] assms(2,3) by (simp add: traced_def)
  then show ?thesis
    unfolding provenance_def code_ok_def parked_ok_def bound_to_def by blast
qed

theorem codes_for_registered_uris_witness:
  "co_redirect_uri ` set (oauth_codes (db ex_served)) \<subseteq> {u. \<exists>cid. registered_uri (db ex_served) cid u}"
proof -
  have "db_ok (db (ex_world ex_start_db))" using ex_start_ok by simp
  moreover have "provenance (db (ex_world ex_start_db))"
  proof -
    have "decode_strings (cr_redirect_uris ex_client_row) = Some [''https://app/cb'']"
      "utf8_valid (cr_client_id ex_client_row)" "utf8_valid ''https://app/cb''"
      "ex_digest ex_verifier \<noteq> []"
      by (simp_all add: ex_client_row_def decode_strings_def json_reading ex_digest_def ex_verifier_def
          del: print_json.simps)
    then show ?thesis
      by (simp add: provenance_def ex_start_db_def ex_db_def empty_db_def client_ok_def code_ok_def
          bound_to_def registered_uri_def)
        (simp add: ex_client_row_def ex_code_row_def)
  qed
  ultimately show ?thesis using codes_for_registered_uris [OF ex_started_run _ _ ex_server_runs] by auto
qed

section \<open>A login ends in a session\<close>

lemma issueTokens_succeeds:
  assumes works: "\<And>n. \<not> mc_sql_fails e n" "\<And>n k. mc_rand e n k \<noteq> None"
    and fresh: "\<And>bs. mc_rand e (Suc (n_rand w)) 32 = Some bs \<Longrightarrow>
      hashToken e (b64_encode bs) \<notin> rr_token_hash ` set (oauth_refresh_tokens (db w))"
    and mint: "mintable opts tid cid (mc_clock e (n_clock w))" "hmac_ok e"
  shows "\<exists>access expiry expires secret w1 w'. run_state (issueTokens e opts tid cid) w =
      (writeJSON 200 (token_response access expires secret), w') \<and>
    run_state (MintAccessToken e opts tid cid) w = (Inr (access, expiry), w1) \<and>
    expiry = time_add (mc_clock e (n_clock w)) (o_access_ttl opts) \<and>
    (\<exists>k \<in> set (oauth_refresh_tokens (db w')). rr_token_hash k = hashToken e secret \<and>
       \<not> rr_revoked k \<and> rr_tenant_id k = tid \<and> rr_client_id k = cid)"
proof -
  obtain j where j: "mc_rand e (n_rand w) 32 = Some j" using works(2) by fastforce
  obtain bs where bs: "mc_rand e (Suc (n_rand w)) 32 = Some bs" using works(2) by fastforce
  obtain access expiry where m: "run_state (MintAccessToken e opts tid cid) w =
      (Inr (access, expiry), w\<lparr>n_rand := Suc (n_rand w), n_clock := Suc (n_clock w)\<rparr>)"
    and ex: "expiry = time_add (mc_clock e (n_clock w)) (o_access_ttl opts)"
    by (simp add: MintAccessToken_def run_bindE run_mapE run_randomSecret run_clock_now j Let_def)
  show ?thesis
    using fresh [OF bs] works(1)
    by (auto simp: issueTokens_def m ex run_randomSecret run_clock_now bs CreateRefreshToken_def
        run_mapE run_sql insert_token_def list_ex_iff image_iff Let_def)
qed

text \<open>C36: a well-formed exchange succeeds. When the presented code is stored and the request meets
  every check, the statements run, random bytes come and the new refresh token is not one already
  stored, the answer is a 200 with both tokens; the access token is accepted for the tenant of the
  code at any time before its lifetime has passed, and the refresh token is stored live for the
  same tenant and client.\<close>

theorem code_exchange_succeeds:
  assumes "find (\<lambda>r. co_code r = values_get form ''code'') (oauth_codes (db w)) = Some r"
    and "code_accepted e opts form (mc_clock e (n_clock w)) r" "values_get form ''client_id'' \<noteq> []"
    and "\<And>n. \<not> mc_sql_fails e n" "\<And>n k. mc_rand e n k \<noteq> None"
    and "\<And>bs. mc_rand e (Suc (n_rand w)) 32 = Some bs \<Longrightarrow>
      hashToken e (b64_encode bs) \<notin> rr_token_hash ` set (oauth_refresh_tokens (db w))"
    and "mintable opts (co_tenant_id r) (co_client_id r) (mc_clock e (Suc (n_clock w)))" "hmac_ok e"
  shows "\<exists>access expires secret w'. run_state (grantAuthorizationCode e opts form) w =
      (writeJSON 200 (token_response access expires secret), w') \<and>
    (\<forall>v. mc_clock e (n_clock v) <
         from_unix (unix (time_add (mc_clock e (Suc (n_clock w))) (o_access_ttl opts))) \<longrightarrow>
       (\<exists>c v'. run_state (VerifyAccessToken e opts access) v = (Inr c, v') \<and>
          TenantID c = co_tenant_id r \<and> cl_client_id c = co_client_id r)) \<and>
    (\<exists>k \<in> set (oauth_refresh_tokens (db w')). rr_token_hash k = hashToken e secret \<and>
       \<not> rr_revoked k \<and> rr_tenant_id k = co_tenant_id r \<and> rr_client_id k = co_client_id r)"
proof -
  let ?w1 = "w\<lparr>n_sql := Suc (n_sql w), db := drop_code (values_get form ''code'') (db w),
      n_clock := Suc (n_clock w)\<rparr>"
  have consumed: "run_state (ConsumeAuthCode e (values_get form ''code'')) w =
      (Inr (scanCode r), w\<lparr>n_sql := Suc (n_sql w), db := drop_code (values_get form ''code'') (db w)\<rparr>)"
    using assms(1,4) by (simp add: ConsumeAuthCode_Inr drop_code_def)
  have run: "run_state (grantAuthorizationCode e opts form) w =
      run_state (issueTokens e opts (co_tenant_id r) (co_client_id r)) ?w1"
    using assms(2,3) consumed
    by (auto simp: grantAuthorizationCode_def Let_def code_accepted_def run_clock_now scanCode_def
        minVerifierLen_def maxVerifierLen_def)
  have "\<exists>access expiry expires secret w2 w'.
      run_state (issueTokens e opts (co_tenant_id r) (co_client_id r)) ?w1 =
        (writeJSON 200 (token_response access expires secret), w') \<and>
      run_state (MintAccessToken e opts (co_tenant_id r) (co_client_id r)) ?w1 = (Inr (access, expiry), w2) \<and>
      expiry = time_add (mc_clock e (n_clock ?w1)) (o_access_ttl opts) \<and>
      (\<exists>k \<in> set (oauth_refresh_tokens (db w')). rr_token_hash k = hashToken e secret \<and>
         \<not> rr_revoked k \<and> rr_tenant_id k = co_tenant_id r \<and> rr_client_id k = co_client_id r)"
    by (rule issueTokens_succeeds) (use assms(4-8) in \<open>auto simp: drop_code_def\<close>)
  then obtain access expiry expires secret w2 w' where
    issued: "run_state (issueTokens e opts (co_tenant_id r) (co_client_id r)) ?w1 =
      (writeJSON 200 (token_response access expires secret), w')"
    and minted: "run_state (MintAccessToken e opts (co_tenant_id r) (co_client_id r)) ?w1 =
      (Inr (access, expiry), w2)"
    and expiry: "expiry = time_add (mc_clock e (n_clock ?w1)) (o_access_ttl opts)"
    and stored: "\<exists>k \<in> set (oauth_refresh_tokens (db w')). rr_token_hash k = hashToken e secret \<and>
       \<not> rr_revoked k \<and> rr_tenant_id k = co_tenant_id r \<and> rr_client_id k = co_client_id r" by blast
  from mint_genuine [OF minted] assms(7,8) obtain c where "genuine e opts access c"
    "cl_subject c = co_tenant_id r" "cl_client_id c = co_client_id r" "Expiry c = from_unix (unix expiry)"
    by auto
  then have "\<forall>v. mc_clock e (n_clock v) < from_unix (unix expiry) \<longrightarrow>
      (\<exists>c v'. run_state (VerifyAccessToken e opts access) v = (Inr c, v') \<and>
         TenantID c = co_tenant_id r \<and> cl_client_id c = co_client_id r)"
    by (auto simp: VerifyAccessToken_Inr TenantID_def)
  with run issued stored show ?thesis by (auto simp: expiry)
qed

theorem code_exchange_succeeds_witness:
  "\<exists>access expires secret w'. run_state (grantAuthorizationCode (ex_machine []) ex_opts ex_form)
      ex_auth_world = (writeJSON 200 (token_response access expires secret), w')"
proof -
  have found: "find (\<lambda>r. co_code r = values_get ex_form ''code'') (oauth_codes (db ex_auth_world)) = Some ex_code_row"
    by (simp add: ex_auth_world_def ex_code_row_def)
  have accepted: "code_accepted (ex_machine []) ex_opts ex_form
      (mc_clock (ex_machine []) (n_clock ex_auth_world)) ex_code_row"
    by (simp add: code_accepted_def ex_auth_world_def ex_code_row_def minVerifierLen_def
        maxVerifierLen_def verifyPKCE_def ex_verifier_length)
  have "mintable ex_opts (co_tenant_id ex_code_row) (co_client_id ex_code_row)
      (mc_clock (ex_machine []) (Suc (n_clock ex_auth_world)))"
    using ex_mintable [of 1] by (simp add: ex_auth_world_def ex_code_row_def)
  from code_exchange_succeeds [OF found accepted _ _ _ _ this ex_hmac_ok] show ?thesis
    by (auto simp: ex_auth_world_def ex_db_def empty_db_def)
qed

section \<open>A deletion ends it\<close>

lemma deleted_tenant_lookup:
  assumes "\<forall>t \<in> set (tenants (db v)). tr_id t \<noteq> tid" "run_state (TenantByID e tid) v = (res, v')"
  shows "isl res \<and> requests v' = requests v \<and> db v' = db v"
  using assms
  by (cases "find (\<lambda>r. tr_id r = tid) (tenants (db v))")
    (auto simp: TenantByID_def tenantBy_def run_bindE run_mapE run_sql select_first_def find_None_iff
      split: option.splits if_splits prod.splits sum.splits dest: find_SomeD)

lemma connection_tools_need_tenant:
  assumes "\<forall>t \<in> set (tenants (db v)). tr_id t \<noteq> tid"
  shows "requests (snd (run_state (Service_SyncPages e s tid) v)) = requests v"
    and "requests (snd (run_state (ConnectionStatus e s tid) v)) = requests v"
proof -
  obtain res v' where run: "run_state (TenantByID e tid) v = (res, v')" by (cases "run_state (TenantByID e tid) v")
  with deleted_tenant_lookup [OF assms run]
  show "requests (snd (run_state (Service_SyncPages e s tid) v)) = requests v"
    and "requests (snd (run_state (ConnectionStatus e s tid) v)) = requests v"
    by (auto simp: Service_SyncPages_def ConnectionStatus_def run_bindE isl_def)
qed

text \<open>C37: once Meta had a user's data deleted, the session that is left can do nothing. Whatever tool
  is called with a bearer token of the tenant, nothing is sent to Meta; and no authorization code or
  refresh token of the tenant remains to open another session.\<close>

theorem deleted_user_is_out:
  assumes "run_state (DeleteByMetaUserID e mid) w = (Inr u, w1)" "db_ok (db w)"
    and "row \<in> set (tenants (db w))" "tr_meta_user_id row = mid"
    and "ti_user_id info = tr_id row" "db v = db w1"
    and "run_state (call_tool e s (Some info) c) v = (res, v')"
  shows "requests v' = requests v \<and>
    (\<forall>x \<in> set (oauth_codes (db w1)). co_tenant_id x \<noteq> tr_id row) \<and>
    (\<forall>k \<in> set (oauth_refresh_tokens (db w1)). rr_tenant_id k \<noteq> tr_id row)"
proof -
  have found: "find (\<lambda>r. tr_meta_user_id r = mid) (tenants (db w)) = Some row"
  proof (cases "find (\<lambda>r. tr_meta_user_id r = mid) (tenants (db w))")
    case None
    with assms(3,4) show ?thesis by (auto simp: find_None_iff)
  next
    case (Some x)
    with find_SomeD [OF Some] assms(2-4) show ?thesis
      by (auto simp: db_ok_def distinct_map dest: inj_onD)
  qed
  from DeleteByMetaUserID_cases [OF assms(1)] assms(3,4) found
  have del: "run_state (DeleteTenant e (tr_id row)) (w\<lparr>n_sql := Suc (n_sql w)\<rparr>) = (Inr u, w1)"
    by (auto simp: list_ex_iff)
  note gone = DeleteTenant_Inr [OF del]
  have no_tenant: "\<forall>t \<in> set (tenants (db v)). tr_id t \<noteq> ti_user_id info"
    and no_pages: "\<forall>g \<in> set (pages (db v)). pg_tenant_id g \<noteq> ti_user_id info"
    using gone assms(5,6) by auto
  have "requests v' = requests v"
  proof (cases "about_pages c")
    case True
    from io_relD [OF call_tool_owner [OF True] assms(7)] no_pages show ?thesis
      by (auto simp: for_owner_def stored_page_def pages_of_def filter_empty_conv list_ex_iff)
  next
    case False
    from connection_tools_need_tenant [OF no_tenant] emits_none [OF ReconnectURL_emits] False
    have "requests (snd (run_state (call_tool e s (Some info) c) v)) = requests v"
      by (cases c) (simp_all add: tool_defs run_tool_state)
    with assms(7) show ?thesis by simp
  qed
  with gone show ?thesis by auto
qed

text \<open>The example user is deleted; a session of the tenant is left.\<close>

definition ex_deleted :: "unit res \<times> world" where
  "ex_deleted = run_state (DeleteByMetaUserID (ex_machine []) ''u1'') (ex_world ex_db)"

definition ex_session :: token_info where
  "ex_session = \<lparr>ti_user_id = ''t1'', ti_expiration = from_unix 1800000000\<rparr>"

lemma ex_deleted_run:
  "run_state (DeleteByMetaUserID (ex_machine []) ''u1'') (ex_world ex_db) = (Inr (), snd ex_deleted)"
proof -
  have "fst ex_deleted = Inr ()"
    by (simp add: ex_deleted_def DeleteByMetaUserID_def TenantByMetaUserID_def tenantBy_def
        select_first_def run_simps ex_db_def empty_db_def ex_scan_tenant ex_tenant_meta DeleteTenant_def
        in_tx_def delete_tokens_of_def delete_codes_of_def delete_pages_of_def delete_tenant_def)
  then show ?thesis by (metis ex_deleted_def prod.collapse)
qed

theorem deleted_user_is_out_witness:
  "requests (snd (run_state (call_tool (ex_machine []) ex_service (Some ex_session) CallSyncPages)
     (snd ex_deleted))) = requests (snd ex_deleted) \<and> oauth_codes (db (snd ex_deleted)) = []"
proof -
  have "db_ok (db (ex_world ex_db))" using ex_db_ok by simp
  moreover have "ex_tenant_row \<in> set (tenants (db (ex_world ex_db)))" by (simp add: ex_defs)
  moreover have "tr_meta_user_id ex_tenant_row = ''u1''" "ti_user_id ex_session = tr_id ex_tenant_row"
    by (simp_all add: ex_tenant_row_def ex_session_def)
  moreover have "oauth_codes (db (snd ex_deleted)) = []"
    using DeleteByMetaUserID_cases [OF ex_deleted_run] by (auto simp: ex_defs dest!: DeleteTenant_Inr)
  ultimately show ?thesis
    using deleted_user_is_out [OF ex_deleted_run _ _ _ _ refl prod.collapse [symmetric]] by simp
qed

section \<open>The router\<close>

lemma mounted_methods:
  "t \<in> set (routes (mounted e p icon mcp)) \<Longrightarrow>
   rt_method t \<in> {Some ''GET'', Some ''POST''} \<or> rt_path t = ''/mcp''"
  by (auto simp: routes_def mount_def mounted_def split: option.splits)

text \<open>C40: a request with another method than GET, HEAD and POST reaches no handler except the one of
  the MCP endpoint: the router answers it with a redirection, a 404 or a 405, without any CORS
  header, and nothing changes. So the answer to a CORS preflight that the OAuth handlers hold ready
  is never given.\<close>

theorem other_methods_refused:
  assumes "run_state (New_router e (mounted e p icon mcp) r) w = (resp, w')"
    and "rq_method r \<notin> {''GET'', ''HEAD'', ''POST''}" "\<not> path_matches ''/mcp'' (rq_path r)"
  shows "w' = w \<and> rs_status resp \<in> {307, 404, 405} \<and>
    map_of (rs_headers resp) ''Access-Control-Allow-Origin'' = None"
proof -
  let ?rts = "routes (mounted e p icon mcp)" and ?r = "limited r"
  have same: "rq_path ?r = rq_path r" "rq_method ?r = rq_method r" by (simp_all add: limited_def)
  have none: "find (\<lambda>t. path_matches (rt_path t) (rq_path r) \<and>
      method_matches (rt_method t) (rq_method r)) ?rts = None"
    unfolding find_None_iff using mounted_methods [of _ e p icon mcp] assms(2,3)
    by (fastforce simp: method_matches_def)
  obtain resp' where mux: "run_state (serve_mux e ?rts ?r) w = (resp', w')"
    and resp: "resp = resp' \<or> resp = resp'\<lparr>rs_headers := rs_headers resp' @
      [(''Cache-Control'', ''no-store''), (''Pragma'', ''no-cache'')]\<rparr>"
    using assms(1) by (auto simp: New_router_def withLimits_def split: prod.splits if_splits)
  have "w' = w \<and> rs_status resp' \<in> {307, 404, 405} \<and>
      map_of (rs_headers resp') ''Access-Control-Allow-Origin'' = None"
    using mux none
    by (auto simp: serve_mux_def same Let_def mux_redirect_def http_error_def with_headers_def
        split: if_splits)
  with resp show ?thesis by (auto simp: map_add_def)
qed

text \<open>A preflight of the token endpoint.\<close>

definition ex_preflight :: http_req where
  "ex_preflight = \<lparr>rq_method = ''OPTIONS'', rq_path = ''/oauth/token'', rq_raw_query = [],
     rq_is_form = False, rq_body = [], rq_cut = False\<rparr>"

theorem other_methods_refused_witness:
  "rs_status (fst (run_state (New_router (ex_machine []) (mounted (ex_machine []) (wire ex_config) [] None)
     ex_preflight) (ex_world ex_db)))
     \<in> {307, 404, 405}"
proof -
  have "\<not> path_matches ''/mcp'' (rq_path ex_preflight)" by code_simp
  from other_methods_refused [OF prod.collapse [symmetric] _ this] show ?thesis
    by (auto simp: ex_preflight_def)
qed

end
