(* ===== verification/Migrate.thy ===== *)
theory Migrate
  imports Example
begin

text \<open>
  \<open>internal/adapters/sqlite/db.go\<close>, the opening half of \<open>store.go\<close> and the two files of
  \<open>migrations/\<close>: how the database file is opened and brought to the schema the store works on.
  The disk here is seen from below: tables as column definitions with rows of cells, indexes, and
  the table of the migrations applied. A migration file is the list of its statements.
\<close>

section \<open>The disk\<close>

datatype cell = NullCell | IntCell int | TextCell string | BlobCell string
datatype cell_type = TextType | BlobType | IntType

record column_def =
  cd_name :: string
  cd_type :: cell_type
  cd_not_null :: bool
  cd_default :: cell

record table_def =
  td_columns :: "column_def list"
  td_key :: "string list"
  td_unique :: "string list"
  td_cascades :: "(string \<times> string) list"

record disk_table =
  tb_def :: table_def
  tb_rows :: "cell list list"

text \<open>\<open>dk_migrations\<close> is \<open>None\<close> while \<open>schema_migrations\<close> does not exist; its dates are left out.\<close>

record disk =
  dk_tables :: "(string \<times> disk_table) list"
  dk_indexes :: "(string \<times> string \<times> string) list"
  dk_migrations :: "string list option"

text \<open>A connection: the disk, the settings of the connection, and the statements so far.\<close>

record conn =
  cn_disk :: disk
  cn_pragmas :: "string list"
  cn_sql :: nat

type_synonym 'a dio = "(conn, 'a res) state"

definition disk_sql :: "machine \<Rightarrow> (disk \<Rightarrow> ('a \<times> disk) option) \<Rightarrow> 'a dio" where
  "disk_sql e f = State (\<lambda>w.
     let w' = w\<lparr>cn_sql := Suc (cn_sql w)\<rparr> in
     if mc_sql_fails e (cn_sql w) then (Inl ErrSql, w')
     else (case f (cn_disk w) of
             None \<Rightarrow> (Inl ErrSql, w')
           | Some (x, d) \<Rightarrow> (Inr x, w'\<lparr>cn_disk := d\<rparr>)))"

definition disk_tx :: "machine \<Rightarrow> string \<Rightarrow> 'a dio \<Rightarrow> 'a dio" where
  "disk_tx e what body = State (\<lambda>w.
     let w1 = w\<lparr>cn_sql := Suc (cn_sql w)\<rparr> in
     if mc_sql_fails e (cn_sql w) then (Inl (Wrap (''begin '' @ what) ErrSql), w1)
     else (case run_state body w1 of
             (Inl err, w2) \<Rightarrow> (Inl err, w2\<lparr>cn_disk := cn_disk w\<rparr>)
           | (Inr x, w2) \<Rightarrow>
               (let w3 = w2\<lparr>cn_sql := Suc (cn_sql w2)\<rparr> in
                if mc_sql_fails e (cn_sql w2)
                then (Inl (Wrap (''commit '' @ what) ErrSql), w3\<lparr>cn_disk := cn_disk w\<rparr>)
                else (Inr x, w3))))"

section \<open>The statements of a migration\<close>

datatype ddl =
    CreateTable string table_def
  | CreateIndex string string string
  | AddColumn string column_def

definition names_of :: "disk \<Rightarrow> string list" where
  "names_of d = ''schema_migrations'' # map fst (dk_tables d) @ map fst (dk_indexes d)"

definition has_column :: "disk_table \<Rightarrow> string \<Rightarrow> bool" where
  "has_column t c = (c \<in> set (map cd_name (td_columns (tb_def t))))"

text \<open>A new column takes its default in every row; it must have one when it is not null.\<close>

definition add_column :: "column_def \<Rightarrow> disk_table \<Rightarrow> disk_table" where
  "add_column c t = t\<lparr>tb_def := (tb_def t)\<lparr>td_columns := td_columns (tb_def t) @ [c]\<rparr>,
     tb_rows := map (\<lambda>r. r @ [cd_default c]) (tb_rows t)\<rparr>"

fun exec :: "ddl \<Rightarrow> disk \<Rightarrow> disk option" where
  "exec (CreateTable n def) d =
     (if n \<in> set (names_of d) then None
      else Some (d\<lparr>dk_tables := dk_tables d @ [(n, \<lparr>tb_def = def, tb_rows = []\<rparr>)]\<rparr>))"
| "exec (CreateIndex i n c) d =
     (if i \<in> set (names_of d) then None
      else case map_of (dk_tables d) n of
        None \<Rightarrow> None
      | Some t \<Rightarrow> if has_column t c then Some (d\<lparr>dk_indexes := dk_indexes d @ [(i, n, c)]\<rparr>) else None)"
| "exec (AddColumn n c) d =
     (case map_of (dk_tables d) n of
        None \<Rightarrow> None
      | Some t \<Rightarrow>
          if has_column t (cd_name c) \<or> cd_not_null c \<and> cd_default c = NullCell then None
          else Some (d\<lparr>dk_tables := map (\<lambda>(m, u). (m, if m = n then add_column c u else u))
                 (dk_tables d)\<rparr>))"

fun exec_body :: "ddl list \<Rightarrow> disk \<Rightarrow> disk option" where
  "exec_body [] d = Some d"
| "exec_body (s # ss) d = Option.bind (exec s d) (exec_body ss)"

section \<open>The migrations\<close>

definition col :: "string \<Rightarrow> cell_type \<Rightarrow> bool \<Rightarrow> column_def" where
  "col n ty not_null = \<lparr>cd_name = n, cd_type = ty, cd_not_null = not_null, cd_default = NullCell\<rparr>"

definition migration_0001 :: "ddl list" where
  "migration_0001 =
     [CreateTable ''tenants''
        \<lparr>td_columns = [col ''id'' TextType False, col ''meta_user_id'' TextType True,
           col ''display_name'' TextType True, col ''user_token_enc'' BlobType True,
           col ''created_at'' IntType True, col ''updated_at'' IntType True],
         td_key = [''id''], td_unique = [''meta_user_id''], td_cascades = []\<rparr>,
      CreateTable ''pages''
        \<lparr>td_columns = [col ''tenant_id'' TextType True, col ''page_id'' TextType True,
           col ''name'' TextType True, col ''ig_user_id'' TextType False,
           col ''ig_username'' TextType False, col ''page_token_enc'' BlobType True,
           col ''synced_at'' IntType True],
         td_key = [''tenant_id'', ''page_id''], td_unique = [],
         td_cascades = [(''tenant_id'', ''tenants'')]\<rparr>,
      CreateTable ''oauth_clients''
        \<lparr>td_columns = [col ''client_id'' TextType False, col ''client_name'' TextType False,
           col ''redirect_uris'' TextType True, col ''created_at'' IntType True],
         td_key = [''client_id''], td_unique = [], td_cascades = []\<rparr>,
      CreateTable ''oauth_codes''
        \<lparr>td_columns = [col ''code'' TextType False, col ''client_id'' TextType True,
           col ''tenant_id'' TextType True, col ''redirect_uri'' TextType True,
           col ''code_challenge'' TextType True, col ''resource'' TextType False,
           col ''expires_at'' IntType True],
         td_key = [''code''], td_unique = [], td_cascades = []\<rparr>,
      CreateIndex ''idx_oauth_codes_expires'' ''oauth_codes'' ''expires_at'',
      CreateTable ''oauth_refresh_tokens''
        \<lparr>td_columns = [col ''token_hash'' TextType False, col ''client_id'' TextType True,
           col ''tenant_id'' TextType True, col ''expires_at'' IntType True,
           (col ''revoked'' IntType True)\<lparr>cd_default := IntCell 0\<rparr>],
         td_key = [''token_hash''], td_unique = [], td_cascades = []\<rparr>,
      CreateIndex ''idx_oauth_refresh_tenant'' ''oauth_refresh_tokens'' ''tenant_id'',
      CreateIndex ''idx_oauth_refresh_expires'' ''oauth_refresh_tokens'' ''expires_at'',
      CreateTable ''login_states''
        \<lparr>td_columns = [col ''state'' TextType False, col ''oauth_request'' TextType True,
           col ''expires_at'' IntType True],
         td_key = [''state''], td_unique = [], td_cascades = []\<rparr>,
      CreateIndex ''idx_login_states_expires'' ''login_states'' ''expires_at'']"

definition migration_0002 :: "ddl list" where
  "migration_0002 =
     [AddColumn ''tenants''
        ((col ''user_token_expires_at'' IntType True)\<lparr>cd_default := IntCell 0\<rparr>),
      CreateIndex ''idx_tenants_token_expiry'' ''tenants'' ''user_token_expires_at'']"

type_synonym files = "(string \<times> ddl list) list"

text \<open>The embedded files, under their names.\<close>

definition migrations_FS :: files where
  "migrations_FS =
     [(''0001_init.sql'', migration_0001), (''0002_token_expiry.sql'', migration_0002)]"

section \<open>db.go\<close>

definition pragmas :: "string list" where
  "pragmas = [''PRAGMA journal_mode = WAL'', ''PRAGMA synchronous = NORMAL'',
     ''PRAGMA foreign_keys = ON'', ''PRAGMA busy_timeout = 5000'']"

definition set_pragma :: "machine \<Rightarrow> string \<Rightarrow> unit dio" where
  "set_pragma e p = bindE (mapE (Wrap (''apply '' @ p)) (disk_sql e (\<lambda>d. Some ((), d)))) (\<lambda>_.
     State (\<lambda>w. (Inr (), w\<lparr>cn_pragmas := cn_pragmas w @ [p]\<rparr>)))"

definition open_db :: "machine \<Rightarrow> unit dio" where
  "open_db e = bindE (map_stateE (set_pragma e) pragmas) (\<lambda>_. ok ())"

definition create_migrations_table :: "disk \<Rightarrow> (unit \<times> disk) option" where
  "create_migrations_table d =
     Some ((), if dk_migrations d = None then d\<lparr>dk_migrations := Some []\<rparr> else d)"

definition migrationApplied :: "machine \<Rightarrow> string \<Rightarrow> bool dio" where
  "migrationApplied e name =
     mapE (Wrap (''check migration '' @ name)) (disk_sql e (\<lambda>d.
       map_option (\<lambda>ns. (name \<in> set ns, d)) (dk_migrations d)))"

definition record_migration :: "string \<Rightarrow> disk \<Rightarrow> (unit \<times> disk) option" where
  "record_migration name d =
     (case dk_migrations d of
        None \<Rightarrow> None
      | Some ns \<Rightarrow>
          if name \<in> set ns then None else Some ((), d\<lparr>dk_migrations := Some (ns @ [name])\<rparr>))"

definition applyMigration :: "machine \<Rightarrow> string \<Rightarrow> ddl list \<Rightarrow> unit dio" where
  "applyMigration e name body =
     disk_tx e (''migration '' @ name)
       (bindE (mapE (Wrap (''apply migration '' @ name))
          (disk_sql e (\<lambda>d. map_option (Pair ()) (exec_body body d)))) (\<lambda>_.
        mapE (Wrap (''record migration '' @ name)) (disk_sql e (record_migration name))))"

fun migrate_each :: "machine \<Rightarrow> files \<Rightarrow> string list \<Rightarrow> unit dio" where
  "migrate_each e fs [] = ok ()"
| "migrate_each e fs (name # rest) =
     bindE (migrationApplied e name) (\<lambda>applied.
     if applied then migrate_each e fs rest
     else case map_of fs name of
       None \<Rightarrow> fail (Wrap (''read migration '' @ name) ErrNotFound)
     | Some body \<Rightarrow> bindE (applyMigration e name body) (\<lambda>_. migrate_each e fs rest))"

definition migrate :: "machine \<Rightarrow> files \<Rightarrow> unit dio" where
  "migrate e fs =
     bindE (mapE (Wrap ''create schema_migrations'') (disk_sql e create_migrations_table)) (\<lambda>_.
     migrate_each e fs (sort (map fst fs)))"

text \<open>\<open>made\<close> is what creating the directory of the file gave.\<close>

definition New_store :: "machine \<Rightarrow> unit res \<Rightarrow> unit dio" where
  "New_store e made =
     bindE (mapE (Wrap ''create db directory'') (from_res made)) (\<lambda>_.
     bindE (open_db e) (\<lambda>_. migrate e migrations_FS))"

section \<open>What a statement does not depend on\<close>

text \<open>The layout of a disk: its definitions and indexes, without rows and without the record of
  the migrations. A statement acts on the layout alone and keeps every row as the beginning of its
  row afterwards.\<close>

definition layout :: "disk \<Rightarrow> disk" where
  "layout d = d\<lparr>dk_tables := map (\<lambda>(n, t). (n, t\<lparr>tb_rows := []\<rparr>)) (dk_tables d), dk_migrations := None\<rparr>"

definition empty_disk :: disk where
  "empty_disk = \<lparr>dk_tables = [], dk_indexes = [], dk_migrations = None\<rparr>"

definition keeps_rows :: "disk \<Rightarrow> disk \<Rightarrow> bool" where
  "keeps_rows d d' \<longleftrightarrow> (\<forall>n t. map_of (dk_tables d) n = Some t \<longrightarrow>
     (\<exists>t'. map_of (dk_tables d') n = Some t' \<and> list_all2 prefix (tb_rows t) (tb_rows t')))"

lemma keeps_rows_refl [simp]: "keeps_rows d d"
  by (auto simp: keeps_rows_def list_all2_refl)

lemma keeps_rows_trans:
  assumes "keeps_rows a b" "keeps_rows b c"
  shows "keeps_rows a c"
  unfolding keeps_rows_def
proof (intro allI impI)
  fix n t
  assume "map_of (dk_tables a) n = Some t"
  with assms(1) obtain u where u: "map_of (dk_tables b) n = Some u" "list_all2 prefix (tb_rows t) (tb_rows u)"
    by (auto simp: keeps_rows_def)
  with assms(2) obtain v where "map_of (dk_tables c) n = Some v" "list_all2 prefix (tb_rows u) (tb_rows v)"
    by (auto simp: keeps_rows_def)
  moreover have "list_all2 prefix (tb_rows t) (tb_rows v)"
    by (rule list_all2_trans [OF _ u(2) calculation(2)]) (rule prefix_order.trans)
  ultimately show "\<exists>v. map_of (dk_tables c) n = Some v \<and> list_all2 prefix (tb_rows t) (tb_rows v)"
    by blast
qed

lemma names_of_layout [simp]: "names_of (layout d) = names_of d"
  by (simp add: names_of_def layout_def case_prod_beta comp_def)

lemma map_of_layout: "map_of (dk_tables (layout d)) n = map_option (\<lambda>t. t\<lparr>tb_rows := []\<rparr>) (map_of (dk_tables d) n)"
  by (simp add: layout_def map_of_map)

lemma has_column_layout [simp]: "has_column (t\<lparr>tb_rows := r\<rparr>) c = has_column t c"
  by (simp add: has_column_def)

lemma exec_layout: "exec s (layout d) = map_option layout (exec s d)"
proof (cases s)
  case (CreateTable n def)
  then show ?thesis by (auto simp: layout_def names_of_def case_prod_beta comp_def)
next
  case (CreateIndex i n c)
  then show ?thesis
    by (auto simp: map_of_layout split: option.splits) (auto simp: layout_def)
next
  case (AddColumn n c)
  then show ?thesis
    by (auto simp: map_of_layout split: option.splits)
      (cases d, auto simp: layout_def add_column_def comp_def case_prod_beta)+
qed

lemma exec_body_layout: "exec_body ss (layout d) = map_option layout (exec_body ss d)"
proof (induction ss arbitrary: d)
  case (Cons s ss)
  then show ?case by (cases "exec s d") (simp_all add: exec_layout)
qed simp

lemma map_of_table:
  "map_of (map (\<lambda>(m, u). (m, if m = n then f u else u)) ts) k =
     map_option (\<lambda>u. if k = n then f u else u) (map_of ts k)"
  by (induction ts) auto

lemma exec_rest: "exec s d = Some d' \<Longrightarrow> dk_migrations d' = dk_migrations d \<and> keeps_rows d d'"
proof (cases s)
  case (AddColumn n c)
  then show "exec s d = Some d' \<Longrightarrow> ?thesis"
    by (auto simp: keeps_rows_def map_of_table add_column_def list_all2_conv_all_nth
        split: option.splits if_splits)
qed (auto simp: keeps_rows_def list_all2_refl map_add_Some_iff split: option.splits if_splits)

lemma exec_body_rest:
  "exec_body ss d = Some d' \<Longrightarrow> dk_migrations d' = dk_migrations d \<and> keeps_rows d d'"
proof (induction ss arbitrary: d)
  case (Cons s ss)
  then show ?case
    by (auto simp: bind_eq_Some_conv dest!: exec_rest dest: keeps_rows_trans)
qed simp

section \<open>Versions\<close>

text \<open>
  A disk is at version \<open>k\<close> when the record names the first \<open>k\<close> files in their order and its layout is
  what their statements make of an empty disk.
\<close>

fun replay :: "files \<Rightarrow> string list \<Rightarrow> disk \<Rightarrow> disk option" where
  "replay fs [] d = Some d"
| "replay fs (n # ns) d =
     Option.bind (map_of fs n) (\<lambda>body. Option.bind (exec_body body d) (replay fs ns))"

definition applied_names :: "disk \<Rightarrow> string list" where
  "applied_names d = (case dk_migrations d of None \<Rightarrow> [] | Some ns \<Rightarrow> ns)"

definition at_version :: "files \<Rightarrow> nat \<Rightarrow> disk \<Rightarrow> bool" where
  "at_version fs k d \<longleftrightarrow> k \<le> length fs \<and> applied_names d = take k (sort (map fst fs)) \<and>
     replay fs (take k (sort (map fst fs))) empty_disk = Some (layout d)"

lemma replay_append:
  "replay fs (ns @ ms) d = Option.bind (replay fs ns d) (replay fs ms)"
proof (induction ns arbitrary: d)
  case (Cons n ns)
  then show ?case
    by (cases "map_of fs n"; simp) (metis Option.bind_assoc)
qed simp

text \<open>What one transaction does: nothing, or one version up.\<close>

lemma run_disk_sql [run_simps]:
  "run_state (disk_sql e f) w =
     (if mc_sql_fails e (cn_sql w) then (Inl ErrSql, w\<lparr>cn_sql := Suc (cn_sql w)\<rparr>)
      else (case f (cn_disk w) of
              None \<Rightarrow> (Inl ErrSql, w\<lparr>cn_sql := Suc (cn_sql w)\<rparr>)
            | Some (x, d) \<Rightarrow> (Inr x, w\<lparr>cn_sql := Suc (cn_sql w), cn_disk := d\<rparr>)))"
  by (simp add: disk_sql_def Let_def split: option.splits)

lemma migrationApplied_run:
  assumes "run_state (migrationApplied e name) w = (r, w')" "dk_migrations (cn_disk w) = Some ns"
  shows "cn_disk w' = cn_disk w" "r = Inr b \<Longrightarrow> b = (name \<in> set ns)"
    "(\<And>n. \<not> mc_sql_fails e n) \<Longrightarrow> r = Inr (name \<in> set ns)"
  using assms by (auto simp: migrationApplied_def run_mapE run_disk_sql split: if_splits)

lemma applyMigration_run:
  assumes "run_state (applyMigration e name body) w = (r, w')"
    and "dk_migrations (cn_disk w) = Some ns" "name \<notin> set ns" "exec_body body (cn_disk w) = Some d"
  shows "isl r \<and> cn_disk w' = cn_disk w \<or>
      r = Inr () \<and> cn_disk w' = d\<lparr>dk_migrations := Some (ns @ [name])\<rparr>"
    "(\<And>n. \<not> mc_sql_fails e n) \<Longrightarrow> r = Inr ()"
  using assms exec_body_rest [OF assms(4)]
  by (auto simp: applyMigration_def disk_tx_def run_bindE run_mapE run_disk_sql record_migration_def
      Let_def split: if_splits)

text \<open>
  Files that fit together: their names differ, and their statements run on an empty disk one after
  the other.
\<close>

locale migration_set =
  fixes fs :: files
  assumes distinct_names: "distinct (map fst fs)"
    and replays: "replay fs (sort (map fst fs)) empty_disk \<noteq> None"
begin

definition ns :: "string list" where "ns = sort (map fst fs)"

lemma ns_facts: "distinct ns" "length ns = length fs" "set ns = fst ` set fs"
  using distinct_names by (simp_all add: ns_def)

lemma next_version:
  assumes "at_version fs k d" "k < length fs" "dk_migrations d \<noteq> None"
  shows "\<exists>body d'. dk_migrations d = Some (take k ns) \<and> ns ! k \<notin> set (take k ns) \<and>
    map_of fs (ns ! k) = Some body \<and> exec_body body d = Some d' \<and>
    at_version fs (Suc k) (d'\<lparr>dk_migrations := Some (take k ns @ [ns ! k])\<rparr>) \<and> keeps_rows d d'"
proof -
  have k: "k < length ns" using assms(2) ns_facts by simp
  have rec: "dk_migrations d = Some (take k ns)"
    and lay: "replay fs (take k ns) empty_disk = Some (layout d)"
    using assms by (auto simp: at_version_def applied_names_def ns_def split: option.splits)
  have split: "ns = take k ns @ ns ! k # drop (Suc k) ns" using k by (simp add: id_take_nth_drop [symmetric])
  have "replay fs ns empty_disk \<noteq> None" using replays by (simp add: ns_def)
  then obtain body l where body: "map_of fs (ns ! k) = Some body" "exec_body body (layout d) = Some l"
    by (subst (asm) split) (auto simp: replay_append lay bind_eq_Some_conv)
  then obtain d' where d': "exec_body body d = Some d'" "l = layout d'"
    by (auto simp: exec_body_layout)
  have "ns ! k \<notin> set (take k ns)"
    using ns_facts(1) k by (auto simp: in_set_conv_nth nth_eq_iff_index_eq)
  moreover have "at_version fs (Suc k) (d'\<lparr>dk_migrations := Some (take k ns @ [ns ! k])\<rparr>)"
    using assms(2) k body d' lay
    by (simp add: at_version_def applied_names_def ns_def [symmetric] take_Suc_conv_app_nth replay_append)
      (simp add: layout_def)
  ultimately show ?thesis using rec body d' exec_body_rest [OF d'(1)] by blast
qed

lemma migrate_each_run:
  assumes "run_state (migrate_each e fs (drop i ns)) w = (r, w')"
    and "at_version fs k (cn_disk w)" "dk_migrations (cn_disk w) \<noteq> None" "i \<le> k"
  shows "(\<exists>j. k \<le> j \<and> at_version fs j (cn_disk w') \<and> (r = Inr () \<longrightarrow> j = length fs)) \<and>
    keeps_rows (cn_disk w) (cn_disk w') \<and> ((\<forall>n. \<not> mc_sql_fails e n) \<longrightarrow> r = Inr ())"
  using assms
proof (induction "length fs - i" arbitrary: i w k)
  case 0
  then show ?case using ns_facts(2) by (auto simp: at_version_def)
next
  case (Suc m)
  let ?name = "ns ! i"
  have i: "i < length ns" using Suc.hyps(2) ns_facts by simp
  then have rest: "drop i ns = ?name # drop (Suc i) ns" by (simp add: Cons_nth_drop_Suc)
  have rec: "dk_migrations (cn_disk w) = Some (take k ns)"
    using Suc.prems by (auto simp: at_version_def applied_names_def ns_def split: option.splits)
  obtain q w1 where q: "run_state (migrationApplied e ?name) w = (q, w1)"
    by (cases "run_state (migrationApplied e ?name) w")
  note ran = migrationApplied_run [OF q rec]
  have m: "m = length fs - Suc i" using Suc.hyps(2) by simp
  show ?case
  proof (cases q)
    case (Inl err)
    then show ?thesis using Suc.prems q ran by (auto simp: rest run_bindE)
  next
    case (Inr b)
    show ?thesis
    proof (cases "i < k")
      case True
      then have "?name \<in> set (take k ns)" using i by (auto simp: in_set_conv_nth)
      then have "run_state (migrate_each e fs (drop (Suc i) ns)) w1 = (r, w')"
        using Suc.prems(1) q Inr ran(2) by (simp add: rest run_bindE)
      from Suc.hyps(1) [OF m this, of k] True Suc.prems ran(1) show ?thesis by simp
    next
      case False
      then have ik: "i = k" using Suc.prems(4) by simp
      with i ns_facts have k: "k < length fs" by simp
      from next_version [OF Suc.prems(2) k Suc.prems(3)] ik obtain body d' where
        body: "?name \<notin> set (take k ns)" "map_of fs ?name = Some body"
        "exec_body body (cn_disk w) = Some d'" "keeps_rows (cn_disk w) d'"
        and up: "at_version fs (Suc k) (d'\<lparr>dk_migrations := Some (take k ns @ [?name])\<rparr>)" by blast
      obtain a w2 where a: "run_state (applyMigration e ?name body) w1 = (a, w2)"
        by (cases "run_state (applyMigration e ?name body) w1")
      note applied = applyMigration_run [OF a] ran(1) rec body
      have run: "run_state (migrate_each e fs (drop i ns)) w = (case a of Inl err \<Rightarrow> (Inl err, w2)
          | Inr _ \<Rightarrow> run_state (migrate_each e fs (drop (Suc i) ns)) w2)"
        using q Inr ran(2) body a by (simp add: rest run_bindE)
      show ?thesis
      proof (cases a)
        case (Inl err)
        then show ?thesis using Suc.prems run applied by auto
      next
        case (Inr u)
        with applied have d2: "cn_disk w2 = d'\<lparr>dk_migrations := Some (take k ns @ [?name])\<rparr>" by auto
        from Suc.hyps(1) [OF m, of w2 "Suc k"] Suc.prems(1) run Inr up d2 ik
        have "(\<exists>j. Suc k \<le> j \<and> at_version fs j (cn_disk w') \<and> (r = Inr () \<longrightarrow> j = length fs)) \<and>
          keeps_rows (cn_disk w2) (cn_disk w') \<and> ((\<forall>n. \<not> mc_sql_fails e n) \<longrightarrow> r = Inr ())" by simp
        moreover have "keeps_rows (cn_disk w) (cn_disk w2)" using body(4) d2 by (simp add: keeps_rows_def)
        ultimately show ?thesis by (auto dest: keeps_rows_trans Suc_leD)
      qed
    qed
  qed
qed

lemma migrate_run:
  assumes "run_state (migrate e fs) w = (r, w')" "at_version fs k (cn_disk w)"
  shows "(\<exists>j. k \<le> j \<and> at_version fs j (cn_disk w') \<and> (r = Inr () \<longrightarrow> j = length fs)) \<and>
    keeps_rows (cn_disk w) (cn_disk w') \<and> ((\<forall>n. \<not> mc_sql_fails e n) \<longrightarrow> r = Inr ())"
proof (cases "mc_sql_fails e (cn_sql w)")
  case True
  with assms show ?thesis by (auto simp: migrate_def run_bindE run_mapE run_disk_sql)
next
  case False
  define d where "d = (if dk_migrations (cn_disk w) = None
    then cn_disk w\<lparr>dk_migrations := Some []\<rparr> else cn_disk w)"
  define w1 where "w1 = w\<lparr>cn_sql := Suc (cn_sql w), cn_disk := d\<rparr>"
  have run: "run_state (migrate_each e fs (drop 0 ns)) w1 = (r, w')"
    using assms(1) False by (simp add: migrate_def run_bindE run_mapE run_disk_sql
        create_migrations_table_def ns_def d_def w1_def)
  have "at_version fs k (cn_disk w1)" "dk_migrations (cn_disk w1) \<noteq> None"
    "keeps_rows (cn_disk w) (cn_disk w1)"
    using assms(2) by (auto simp: at_version_def applied_names_def layout_def d_def w1_def
        keeps_rows_def list_all2_refl)
  with migrate_each_run [OF run] show ?thesis by (blast intro: keeps_rows_trans)
qed

end

interpretation embedded: migration_set migrations_FS
proof
  show "distinct (map fst migrations_FS)" by code_simp
  show "replay migrations_FS (sort (map fst migrations_FS)) empty_disk \<noteq> None" by code_simp
qed

section \<open>Opening the store\<close>

text \<open>The columns the statements of the store name.\<close>

definition store_columns :: "(string \<times> string list) list" where
  "store_columns =
     [(''tenants'', [''id'', ''meta_user_id'', ''display_name'', ''user_token_enc'', ''created_at'',
        ''updated_at'', ''user_token_expires_at'']),
      (''pages'', [''tenant_id'', ''page_id'', ''name'', ''ig_user_id'', ''ig_username'',
        ''page_token_enc'', ''synced_at'']),
      (''oauth_clients'', [''client_id'', ''client_name'', ''redirect_uris'', ''created_at'']),
      (''oauth_codes'', [''code'', ''client_id'', ''tenant_id'', ''redirect_uri'', ''code_challenge'',
        ''resource'', ''expires_at'']),
      (''oauth_refresh_tokens'', [''token_hash'', ''client_id'', ''tenant_id'', ''expires_at'',
        ''revoked'']),
      (''login_states'', [''state'', ''oauth_request'', ''expires_at''])]"

definition columns_of :: "disk \<Rightarrow> (string \<times> string list) list" where
  "columns_of d = map (\<lambda>(n, t). (n, map cd_name (td_columns (tb_def t)))) (dk_tables d)"

lemma columns_of_layout [simp]: "columns_of (layout d) = columns_of d"
  by (simp add: columns_of_def layout_def case_prod_beta comp_def)

lemma current_schema: "at_version migrations_FS 2 d \<Longrightarrow> columns_of d = store_columns"
proof -
  assume "at_version migrations_FS 2 d"
  moreover have "map_option columns_of
      (replay migrations_FS (take 2 (sort (map fst migrations_FS))) empty_disk) = Some store_columns"
    by code_simp
  ultimately show ?thesis by (simp add: at_version_def)
qed

lemma set_pragma_run:
  assumes "run_state (set_pragma e p) w = (r, w')"
  shows "cn_disk w' = cn_disk w \<and> (r = Inr () \<longrightarrow> cn_pragmas w' = cn_pragmas w @ [p]) \<and>
    ((\<forall>n. \<not> mc_sql_fails e n) \<longrightarrow> r = Inr ())"
  using assms by (auto simp: set_pragma_def run_bindE run_mapE run_disk_sql split: if_splits)

lemma set_pragmas_run:
  assumes "run_state (map_stateE (set_pragma e) ps) w = (r, w')"
  shows "cn_disk w' = cn_disk w \<and> (\<not> isl r \<longrightarrow> cn_pragmas w' = cn_pragmas w @ ps) \<and>
    ((\<forall>n. \<not> mc_sql_fails e n) \<longrightarrow> \<not> isl r)"
  using assms
proof (induction ps arbitrary: w r w')
  case (Cons p ps)
  obtain q w1 where q: "run_state (set_pragma e p) w = (q, w1)" by (cases "run_state (set_pragma e p) w")
  obtain q2 w2 where q2: "run_state (map_stateE (set_pragma e) ps) w1 = (q2, w2)"
    by (cases "run_state (map_stateE (set_pragma e) ps) w1")
  show ?case
    using Cons.prems q q2 set_pragma_run [OF q] Cons.IH [OF q2]
    by (cases q; cases q2) (auto simp: run_bindE)
qed simp

lemma open_db_run:
  assumes "run_state (open_db e) w = (r, w')"
  shows "cn_disk w' = cn_disk w \<and> (r = Inr () \<longrightarrow> cn_pragmas w' = cn_pragmas w @ pragmas) \<and>
    ((\<forall>n. \<not> mc_sql_fails e n) \<longrightarrow> r = Inr ())"
  using assms set_pragmas_run [of e pragmas w]
  by (auto simp: open_db_def run_bindE split: prod.splits sum.splits)

lemma migrate_each_pragmas: "cn_pragmas (snd (run_state (migrate_each e fs ns) w)) = cn_pragmas w"
proof (induction ns arbitrary: w)
  case (Cons n ns)
  then show ?case
    by (auto simp: run_bindE run_mapE run_disk_sql migrationApplied_def applyMigration_def disk_tx_def
        Let_def split: option.splits prod.splits sum.splits)
qed simp

lemma migrate_pragmas: "cn_pragmas (snd (run_state (migrate e fs) w)) = cn_pragmas w"
  by (simp add: migrate_def run_bindE run_mapE run_disk_sql create_migrations_table_def
      migrate_each_pragmas)

text \<open>C39: opening the store brings any earlier version of the file forward. From an empty file or one
  that holds the first files' schema, whatever fails, the disk is afterwards at that version or a
  later one, with the record of the migrations naming exactly the files whose statements its layout
  is made of, and every row is still there, new columns aside; so the next start takes up where this
  one failed. When the store opens, the tables have exactly the columns its statements name and the
  connection has every setting, the enforcement of foreign keys among them; and it does open when
  the directory could be made and no statement fails.\<close>

theorem opening_migrates:
  assumes "run_state (New_store e made) w = (r, w')" "at_version migrations_FS k (cn_disk w)"
  shows "(\<exists>j. k \<le> j \<and> at_version migrations_FS j (cn_disk w')) \<and>
    keeps_rows (cn_disk w) (cn_disk w') \<and>
    (r = Inr () \<longrightarrow> columns_of (cn_disk w') = store_columns \<and>
       cn_pragmas w' = cn_pragmas w @ pragmas) \<and>
    (made = Inr () \<and> (\<forall>n. \<not> mc_sql_fails e n) \<longrightarrow> r = Inr ())"
proof (cases made)
  case (Inl err)
  with assms show ?thesis by (auto simp: New_store_def run_bindE run_mapE)
next
  case made: (Inr u)
  obtain q w1 where q: "run_state (open_db e) w = (q, w1)" by (cases "run_state (open_db e) w")
  note opened = open_db_run [OF q]
  show ?thesis
  proof (cases q)
    case (Inl err)
    with assms q opened made show ?thesis by (auto simp: New_store_def run_bindE run_mapE)
  next
    case (Inr v)
    with assms(1) q made have m: "run_state (migrate e migrations_FS) w1 = (r, w')"
      by (simp add: New_store_def run_bindE run_mapE)
    have "cn_pragmas w' = cn_pragmas w1"
      using migrate_pragmas [of e migrations_FS w1] m by simp
    moreover have "length migrations_FS = 2" by (simp add: migrations_FS_def)
    ultimately show ?thesis
      using embedded.migrate_run [OF m] assms(2) opened Inr current_schema by auto
  qed
qed

text \<open>A file of the first version with one tenant, brought forward.\<close>

definition ex_old_row :: "cell list" where
  "ex_old_row = [TextCell ''t1'', TextCell ''u1'', TextCell ''Ann'', BlobCell ''x'', IntCell 1, IntCell 1]"

definition ex_old_disk :: disk where
  "ex_old_disk = (case exec_body migration_0001 empty_disk of
     None \<Rightarrow> empty_disk
   | Some d \<Rightarrow> d\<lparr>dk_tables := map (\<lambda>(n, t). (n, if n = ''tenants'' then t\<lparr>tb_rows := [ex_old_row]\<rparr> else t))
       (dk_tables d), dk_migrations := Some [''0001_init.sql'']\<rparr>)"

definition ex_upgraded :: conn where
  "ex_upgraded = snd (run_state (New_store (ex_machine []) (Inr ()))
     \<lparr>cn_disk = ex_old_disk, cn_pragmas = [], cn_sql = 0\<rparr>)"

theorem opening_migrates_witness:
  "columns_of (cn_disk ex_upgraded) = store_columns \<and>
   (\<exists>t r. map_of (dk_tables (cn_disk ex_upgraded)) ''tenants'' = Some t \<and> tb_rows t = [r] \<and> prefix ex_old_row r)"
proof -
  let ?w = "\<lparr>cn_disk = ex_old_disk, cn_pragmas = [], cn_sql = 0\<rparr>"
  obtain r where run: "run_state (New_store (ex_machine []) (Inr ())) ?w = (r, ex_upgraded)"
    by (simp add: ex_upgraded_def) (metis prod.collapse)
  have "at_version migrations_FS 1 (cn_disk ?w)" by code_simp
  note upgraded = opening_migrates [OF run this]
  obtain t where "map_of (dk_tables ex_old_disk) ''tenants'' = Some t" "tb_rows t = [ex_old_row]"
  proof -
    have "map_option tb_rows (map_of (dk_tables ex_old_disk) ''tenants'') = Some [ex_old_row]" by code_simp
    then show ?thesis using that by auto
  qed
  moreover from upgraded have "keeps_rows ex_old_disk (cn_disk ex_upgraded)" by simp
  ultimately obtain t' where "map_of (dk_tables (cn_disk ex_upgraded)) ''tenants'' = Some t'"
    "list_all2 prefix [ex_old_row] (tb_rows t')"
    by (auto simp: keeps_rows_def dest!: spec [of _ "''tenants''"])
  with upgraded show ?thesis by (auto simp: list_all2_Cons1)
qed

end
