(* ===== verification/StoreRaces.thy ===== *)
theory StoreRaces
  imports StoreProps
begin

text \<open>
  Two histories the store allows that a deletion should not. A deletion is one transaction, but the
  operations that make credentials are several: the exchange of a code consumes it and then stores
  a refresh token, and a renewal reads the tenant and then upserts it. A deletion that comes between the two leaves a live refresh token of a tenant that is
  gone, or brings the tenant back. The schema has no foreign key that would stop it.
\<close>

definition overtaken_exchange :: "store_op list" where
  "overtaken_exchange =
     [OCreateAuthCode ex_code, OConsumeAuthCode ''c'', ODeleteTenant ''t1'', OCreateRefreshToken ex_token]"

definition ex_tenant_read :: tenant where
  "ex_tenant_read =
     \<lparr>t_id = ''t1'', t_meta_user_id = ''u1'', t_display_name = ''Ann'', t_user_token = ''usertok'',
      t_created_at = from_unix 100, t_updated_at = from_unix 100,
      t_token_expires_at = from_unix 1700100000\<rparr>"

definition overtaken_renewal :: "store_op list" where
  "overtaken_renewal =
     [ODeleteTenant ''t1'', OUpsertTenant ex_tenant_read]"

lemma overtaken_exchange_run:
  "fst (run_ops (ex_machine []) overtaken_exchange (ex_world ex_db)) = zip overtaken_exchange (replicate 4 True)"
  "tenants (db (snd (run_ops (ex_machine []) overtaken_exchange (ex_world ex_db)))) = []"
  "token_live ''h'' (db (snd (run_ops (ex_machine []) overtaken_exchange (ex_world ex_db))))"
  by (simp_all add: overtaken_exchange_def ex_code_def ex_token_def store_ops token_live_def ex_defs
      numeral_eq_Suc cong: prod.case_cong_weak)

lemma exchange_after_deletion:
  "\<exists>d. history (ex_machine []) ex_db (zip overtaken_exchange (replicate 4 True)) d \<and>
     tenants d = [] \<and> token_live ''h'' d"
proof -
  have "run_ops (ex_machine []) overtaken_exchange (ex_world ex_db) = (zip overtaken_exchange (replicate 4 True),
      snd (run_ops (ex_machine []) overtaken_exchange (ex_world ex_db)))"
    by (metis overtaken_exchange_run(1) prod.collapse)
  from run_ops_history [OF this] overtaken_exchange_run(2,3) show ?thesis by auto
qed

lemma overtaken_renewal_run:
  "fst (run_ops (ex_machine []) overtaken_renewal (ex_world ex_db)) = zip overtaken_renewal (replicate 2 True)"
  "map tr_id (tenants (db (snd (run_ops (ex_machine []) overtaken_renewal (ex_world ex_db))))) = [''t1'']"
  by (simp_all add: overtaken_renewal_def DeleteTenant_def in_tx_def run_simps delete_tokens_of_def
      delete_codes_of_def delete_pages_of_def delete_tenant_def UpsertTenant_def Encrypt_def
      upsert_tenant_def tenant_record_def ex_tenant_read_def ex_db_def ex_tenant_row_def empty_db_def Let_def
      numeral_2_eq_2)

lemma renewal_after_deletion:
  "\<exists>d. history (ex_machine []) ex_db (zip overtaken_renewal (replicate 2 True)) d \<and>
     map tr_id (tenants d) = [''t1'']"
proof -
  have "run_ops (ex_machine []) overtaken_renewal (ex_world ex_db) = (zip overtaken_renewal (replicate 2 True),
      snd (run_ops (ex_machine []) overtaken_renewal (ex_world ex_db)))"
    by (metis overtaken_renewal_run(1) prod.collapse)
  from run_ops_history [OF this] overtaken_renewal_run(2) show ?thesis by auto
qed

end
