(* ===== verification/McpTexts.thy ===== *)
theory McpTexts
  imports McpServer
begin

text \<open>
  The fixed texts of the MCP server: what it says of itself (\<open>server.go\<close>), its two resources
  (\<open>resources.go\<close>) and its two prompts (\<open>prompts.go\<close>). Texts are lists of lines; accents are
  dropped, as in every text of the development.
\<close>

definition text_lines :: "string list \<Rightarrow> string" where
  "text_lines ls = join [CHR 0x0A] ls"

section \<open>server.go\<close>

definition serverName :: string where "serverName = ''metasocial-mcp''"
definition serverVersion :: string where "serverVersion = ''v1.1.0''"
definition serverTitle :: string where "serverTitle = ''Facebook & Instagram organique''"

record server_info =
  si_name :: string
  si_version :: string
  si_title :: string
  si_website_url :: string
  si_icon :: string
  si_icon_mime :: string
  si_icon_sizes :: "string list"

definition server_info_of :: "service \<Rightarrow> server_info" where
  "server_info_of s =
     \<lparr>si_name = serverName, si_version = serverVersion, si_title = serverTitle,
      si_website_url = sv_public_url s, si_icon = sv_public_url s @ ''/icon.png'',
      si_icon_mime = ''image/png'', si_icon_sizes = [''512x512'']\<rparr>"

definition instructions :: string where
  "instructions = text_lines
     [''Serveur MCP pour les Pages Facebook et les comptes Instagram professionnels'',
      ''de l'utilisateur connecte.'',
      [],
      ''Commencez par list_pages pour obtenir les page_id disponibles ; tous les'',
      ''autres outils en ont besoin. sync_pages rafraichit cette liste depuis Meta.'',
      [],
      ''Les outils de lecture couvrent les statistiques de page (page_insights,'',
      ''page_insights_metadata), les publications (page_posts, page_post_comments), les'',
      ''avis (page_ratings) et Instagram (ig_account_insights, ig_follower_demographics,'',
      ''ig_media, ig_media_comments). Les dates since/until sont au format AAAA-MM-JJ et'',
      ''couvrent les 28 derniers jours par defaut.'',
      [],
      ''Les outils d'ecriture (page_publish_post, page_reply_comment, ig_publish,'',
      ''ig_reply_comment) exigent confirm=true. Sans ce parametre ils renvoient un'',
      ''apercu et n'ecrivent rien chez Meta : montrez cet apercu a l'utilisateur et'',
      ''attendez son accord explicite avant de rappeler l'outil avec confirm=true.'',
      [],
      ''Si un outil repond << autorisation expiree >>, appelez reconnect_url et donnez'',
      ''l'adresse obtenue a l'utilisateur.'']"

section \<open>resources.go\<close>

definition uriPages :: string where "uriPages = ''metasocial://pages''"
definition uriConnection :: string where "uriConnection = ''metasocial://connection''"

record resource =
  rc_uri :: string
  rc_name :: string
  rc_title :: string
  rc_mime :: string
  rc_read :: "machine \<Rightarrow> service \<Rightarrow> token_info option \<Rightarrow> tool_output io"

text \<open>The SDK serves a resource by its exact URI; the descriptions are left out.\<close>

definition registerResources :: "resource list" where
  "registerResources =
     [\<lparr>rc_uri = uriPages, rc_name = ''pages'', rc_title = ''Pages connectees'',
       rc_mime = ''application/json'', rc_read = (\<lambda>e s session. readPages e session)\<rparr>,
      \<lparr>rc_uri = uriConnection, rc_name = ''connection'', rc_title = ''Etat de la connexion'',
       rc_mime = ''application/json'', rc_read = readConnection\<rparr>]"

section \<open>prompts.go\<close>

type_synonym prompt_params = "(string \<rightharpoonup> string) option"

record prompt_result =
  pt_description :: string
  pt_role :: string
  pt_text :: string

definition promptResult :: "string \<Rightarrow> string \<Rightarrow> prompt_result" where
  "promptResult description body =
     \<lparr>pt_description = description, pt_role = ''user'', pt_text = body\<rparr>"

definition promptMonthlyReport :: "prompt_params \<Rightarrow> prompt_result" where
  "promptMonthlyReport params =
     (let page = argOr params ''page_id'' ''a determiner avec list_pages'';
          month = argOr params ''mois'' ''le mois ecoule'' in
      promptResult ''Bilan mensuel'' (text_lines
     [''Tu prepares le bilan organique de la page '' @ page @ '' pour '' @ month @ ''.'',
      [],
      ''Marche a suivre :'',
      ''1. list_pages pour confirmer le page_id et savoir si un compte Instagram est lie.'',
      ''2. page_insights sur le mois demande, puis sur le mois precedent, pour pouvoir comparer.'',
      ''   Si le champ \"rejected\" est non vide, dis-le : ces metriques n'ont pas pu etre lues.'',
      ''3. page_posts sur la periode, puis page_post_insights sur les trois publications'',
      ''   les plus vues pour expliquer ce qui a marche.'',
      ''4. page_ratings pour la note moyenne et les avis recus sur le mois : signale'',
      ''   chaque avis negatif, il appelle une reponse.'',
      ''5. Si un compte Instagram est lie : ig_account_insights, ig_media, et'',
      ''   ig_follower_demographics avec breakdown=city pour situer l'audience.'',
      ''6. Redige le bilan en francais : evolution chiffree par rapport au mois precedent,'',
      ''   ce qui a le mieux fonctionne et pourquoi, ce qui a decroche, et deux ou trois'',
      ''   recommandations concretes.'',
      [],
      ''Ne publie rien. Ce bilan est une lecture seule : n'appelle aucun outil d'ecriture.'',
      ''Ne compare que des periodes de meme longueur, et dis-le si les donnees manquent'',
      ''pour un mois.'']))"

definition promptCommentReview :: "prompt_params \<Rightarrow> prompt_result" where
  "promptCommentReview params =
     (let page = argOr params ''page_id'' ''a determiner avec list_pages'' in
      promptResult ''Revue des commentaires'' (text_lines
     [''Tu passes en revue les commentaires recents de la page '' @ page @ ''.'',
      [],
      ''Marche a suivre :'',
      ''1. list_pages, puis page_posts pour les publications recentes.'',
      ''2. page_post_comments sur les publications qui en ont, et si un compte Instagram'',
      ''   est lie, ig_media puis ig_media_comments.'',
      ''3. Classe les commentaires : ceux qui appellent une reponse, ceux qui n'en'',
      ''   demandent pas, et ceux qui posent un probleme (insultes, spam, hors sujet).'',
      ''4. Pour chaque commentaire a traiter, propose le texte de la reponse a l'utilisateur'',
      ''   et attends son accord.'',
      [],
      ''Regles :'',
      ''- N'ecris rien sans confirmation. page_reply_comment, ig_reply_comment,'',
      ''  page_moderate_comment et ig_moderate_comment renvoient un apercu tant que'',
      ''  confirm=true est absent : montre cet apercu, obtiens un accord explicite,'',
      ''  puis seulement rappelle l'outil avec confirm=true.'',
      ''- Ne propose jamais action=delete de toi-meme. Masquer est reversible, supprimer'',
      ''  ne l'est pas : suggere hide, et laisse l'utilisateur demander la suppression.'',
      ''- Reponds dans la langue du commentaire.'']))"

record prompt =
  pm_name :: string
  pm_title :: string
  pm_arguments :: "(string \<times> bool) list"
  pm_get :: "prompt_params \<Rightarrow> prompt_result"

text \<open>An argument with whether it is required; the descriptions are left out.\<close>

definition registerPrompts :: "prompt list" where
  "registerPrompts =
     [\<lparr>pm_name = ''bilan_mensuel'', pm_title = ''Bilan mensuel d'une page'',
       pm_arguments = [(''page_id'', False), (''mois'', False)], pm_get = promptMonthlyReport\<rparr>,
      \<lparr>pm_name = ''revue_commentaires'', pm_title = ''Revue des commentaires'',
       pm_arguments = [(''page_id'', False)], pm_get = promptCommentReview\<rparr>]"

end
