(* ===== verification/McpJson.thy ===== *)
theory McpJson
  imports McpServer
begin

text \<open>
  What crosses the wire around a tool: the arguments a client sends (one decoder per argument
  struct of \<open>tools_read.go\<close>, \<open>tools_insights.go\<close> and \<open>tools_write.go\<close>), the JSON text of a result
  (\<open>jsonResult\<close> over the tags of the output structs) and the text of an error. A call is a name and
  a JSON document. The SDK checks that document against a schema before it is decoded; nothing here
  relies on that check. In a result a value Meta sent is printed anew: a number keeps its text.
\<close>

section \<open>Results\<close>

text \<open>Members with the tag \<open>omitempty\<close>.\<close>

definition str_opt :: "string \<Rightarrow> string \<Rightarrow> fields" where
  "str_opt k s = (if s = [] then [] else [(k, JStr s)])"

definition int_opt :: "string \<Rightarrow> int \<Rightarrow> fields" where
  "int_opt k n = (if n = 0 then [] else [(k, JNum n)])"

definition bool_opt :: "string \<Rightarrow> bool \<Rightarrow> fields" where
  "bool_opt k b = (if b then [(k, JBool True)] else [])"

definition strs_opt :: "string \<Rightarrow> string list \<Rightarrow> fields" where
  "strs_opt k xs = (if xs = [] then [] else [(k, JArr (map JStr xs))])"

lemmas opt_defs = str_opt_def int_opt_def bool_opt_def strs_opt_def

definition PageView_json :: "page_view \<Rightarrow> json" where
  "PageView_json p = JObj
     ([(''page_id'', JStr (pv_page_id p)), (''name'', JStr (pv_name p))] @
      str_opt ''ig_user_id'' (pv_ig_user_id p) @ str_opt ''ig_username'' (pv_ig_username p) @
      [(''synced_at'', JStr (pv_synced_at p))])"

text \<open>\<open>internal/domain/metrics.go\<close>; an absent raw value is printed as \<open>null\<close>.\<close>

definition InsightValue_json :: "insight_value \<Rightarrow> json" where
  "InsightValue_json v = JObj
     (str_opt ''end_time'' (iv_end_time v) @
      [(''value'', case iv_value v of None \<Rightarrow> JNull | Some j \<Rightarrow> j)])"

definition Insight_json :: "insight \<Rightarrow> json" where
  "Insight_json i = JObj
     ([(''metric'', JStr (in_metric i)), (''period'', JStr (in_period i))] @
      str_opt ''title'' (in_title i) @
      [(''values'', JArr (map InsightValue_json (in_values i)))])"

definition InsightSet_json :: "insight_set \<Rightarrow> json" where
  "InsightSet_json s = JObj
     ((''insights'', JArr (map Insight_json (is_insights s))) # strs_opt ''rejected'' (is_rejected s))"

definition InsightMeta_json :: "insight_meta \<Rightarrow> json" where
  "InsightMeta_json m = JObj
     ((''name'', JStr (im_name m)) # str_opt ''period'' (im_period m) @
      str_opt ''description'' (im_description m) @ str_opt ''surface'' (im_surface m))"

definition Post_json :: "post \<Rightarrow> json" where
  "Post_json p = JObj
     ([(''post_id'', JStr (po_id p)), (''created_time'', JStr (po_created_time p))] @
      str_opt ''message'' (po_message p) @ str_opt ''permalink'' (po_permalink p) @
      [(''clicks'', JNum (po_clicks p)), (''reactions'', JNum (po_reactions p))] @
      int_opt ''video_views'' (po_video_views p))"

definition Recommendation_json :: "recommendation \<Rightarrow> json" where
  "Recommendation_json r = JObj
     ((''created_time'', JStr (rc_created_time r)) # str_opt ''recommendation_type'' (rc_type r) @
      int_opt ''rating'' (rc_rating r) @ str_opt ''review_text'' (rc_review_text r) @
      str_opt ''reviewer'' (rc_reviewer r))"

definition ratingsUnavailable :: string where
  "ratingsUnavailable = ''Meta ne sert plus la liste des avis sur cette version de l'API '' @
     ''(edition retiree depuis la v22.0) ; seuls la note moyenne et le nombre d'avis restent lisibles.''"

definition PageRatings_json :: "page_ratings \<Rightarrow> json" where
  "PageRatings_json r = JObj
     ([(''page_id'', JStr (pr_page_id r)), (''overall_star_rating'', pr_overall r),
       (''rating_count'', JNum (pr_count r)),
       (''recommendations'', JArr (map Recommendation_json (pr_recommendations r)))] @
      str_opt ''recommendations_unavailable'' (if pr_unavailable r then ratingsUnavailable else []))"

definition Comment_json :: "comment \<Rightarrow> json" where
  "Comment_json c = JObj
     ((''comment_id'', JStr (cm_id c)) # str_opt ''from'' (cm_from c) @
      str_opt ''username'' (cm_username c) @ str_opt ''message'' (cm_message c) @
      str_opt ''created_time'' (cm_created_time c))"

definition Media_json :: "media \<Rightarrow> json" where
  "Media_json m = JObj
     ((''media_id'', JStr (m_id m)) # str_opt ''type'' (m_type m) @
      str_opt ''product_type'' (m_product_type m) @ str_opt ''timestamp'' (m_timestamp m) @
      str_opt ''caption'' (m_caption m) @ str_opt ''permalink'' (m_permalink m) @
      [(''like_count'', JNum (m_like_count m)), (''comments_count'', JNum (m_comments_count m)),
       (''reach'', JNum (m_reach m)), (''views'', JNum (m_views m)), (''saved'', JNum (m_saved m)),
       (''shares'', JNum (m_shares m)), (''total_interactions'', JNum (m_total_interactions m))])"

definition Breakdown_json :: "breakdown \<Rightarrow> json" where
  "Breakdown_json b = JObj [(''key'', JStr (bd_key b)), (''value'', JNum (bd_value b))]"

definition ScheduledPost_json :: "scheduled_post \<Rightarrow> json" where
  "ScheduledPost_json p = JObj
     ((''post_id'', JStr (sp_id p)) # str_opt ''message'' (sp_message p) @
      str_opt ''created_time'' (sp_created_time p) @ str_opt ''scheduled_at'' (sp_scheduled_at p))"

text \<open>The outputs of \<open>internal/app\<close>.\<close>

fun summary_text :: "status_summary \<Rightarrow> string" where
  "summary_text NoSummary = []"
| "summary_text ReconnectionNeeded =
     ''L'autorisation Facebook n'est plus valide, une reconnexion est necessaire.''"
| "summary_text (ScopesMissing n) = ''Connexion active mais '' @ print_int (int n) @
     '' permission(s) manquante(s) : certaines fonctions echoueront.''"
| "summary_text NoPageSynced =
     ''Connexion valide, mais aucune page n'est synchronisee. Utilisez sync_pages.''"
| "summary_text (NoKnownExpiry n) = ''Connexion valide, '' @ print_int (int n) @
     '' page(s), sans date d'expiration connue.''"
| "summary_text (ValidFor n d) = ''Connexion valide, '' @ print_int (int n) @
     '' page(s), jeton valable encore '' @ print_int d @ '' jour(s).''"

definition ConnectionStatus_json :: "connection_status \<Rightarrow> json" where
  "ConnectionStatus_json c = JObj
     ([(''display_name'', JStr (cs_display_name c)), (''healthy'', JBool (cs_healthy c)),
       (''summary'', JStr (summary_text (cs_summary c))), (''token_valid'', JBool (cs_token_valid c))] @
      str_opt ''token_expires_at'' (cs_token_expires_at c) @
      int_opt ''days_remaining'' (cs_days_remaining c) @ str_opt ''token_reason'' (cs_token_reason c) @
      [(''pages'', JNum (int (cs_pages c))), (''pages_with_instagram'', JNum (int (cs_pages_with_ig c)))] @
      strs_opt ''missing_scopes'' (cs_missing_scopes c) @ str_opt ''reconnect_url'' (cs_reconnect_url c))"

definition PublishPostOutput_json :: "publish_output \<Rightarrow> json" where
  "PublishPostOutput_json x = JObj
     ((''preview'', JBool (pout_preview x)) # str_opt ''post_id'' (pout_post_id x) @
      [(''page_id'', JStr (pout_page_id x)), (''page_name'', JStr (pout_page_name x)),
       (''kind'', JStr (pout_kind x))] @
      str_opt ''message'' (pout_message x) @ str_opt ''link'' (pout_link x) @
      str_opt ''photo_url'' (pout_photo_url x) @ str_opt ''scheduled_at'' (pout_scheduled_at x) @
      str_opt ''notice'' (pout_notice x))"

definition ReplyCommentOutput_json :: "reply_output \<Rightarrow> json" where
  "ReplyCommentOutput_json x = JObj
     ((''preview'', JBool (rout_preview x)) # str_opt ''reply_id'' (rout_reply_id x) @
      [(''comment_id'', JStr (rout_comment_id x)), (''page_id'', JStr (rout_page_id x)),
       (''page_name'', JStr (rout_page_name x)), (''message'', JStr (rout_message x))] @
      str_opt ''notice'' (rout_notice x))"

definition IGPublishOutput_json :: "ig_publish_output \<Rightarrow> json" where
  "IGPublishOutput_json x = JObj
     ((''preview'', JBool (gout_preview x)) # str_opt ''media_id'' (gout_media_id x) @
      [(''page_id'', JStr (gout_page_id x))] @ str_opt ''ig_username'' (gout_ig_username x) @
      [(''media_type'', JStr (gout_media_type x))] @ str_opt ''image_url'' (gout_image_url x) @
      str_opt ''video_url'' (gout_video_url x) @ strs_opt ''children'' (gout_children x) @
      str_opt ''caption'' (gout_caption x) @ str_opt ''notice'' (gout_notice x))"

definition ModerateCommentOutput_json :: "moderate_output \<Rightarrow> json" where
  "ModerateCommentOutput_json x = JObj
     ((''preview'', JBool (mout_preview x)) # bool_opt ''done'' (mout_done x) @
      [(''comment_id'', JStr (mout_comment_id x)), (''action'', JStr (mout_action x)),
       (''page_id'', JStr (mout_page_id x)), (''page_name'', JStr (mout_page_name x))] @
      str_opt ''notice'' (mout_notice x))"

definition CancelScheduledPostOutput_json :: "removal_output \<Rightarrow> json" where
  "CancelScheduledPostOutput_json x = JObj
     ((''preview'', JBool (dout_preview x)) # bool_opt ''canceled'' (dout_done x) @
      [(''post_id'', JStr (dout_post_id x)), (''page_id'', JStr (dout_page_id x)),
       (''page_name'', JStr (dout_page_name x))] @ str_opt ''notice'' (dout_notice x))"

definition DeletePostOutput_json :: "removal_output \<Rightarrow> json" where
  "DeletePostOutput_json x = JObj
     ((''preview'', JBool (dout_preview x)) # bool_opt ''deleted'' (dout_done x) @
      [(''post_id'', JStr (dout_post_id x)), (''page_id'', JStr (dout_page_id x)),
       (''page_name'', JStr (dout_page_name x))] @ str_opt ''notice'' (dout_notice x))"

fun output_json :: "tool_output \<Rightarrow> json" where
  "output_json (OutPages ps) = JArr (map PageView_json ps)"
| "output_json (OutInsights s) = InsightSet_json s"
| "output_json (OutMetadata ms) = JArr (map InsightMeta_json ms)"
| "output_json (OutPosts ps) = JArr (map Post_json ps)"
| "output_json (OutComments cs) = JArr (map Comment_json cs)"
| "output_json (OutRatings r) = PageRatings_json r"
| "output_json (OutBreakdowns bs) = JArr (map Breakdown_json bs)"
| "output_json (OutMedia ms) = JArr (map Media_json ms)"
| "output_json (OutURL url) = JObj [(''url'', JStr url)]"
| "output_json (OutStatus c) = ConnectionStatus_json c"
| "output_json (OutScheduled ps) = JArr (map ScheduledPost_json ps)"
| "output_json (OutPublished x) = PublishPostOutput_json x"
| "output_json (OutReply x) = ReplyCommentOutput_json x"
| "output_json (OutIGPublished x) = IGPublishOutput_json x"
| "output_json (OutModerated x) = ModerateCommentOutput_json x"
| "output_json (OutRemoved x) = DeletePostOutput_json x"
| "output_json (OutCanceled x) = CancelScheduledPostOutput_json x"

definition jsonResult :: "tool_output \<Rightarrow> string" where
  "jsonResult out = print_json (output_json out)"

section \<open>Arguments\<close>

text \<open>\<open>tools_read.go\<close>\<close>

definition NoArgs :: "fields \<Rightarrow> unit option" where
  "NoArgs fs = Some ()"

definition PageInsightsArgs :: "fields \<Rightarrow> insights_input option" where
  "PageInsightsArgs fs = do {
     p \<leftarrow> str_field ''page_id'' fs;
     since \<leftarrow> str_field ''since'' fs;
     until \<leftarrow> str_field ''until'' fs;
     ms \<leftarrow> list_field dec_string ''metrics'' fs;
     Some \<lparr>ip_page_id = p, ip_since = since, ip_until = until, ip_metrics = ms\<rparr>
   }"

definition PageArgs :: "fields \<Rightarrow> string option" where
  "PageArgs fs = str_field ''page_id'' fs"

definition PagePostsArgs :: "fields \<Rightarrow> listing_input option" where
  "PagePostsArgs fs = do {
     p \<leftarrow> str_field ''page_id'' fs;
     since \<leftarrow> str_field ''since'' fs;
     limit \<leftarrow> int_field ''limit'' fs;
     Some \<lparr>li_page_id = p, li_since = since, li_limit = limit\<rparr>
   }"

definition PagePostCommentsArgs :: "fields \<Rightarrow> comments_input option" where
  "PagePostCommentsArgs fs = do {
     x \<leftarrow> str_field ''post_id'' fs;
     p \<leftarrow> str_field ''page_id'' fs;
     limit \<leftarrow> int_field ''limit'' fs;
     Some \<lparr>ci_object_id = x, ci_page_id = p, ci_limit = limit\<rparr>
   }"

definition IGInsightsArgs :: "fields \<Rightarrow> insights_input option" where
  "IGInsightsArgs fs = do {
     p \<leftarrow> str_field ''page_id'' fs;
     since \<leftarrow> str_field ''since'' fs;
     until \<leftarrow> str_field ''until'' fs;
     ms \<leftarrow> list_field dec_string ''metrics'' fs;
     Some \<lparr>ip_page_id = p, ip_since = since, ip_until = until, ip_metrics = ms\<rparr>
   }"

definition IGDemographicsArgs :: "fields \<Rightarrow> (string \<times> string) option" where
  "IGDemographicsArgs fs = do {
     p \<leftarrow> str_field ''page_id'' fs;
     b \<leftarrow> str_field ''breakdown'' fs;
     Some (p, b)
   }"

definition IGMediaArgs :: "fields \<Rightarrow> listing_input option" where
  "IGMediaArgs fs = do {
     p \<leftarrow> str_field ''page_id'' fs;
     since \<leftarrow> str_field ''since'' fs;
     limit \<leftarrow> int_field ''limit'' fs;
     Some \<lparr>li_page_id = p, li_since = since, li_limit = limit\<rparr>
   }"

definition IGMediaCommentsArgs :: "fields \<Rightarrow> comments_input option" where
  "IGMediaCommentsArgs fs = do {
     x \<leftarrow> str_field ''media_id'' fs;
     p \<leftarrow> str_field ''page_id'' fs;
     limit \<leftarrow> int_field ''limit'' fs;
     Some \<lparr>ci_object_id = x, ci_page_id = p, ci_limit = limit\<rparr>
   }"

definition PageRatingsArgs :: "fields \<Rightarrow> (string \<times> int) option" where
  "PageRatingsArgs fs = do {
     p \<leftarrow> str_field ''page_id'' fs;
     limit \<leftarrow> int_field ''limit'' fs;
     Some (p, limit)
   }"

text \<open>\<open>tools_insights.go\<close>\<close>

definition PostInsightsArgs :: "fields \<Rightarrow> object_input option" where
  "PostInsightsArgs fs = do {
     x \<leftarrow> str_field ''post_id'' fs;
     p \<leftarrow> str_field ''page_id'' fs;
     ms \<leftarrow> list_field dec_string ''metrics'' fs;
     Some \<lparr>oi_object_id = x, oi_page_id = p, oi_metrics = ms\<rparr>
   }"

definition MediaInsightsArgs :: "fields \<Rightarrow> object_input option" where
  "MediaInsightsArgs fs = do {
     x \<leftarrow> str_field ''media_id'' fs;
     p \<leftarrow> str_field ''page_id'' fs;
     ms \<leftarrow> list_field dec_string ''metrics'' fs;
     Some \<lparr>oi_object_id = x, oi_page_id = p, oi_metrics = ms\<rparr>
   }"

definition ScheduledPostsArgs :: "fields \<Rightarrow> (string \<times> int) option" where
  "ScheduledPostsArgs fs = do {
     p \<leftarrow> str_field ''page_id'' fs;
     limit \<leftarrow> int_field ''limit'' fs;
     Some (p, limit)
   }"

text \<open>\<open>tools_write.go\<close>\<close>

abbreviation bool_field :: "string \<Rightarrow> fields \<Rightarrow> bool option" where
  "bool_field \<equiv> json_field dec_bool False"

definition PublishPostArgs :: "fields \<Rightarrow> publish_input option" where
  "PublishPostArgs fs = do {
     p \<leftarrow> str_field ''page_id'' fs;
     msg \<leftarrow> str_field ''message'' fs;
     link \<leftarrow> str_field ''link'' fs;
     photo \<leftarrow> str_field ''photo_url'' fs;
     sched \<leftarrow> str_field ''scheduled_at'' fs;
     confirm \<leftarrow> bool_field ''confirm'' fs;
     Some \<lparr>pin_page_id = p, pin_message = msg, pin_link = link, pin_photo_url = photo,
           pin_scheduled_at = sched, pin_confirm = confirm\<rparr>
   }"

definition ReplyCommentArgs :: "fields \<Rightarrow> reply_input option" where
  "ReplyCommentArgs fs = do {
     x \<leftarrow> str_field ''comment_id'' fs;
     msg \<leftarrow> str_field ''message'' fs;
     p \<leftarrow> str_field ''page_id'' fs;
     confirm \<leftarrow> bool_field ''confirm'' fs;
     Some \<lparr>rin_comment_id = x, rin_page_id = p, rin_message = msg, rin_confirm = confirm\<rparr>
   }"

definition IGPublishArgs :: "fields \<Rightarrow> ig_publish_input option" where
  "IGPublishArgs fs = do {
     p \<leftarrow> str_field ''page_id'' fs;
     typ \<leftarrow> str_field ''media_type'' fs;
     image \<leftarrow> str_field ''image_url'' fs;
     video \<leftarrow> str_field ''video_url'' fs;
     children \<leftarrow> list_field dec_string ''children'' fs;
     caption \<leftarrow> str_field ''caption'' fs;
     confirm \<leftarrow> bool_field ''confirm'' fs;
     Some \<lparr>gin_page_id = p, gin_media_type = typ, gin_image_url = image, gin_video_url = video,
           gin_caption = caption, gin_children = children, gin_confirm = confirm\<rparr>
   }"

definition ModerateCommentArgs :: "fields \<Rightarrow> moderate_input option" where
  "ModerateCommentArgs fs = do {
     x \<leftarrow> str_field ''comment_id'' fs;
     act \<leftarrow> str_field ''action'' fs;
     p \<leftarrow> str_field ''page_id'' fs;
     confirm \<leftarrow> bool_field ''confirm'' fs;
     Some \<lparr>min_comment_id = x, min_page_id = p, min_action = act, min_confirm = confirm\<rparr>
   }"

definition CancelScheduledPostArgs :: "fields \<Rightarrow> removal_input option" where
  "CancelScheduledPostArgs fs = do {
     x \<leftarrow> str_field ''post_id'' fs;
     p \<leftarrow> str_field ''page_id'' fs;
     confirm \<leftarrow> bool_field ''confirm'' fs;
     Some \<lparr>din_post_id = x, din_page_id = p, din_confirm = confirm\<rparr>
   }"

definition DeletePostArgs :: "fields \<Rightarrow> removal_input option" where
  "DeletePostArgs fs = do {
     x \<leftarrow> str_field ''post_id'' fs;
     p \<leftarrow> str_field ''page_id'' fs;
     confirm \<leftarrow> bool_field ''confirm'' fs;
     Some \<lparr>din_post_id = x, din_page_id = p, din_confirm = confirm\<rparr>
   }"

text \<open>The handler registered under each name takes the struct of its arguments.\<close>

definition arg_structs :: "(string \<times> (fields \<Rightarrow> tool_call option)) list" where
  "arg_structs =
     [(''list_pages'', \<lambda>fs. map_option (\<lambda>_. CallListPages) (NoArgs fs)),
      (''sync_pages'', \<lambda>fs. map_option (\<lambda>_. CallSyncPages) (NoArgs fs)),
      (''page_insights'', \<lambda>fs. map_option CallPageInsights (PageInsightsArgs fs)),
      (''page_insights_metadata'', \<lambda>fs. map_option CallPageInsightsMetadata (PageArgs fs)),
      (''page_posts'', \<lambda>fs. map_option CallPagePosts (PagePostsArgs fs)),
      (''page_post_comments'', \<lambda>fs. map_option CallPagePostComments (PagePostCommentsArgs fs)),
      (''page_ratings'', \<lambda>fs. map_option (\<lambda>(p, n). CallPageRatings p n) (PageRatingsArgs fs)),
      (''ig_account_insights'', \<lambda>fs. map_option CallIGAccountInsights (IGInsightsArgs fs)),
      (''ig_follower_demographics'',
         \<lambda>fs. map_option (\<lambda>(p, b). CallIGFollowerDemographics p b) (IGDemographicsArgs fs)),
      (''ig_media'', \<lambda>fs. map_option CallIGMedia (IGMediaArgs fs)),
      (''ig_media_comments'', \<lambda>fs. map_option CallIGMediaComments (IGMediaCommentsArgs fs)),
      (''reconnect_url'', \<lambda>fs. map_option (\<lambda>_. CallReconnectURL) (NoArgs fs)),
      (''connection_status'', \<lambda>fs. map_option (\<lambda>_. CallConnectionStatus) (NoArgs fs)),
      (''page_post_insights'', \<lambda>fs. map_option CallPagePostInsights (PostInsightsArgs fs)),
      (''ig_media_insights'', \<lambda>fs. map_option CallIGMediaInsights (MediaInsightsArgs fs)),
      (''ig_stories'', \<lambda>fs. map_option CallIGStories (PageArgs fs)),
      (''page_scheduled_posts'',
         \<lambda>fs. map_option (\<lambda>(p, n). CallPageScheduledPosts p n) (ScheduledPostsArgs fs)),
      (''page_publish_post'', \<lambda>fs. map_option CallPagePublishPost (PublishPostArgs fs)),
      (''page_reply_comment'', \<lambda>fs. map_option CallPageReplyComment (ReplyCommentArgs fs)),
      (''ig_publish'', \<lambda>fs. map_option CallIGPublish (IGPublishArgs fs)),
      (''ig_reply_comment'', \<lambda>fs. map_option CallIGReplyComment (ReplyCommentArgs fs)),
      (''page_moderate_comment'', \<lambda>fs. map_option CallPageModerateComment (ModerateCommentArgs fs)),
      (''ig_moderate_comment'', \<lambda>fs. map_option CallIGModerateComment (ModerateCommentArgs fs)),
      (''page_delete_post'', \<lambda>fs. map_option CallPageDeletePost (DeletePostArgs fs)),
      (''page_cancel_scheduled_post'',
         \<lambda>fs. map_option CallPageCancelScheduledPost (CancelScheduledPostArgs fs))]"

definition decode_call :: "string \<Rightarrow> json \<Rightarrow> tool_call option" where
  "decode_call name j =
     Option.bind (map_of arg_structs name) (\<lambda>dec. Option.bind (json_fields j) dec)"

section \<open>Errors\<close>

text \<open>
  \<open>Error()\<close> of an error. The text of what a library reports is the parameter \<open>lib\<close>; the cause of a
  \<^verbatim>\<open>*url.Error\<close> too, but its operation and its quoted address are printed in front of it. Only the
  escapes that ASCII addresses need are modelled.
\<close>

definition quote_address :: "string \<Rightarrow> string" where
  "quote_address s = concat (map (\<lambda>c. if c \<in> {CHR 0x22, CHR 0x5C} then [CHR 0x5C, c] else [c]) s)"

fun error_text :: "(go_error \<Rightarrow> string) \<Rightarrow> go_error \<Rightarrow> string" where
  "error_text lib ErrNotFound = ''introuvable''"
| "error_text lib ErrUnknownPage = ''page inconnue pour ce compte''"
| "error_text lib ErrNoInstagram =
     ''aucun compte Instagram professionnel n'est lie a cette page''"
| "error_text lib ErrReauthorize = ''autorisation expiree, utilisez reconnect_url''"
| "error_text lib ErrForbiddenUser = ''ce compte Facebook n'est pas autorise sur ce serveur''"
| "error_text lib ErrInvalidToken = ''jeton d'acces invalide''"
| "error_text lib ErrCiphertext = ''jeton stocke illisible''"
| "error_text lib (GraphError ge) =
     ''graph api: HTTP '' @ print_int (ge_status ge) @ '' code='' @ print_int (ge_code ge) @
     '' subcode='' @ print_int (ge_subcode ge) @ '' type='' @ ge_type ge @ '': '' @ ge_message ge"
| "error_text lib (UrlError op url) =
     op @ '' '' @ CHR 0x22 # quote_address url @ CHR 0x22 # '': '' @ lib (UrlError op url)"
| "error_text lib (Msg s) = s"
| "error_text lib (Wrap s err) = s @ '': '' @ error_text lib err"
| "error_text lib err = lib err"

text \<open>A call as a client makes it: a name and a document, answered by a text or by an error whose
  text the client reads.\<close>

definition serve_call ::
  "machine \<Rightarrow> service \<Rightarrow> token_info option \<Rightarrow> string \<Rightarrow> json \<Rightarrow> string io" where
  "serve_call e s session name j =
     (case decode_call name j of
        None \<Rightarrow> fail ErrJson
      | Some c \<Rightarrow> bindE (call_tool e s session c) (\<lambda>out. ok (jsonResult out)))"

end
