(* ===== verification/McpJsonProps.thy ===== *)
theory McpJsonProps
  imports McpJson McpProps
begin

text \<open>
  The tools seen from the wire: every call can be made with a JSON document and is answered by the
  tool of its name; nothing is written unless that document says so; the list of pages shows no
  token; and the error of a request that Meta left unanswered does show one.
\<close>

section \<open>From documents to calls\<close>

lemma matching_append [simp]: "matching k (xs @ ys) = matching k xs @ matching k ys"
  by (simp add: matching_def)

lemma matching_opt [simp]:
  "matching k (str_opt n s) = (if fold_name n = k \<and> s \<noteq> [] then [JStr s] else [])"
  "matching k (int_opt n i) = (if fold_name n = k \<and> i \<noteq> 0 then [JNum i] else [])"
  "matching k (bool_opt n b) = (if fold_name n = k \<and> b then [JBool True] else [])"
  "matching k (strs_opt n xs) = (if fold_name n = k \<and> xs \<noteq> [] then [JArr (map JStr xs)] else [])"
  by (simp_all add: opt_defs)

lemma dec_strings [simp]: "those (map (dec_string \<circ> JStr) xs) = Some xs"
  by (induction xs) simp_all

text \<open>The document of a call: the struct of its arguments, printed with its tags.\<close>

fun arguments :: "tool_call \<Rightarrow> json" where
  "arguments (CallPageInsights a) = JObj ((''page_id'', JStr (ip_page_id a)) #
     str_opt ''since'' (ip_since a) @ str_opt ''until'' (ip_until a) @ strs_opt ''metrics'' (ip_metrics a))"
| "arguments (CallPageInsightsMetadata p) = JObj [(''page_id'', JStr p)]"
| "arguments (CallPagePosts a) = JObj ((''page_id'', JStr (li_page_id a)) #
     str_opt ''since'' (li_since a) @ int_opt ''limit'' (li_limit a))"
| "arguments (CallPagePostComments a) = JObj ((''post_id'', JStr (ci_object_id a)) #
     str_opt ''page_id'' (ci_page_id a) @ int_opt ''limit'' (ci_limit a))"
| "arguments (CallPageRatings p n) = JObj ((''page_id'', JStr p) # int_opt ''limit'' n)"
| "arguments (CallIGAccountInsights a) = JObj ((''page_id'', JStr (ip_page_id a)) #
     str_opt ''since'' (ip_since a) @ str_opt ''until'' (ip_until a) @ strs_opt ''metrics'' (ip_metrics a))"
| "arguments (CallIGFollowerDemographics p b) = JObj [(''page_id'', JStr p), (''breakdown'', JStr b)]"
| "arguments (CallIGMedia a) = JObj ((''page_id'', JStr (li_page_id a)) #
     str_opt ''since'' (li_since a) @ int_opt ''limit'' (li_limit a))"
| "arguments (CallIGMediaComments a) = JObj ((''media_id'', JStr (ci_object_id a)) #
     str_opt ''page_id'' (ci_page_id a) @ int_opt ''limit'' (ci_limit a))"
| "arguments (CallPagePostInsights a) = JObj ((''post_id'', JStr (oi_object_id a)) #
     str_opt ''page_id'' (oi_page_id a) @ strs_opt ''metrics'' (oi_metrics a))"
| "arguments (CallIGMediaInsights a) = JObj ((''media_id'', JStr (oi_object_id a)) #
     str_opt ''page_id'' (oi_page_id a) @ strs_opt ''metrics'' (oi_metrics a))"
| "arguments (CallIGStories p) = JObj [(''page_id'', JStr p)]"
| "arguments (CallPageScheduledPosts p n) = JObj ((''page_id'', JStr p) # int_opt ''limit'' n)"
| "arguments (CallPagePublishPost a) = JObj ((''page_id'', JStr (pin_page_id a)) #
     str_opt ''message'' (pin_message a) @ str_opt ''link'' (pin_link a) @
     str_opt ''photo_url'' (pin_photo_url a) @ str_opt ''scheduled_at'' (pin_scheduled_at a) @
     bool_opt ''confirm'' (pin_confirm a))"
| "arguments (CallPageReplyComment a) = JObj ([(''comment_id'', JStr (rin_comment_id a)),
     (''message'', JStr (rin_message a))] @ str_opt ''page_id'' (rin_page_id a) @
     bool_opt ''confirm'' (rin_confirm a))"
| "arguments (CallIGPublish a) = JObj ((''page_id'', JStr (gin_page_id a)) #
     str_opt ''media_type'' (gin_media_type a) @ str_opt ''image_url'' (gin_image_url a) @
     str_opt ''video_url'' (gin_video_url a) @ strs_opt ''children'' (gin_children a) @
     str_opt ''caption'' (gin_caption a) @ bool_opt ''confirm'' (gin_confirm a))"
| "arguments (CallIGReplyComment a) = JObj ([(''comment_id'', JStr (rin_comment_id a)),
     (''message'', JStr (rin_message a))] @ str_opt ''page_id'' (rin_page_id a) @
     bool_opt ''confirm'' (rin_confirm a))"
| "arguments (CallPageModerateComment a) = JObj ([(''comment_id'', JStr (min_comment_id a)),
     (''action'', JStr (min_action a))] @ str_opt ''page_id'' (min_page_id a) @
     bool_opt ''confirm'' (min_confirm a))"
| "arguments (CallIGModerateComment a) = JObj ([(''comment_id'', JStr (min_comment_id a)),
     (''action'', JStr (min_action a))] @ str_opt ''page_id'' (min_page_id a) @
     bool_opt ''confirm'' (min_confirm a))"
| "arguments (CallPageDeletePost a) = JObj ((''post_id'', JStr (din_post_id a)) #
     str_opt ''page_id'' (din_page_id a) @ bool_opt ''confirm'' (din_confirm a))"
| "arguments (CallPageCancelScheduledPost a) = JObj ((''post_id'', JStr (din_post_id a)) #
     str_opt ''page_id'' (din_page_id a) @ bool_opt ''confirm'' (din_confirm a))"
| "arguments _ = JObj []"

fun limit_of :: "tool_call \<Rightarrow> int" where
  "limit_of (CallPagePosts a) = li_limit a"
| "limit_of (CallPagePostComments a) = ci_limit a"
| "limit_of (CallPageRatings p n) = n"
| "limit_of (CallIGMedia a) = li_limit a"
| "limit_of (CallIGMediaComments a) = ci_limit a"
| "limit_of (CallPageScheduledPosts p n) = n"
| "limit_of _ = 0"

definition tool_name :: "tool_call \<Rightarrow> string" where
  "tool_name c = (case New c of None \<Rightarrow> [] | Some t \<Rightarrow> tl_name t)"

lemmas args_defs = NoArgs_def PageInsightsArgs_def PageArgs_def PagePostsArgs_def
  PagePostCommentsArgs_def IGInsightsArgs_def IGDemographicsArgs_def IGMediaArgs_def
  IGMediaCommentsArgs_def PageRatingsArgs_def PostInsightsArgs_def MediaInsightsArgs_def
  ScheduledPostsArgs_def PublishPostArgs_def ReplyCommentArgs_def IGPublishArgs_def
  ModerateCommentArgs_def CancelScheduledPostArgs_def DeletePostArgs_def

text \<open>The struct of each name, looked up once.\<close>

lemma arg_struct:
  "map_of arg_structs ''list_pages'' = Some (\<lambda>fs. map_option (\<lambda>_. CallListPages) (NoArgs fs))"
  "map_of arg_structs ''sync_pages'' = Some (\<lambda>fs. map_option (\<lambda>_. CallSyncPages) (NoArgs fs))"
  "map_of arg_structs ''page_insights'' = Some (\<lambda>fs. map_option CallPageInsights (PageInsightsArgs fs))"
  "map_of arg_structs ''page_insights_metadata'' = Some (\<lambda>fs. map_option CallPageInsightsMetadata (PageArgs fs))"
  "map_of arg_structs ''page_posts'' = Some (\<lambda>fs. map_option CallPagePosts (PagePostsArgs fs))"
  "map_of arg_structs ''page_post_comments'' = Some (\<lambda>fs. map_option CallPagePostComments (PagePostCommentsArgs fs))"
  "map_of arg_structs ''page_ratings'' = Some (\<lambda>fs. map_option (\<lambda>(p, n). CallPageRatings p n) (PageRatingsArgs fs))"
  "map_of arg_structs ''ig_account_insights'' = Some (\<lambda>fs. map_option CallIGAccountInsights (IGInsightsArgs fs))"
  "map_of arg_structs ''ig_follower_demographics'' = Some (\<lambda>fs. map_option (\<lambda>(p, b). CallIGFollowerDemographics p b) (IGDemographicsArgs fs))"
  "map_of arg_structs ''ig_media'' = Some (\<lambda>fs. map_option CallIGMedia (IGMediaArgs fs))"
  "map_of arg_structs ''ig_media_comments'' = Some (\<lambda>fs. map_option CallIGMediaComments (IGMediaCommentsArgs fs))"
  "map_of arg_structs ''reconnect_url'' = Some (\<lambda>fs. map_option (\<lambda>_. CallReconnectURL) (NoArgs fs))"
  "map_of arg_structs ''connection_status'' = Some (\<lambda>fs. map_option (\<lambda>_. CallConnectionStatus) (NoArgs fs))"
  "map_of arg_structs ''page_post_insights'' = Some (\<lambda>fs. map_option CallPagePostInsights (PostInsightsArgs fs))"
  "map_of arg_structs ''ig_media_insights'' = Some (\<lambda>fs. map_option CallIGMediaInsights (MediaInsightsArgs fs))"
  "map_of arg_structs ''ig_stories'' = Some (\<lambda>fs. map_option CallIGStories (PageArgs fs))"
  "map_of arg_structs ''page_scheduled_posts'' = Some (\<lambda>fs. map_option (\<lambda>(p, n). CallPageScheduledPosts p n) (ScheduledPostsArgs fs))"
  "map_of arg_structs ''page_publish_post'' = Some (\<lambda>fs. map_option CallPagePublishPost (PublishPostArgs fs))"
  "map_of arg_structs ''page_reply_comment'' = Some (\<lambda>fs. map_option CallPageReplyComment (ReplyCommentArgs fs))"
  "map_of arg_structs ''ig_publish'' = Some (\<lambda>fs. map_option CallIGPublish (IGPublishArgs fs))"
  "map_of arg_structs ''ig_reply_comment'' = Some (\<lambda>fs. map_option CallIGReplyComment (ReplyCommentArgs fs))"
  "map_of arg_structs ''page_moderate_comment'' = Some (\<lambda>fs. map_option CallPageModerateComment (ModerateCommentArgs fs))"
  "map_of arg_structs ''ig_moderate_comment'' = Some (\<lambda>fs. map_option CallIGModerateComment (ModerateCommentArgs fs))"
  "map_of arg_structs ''page_delete_post'' = Some (\<lambda>fs. map_option CallPageDeletePost (DeletePostArgs fs))"
  "map_of arg_structs ''page_cancel_scheduled_post'' = Some (\<lambda>fs. map_option CallPageCancelScheduledPost (CancelScheduledPostArgs fs))"
  by (simp_all add: arg_structs_def)

lemma decode_arguments:
  "min64 \<le> limit_of c \<Longrightarrow> limit_of c \<le> max64 \<Longrightarrow> decode_call (tool_name c) (arguments c) = Some c"
  by (cases c)
     (simp_all add: decode_call_def arg_struct tool_name_def New_def args_defs json_field_def
       ascii_lower_def split: if_splits)

lemma decode_name:
  assumes "decode_call name j = Some c"
  shows "tool_name c = name"
proof -
  from assms obtain dec fs where "map_of arg_structs name = Some dec" and dec: "dec fs = Some c"
    by (auto simp: decode_call_def bind_eq_Some_conv)
  from map_of_SomeD [OF this(1)] dec show ?thesis
    by (auto simp: arg_structs_def tool_name_def New_def)
qed

text \<open>C25: every call of a tool can be made from JSON: the text of its arguments, read back and
  decoded under the name of the tool, is that call again. And whatever document is sent under a
  name, the tool that answers is the one registered under it.\<close>

theorem call_roundtrip:
  assumes "plain (arguments c)" "min64 \<le> limit_of c" "limit_of c \<le> max64"
  shows "Option.bind (json_parse (print_json (arguments c))) (decode_call (tool_name c)) = Some c \<and>
    (\<forall>name j c'. decode_call name j = Some c' \<longrightarrow> map_option tl_name (New c') = Some name)"
proof -
  have "map_option tl_name (New c') = Some name" if "decode_call name j = Some c'" for name j c'
    using decode_name [OF that] registered [of c'] by (cases "New c'") (simp_all add: tool_name_def)
  then show ?thesis
    using decode_arguments [OF assms(2,3)] json_roundtrip [OF assms(1)] by simp
qed

theorem call_roundtrip_witness:
  "Option.bind (json_parse (print_json (arguments (ex_publish True)))) (decode_call ''page_publish_post'') =
     Some (ex_publish True)"
proof -
  have "plain (arguments (ex_publish True))"
    by (simp add: ex_publish_def opt_defs utf8_valid_ascii)
  moreover have "tool_name (ex_publish True) = ''page_publish_post''"
    by (simp add: ex_publish_def tool_name_def New_def)
  moreover have "limit_of (ex_publish True) = 0" by (simp add: ex_publish_def)
  ultimately show ?thesis
    using call_roundtrip [of "ex_publish True"] by (simp add: min64_def max64_def)
qed

section \<open>Confirmation\<close>

text \<open>A document that says \<^verbatim>\<open>"confirm": true\<close>, in whatever case the key is written.\<close>

fun carries_confirm :: "json \<Rightarrow> bool" where
  "carries_confirm (JObj fs) = list_ex (\<lambda>(k, v). fold_name k = ''confirm'' \<and> v = JBool True) fs"
| "carries_confirm _ = False"

lemma confirm_field:
  assumes "json_field dec_bool False ''confirm'' fs = Some True"
  shows "list_ex (\<lambda>(k, v). fold_name k = ''confirm'' \<and> v = JBool True) fs"
proof -
  from assms obtain bs where bs: "map dec_bool (matching ''confirm'' fs) = map Some bs"
    and last: "bs \<noteq> []" "last bs"
    by (auto simp: json_field_def those_Some_iff split: if_splits)
  have "True \<in> set bs" using last_in_set [OF last(1)] last(2) by simp
  then have "Some True \<in> set (map Some bs)" by simp
  then have "Some True \<in> set (map dec_bool (matching ''confirm'' fs))" by (simp only: bs)
  then obtain v where v: "v \<in> set (matching ''confirm'' fs)" "dec_bool v = Some True" by auto
  from v(2) have "v = JBool True" by (cases v) auto
  with v(1) show ?thesis by (auto simp: matching_def list_ex_iff)
qed

lemma args_confirm:
  "PublishPostArgs fs = Some a \<Longrightarrow> pin_confirm a \<Longrightarrow> bool_field ''confirm'' fs = Some True"
  "ReplyCommentArgs fs = Some b \<Longrightarrow> rin_confirm b \<Longrightarrow> bool_field ''confirm'' fs = Some True"
  "IGPublishArgs fs = Some c \<Longrightarrow> gin_confirm c \<Longrightarrow> bool_field ''confirm'' fs = Some True"
  "ModerateCommentArgs fs = Some d \<Longrightarrow> min_confirm d \<Longrightarrow> bool_field ''confirm'' fs = Some True"
  "CancelScheduledPostArgs fs = Some x \<Longrightarrow> din_confirm x \<Longrightarrow> bool_field ''confirm'' fs = Some True"
  "DeletePostArgs fs = Some x \<Longrightarrow> din_confirm x \<Longrightarrow> bool_field ''confirm'' fs = Some True"
  by (auto simp: args_defs bind_eq_Some_conv)

lemma decoded_confirm:
  assumes "decode_call name j = Some c" "confirmed c"
  shows "carries_confirm j"
proof -
  from assms obtain fs where fs: "json_fields j = Some fs"
    by (auto simp: decode_call_def bind_eq_Some_conv)
  have "json_field dec_bool False ''confirm'' fs = Some True"
    using assms fs decode_name [OF assms(1), symmetric]
    by (cases c)
       (auto simp: decode_call_def arg_struct tool_name_def New_def dest: args_confirm)
  from confirm_field [OF this] have "carries_confirm (JObj fs)" by simp
  with fs show ?thesis by (cases j) auto
qed

text \<open>C24: a client writes nothing by accident. Whatever name and document it sends, Meta receives
  nothing but GET requests when the tool of that name is read-only, or when the document does not
  say confirm: true; and a tool that writes, called without it, sends nothing at all and changes
  no row.\<close>

theorem nothing_written_without_confirm:
  assumes "run_state (serve_call e s session name j) w = (res, w')"
  shows "(\<not> carries_confirm j \<or> (\<forall>c. decode_call name j = Some c \<longrightarrow> read_only_tool c) \<longrightarrow>
      (\<exists>new. requests w' = requests w @ new \<and> list_all is_get new)) \<and>
    (\<forall>c. decode_call name j = Some c \<longrightarrow> \<not> read_only_tool c \<longrightarrow> \<not> carries_confirm j \<longrightarrow>
      requests w' = requests w \<and> db w' = db w)"
proof (cases "decode_call name j")
  case None
  with assms show ?thesis by (auto simp: serve_call_def)
next
  case (Some c)
  obtain r where run: "run_state (call_tool e s session c) w = (r, w')"
    using assms Some by (auto simp: serve_call_def run_bindE split: prod.splits sum.splits)
  show ?thesis
  proof (cases "read_only_tool c")
    case True
    from io_relD [OF read_only_emits [OF True] run] Some True show ?thesis by (simp add: emits_def)
  next
    case False
    have "requests w' = requests w \<and> db w' = db w" if "\<not> carries_confirm j"
      using quietD [OF unconfirmed_call_quiet [OF False] run] decoded_confirm [OF Some] that by blast
    with Some False show ?thesis by auto
  qed
qed

theorem nothing_written_without_confirm_witness:
  "requests (snd (run_state (serve_call (ex_machine []) ex_service ex_session ''page_delete_post''
     (JObj [(''post_id'', JStr ''p1_9''), (''confirm'', JBool False)])) (ex_world ex_db))) = []"
proof -
  let ?j = "JObj [(''post_id'', JStr ''p1_9''), (''confirm'', JBool False)]"
  let ?r = "run_state (serve_call (ex_machine []) ex_service ex_session ''page_delete_post'' ?j) (ex_world ex_db)"
  have "\<not> carries_confirm ?j" by simp
  moreover have "\<not> read_only_tool (CallPageDeletePost \<lparr>din_post_id = ''p1_9'', din_page_id = [], din_confirm = False\<rparr>)"
    by (simp add: tool_defs moderating_def)
  ultimately show ?thesis
    using nothing_written_without_confirm [of "ex_machine []" ex_service ex_session "''page_delete_post''" ?j
      "ex_world ex_db" "fst ?r" "snd ?r"]
    by (simp add: serve_call_def decode_call_def arg_struct args_defs json_field_def ascii_lower_def)
qed

section \<open>Tokens in what a client reads\<close>

definition without_token :: "page_row \<Rightarrow> page_row" where
  "without_token r = r\<lparr>pg_page_token_enc := []\<rparr>"

lemma map_insort_key: "(\<And>x. f (g x) = f x) \<Longrightarrow> map g (insort_key f x xs) = insort_key f (g x) (map g xs)"
  by (induction xs) simp_all

lemma map_sort_key: "(\<And>x. f (g x) = f x) \<Longrightarrow> map g (sort_key f xs) = sort_key f (map g xs)"
  by (induction xs) (simp_all add: map_insort_key)

text \<open>What \<open>list_pages\<close> shows of a row.\<close>

definition row_view :: "page_row \<Rightarrow> page_view" where
  "row_view r =
     \<lparr>pv_page_id = pg_page_id r, pv_name = pg_name r, pv_ig_user_id = null_string (pg_ig_user_id r),
      pv_ig_username = null_string (pg_ig_username r),
      pv_synced_at = format_rfc3339 (from_unix (pg_synced_at r))\<rparr>"

lemma views_of_rows:
  "map_res (scanPage e tid) rs = Inr ps \<Longrightarrow> toPageViews ps = map row_view (map without_token rs)"
proof (induction rs arbitrary: ps)
  case (Cons r rs)
  then obtain p qs where "scanPage e tid r = Inr p" "map_res (scanPage e tid) rs = Inr qs" "ps = p # qs"
    by (auto split: sum.splits)
  with Cons.IH [of qs] show ?case
    by (simp add: toPageViews_def scanPage_Inr row_view_def without_token_def)
qed (simp add: toPageViews_def)

lemma list_pages_text:
  assumes "run_state (serve_call e s (Some info) ''list_pages'' j) w = (Inr shown, w')"
  shows "shown = jsonResult (OutPages (map row_view
    (sort_key pg_name (map without_token (pages_of (ti_user_id info) (db w))))))"
proof -
  have "decode_call ''list_pages'' j = Some CallListPages"
    using assms by (auto simp: serve_call_def decode_call_def arg_struct args_defs
        bind_eq_Some_conv split: option.splits)
  with assms obtain ps where list: "run_state (ListPages e (ti_user_id info)) w = (Inr ps, w')"
    and shown: "shown = jsonResult (OutPages (toPageViews ps))"
    by (auto simp: serve_call_def tool_defs run_tool_def tenantID_def Service_ListPages_def
        run_bindE run_mapE split: prod.splits sum.splits if_splits)
  have "toPageViews ps = map row_view (map without_token (sort_key pg_name (pages_of (ti_user_id info) (db w))))"
    using list by (intro views_of_rows [of e "ti_user_id info"]) (simp add: ListPages_Inr)
  moreover have "map without_token (sort_key pg_name rs) = sort_key pg_name (map without_token rs)" for rs
    by (rule map_sort_key) (simp add: without_token_def)
  ultimately show ?thesis using shown by simp
qed

text \<open>C26: list_pages shows nothing of a token. Over two databases whose pages of the tenant differ in
  their sealed tokens only, whatever else the rest holds, the texts it answers are equal.\<close>

theorem list_pages_hides_tokens:
  assumes "run_state (serve_call e s (Some info) ''list_pages'' j) w1 = (Inr shown1, w1')"
    and "run_state (serve_call e s (Some info) ''list_pages'' j) w2 = (Inr shown2, w2')"
    and "map without_token (pages_of (ti_user_id info) (db w1)) =
      map without_token (pages_of (ti_user_id info) (db w2))"
  shows "shown1 = shown2"
  using list_pages_text [OF assms(1)] list_pages_text [OF assms(2)] assms(3) by simp

definition ex_other_token_db :: database where
  "ex_other_token_db = ex_db\<lparr>pages := [(ex_page_row ''p1'')\<lparr>pg_page_token_enc := ex_seal_row ''other''\<rparr>]\<rparr>"

definition ex_list :: "database \<Rightarrow> string res \<times> world" where
  "ex_list d = run_state (serve_call (ex_machine []) ex_service ex_session ''list_pages'' (JObj [])) (ex_world d)"

lemma ex_list_Inr: "d \<in> {ex_db, ex_other_token_db} \<Longrightarrow> fst (ex_list d) = Inr (projr (fst (ex_list d)))"
  by (auto simp: ex_list_def serve_call_def decode_call_def arg_struct args_defs tool_defs
      run_tool_def tenantID_def ex_session_def Service_ListPages_def ListPages_def select_all_def
      run_simps run_bindE run_mapE ex_db_def ex_other_token_db_def empty_db_def ex_page_row_def
      scanPage_def Decrypt_def ex_seal_row_def ex_seal_def ex_open_def nonce_size_def overhead_def
      ex_machine_def)

theorem list_pages_hides_tokens_witness:
  "fst (ex_list ex_db) = fst (ex_list ex_other_token_db)"
proof -
  have run: "run_state (serve_call (ex_machine []) ex_service ex_session ''list_pages'' (JObj [])) (ex_world d) =
      (Inr (projr (fst (ex_list d))), snd (ex_list d))" if "d \<in> {ex_db, ex_other_token_db}" for d
    using ex_list_Inr [OF that] by (metis ex_list_def prod.collapse)
  have "projr (fst (ex_list ex_db)) = projr (fst (ex_list ex_other_token_db))"
    by (rule list_pages_hides_tokens [OF run [unfolded ex_session_def] run [unfolded ex_session_def]])
      (simp_all add: pages_of_def ex_db_def ex_other_token_db_def ex_page_row_def without_token_def)
  then show ?thesis using ex_list_Inr [of ex_db] ex_list_Inr [of ex_other_token_db] by simp
qed

text \<open>A request as \<^verbatim>\<open>*url.Error\<close> quotes it: the escaped parameters come through as they are.\<close>

lemma quote_address_append: "quote_address (a @ b) = quote_address a @ quote_address b"
  by (simp add: quote_address_def)

lemma quote_address_id: "CHR 0x22 \<notin> set s \<Longrightarrow> CHR 0x5C \<notin> set s \<Longrightarrow> quote_address s = s"
  by (induction s) (auto simp: quote_address_def)

lemma upper_hex_plain: "n < 16 \<Longrightarrow> upper_hex n \<notin> {CHR 0x22, CHR 0x5C}"
  by (auto simp: upper_hex_def char_eq_iff of_char_of)

lemma query_escape_plain: "CHR 0x22 \<notin> set (query_escape s)" "CHR 0x5C \<notin> set (query_escape s)"
proof -
  have "x \<notin> {CHR 0x22, CHR 0x5C}" if "x \<in> set (escape_char c)" for x c
    using that upper_hex_plain [OF nibbles(1) [of c]] upper_hex_plain [OF nibbles(2) [of c]]
    by (auto simp: escape_char_def unreserved_def less_eq_char_def split: if_splits)
  then show "CHR 0x22 \<notin> set (query_escape s)" "CHR 0x5C \<notin> set (query_escape s)"
    by (fastforce simp: query_escape_def)+
qed

lemma join_member: "x \<in> set xs \<Longrightarrow> \<exists>a b. join sep xs = a @ x @ b"
proof (induction sep xs rule: join.induct)
  case (3 sep s t ts)
  show ?case
  proof (cases "x = s")
    case True
    then show ?thesis by (auto intro: exI [of _ "[]"])
  next
    case False
    with 3 obtain a b where "join sep (t # ts) = a @ x @ b" by auto
    then have "join sep (s # t # ts) = (s @ sep @ a) @ x @ b" by simp
    then show ?thesis by blast
  qed
qed (auto intro: exI [of _ "[]"])

lemma values_put_member: "(k, l) \<in> set (values_put vs k l)"
  by (induction vs k l rule: values_put.induct) auto

lemma values_put_other: "(k', l') \<in> set vs \<Longrightarrow> k' \<noteq> k \<Longrightarrow> (k', l') \<in> set (values_put vs k l)"
  by (induction vs k l rule: values_put.induct) auto

lemma authParams_token:
  "token \<noteq> [] \<Longrightarrow> (''access_token'', [token]) \<in> set (authParams e c token params)"
  by (auto simp: authParams_def Let_def values_set_def intro: values_put_member values_put_other)

definition shows_token :: "string \<Rightarrow> string \<Rightarrow> bool" where
  "shows_token token text' \<longleftrightarrow> (\<exists>a b. text' = a @ ''access_token='' @ query_escape token @ b)"

lemma shows_token_context: "shows_token token s \<Longrightarrow> shows_token token (a @ s @ b)"
  unfolding shows_token_def by (metis append.assoc)

lemma wire_url_token:
  assumes "hr_method r = GET" "(''access_token'', [token]) \<in> set (hr_params r)"
  shows "shows_token token (quote_address (wire_url r))"
proof -
  have pair: "encode_pair (''access_token'', token) = ''access_token='' @ query_escape token"
    by (simp add: encode_pair_def query_escape_def escape_char_def unreserved_def less_eq_char_def)
  have "(''access_token'', token) \<in> set (values_pairs (hr_params r))"
    using assms(2) by (force simp: values_pairs_def)
  then have "encode_pair (''access_token'', token) \<in> set (map encode_pair (values_pairs (hr_params r)))"
    by (metis image_eqI list.set_map)
  then obtain a b where "values_encode (hr_params r) = a @ encode_pair (''access_token'', token) @ b"
    unfolding values_encode_def using join_member by blast
  moreover obtain pre where "wire_url r = pre @ values_encode (hr_params r)"
    using assms(1) by (auto simp: wire_url_def)
  moreover have "quote_address (encode_pair (''access_token'', token)) = ''access_token='' @ query_escape token"
    unfolding pair by (rule quote_address_id) (simp_all add: query_escape_plain)
  ultimately have "quote_address (wire_url r) =
      quote_address (pre @ a) @ (''access_token='' @ query_escape token) @ quote_address b"
    by (simp only: quote_address_append append.assoc)
  then show ?thesis unfolding shows_token_def by (metis append.assoc)
qed

text \<open>Meta does not answer: the call fails with an error that quotes the request.\<close>

lemma call_unanswered:
  assumes "\<And>sent r. mc_meta e sent r = NoAnswer" "token \<noteq> []"
  shows "\<exists>err w'. run_state (call e c GET url token params) w = (Inl err, w') \<and>
    AsGraphError err = None \<and> (\<forall>lib. shows_token token (error_text lib err)) \<and>
    (\<exists>s op u. err = Wrap s (UrlError op u))"
proof -
  let ?r = "the_request e c GET url token params"
  have token: "shows_token token (quote_address (wire_url ?r))"
    by (rule wire_url_token) (simp_all add: the_request_def authParams_token assms(2))
  have shown: "shows_token token (error_text lib (Wrap s (UrlError op (wire_url ?r))))" for lib s op
    using shows_token_context [OF token, of "s @ '': '' @ op @ '' '' @ [CHR 0x22]"
        "CHR 0x22 # '': '' @ lib (UrlError op (wire_url ?r))"] by simp
  have "\<exists>s op w'. run_state (call e c GET url token params) w = (Inl (Wrap s (UrlError op (wire_url ?r))), w')"
    by (cases "mc_url_parse e (wire_url ?r)")
      (auto simp: run_call run_callOnce Let_def assms(1) rate_limited_def)
  then show ?thesis using shown by fastforce
qed

text \<open>C27: a token can reach the client through an error. When Meta does not answer the request
  of ig_stories, the error the tool returns quotes the address it asked, and with it the access
  token of the page, however the HTTP library words the rest: toolError hides only what Meta answers.\<close>

theorem unanswered_call_shows_token:
  assumes "\<And>sent r. mc_meta e sent r = NoAnswer"
    and "run_state (Service_igPage e (ti_user_id info) pid) w = (Inr p, w1)"
    and "p_page_token p \<noteq> []" "ti_user_id info \<noteq> []"
  shows "\<exists>err w'. run_state (serve_call e s (Some info) ''ig_stories'' (JObj [(''page_id'', JStr pid)])) w =
      (Inl err, w') \<and> (\<forall>lib. shows_token (p_page_token p) (error_text lib err))"
proof -
  have decoded: "decode_call ''ig_stories'' (JObj [(''page_id'', JStr pid)]) = Some (CallIGStories pid)"
    by (simp add: decode_call_def arg_struct args_defs json_field_def ascii_lower_def)
  from call_unanswered [OF assms(1,3)] obtain x op u w' where
    call: "run_state (call e (sv_graph s) GET (endpoint (sv_graph s) (p_ig_user_id p @ ''/stories''))
      (p_page_token p) [(''fields'', [igStoryFields])]) w1 = (Inl (Wrap x (UrlError op u)), w')"
    and token: "\<And>lib. shows_token (p_page_token p) (error_text lib (Wrap x (UrlError op u)))"
    by (metis (no_types, lifting))
  let ?err = "Wrap ''stories Instagram'' (Wrap x (UrlError op u))"
  have "run_state (serve_call e s (Some info) ''ig_stories'' (JObj [(''page_id'', JStr pid)])) w =
      (Inl (toolError ?err), w')"
    using assms(2,4) call
    by (simp add: serve_call_def decoded tool_defs run_tool_def tenantID_def Service_IGStories_def
        IGStories_def collect_def run_bindE run_mapE)
  moreover have "toolError ?err = ?err" by (simp add: toolError_def)
  moreover have "shows_token (p_page_token p) (error_text lib ?err)" for lib
    using shows_token_context [OF token [of lib], of "''stories Instagram: ''" "[]"] by simp
  ultimately show ?thesis by auto
qed

lemma ex_page_id: "trim_space ''p1'' \<noteq> []"
  by code_simp

theorem unanswered_call_shows_token_witness:
  "shows_token ''pagetok'' (error_text (\<lambda>_. ''connection refused'') (projl (fst (run_state
     (serve_call (ex_machine []) ex_service ex_session ''ig_stories'' (JObj [(''page_id'', JStr ''p1'')]))
     (ex_world ex_db)))))"
proof -
  let ?info = "\<lparr>ti_user_id = ''t1'', ti_expiration = from_unix 1700000500\<rparr>"
  let ?p = "\<lparr>p_tenant_id = ''t1'', p_page_id = ''p1'', p_name = ''Shop'', p_ig_user_id = ''ig1'',
    p_ig_username = ''shop'', p_page_token = ''pagetok'', p_synced_at = from_unix 100\<rparr>"
  have "mc_meta (ex_machine []) sent r = NoAnswer" for sent r
    by (simp add: ex_machine_def ex_meta_def)
  moreover have "run_state (Service_igPage (ex_machine []) (ti_user_id ?info) ''p1'') (ex_world ex_db) =
      (Inr ?p, (ex_world ex_db)\<lparr>n_sql := 1\<rparr>)"
    using ex_page_id by (simp add: Service_igPage_def Service_page_def PageByID_def select_first_def run_simps run_bindE
        run_mapE ex_defs HasInstagram_def ex_scan_page [unfolded ex_page_row_def])
  ultimately show ?thesis
    using unanswered_call_shows_token [of "ex_machine []" ?info "''p1''" "ex_world ex_db" ?p _ ex_service]
    unfolding ex_session_def by fastforce
qed

end
