(* ===== verification/Spec2Isabelle.thy ===== *)
theory Spec2Isabelle
  imports AuthProps McpProps LoginProps StatusProps HandlersProps MetaProps StoreProps ServerProps
    Migrate StoreRaces McpTexts McpJsonProps
begin

text \<open>
  A model of \<open>meta-mcp\<close>, a server that lets an MCP client read and write the Facebook Pages and
  Instagram accounts of the user who connected them. It is three things in one process: an OAuth 2.1
  authorization server for MCP clients, an OAuth client of Facebook, and a set of MCP tools over the
  Graph API, with a SQLite file behind them.

  \<^bold>\<open>How the parts interact.\<close> A client registers (\<open>/oauth/register\<close>) and sends the browser to
  \<open>/oauth/authorize\<close>, which parks the request under a state and redirects to \<open>/meta/login\<close>. Facebook
  comes back to \<open>/meta/callback\<close>: the state is consumed, the user logged in (a tenant with its sealed
  token and its pages), and a code issued for the parked request. The client exchanges it at
  \<open>/oauth/token\<close> for an access token (a JWT whose subject is the tenant) and a rotating refresh token.
  Each MCP call carries the access token; the tool reads the tenant from it, looks the page up
  among the pages of that tenant, and calls Meta with the token of the page. Two loops purge what
  has expired and renew the tokens of Facebook. Meta may ask for the deletion of a user's data.

  \<^bold>\<open>The state.\<close> The record \<open>world\<close> (theory \<open>World\<close>) holds what the program can change or use up: the
  tables \<open>db\<close>, the requests sent to Meta, the waits, and counters of the clock readings, random
  reads, statements and checks of the context so far. The record \<open>machine\<close> is what it cannot change:
  the clock, the random source, which statement the engine fails, when the context is cancelled,
  what Meta answers to each request given those before, HMAC-SHA-256, SHA-256, AES-GCM, and the URL
  parser. A Go function with effects is \<open>'a io\<close>, a state transformer of the world with a result that
  is \<open>Inl\<close> the error or \<open>Inr\<close> the value; a handler gives the response. Hypotheses on the machine
  (\<open>cipher_ok\<close>, \<open>hmac_ok\<close>) state documented laws only and are instantiated by theory \<open>Example\<close>.

  \<^bold>\<open>Theories and sources\<close>, in the order of the code:
  \<^item> \<open>Prelude\<close> (strings, instants, the error monad, frames), \<open>Codec\<close> (base64, hex, queries), \<open>Json\<close>,
    \<open>JsonText\<close>, \<open>JsonRound\<close> (\<open>encoding/json\<close>), \<open>Calendar\<close> and \<open>Float64\<close> (\<open>time\<close>, \<open>float64\<close>), \<open>Http\<close>: what
    the program uses of the standard library.
  \<^item> \<open>Domain\<close>: \<open>internal/domain\<close>. \<open>World\<close>: the machine and the effects.
  \<^item> \<open>Crypto\<close>: \<open>adapters/crypto\<close>, \<open>app/id.go\<close>, secrets. \<open>Store\<close>: \<open>adapters/sqlite/store.go\<close>, one row record per
    table of \<open>migrations/\<close>, one function per statement, one operation per method. \<open>Migrate\<close>:
    \<open>adapters/sqlite/db.go\<close> and the migrations, on the file seen from below.
  \<^item> \<open>AuthServer\<close>, \<open>AccessTokens\<close>: \<open>adapters/authserver\<close>.
  \<^item> \<open>MetaClient\<close>, \<open>MetaGraph\<close>, \<open>MetaPublish\<close>, \<open>MetaHandlers\<close>: \<open>adapters/meta\<close> (\<open>client.go\<close> and \<open>oauth.go\<close>,
    \<open>graph.go\<close>, \<open>publish.go\<close> and \<open>moderate.go\<close>, \<open>handlers.go\<close>).
  \<^item> \<open>AppService\<close>, \<open>AppWrite\<close>, \<open>AppLogin\<close>, \<open>AppStatus\<close>: \<open>internal/app\<close>.
  \<^item> \<open>McpServer\<close>, \<open>McpTexts\<close>, \<open>McpJson\<close>: \<open>adapters/mcpserver\<close> (the tools, the fixed texts, and the JSON of
    arguments and results). \<open>Router\<close>: \<open>adapters/httpserver\<close>. \<open>Config\<close>:
    \<open>internal/config\<close>. \<open>Program\<close>: \<open>cmd/metasocial-mcp/main.go\<close>, with the step relation \<open>server_step\<close> of the
    running server and the ways \<open>run\<close> ends.
\<close>

text \<open>
  \<^bold>\<open>Interfaces.\<close> \<open>frame\<close> (any relation between states that is reflexive and transitive passes through
  the monad; interpreted for the tables, the requests sent and kept invariants), \<open>token_cipher\<close> (what
  the store needs of the cipher), \<open>page_resolver\<close> (what the tools need of the lookup of a page),
  \<open>confirm_gate\<close> (a use case with a preview), \<open>single_use\<close> (a credential that one call mints and one
  redeems; codes, states and refresh tokens), \<open>migration_set\<close> (files that replay), \<open>kept_by_server\<close> (what
  every handler, tool call and loop turn of the server keeps of the tables holds after any history).
  Each is interpreted on the definitions of the code.

  \<^bold>\<open>What the lemmas show.\<close>
  \<^item> \<open>StoreFacts\<close>, \<open>StoreTrace\<close>, \<open>StoreProps\<close>: keys and foreign key as an invariant, the exact effect of
    each method, what each failed call leaves behind, and over any interleaving of store calls the
    single use of credentials. \<open>StoreRaces\<close>: two interleavings in which a deletion is overtaken.
  \<^item> \<open>AuthFacts\<close>, \<open>AuthProps\<close>: which exchanges succeed and what they leave, replay, redirection,
    registration, and exactly which access tokens are accepted.
  \<^item> \<open>MetaFacts\<close>, \<open>MetaProps\<close>: retries, bounds, the fallback of the insights, the order of a publication.
  \<^item> \<open>MetaTrace\<close>: where the requests of the Graph client go (a node the operation is about, or what an
    answer to an earlier request of the operation led to), and what each write sends.
  \<^item> \<open>Resolver\<close>, \<open>AppFacts\<close>, \<open>McpProps\<close>: a tool acts on the page of its caller that the call names, with
    the token of that page and at the nodes the tool is for; no tool depends on rows of other tenants
    (two runs over databases that agree on \<open>own_rows\<close> only); and a confirmed write sends what its preview
    announces, parameter by parameter. \<open>LoginProps\<close>, \<open>StatusProps\<close>, \<open>HandlersProps\<close>: login, renewal, diagnostic, callbacks.
  \<^item> \<open>McpJsonProps\<close>: the same at the wire. Every call has a JSON document, nothing is written without a
    document that confirms, the list of pages shows no token, and one error does show one.
  \<^item> \<open>Ideal\<close> is an abstract authorization service (accounts, outstanding codes, live tokens);
    \<open>ServerFacts\<close> and \<open>ServerProps\<close> show that every history of the running server refines it, what follows
    for the tables, and the properties of the configuration, of a deletion and of the router.
  \<^item> \<open>Provenance\<close>: a code and a parked request of a client carry an address registered for that client,
    whatever the server does.
  \<^item> \<open>Migrate\<close>: opening a file of any version brings it forward and resumes after a failure.

  \<^bold>\<open>Bounds.\<close> The loops of the code are bounded by its own constants: \<open>collect_from\<close> counts down from
  \<open>maxPages\<close>, \<open>wait_container\<close> from \<open>maxPollAttempts\<close>, and reaching 0 is the code's own exit. The JSON reader
  is total by the length of its text, and theory \<open>JsonRound\<close> shows that it reads back what is printed,
  invalid UTF-8 replaced;
  \<open>ParseDuration\<close> counts down from the length of its text, each item of which takes at least a character.
  The nesting limit of \<open>encoding/json\<close> (10000) is not modelled.

  \<^bold>\<open>Conventions.\<close> A string is the list of its bytes. French texts of the program are kept without
  their accents. Error values are the sentinels of \<open>domain\<close> wrapped by the texts the code adds. Numbers
  read from JSON as \<open>int64\<close> are range checked; durations computed from them wrap as in Go.

  \<^bold>\<open>Not modelled.\<close> The MCP SDK (transport, schema checks, sessions: a call is a name and a document that
  no schema was checked against, and \<open>server_step\<close> lets any session call any tool), the markup of the HTML
  pages (a page is its name and data), logging, the panic guard, and when the listener fails, a signal arrives
  or a shutdown is late (\<open>run\<close> allows each). A step of \<open>server_step\<close> is a whole handler; interleavings of the store calls of several
  handlers are covered by \<open>StoreTrace\<close> and \<open>StoreRaces\<close>. In SQLite, the order of rows a query leaves open
  is the order of insertion here, and a transaction that does not commit leaves the tables as they were.
  Left out at the edges of the library: the request target \<open>*\<close> (\<open>net/http\<close> answers it alone, a
  request here has a path), the HTML body of a redirection, the rewriting of an address inside
  \<open>url.Error\<close>, the \<open>float64\<close> form of the stars of a page, which stay the text Meta sent, and what a
  repeated list member leaves in a list read before.
\<close>

end
